(* ===== verification/Prelude.thy ===== *)
theory Prelude
  imports Main "HOL-Library.Word" "HOL-Library.State_Monad"
begin

text \<open>
  What every component shares: the types that stand for Go's built-in ones, the programs that
  talk to the outside world, and the small calculus of traces the safety proofs are written in.

  A Go string is its bytes, a \<open>string\<close>. An \<open>int32\<close> is a \<open>32 word\<close> read with \<open>sint\<close>; an
  \<open>int\<close> or \<open>int64\<close> is a \<open>64 word\<close> where its width is visible, and an \<open>int\<close> where the code
  only copies it.

  A function that reaches a service (the k1s controller, the Kubernetes API, the clock) is a
  program over the list of all the exchanges made so far, oldest first. It can only append to
  that list, and what a service answers may depend on all of it.
\<close>

type_synonym bytes = string
type_synonym i32 = "32 word"
type_synonym i64 = "64 word"

named_theorems go_defs \<open>definitions of pure Go functions, to evaluate them\<close>
named_theorems run_simps \<open>how the primitive exchanges run\<close>
named_theorems emits_rules \<open>introduction rules for what a program appends to the trace\<close>

section \<open>Running a program\<close>

abbreviation result_of :: "('s, 'a) state \<Rightarrow> 's \<Rightarrow> 'a" where
  "result_of m h \<equiv> fst (run_state m h)"

abbreviation trace_of :: "('s, 'a) state \<Rightarrow> 's \<Rightarrow> 's" where
  "trace_of m h \<equiv> snd (run_state m h)"

lemma run_state_bind_fst_snd:
  "run_state (State_Monad.bind m f) h = run_state (f (result_of m h)) (trace_of m h)"
  by (simp add: split_beta)

declare run_state_bind [simp del] run_state_bind_fst_snd [simp]

lemma run_state_if:
  "run_state (if b then m else n) h = (if b then run_state m h else run_state n h)"
  by simp

lemma run_state_case_option:
  "run_state (case x of None \<Rightarrow> m | Some a \<Rightarrow> f a) h =
     (case x of None \<Rightarrow> run_state m h | Some a \<Rightarrow> run_state (f a) h)"
  by (simp split: option.splits)

lemma run_state_case_sum:
  "run_state (case x of Inl e \<Rightarrow> f e | Inr a \<Rightarrow> g a) h =
     (case x of Inl e \<Rightarrow> run_state (f e) h | Inr a \<Rightarrow> run_state (g a) h)"
  by (simp split: sum.splits)

lemma run_state_case_prod:
  "run_state (case x of (a, b) \<Rightarrow> f a b) h = run_state (f (fst x) (snd x)) h"
  by (simp split: prod.splits)

lemmas run_pushes = run_state_bind_fst_snd run_state_if run_state_case_option
  run_state_case_sum run_state_case_prod

section \<open>What a program does to the trace\<close>

text \<open>
  \<open>behaves m R\<close>: whatever happened before, \<open>m\<close> only appends to the trace, and what it appends and
  what it returns are related by \<open>R\<close>. The services' answers are arbitrary, so a relation that
  does not look at the past is all a caller can rely on. The rules below decompose a program
  from its first exchange on; \<open>behaves_bind [OF spec]\<close> replaces a call by its specification.
\<close>

definition behaves :: "('e list, 'a) state \<Rightarrow> ('e list \<Rightarrow> 'a \<Rightarrow> bool) \<Rightarrow> bool" where
  "behaves m R \<longleftrightarrow> (\<forall>h. \<exists>new. trace_of m h = h @ new \<and> R new (result_of m h))"

lemma behavesI:
  "(\<And>h. \<exists>new. trace_of m h = h @ new \<and> R new (result_of m h)) \<Longrightarrow> behaves m R"
  by (simp add: behaves_def)

lemma behavesE:
  assumes "behaves m R"
  obtains new where "trace_of m h = h @ new" and "R new (result_of m h)"
  using assms by (auto simp: behaves_def)

text \<open>What a specification says of one run.\<close>

lemma behaves_run:
  assumes "behaves m R" and "run_state m h = (a, h @ new)"
  shows "R new a"
  using assms by (auto elim!: behavesE [where h = h])

lemma behaves_mono: "behaves m R \<Longrightarrow> (\<And>new a. R new a \<Longrightarrow> S new a) \<Longrightarrow> behaves m S"
  by (auto simp: behaves_def) blast

lemma behaves_conj: "behaves m R \<Longrightarrow> behaves m S \<Longrightarrow> behaves m (\<lambda>new a. R new a \<and> S new a)"
  unfolding behaves_def by (metis same_append_eq)

lemma behaves_return: "T [] a \<Longrightarrow> behaves (State_Monad.return a) T"
  by (simp add: behaves_def)

lemma behaves_bind:
  assumes "behaves m R" and "\<And>n1 a. R n1 a \<Longrightarrow> behaves (f a) (\<lambda>n2. T (n1 @ n2))"
  shows "behaves (State_Monad.bind m f) T"
proof (rule behavesI)
  fix h
  obtain n1 where 1: "trace_of m h = h @ n1" "R n1 (result_of m h)"
    using assms(1) by (rule behavesE)
  obtain n2 where 2: "trace_of (f (result_of m h)) (h @ n1) = (h @ n1) @ n2"
      "T (n1 @ n2) (result_of (f (result_of m h)) (h @ n1))"
    using assms(2) [OF 1(2)] by (rule behavesE)
  show "\<exists>new. trace_of (State_Monad.bind m f) h = h @ new \<and>
      T new (result_of (State_Monad.bind m f) h)"
    using 1 2 by (intro exI [of _ "n1 @ n2"]) simp
qed

lemma behaves_if:
  "(b \<Longrightarrow> behaves m T) \<Longrightarrow> (\<not> b \<Longrightarrow> behaves n T) \<Longrightarrow> behaves (if b then m else n) T"
  by simp

lemma behaves_case_option:
  "(x = None \<Longrightarrow> behaves m T) \<Longrightarrow> (\<And>a. x = Some a \<Longrightarrow> behaves (f a) T) \<Longrightarrow>
     behaves (case x of None \<Rightarrow> m | Some a \<Rightarrow> f a) T"
  by (simp split: option.splits)

lemma behaves_case_sum:
  "(\<And>e. x = Inl e \<Longrightarrow> behaves (f e) T) \<Longrightarrow> (\<And>a. x = Inr a \<Longrightarrow> behaves (g a) T) \<Longrightarrow>
     behaves (case x of Inl e \<Rightarrow> f e | Inr a \<Rightarrow> g a) T"
  by (simp split: sum.splits)

lemma behaves_case_prod:
  "(\<And>a b. x = (a, b) \<Longrightarrow> behaves (f a b) T) \<Longrightarrow> behaves (case x of (a, b) \<Rightarrow> f a b) T"
  by (simp split: prod.splits)

lemma behaves_Let: "behaves (f t) T \<Longrightarrow> behaves (Let t f) T"
  by simp

lemmas behaves_rules = behaves_if behaves_case_option behaves_case_sum behaves_case_prod
  behaves_Let

text \<open>\<open>emits P m\<close>: everything \<open>m\<close> appends satisfies \<open>P\<close>.\<close>

definition emits :: "('e \<Rightarrow> bool) \<Rightarrow> ('e list, 'a) state \<Rightarrow> bool" where
  "emits P m \<longleftrightarrow> behaves m (\<lambda>new _. \<forall>e\<in>set new. P e)"

lemma emits_behaves: "emits P m \<Longrightarrow> behaves m (\<lambda>new _. \<forall>e\<in>set new. P e)"
  by (simp add: emits_def)

lemma emitsI: "behaves m R \<Longrightarrow> (\<And>new a. R new a \<Longrightarrow> \<forall>e\<in>set new. P e) \<Longrightarrow> emits P m"
  unfolding emits_def by (rule behaves_mono)

lemma emits_return [emits_rules, intro, simp]: "emits P (State_Monad.return a)"
  by (simp add: emits_def behaves_return)

lemma emits_bind_spec:
  assumes "behaves m R" and "\<And>n1 a. R n1 a \<Longrightarrow> \<forall>e\<in>set n1. P e"
    and "\<And>n1 a. R n1 a \<Longrightarrow> emits P (f a)"
  shows "emits P (State_Monad.bind m f)"
  unfolding emits_def
proof (rule behaves_bind [OF assms(1)])
  fix n1 a
  assume R: "R n1 a"
  have "behaves (f a) (\<lambda>n2 _. \<forall>e\<in>set n2. P e)"
    using assms(3) [OF R] by (rule emits_behaves)
  then show "behaves (f a) (\<lambda>n2 _. \<forall>e\<in>set (n1 @ n2). P e)"
    using assms(2) [OF R] by (auto elim: behaves_mono)
qed

lemma emits_bind [emits_rules]:
  "emits P m \<Longrightarrow> (\<And>a. emits P (f a)) \<Longrightarrow> emits P (State_Monad.bind m f)"
  by (rule emits_bind_spec [OF emits_behaves]) auto

lemma emits_if [emits_rules]:
  "(b \<Longrightarrow> emits P m) \<Longrightarrow> (\<not> b \<Longrightarrow> emits P n) \<Longrightarrow> emits P (if b then m else n)"
  by simp

lemma emits_case_option [emits_rules]:
  "(x = None \<Longrightarrow> emits P m) \<Longrightarrow> (\<And>a. x = Some a \<Longrightarrow> emits P (f a)) \<Longrightarrow>
     emits P (case x of None \<Rightarrow> m | Some a \<Rightarrow> f a)"
  by (simp split: option.splits)

lemma emits_case_sum [emits_rules]:
  "(\<And>e. x = Inl e \<Longrightarrow> emits P (f e)) \<Longrightarrow> (\<And>a. x = Inr a \<Longrightarrow> emits P (g a)) \<Longrightarrow>
     emits P (case x of Inl e \<Rightarrow> f e | Inr a \<Rightarrow> g a)"
  by (simp split: sum.splits)

lemma emits_case_prod [emits_rules]:
  "(\<And>a b. x = (a, b) \<Longrightarrow> emits P (f a b)) \<Longrightarrow> emits P (case x of (a, b) \<Rightarrow> f a b)"
  by (simp split: prod.splits)

lemma emits_Let [emits_rules]: "emits P (f t) \<Longrightarrow> emits P (Let t f)"
  by simp

lemma emits_mono: "emits P m \<Longrightarrow> (\<And>e. P e \<Longrightarrow> Q e) \<Longrightarrow> emits Q m"
  by (auto simp: emits_def elim!: behaves_mono)

lemma emits_conj: "emits P m \<Longrightarrow> emits Q m \<Longrightarrow> emits (\<lambda>e. P e \<and> Q e) m"
  unfolding emits_def by (drule (1) behaves_conj) (auto elim: behaves_mono)

text \<open>A new event of a run comes from its program.\<close>

lemma emits_new_event:
  assumes "emits P m" and "trace_of m h = h @ new" and "e \<in> set new"
  shows "P e"
  using assms by (auto simp: emits_def elim!: behavesE [where h = h])

lemma emits_suffix: "emits P m \<Longrightarrow> \<exists>new. trace_of m h = h @ new"
  by (auto simp: emits_def elim: behavesE [where h = h])

end
