(* ===== verification/GoUnicode.thy ===== *)
theory GoUnicode
  imports Prelude
begin

text \<open>
  The parts of Go's packages \<open>unicode/utf8\<close> and \<open>unicode\<close> that the operator's use of \<open>encoding/json\<close>
  and of \<open>strings.ToLower\<close> rests on: reading and writing the runes of a byte string, and the lower
  case of a rune.
\<close>

section \<open>UTF-8\<close>

text \<open>The bytes of a UTF-8 sequence that starts the string, 0 when there is none.\<close>

definition in_range :: "int \<Rightarrow> int \<Rightarrow> char \<Rightarrow> bool" where
  "in_range lo hi c \<longleftrightarrow> lo \<le> (of_char c :: int) \<and> (of_char c :: int) \<le> hi"

abbreviation "cont \<equiv> in_range 128 191"

definition utf8_len :: "string \<Rightarrow> nat" where
  "utf8_len s =
     (case s of
        a # b # c # d # _ \<Rightarrow>
          if in_range 0 127 a then 1
          else if in_range 194 223 a \<and> cont b then 2
          else if (a = CHR 0xE0 \<and> in_range 160 191 b \<or> a = CHR 0xED \<and> in_range 128 159 b \<or>
                   in_range 225 236 a \<and> cont b \<or> in_range 238 239 a \<and> cont b) \<and> cont c then 3
          else if (a = CHR 0xF0 \<and> in_range 144 191 b \<or> a = CHR 0xF4 \<and> in_range 128 143 b \<or>
                   in_range 241 243 a \<and> cont b) \<and> cont c \<and> cont d then 4
          else 0
      | [a, b, c] \<Rightarrow>
          if in_range 0 127 a then 1
          else if in_range 194 223 a \<and> cont b then 2
          else if (a = CHR 0xE0 \<and> in_range 160 191 b \<or> a = CHR 0xED \<and> in_range 128 159 b \<or>
                   in_range 225 236 a \<and> cont b \<or> in_range 238 239 a \<and> cont b) \<and> cont c then 3
          else 0
      | [a, b] \<Rightarrow>
          if in_range 0 127 a then 1 else if in_range 194 223 a \<and> cont b then 2 else 0
      | [a] \<Rightarrow> if in_range 0 127 a then 1 else 0
      | [] \<Rightarrow> 0)"

definition replacement :: string where
  "replacement = [CHR 0xEF, CHR 0xBF, CHR 0xBD]"

definition encode_rune :: "int \<Rightarrow> string" where
  "encode_rune r =
     (if r < 128 then [char_of r]
      else if r < 2048 then [char_of (192 + r div 64), char_of (128 + r mod 64)]
      else if 55296 \<le> r \<and> r \<le> 57343 \<or> r > 1114111 then replacement
      else if r < 65536 then
        [char_of (224 + r div 4096), char_of (128 + r div 64 mod 64), char_of (128 + r mod 64)]
      else [char_of (240 + r div 262144), char_of (128 + r div 4096 mod 64),
            char_of (128 + r div 64 mod 64), char_of (128 + r mod 64)])"

text \<open>The rune that a UTF-8 sequence stands for.\<close>

definition low_bits :: "int \<Rightarrow> char \<Rightarrow> int" where
  "low_bits m c = of_char c mod m"

fun decode_rune :: "string \<Rightarrow> int" where
  "decode_rune [a] = low_bits 128 a"
| "decode_rune [a, b] = low_bits 32 a * 64 + low_bits 64 b"
| "decode_rune [a, b, c] = low_bits 16 a * 4096 + low_bits 64 b * 64 + low_bits 64 c"
| "decode_rune [a, b, c, d] =
     low_bits 8 a * 262144 + low_bits 64 b * 4096 + low_bits 64 c * 64 + low_bits 64 d"
| "decode_rune _ = 0"

section \<open>Lower case\<close>

text \<open>The runes beyond ASCII that have another lower case, by the simple mappings of Unicode 15 (the
  version of Go's tables): first and last rune, the distance between two of them, and what is added.\<close>

definition lower_table :: "(int \<times> int \<times> int \<times> int) list" where
  "lower_table =
     [(192, 214, 1, 32), (216, 222, 1, 32), (256, 302, 2, 1), (304, 304, 1, - 199),
      (306, 310, 2, 1), (313, 327, 2, 1), (330, 374, 2, 1), (376, 376, 1, - 121), (377, 381, 2, 1),
      (385, 385, 1, 210), (386, 388, 2, 1), (390, 390, 1, 206), (391, 391, 1, 1),
      (393, 394, 1, 205), (395, 395, 1, 1), (398, 398, 1, 79), (399, 399, 1, 202),
      (400, 400, 1, 203), (401, 401, 1, 1), (403, 403, 1, 205), (404, 404, 1, 207),
      (406, 406, 1, 211), (407, 407, 1, 209), (408, 408, 1, 1), (412, 412, 1, 211),
      (413, 413, 1, 213), (415, 415, 1, 214), (416, 420, 2, 1), (422, 422, 1, 218),
      (423, 423, 1, 1), (425, 425, 1, 218), (428, 428, 1, 1), (430, 430, 1, 218), (431, 431, 1, 1),
      (433, 434, 1, 217), (435, 437, 2, 1), (439, 439, 1, 219), (440, 440, 1, 1), (444, 444, 1, 1),
      (452, 452, 1, 2), (453, 453, 1, 1), (455, 455, 1, 2), (456, 456, 1, 1), (458, 458, 1, 2),
      (459, 475, 2, 1), (478, 494, 2, 1), (497, 497, 1, 2), (498, 500, 2, 1), (502, 502, 1, - 97),
      (503, 503, 1, - 56), (504, 542, 2, 1), (544, 544, 1, - 130), (546, 562, 2, 1),
      (570, 570, 1, 10795), (571, 571, 1, 1), (573, 573, 1, - 163), (574, 574, 1, 10792),
      (577, 577, 1, 1), (579, 579, 1, - 195), (580, 580, 1, 69), (581, 581, 1, 71),
      (582, 590, 2, 1), (880, 882, 2, 1), (886, 886, 1, 1), (895, 895, 1, 116), (902, 902, 1, 38),
      (904, 906, 1, 37), (908, 908, 1, 64), (910, 911, 1, 63), (913, 929, 1, 32),
      (931, 939, 1, 32), (975, 975, 1, 8), (984, 1006, 2, 1), (1012, 1012, 1, - 60),
      (1015, 1015, 1, 1), (1017, 1017, 1, - 7), (1018, 1018, 1, 1), (1021, 1023, 1, - 130),
      (1024, 1039, 1, 80), (1040, 1071, 1, 32), (1120, 1152, 2, 1), (1162, 1214, 2, 1),
      (1216, 1216, 1, 15), (1217, 1229, 2, 1), (1232, 1326, 2, 1), (1329, 1366, 1, 48),
      (4256, 4293, 1, 7264), (4295, 4295, 1, 7264), (4301, 4301, 1, 7264), (5024, 5103, 1, 38864),
      (5104, 5109, 1, 8), (7312, 7354, 1, - 3008), (7357, 7359, 1, - 3008), (7680, 7828, 2, 1),
      (7838, 7838, 1, - 7615), (7840, 7934, 2, 1), (7944, 7951, 1, - 8), (7960, 7965, 1, - 8),
      (7976, 7983, 1, - 8), (7992, 7999, 1, - 8), (8008, 8013, 1, - 8), (8025, 8031, 2, - 8),
      (8040, 8047, 1, - 8), (8072, 8079, 1, - 8), (8088, 8095, 1, - 8), (8104, 8111, 1, - 8),
      (8120, 8121, 1, - 8), (8122, 8123, 1, - 74), (8124, 8124, 1, - 9), (8136, 8139, 1, - 86),
      (8140, 8140, 1, - 9), (8152, 8153, 1, - 8), (8154, 8155, 1, - 100), (8168, 8169, 1, - 8),
      (8170, 8171, 1, - 112), (8172, 8172, 1, - 7), (8184, 8185, 1, - 128), (8186, 8187, 1, - 126),
      (8188, 8188, 1, - 9), (8486, 8486, 1, - 7517), (8490, 8490, 1, - 8383),
      (8491, 8491, 1, - 8262), (8498, 8498, 1, 28), (8544, 8559, 1, 16), (8579, 8579, 1, 1),
      (9398, 9423, 1, 26), (11264, 11311, 1, 48), (11360, 11360, 1, 1), (11362, 11362, 1, - 10743),
      (11363, 11363, 1, - 3814), (11364, 11364, 1, - 10727), (11367, 11371, 2, 1),
      (11373, 11373, 1, - 10780), (11374, 11374, 1, - 10749), (11375, 11375, 1, - 10783),
      (11376, 11376, 1, - 10782), (11378, 11378, 1, 1), (11381, 11381, 1, 1),
      (11390, 11391, 1, - 10815), (11392, 11490, 2, 1), (11499, 11501, 2, 1), (11506, 11506, 1, 1),
      (42560, 42604, 2, 1), (42624, 42650, 2, 1), (42786, 42798, 2, 1), (42802, 42862, 2, 1),
      (42873, 42875, 2, 1), (42877, 42877, 1, - 35332), (42878, 42886, 2, 1), (42891, 42891, 1, 1),
      (42893, 42893, 1, - 42280), (42896, 42898, 2, 1), (42902, 42920, 2, 1),
      (42922, 42922, 1, - 42308), (42923, 42923, 1, - 42319), (42924, 42924, 1, - 42315),
      (42925, 42925, 1, - 42305), (42926, 42926, 1, - 42308), (42928, 42928, 1, - 42258),
      (42929, 42929, 1, - 42282), (42930, 42930, 1, - 42261), (42931, 42931, 1, 928),
      (42932, 42946, 2, 1), (42948, 42948, 1, - 48), (42949, 42949, 1, - 42307),
      (42950, 42950, 1, - 35384), (42951, 42953, 2, 1), (42960, 42960, 1, 1), (42966, 42968, 2, 1),
      (42997, 42997, 1, 1), (65313, 65338, 1, 32), (66560, 66599, 1, 40), (66736, 66771, 1, 40),
      (66928, 66938, 1, 39), (66940, 66954, 1, 39), (66956, 66962, 1, 39), (66964, 66965, 1, 39),
      (68736, 68786, 1, 64), (71840, 71871, 1, 32), (93760, 93791, 1, 32), (125184, 125217, 1, 34)]"

definition lower_rune :: "int \<Rightarrow> int" where
  "lower_rune r =
     (if r < 128 then (if 65 \<le> r \<and> r \<le> 90 then r + 32 else r)
      else case find (\<lambda>(lo, hi, step, d). lo \<le> r \<and> r \<le> hi \<and> (r - lo) mod step = 0) lower_table of
          Some (lo, hi, step, d) \<Rightarrow> r + d
        | None \<Rightarrow> r)"

text \<open>\<open>strings.Map\<close> of that: rune by rune, and a byte that starts no rune becomes the replacement rune.\<close>

function lower_runes :: "string \<Rightarrow> string" where
  "lower_runes [] = []"
| "lower_runes (c # s) =
     (let l = utf8_len (c # s)
      in if l = 0 then replacement @ lower_runes s
         else encode_rune (lower_rune (decode_rune (take l (c # s)))) @ lower_runes (drop (l - 1) s))"
  by pat_completeness auto

termination by (relation "measure length") auto

definition lower_char :: "char \<Rightarrow> char" where
  "lower_char c =
     (let n = of_char c :: int in if 65 \<le> n \<and> n \<le> 90 then char_of (n + 32) else c)"

definition ToLower :: "string \<Rightarrow> string" where
  "ToLower s = (if list_all (in_range 0 127) s then map lower_char s else lower_runes s)"

lemmas unicode_defs [go_defs] = low_bits_def lower_rune_def lower_char_def ToLower_def

section \<open>No capital letter is left\<close>

definition upper_case :: "char \<Rightarrow> bool" where
  "upper_case c \<longleftrightarrow> 65 \<le> (of_char c :: int) \<and> (of_char c :: int) \<le> 90"

lemma lower_char_not_upper: "\<not> upper_case (lower_char c)"
proof (cases "upper_case c")
  case True
  then have "of_char (lower_char c) = (of_char c :: int) + 32"
    by (simp add: upper_case_def lower_char_def Let_def)
  with True show ?thesis by (simp add: upper_case_def)
next
  case False
  then show ?thesis by (auto simp: lower_char_def Let_def upper_case_def)
qed

lemma low_bits_nonneg [simp]: "0 < m \<Longrightarrow> 0 \<le> low_bits m c"
  by (simp add: low_bits_def)

lemma decode_rune_nonneg: "0 \<le> decode_rune s"
  by (cases s rule: decode_rune.cases) simp_all

text \<open>A rune beyond ASCII becomes an ASCII letter only as a lower-case one: the dotted capital i and
  the sign of the unit kelvin.\<close>

lemma lower_table_ascii:
  "list_all (\<lambda>(lo, hi, step, d). 128 \<le> lo + d \<or> lo = hi \<and> (lo + d = 105 \<or> lo + d = 107)) lower_table"
  by code_simp

lemma find_SomeD:
  assumes "find P xs = Some x"
  shows "x \<in> set xs" and "P x"
  using assms by (induction xs) (auto split: if_splits)

lemma lower_rune_not_upper:
  assumes "0 \<le> r"
  shows "0 \<le> lower_rune r" and "\<not> (65 \<le> lower_rune r \<and> lower_rune r \<le> 90)"
proof -
  have "0 \<le> lower_rune r \<and> \<not> (65 \<le> lower_rune r \<and> lower_rune r \<le> 90)"
  proof (cases "find (\<lambda>(lo, hi, step, d). lo \<le> r \<and> r \<le> hi \<and> (r - lo) mod step = 0) lower_table")
    case None
    with assms show ?thesis by (simp add: lower_rune_def)
  next
    case (Some t)
    then have "t \<in> set lower_table" "(\<lambda>(lo, hi, step, d). lo \<le> r \<and> r \<le> hi \<and> (r - lo) mod step = 0) t"
      by (rule find_SomeD)+
    moreover obtain lo hi step d where entry: "t = (lo, hi, step, d)"
      by (cases t)
    ultimately have t: "(lo, hi, step, d) \<in> set lower_table" "lo \<le> r" "r \<le> hi"
      by simp_all
    then have "128 \<le> lo + d \<or> lo = hi \<and> (lo + d = 105 \<or> lo + d = 107)"
      using lower_table_ascii by (auto simp: list_all_iff)
    then have "128 \<le> r + d \<or> r + d = 105 \<or> r + d = 107"
      using t by auto
    with Some entry assms show ?thesis by (auto simp: lower_rune_def)
  qed
  then show "0 \<le> lower_rune r" and "\<not> (65 \<le> lower_rune r \<and> lower_rune r \<le> 90)" by blast+
qed

lemma encode_rune_not_upper:
  assumes "0 \<le> r" and "\<not> (65 \<le> r \<and> r \<le> 90)" and "c \<in> set (encode_rune r)"
  shows "\<not> upper_case c"
proof -
  have wide: "128 \<le> (k + n) mod 256" if "128 \<le> k" "0 \<le> n" "k + n < 256" for k n :: int
    using that by simp
  consider "r < 128" | "128 \<le> r" "r < 2048" | "2048 \<le> r" "r < 65536" | "65536 \<le> r" "r \<le> 1114111"
    | "1114111 < r" by linarith
  then have "c = char_of r \<and> r < 128 \<or> 128 \<le> (of_char c :: int)"
    using assms(1,3)
    by cases (auto simp: encode_rune_def replacement_def split: if_splits intro!: wide)
  then show ?thesis
    using assms(1,2) by (auto simp: upper_case_def)
qed

lemma lower_runes_not_upper: "c \<in> set (lower_runes s) \<Longrightarrow> \<not> upper_case c"
proof (induction s rule: lower_runes.induct)
  case (2 a s)
  have "\<not> upper_case c" if "c \<in> set replacement"
    using that by (auto simp: replacement_def upper_case_def)
  with 2 show ?case
    using encode_rune_not_upper [OF lower_rune_not_upper [OF decode_rune_nonneg]]
    by (auto simp: Let_def split: if_splits)
qed simp

lemma ToLower_not_upper: "c \<in> set (ToLower s) \<Longrightarrow> \<not> upper_case c"
  using lower_char_not_upper lower_runes_not_upper by (auto simp: ToLower_def split: if_splits)

text \<open>In UTF-8, A with a diaeresis and the sign of the unit kelvin; and a byte that starts no rune.\<close>

lemma ToLower_example:
  "ToLower [CHR 0xC3, CHR 0x84, CHR ''B''] = [CHR 0xC3, CHR 0xA4, CHR ''b'']"
  "ToLower [CHR 0xE2, CHR 0x84, CHR 0xAA] = ''k''"
  "ToLower [CHR ''A'', CHR 0xFF] = CHR ''a'' # replacement"
  by code_simp+

end
