(* ===== verification/GoStrings.thy ===== *)
theory GoStrings
  imports GoUnicode
begin

text \<open>
  The parts of Go's packages \<open>strings\<close>, \<open>strconv\<close> and \<open>encoding/hex\<close> that the operator uses, on
  byte strings. Cut sets and separators are single ASCII characters in every use, so a byte of a
  multi-byte rune never matches them. Unicode enters only through \<open>TrimSpace\<close>, whose white space
  beyond ASCII is recognised by its UTF-8 encodings, and \<open>ToLower\<close>, which is in \<open>GoUnicode\<close>.
\<close>

section \<open>Trimming, cutting and replacing\<close>

definition ascii_space :: "char \<Rightarrow> bool" where
  "ascii_space c \<longleftrightarrow> c \<in> {CHR 0x09, CHR 0x0A, CHR 0x0B, CHR 0x0C, CHR 0x0D, CHR '' ''}"

text \<open>The UTF-8 encodings of the white space beyond ASCII: U+0085, U+00A0, U+1680, U+2000 to
  U+200A, U+2028, U+2029, U+202F, U+205F, U+3000.\<close>

definition wide_space2 :: "char \<Rightarrow> char \<Rightarrow> bool" where
  "wide_space2 a b \<longleftrightarrow> a = CHR 0xC2 \<and> (b = CHR 0x85 \<or> b = CHR 0xA0)"

definition wide_space3 :: "char \<Rightarrow> char \<Rightarrow> char \<Rightarrow> bool" where
  "wide_space3 a b c \<longleftrightarrow>
     (a = CHR 0xE1 \<and> b = CHR 0x9A \<and> c = CHR 0x80) \<or>
     (a = CHR 0xE2 \<and> b = CHR 0x80 \<and>
        (128 \<le> (of_char c :: int) \<and> (of_char c :: int) \<le> 138 \<or>
         c \<in> {CHR 0xA8, CHR 0xA9, CHR 0xAF})) \<or>
     (a = CHR 0xE2 \<and> b = CHR 0x81 \<and> c = CHR 0x9F) \<or>
     (a = CHR 0xE3 \<and> b = CHR 0x80 \<and> c = CHR 0x80)"

fun trim_space_left :: "string \<Rightarrow> string" where
  "trim_space_left [] = []"
| "trim_space_left (a # s) =
     (if ascii_space a then trim_space_left s
      else case s of
        b # t \<Rightarrow>
          if wide_space2 a b then trim_space_left t
          else (case t of
              c # u \<Rightarrow> if wide_space3 a b c then trim_space_left u else a # s
            | [] \<Rightarrow> a # s)
      | [] \<Rightarrow> a # s)"

text \<open>On the reversed string: the same encodings, last byte first.\<close>

fun trim_space_back :: "string \<Rightarrow> string" where
  "trim_space_back [] = []"
| "trim_space_back (a # s) =
     (if ascii_space a then trim_space_back s
      else case s of
        b # t \<Rightarrow>
          if wide_space2 b a then trim_space_back t
          else (case t of
              c # u \<Rightarrow> if wide_space3 c b a then trim_space_back u else a # s
            | [] \<Rightarrow> a # s)
      | [] \<Rightarrow> a # s)"

definition TrimSpace :: "string \<Rightarrow> string" where
  "TrimSpace s = rev (trim_space_back (rev (trim_space_left s)))"

definition TrimLeft :: "char set \<Rightarrow> string \<Rightarrow> string" where
  "TrimLeft cs s = dropWhile (\<lambda>c. c \<in> cs) s"

definition TrimRight :: "char set \<Rightarrow> string \<Rightarrow> string" where
  "TrimRight cs s = rev (dropWhile (\<lambda>c. c \<in> cs) (rev s))"

definition Trim :: "char set \<Rightarrow> string \<Rightarrow> string" where
  "Trim cs s = TrimRight cs (TrimLeft cs s)"

text \<open>\<open>EqualFold\<close> against an ASCII word without the letters k and s, the only ones with a fold
  outside ASCII.\<close>

definition EqualFold :: "string \<Rightarrow> string \<Rightarrow> bool" where
  "EqualFold s t \<longleftrightarrow> map lower_char s = map lower_char t"

definition ReplaceAll :: "string \<Rightarrow> char \<Rightarrow> string \<Rightarrow> string" where
  "ReplaceAll s old new = concat (map (\<lambda>c. if c = old then new else [c]) s)"

definition Contains :: "string \<Rightarrow> char \<Rightarrow> bool" where
  "Contains s c \<longleftrightarrow> c \<in> set s"

definition HasPrefix :: "string \<Rightarrow> string \<Rightarrow> bool" where
  "HasPrefix s p \<longleftrightarrow> take (length p) s = p"

definition HasSuffix :: "string \<Rightarrow> string \<Rightarrow> bool" where
  "HasSuffix s p \<longleftrightarrow> HasPrefix (rev s) (rev p)"

text \<open>\<open>strings.Cut\<close> at the first separator: what is before, and what is after if it occurs.
  \<open>SplitN\<close> with limit 2 gives the same two parts.\<close>

definition Cut :: "string \<Rightarrow> char \<Rightarrow> string \<times> string option" where
  "Cut s c =
     (takeWhile (\<lambda>x. x \<noteq> c) s,
      case dropWhile (\<lambda>x. x \<noteq> c) s of [] \<Rightarrow> None | _ # t \<Rightarrow> Some t)"

definition cut_last :: "string \<Rightarrow> char \<Rightarrow> (string \<times> string) option" where
  "cut_last s c =
     (if c \<in> set s
      then Some (rev (tl (dropWhile (\<lambda>x. x \<noteq> c) (rev s))), rev (takeWhile (\<lambda>x. x \<noteq> c) (rev s)))
      else None)"

fun Split :: "string \<Rightarrow> char \<Rightarrow> string list" where
  "Split [] c = [[]]"
| "Split (x # s) c =
     (if x = c then [] # Split s c
      else case Split s c of p # ps \<Rightarrow> (x # p) # ps | [] \<Rightarrow> [[x]])"

fun join_with :: "string \<Rightarrow> string list \<Rightarrow> string" where
  "join_with sep [] = []"
| "join_with sep [x] = x"
| "join_with sep (x # y # ys) = x @ sep @ join_with sep (y # ys)"

lemmas strings_defs [go_defs] = TrimSpace_def TrimLeft_def TrimRight_def Trim_def
  EqualFold_def ReplaceAll_def Contains_def HasPrefix_def HasSuffix_def Cut_def cut_last_def
  ascii_space_def wide_space2_def wide_space3_def

section \<open>Numbers\<close>

definition digit_char :: "int \<Rightarrow> char" where
  "digit_char d = char_of (48 + d)"

fun dec_digits :: "int \<Rightarrow> int list" where
  "dec_digits n = (if n < 10 then [n] else dec_digits (n div 10) @ [n mod 10])"

declare dec_digits.simps [simp del]

definition FormatInt :: "int \<Rightarrow> string" where
  "FormatInt i =
     (if i < 0 then CHR ''-'' # map digit_char (dec_digits (- i))
      else map digit_char (dec_digits i))"

definition is_digit :: "char \<Rightarrow> bool" where
  "is_digit c \<longleftrightarrow> 48 \<le> (of_char c :: int) \<and> (of_char c :: int) \<le> 57"

definition digit_val :: "char \<Rightarrow> int" where
  "digit_val c = of_char c - 48"

fun digits_val :: "int \<Rightarrow> string \<Rightarrow> int" where
  "digits_val acc [] = acc"
| "digits_val acc (c # s) = digits_val (10 * acc + digit_val c) s"

datatype num_error = ErrSyntax | ErrRange

text \<open>\<open>strconv.Atoi\<close>: the value it returns and the error it returns with it. Out of range, the
  value is the nearest \<open>int\<close>; with a syntax error it is 0.\<close>

definition Atoi :: "string \<Rightarrow> int \<times> num_error option" where
  "Atoi s =
     (let neg = (case s of c # _ \<Rightarrow> c = CHR ''-'' | [] \<Rightarrow> False);
          ds = (case s of c # t \<Rightarrow> if c = CHR ''-'' \<or> c = CHR ''+'' then t else s | [] \<Rightarrow> [])
      in if ds = [] \<or> \<not> list_all is_digit ds then (0, Some ErrSyntax)
         else let n = digits_val 0 ds in
           if neg then (if n > 2 ^ 63 then (- (2 ^ 63), Some ErrRange) else (- n, None))
           else (if n \<ge> 2 ^ 63 then (2 ^ 63 - 1, Some ErrRange) else (n, None)))"

definition hex_digit :: "int \<Rightarrow> char" where
  "hex_digit d = (if d < 10 then char_of (48 + d) else char_of (87 + d))"

definition upper_hex_digit :: "int \<Rightarrow> char" where
  "upper_hex_digit d = (if d < 10 then char_of (48 + d) else char_of (55 + d))"

definition hex_EncodeToString :: "bytes \<Rightarrow> string" where
  "hex_EncodeToString bs =
     concat (map (\<lambda>b. [hex_digit (of_char b div 16), hex_digit (of_char b mod 16)]) bs)"

lemmas strconv_defs [go_defs] = digit_char_def FormatInt_def is_digit_def digit_val_def Atoi_def
  hex_digit_def upper_hex_digit_def hex_EncodeToString_def

text \<open>\<open>strconv.Quote\<close>, the verb \<open>%q\<close>: printable text in quotes. Bytes beyond ASCII are kept, as Go
  keeps printable runes.\<close>

definition quote_char :: "char \<Rightarrow> string" where
  "quote_char c =
     (if c = CHR 0x22 then [CHR 0x5C, CHR 0x22]
      else if c = CHR 0x5C then [CHR 0x5C, CHR 0x5C]
      else if c = CHR 0x07 then CHR 0x5C # ''a''
      else if c = CHR 0x08 then CHR 0x5C # ''b''
      else if c = CHR 0x0C then CHR 0x5C # ''f''
      else if c = CHR 0x0A then CHR 0x5C # ''n''
      else if c = CHR 0x0D then CHR 0x5C # ''r''
      else if c = CHR 0x09 then CHR 0x5C # ''t''
      else if c = CHR 0x0B then CHR 0x5C # ''v''
      else if (of_char c :: int) < 32 \<or> c = CHR 0x7F
        then [CHR 0x5C, CHR ''x'', hex_digit (of_char c div 16), hex_digit (of_char c mod 16)]
      else [c])"

definition Quote :: "string \<Rightarrow> string" where
  "Quote s = [CHR 0x22] @ concat (map quote_char s) @ [CHR 0x22]"

lemmas quote_defs [go_defs] = quote_char_def Quote_def

section \<open>Laws\<close>

lemma Split_not_Nil [simp]: "Split s c \<noteq> []"
  by (cases s) (auto split: list.splits)

lemma join_Split: "join_with [c] (Split s c) = s"
proof (induction s)
  case (Cons x s)
  then show ?case by (cases "Split s c"; cases "tl (Split s c)") auto
qed simp

lemma Split_no_sep: "c \<notin> set s \<Longrightarrow> Split s c = [s]"
  by (induction s) auto

lemma Split_append_sep: "Split (s @ c # t) c = Split s c @ Split t c"
proof (induction s)
  case (Cons x s)
  then show ?case by (cases "Split s c") auto
qed simp

lemma Split_join_with:
  "ps \<noteq> [] \<Longrightarrow> (\<And>p. p \<in> set ps \<Longrightarrow> c \<notin> set p) \<Longrightarrow> Split (join_with [c] ps) c = ps"
  by (induction "[c]" ps rule: join_with.induct) (auto simp: Split_append_sep Split_no_sep)

lemma set_Split: "p \<in> set (Split s c) \<Longrightarrow> c \<notin> set p \<and> set p \<subseteq> set s"
proof (induction s arbitrary: p)
  case (Cons x s)
  then show ?case by (cases "Split s c") (fastforce split: if_splits)+
qed simp

lemma Cut_first: "fst (Cut s c) = takeWhile (\<lambda>x. x \<noteq> c) s"
  by (simp add: Cut_def)

lemma Cut_append_sep: "c \<notin> set s \<Longrightarrow> Cut (s @ c # t) c = (s, Some t)"
proof -
  assume "c \<notin> set s"
  then have "takeWhile (\<lambda>x. x \<noteq> c) (s @ c # t) = s" and "dropWhile (\<lambda>x. x \<noteq> c) (s @ c # t) = c # t"
    by (auto simp: takeWhile_tail dropWhile_append3 intro!: takeWhile_append2 [THEN trans])
  then show ?thesis by (simp add: Cut_def)
qed

lemma Cut_no_sep: "c \<notin> set s \<Longrightarrow> Cut s c = (s, None)"
proof -
  assume "c \<notin> set s"
  then have "takeWhile (\<lambda>x. x \<noteq> c) s = s" "dropWhile (\<lambda>x. x \<noteq> c) s = []"
    by (auto simp: takeWhile_eq_all_conv dropWhile_eq_Nil_conv)
  then show ?thesis unfolding Cut_def by (simp only: list.case)
qed

lemma ReplaceAll_absent: "old \<notin> set s \<Longrightarrow> ReplaceAll s old new = s"
  by (induction s) (auto simp: ReplaceAll_def)

lemma TrimRight_last: "TrimRight cs s \<noteq> [] \<Longrightarrow> last (TrimRight cs s) \<notin> cs"
proof -
  assume *: "TrimRight cs s \<noteq> []"
  then have "dropWhile (\<lambda>c. c \<in> cs) (rev s) \<noteq> []" by (simp add: TrimRight_def)
  then have "hd (dropWhile (\<lambda>c. c \<in> cs) (rev s)) \<notin> cs"
    by (rule hd_dropWhile)
  then show ?thesis
    using * by (simp add: TrimRight_def last_rev)
qed

lemma TrimRight_prefix: "\<exists>t. s = TrimRight cs s @ t \<and> set t \<subseteq> cs"
proof -
  have "rev s = takeWhile (\<lambda>c. c \<in> cs) (rev s) @ dropWhile (\<lambda>c. c \<in> cs) (rev s)" by simp
  then have "s = rev (dropWhile (\<lambda>c. c \<in> cs) (rev s)) @ rev (takeWhile (\<lambda>c. c \<in> cs) (rev s))"
    by (metis rev_append rev_rev_ident)
  moreover have "set (rev (takeWhile (\<lambda>c. c \<in> cs) (rev s))) \<subseteq> cs"
    by (auto dest: set_takeWhileD)
  ultimately show ?thesis unfolding TrimRight_def by blast
qed

lemma length_TrimRight: "length (TrimRight cs s) \<le> length s"
  using TrimRight_prefix [of s cs] by (metis le_add1 length_append)

lemma TrimRight_keeps_hd: "TrimRight cs s \<noteq> [] \<Longrightarrow> hd (TrimRight cs s) = hd s"
  using TrimRight_prefix [of s cs] by (metis hd_append2)

lemma TrimLeft_hd: "TrimLeft cs s \<noteq> [] \<Longrightarrow> hd (TrimLeft cs s) \<notin> cs"
  unfolding TrimLeft_def by (rule hd_dropWhile)

lemma set_TrimRight: "set (TrimRight cs s) \<subseteq> set s"
  by (auto simp: TrimRight_def dest: set_dropWhileD)

lemma set_TrimLeft: "set (TrimLeft cs s) \<subseteq> set s"
  by (auto simp: TrimLeft_def dest: set_dropWhileD)

lemma dec_digits_range: "0 \<le> n \<Longrightarrow> d \<in> set (dec_digits n) \<Longrightarrow> 0 \<le> d \<and> d < 10"
proof (induction n rule: dec_digits.induct)
  case (1 n)
  then show ?case
    by (cases "n < 10") (auto simp: dec_digits.simps [of n] pos_imp_zdiv_nonneg_iff)
qed

lemma dec_digits_not_Nil [simp]: "dec_digits n \<noteq> []"
  by (subst dec_digits.simps) simp

lemma digits_val_append: "digits_val acc (s @ [c]) = 10 * digits_val acc s + digit_val c"
  by (induction s arbitrary: acc) auto

lemma digit_val_digit_char [simp]: "0 \<le> d \<Longrightarrow> d < 10 \<Longrightarrow> digit_val (digit_char d) = d"
  by (simp add: digit_val_def digit_char_def)

lemma is_digit_digit_char [simp]: "0 \<le> d \<Longrightarrow> d < 10 \<Longrightarrow> is_digit (digit_char d)"
  by (simp add: is_digit_def digit_char_def)

lemma digits_val_dec_digits: "0 \<le> n \<Longrightarrow> digits_val 0 (map digit_char (dec_digits n)) = n"
proof (induction n rule: dec_digits.induct)
  case (1 n)
  show ?case
  proof (cases "n < 10")
    case True
    with "1.prems" show ?thesis by (subst dec_digits.simps) simp
  next
    case False
    then have "digits_val 0 (map digit_char (dec_digits n)) =
        10 * digits_val 0 (map digit_char (dec_digits (n div 10))) + n mod 10"
      by (subst dec_digits.simps) (simp add: digits_val_append)
    with "1" False show ?thesis by simp
  qed
qed

lemma all_digits_dec_digits: "0 \<le> n \<Longrightarrow> list_all is_digit (map digit_char (dec_digits n))"
  by (auto simp: list_all_iff dest: dec_digits_range)

lemma digit_char_not_sign:
  "0 \<le> d \<Longrightarrow> d < 10 \<Longrightarrow> digit_char d \<noteq> CHR ''-'' \<and> digit_char d \<noteq> CHR ''+''"
  using is_digit_digit_char [of d] by (auto simp: is_digit_def)

text \<open>Printing and reading back an \<open>int\<close> that fits 64 bits.\<close>

lemma Atoi_FormatInt:
  assumes "- (2 ^ 63) \<le> i" and "i < 2 ^ 63"
  shows "Atoi (FormatInt i) = (i, None)"
proof (cases "i < 0")
  case True
  then have "digits_val 0 (map digit_char (dec_digits (- i))) = - i"
    by (intro digits_val_dec_digits) simp
  with True assms all_digits_dec_digits [of "- i"] show ?thesis
    by (simp add: FormatInt_def Atoi_def)
next
  case False
  obtain d ds where d: "dec_digits i = d # ds" by (cases "dec_digits i") auto
  with False have "0 \<le> d \<and> d < 10" using dec_digits_range [of i d] by simp
  then have sign: "digit_char d \<noteq> CHR ''-''" "digit_char d \<noteq> CHR ''+''"
    by (simp_all add: digit_char_not_sign)
  have val: "digits_val 0 (map digit_char (d # ds)) = i"
    using digits_val_dec_digits [of i] d False by simp
  have all: "list_all is_digit (map digit_char (d # ds))"
    using all_digits_dec_digits [of i] d False by simp
  have "FormatInt i = map digit_char (d # ds)" using False d by (simp add: FormatInt_def)
  with sign val all assms False show ?thesis
    by (simp add: Atoi_def del: digits_val.simps)
qed

lemma length_hex_EncodeToString: "length (hex_EncodeToString bs) = 2 * length bs"
  by (induction bs) (auto simp: hex_EncodeToString_def)

section \<open>Trimming twice\<close>

lemma trim_space_left_fix: "trim_space_left (trim_space_left s) = trim_space_left s"
  by (induction s rule: trim_space_left.induct) (auto split: list.splits)

lemma trim_space_back_idem: "trim_space_back (trim_space_back s) = trim_space_back s"
  by (induction s rule: trim_space_back.induct) (auto split: list.splits)

lemma trim_space_back_step:
  "trim_space_back (a # s) \<in> {a # s, trim_space_back s, trim_space_back (tl s), trim_space_back (tl (tl s))}"
proof -
  have "trim_space_back (a # s) =
     (if ascii_space a then trim_space_back s
      else if s \<noteq> [] \<and> wide_space2 (hd s) a then trim_space_back (tl s)
      else if s \<noteq> [] \<and> tl s \<noteq> [] \<and> wide_space3 (hd (tl s)) (hd s) a then trim_space_back (tl (tl s))
      else a # s)"
    by (subst trim_space_back.simps(2), cases s; cases "tl s"; simp del: trim_space_back.simps)
  then show ?thesis by (simp del: trim_space_back.simps)
qed

lemma trim_space_back_drop: "\<exists>n. trim_space_back s = drop n s"
proof (induction s rule: length_induct)
  case (1 s)
  show ?case
  proof (cases s)
    case (Cons a s')
    have IH: "\<exists>n. trim_space_back (drop k s) = drop n s" if "0 < k" for k
    proof -
      have "length (drop k s) < length s" using that Cons by simp
      then obtain n where "trim_space_back (drop k s) = drop n (drop k s)" using 1 by blast
      then show ?thesis by auto
    qed
    have "s' = drop 1 s" "tl s' = drop 2 s" "tl (tl s') = drop 3 s"
      using Cons by (simp_all add: drop_Suc eval_nat_numeral)
    then show ?thesis
      using trim_space_back_step [of a s'] Cons IH [of 1] IH [of 2] IH [of 3] exI [of _ 0]
      by (auto simp del: trim_space_back.simps) (metis drop0)
  qed simp
qed

lemma trim_space_left_eq:
  "trim_space_left (a # s) =
     (if ascii_space a then trim_space_left s
      else if s \<noteq> [] \<and> wide_space2 a (hd s) then trim_space_left (tl s)
      else if s \<noteq> [] \<and> tl s \<noteq> [] \<and> wide_space3 a (hd s) (hd (tl s)) then trim_space_left (tl (tl s))
      else a # s)"
  by (subst trim_space_left.simps(2), cases s; cases "tl s"; simp del: trim_space_left.simps)

lemma trim_space_left_length: "length (trim_space_left s) \<le> length s"
proof (induction s rule: length_induct)
  case (1 s)
  show ?case
  proof (cases s)
    case (Cons a s')
    have "length (trim_space_left t) \<le> length s'" if "length t \<le> length s'" for t
      using 1 [rule_format, of t] that Cons by simp
    then show ?thesis
      using Cons by (auto simp: trim_space_left_eq le_SucI diff_le_self le_diff_conv simp del: trim_space_left.simps)
  qed simp
qed
lemma trim_space_left_Cons:
  "trim_space_left (a # s) = a # s \<longleftrightarrow> \<not> ascii_space a \<and>
     \<not> (s \<noteq> [] \<and> wide_space2 a (hd s)) \<and> \<not> (s \<noteq> [] \<and> tl s \<noteq> [] \<and> wide_space3 a (hd s) (hd (tl s)))"
proof -
  have "trim_space_left t \<noteq> a # s" if "length t \<le> length s" for t
    using trim_space_left_length [of t] that by auto
  then show ?thesis by (simp add: trim_space_left_eq le_diff_conv del: trim_space_left.simps)
qed

lemma trim_space_left_prefix: "trim_space_left (p @ q) = p @ q \<Longrightarrow> trim_space_left p = p"
  by (cases p; cases "tl p"; cases "tl (tl p)") (auto simp: trim_space_left_Cons simp del: trim_space_left.simps(2))

lemma TrimSpace_idem: "TrimSpace (TrimSpace s) = TrimSpace s"
proof -
  obtain t where "rev (trim_space_left s) = t @ rev (TrimSpace s)"
    using trim_space_back_drop [of "rev (trim_space_left s)"]
    by (metis TrimSpace_def append_take_drop_id rev_rev_ident)
  then have "trim_space_left s = TrimSpace s @ rev t" by (metis rev_append rev_rev_ident)
  then have "trim_space_left (TrimSpace s) = TrimSpace s"
    using trim_space_left_prefix [of "TrimSpace s" "rev t"] trim_space_left_fix [of s] by simp
  then show ?thesis by (simp add: TrimSpace_def [of "TrimSpace s"]) (simp add: TrimSpace_def trim_space_back_idem)
qed

end
