(* ===== verification/ApiTypes.thy ===== *)
theory ApiTypes
  imports GoStrings
begin

text \<open>
  The custom resources of \<open>operator.k1s.io/v1alpha1\<close> (src/api/v1alpha1) and the fields of the
  Kubernetes objects the operator reads or writes: one record per struct, a pointer as an option,
  a string enumeration as a string (the code compares it with constants and accepts any other
  value), a \<open>map[string]string\<close> as a map. Generations and times are only copied: an \<open>int\<close>.
\<close>

section \<open>Kubernetes metadata\<close>

datatype condition_status = ConditionTrue | ConditionFalse | ConditionUnknown

record condition =
  c_Type :: string
  c_Status :: condition_status
  c_Reason :: string
  c_Message :: string
  c_ObservedGeneration :: int
  c_LastTransitionTime :: int

record object_meta =
  Name :: string
  Namespace :: string
  Generation :: int
  Finalizers :: "string list"
  Annotations :: "(string \<rightharpoonup> string) option"
  Labels :: "string \<rightharpoonup> string"
  DeletionTimestamp :: "int option"
  OwnerReferences :: "string list"

record namespaced_name =
  nn_Namespace :: string
  nn_Name :: string

section \<open>Shared types: common_types.go\<close>

record NamespacedNameRef =
  ref_Name :: string
  ref_Namespace :: string

definition NamespaceOr :: "NamespacedNameRef \<Rightarrow> string \<Rightarrow> string" where
  "NamespaceOr r defaultNamespace =
     (if ref_Namespace r \<noteq> [] then ref_Namespace r else defaultNamespace)"

record K1sEndpointSpec =
  ep_URL :: string

record K1sAuthSecretRef =
  asr_Name :: string
  asr_Namespace :: string
  asr_ControllerReadTokenKey :: string
  asr_ControllerWriteTokenKey :: string
  asr_ApishimReadTokenKey :: string
  asr_ApishimWriteTokenKey :: string
  asr_CABundleKey :: string

definition auth_NamespaceOr :: "K1sAuthSecretRef \<Rightarrow> string \<Rightarrow> string" where
  "auth_NamespaceOr r defaultNamespace =
     (if asr_Namespace r \<noteq> [] then asr_Namespace r else defaultNamespace)"

record K1sAppRef =
  ar_Name :: string
  ar_Namespace :: string

definition NamespaceOrDefault :: "K1sAppRef \<Rightarrow> string" where
  "NamespaceOrDefault r = (if ar_Namespace r \<noteq> [] then ar_Namespace r else ''default'')"

abbreviation "CondReady \<equiv> ''Ready''"
abbreviation "CondControllerAvailable \<equiv> ''ControllerAvailable''"
abbreviation "CondProxyReady \<equiv> ''ProxyReady''"
abbreviation "CondCredentialsValid \<equiv> ''CredentialsValid''"
abbreviation "CondBootstrapLoaded \<equiv> ''BootstrapLoaded''"
abbreviation "CondApishimAvailable \<equiv> ''ApishimAvailable''"
abbreviation "CondClusterReady \<equiv> ''ClusterReady''"
abbreviation "CondAppFound \<equiv> ''AppFound''"
abbreviation "CondAppReady \<equiv> ''AppReady''"
abbreviation "CondProxyEndpointsReady \<equiv> ''ProxyEndpointsReady''"
abbreviation "CondResourcesApplied \<equiv> ''ResourcesApplied''"
abbreviation "CondIngressReady \<equiv> ''IngressReady''"
abbreviation "CondTrafficReady \<equiv> ''TrafficReady''"
abbreviation "CondAccepted \<equiv> ''Accepted''"
abbreviation "CondApplied \<equiv> ''Applied''"
abbreviation "CondPolicyAllowed \<equiv> ''PolicyAllowed''"

abbreviation "ReasonReady \<equiv> ''Ready''"
abbreviation "ReasonUnavailable \<equiv> ''Unavailable''"
abbreviation "ReasonMissing \<equiv> ''Missing''"
abbreviation "ReasonInvalid \<equiv> ''Invalid''"
abbreviation "ReasonApplied \<equiv> ''Applied''"
abbreviation "ReasonPending \<equiv> ''Pending''"
abbreviation "ReasonUnsupported \<equiv> ''Unsupported''"
abbreviation "ReasonDenied \<equiv> ''Denied''"

section \<open>K1sCluster: cluster_types.go\<close>

abbreviation "K1sProxyModeService \<equiv> ''Service''"
abbreviation "K1sProxyModeExternal \<equiv> ''External''"

record K1sProxyServiceRef =
  psr_Name :: string
  psr_Namespace :: string
  psr_Port :: i32

record K1sProxyExternalSpec =
  ext_Addresses :: "string list"
  ext_DNSName :: string
  ext_Port :: i32

record K1sProxySpec =
  px_Mode :: string
  px_ServiceRef :: "K1sProxyServiceRef option"
  px_External :: "K1sProxyExternalSpec option"

record K1sClusterSpec =
  cl_Controller :: K1sEndpointSpec
  cl_Apishim :: "K1sEndpointSpec option"
  cl_BootstrapConfigMapRef :: "NamespacedNameRef option"
  cl_AuthSecretRef :: "K1sAuthSecretRef option"
  cl_Proxy :: K1sProxySpec
  cl_PollIntervalSeconds :: "i32 option"

record K1sNodeSummary =
  kns_Ready :: i32
  kns_Stale :: i32
  kns_Total :: i32

record K1sClusterStatus =
  cls_ObservedGeneration :: int
  cls_ControllerAvailable :: bool
  cls_ApishimAvailable :: bool
  cls_ProxyReady :: bool
  cls_StackDomain :: string
  cls_WildcardAppsDomain :: string
  cls_NodeSummary :: K1sNodeSummary
  cls_Conditions :: "condition list"

record K1sCluster =
  cluster_Meta :: object_meta
  cluster_Spec :: K1sClusterSpec
  cluster_Status :: K1sClusterStatus

section \<open>K1sExposure: exposure_types.go\<close>

record K1sExposureServiceSpec =
  esv_Name :: string
  esv_Port :: i32

record K1sExposureIngressSpec =
  ing_Enabled :: "bool option"
  ing_Name :: string
  ing_ClassName :: "string option"
  ing_TLSSecretName :: string
  ing_Annotations :: "string \<rightharpoonup> string"

definition ingress_EnabledOrDefault :: "K1sExposureIngressSpec \<Rightarrow> bool" where
  "ingress_EnabledOrDefault s = (case ing_Enabled s of None \<Rightarrow> True | Some b \<Rightarrow> b)"

abbreviation "K1sTrafficProbeTypeHTTP \<equiv> ''HTTP''"
abbreviation "K1sTrafficProbeTypeTCP \<equiv> ''TCP''"
abbreviation "K1sTrafficProbeSchemeHTTP \<equiv> ''HTTP''"
abbreviation "K1sTrafficProbeSchemeHTTPS \<equiv> ''HTTPS''"

record K1sExposureTrafficProbeSpec =
  tp_Enabled :: "bool option"
  tp_Type :: string
  tp_Scheme :: string
  tp_Path :: string
  tp_Port :: i32
  tp_TimeoutSeconds :: i32
  tp_ExpectedStatus :: string

definition probe_EnabledOrDefault :: "K1sExposureTrafficProbeSpec \<Rightarrow> bool" where
  "probe_EnabledOrDefault s = (case tp_Enabled s of None \<Rightarrow> False | Some b \<Rightarrow> b)"

record K1sExposureSpec =
  exp_ClusterRef :: NamespacedNameRef
  exp_AppRef :: K1sAppRef
  exp_Host :: string
  exp_Path :: string
  exp_Service :: K1sExposureServiceSpec
  exp_Ingress :: K1sExposureIngressSpec
  exp_TrafficProbe :: K1sExposureTrafficProbeSpec

record K1sExposureStatus =
  exs_ObservedGeneration :: int
  exs_AppReady :: bool
  exs_ServiceName :: string
  exs_EndpointSliceName :: string
  exs_IngressName :: string
  exs_ProxyEndpointCount :: i32
  exs_LastAppSyncTime :: "int option"
  exs_Conditions :: "condition list"

record K1sExposure =
  exposure_Meta :: object_meta
  exposure_Spec :: K1sExposureSpec
  exposure_Status :: K1sExposureStatus

section \<open>K1sAppMirror: mirror_types.go\<close>

record K1sAppMirrorSpec =
  mir_ClusterRef :: NamespacedNameRef
  mir_AppRef :: K1sAppRef
  mir_ExposureRef :: "NamespacedNameRef option"

record K1sReplicaSummary =
  rep_Desired :: i32
  rep_Ready :: i32
  rep_Live :: i32

record K1sPlacementStatus =
  plc_Node :: string
  plc_Site :: string
  plc_Ready :: bool

record K1sAppMirrorStatus =
  mis_ObservedGeneration :: int
  mis_Ready :: bool
  mis_Replicas :: K1sReplicaSummary
  mis_Image :: string
  mis_Revision :: string
  mis_ObservedHost :: string
  mis_Placements :: "K1sPlacementStatus list"
  mis_LastSyncTime :: "int option"
  mis_Conditions :: "condition list"

record K1sAppMirror =
  mirror_Meta :: object_meta
  mirror_Spec :: K1sAppMirrorSpec
  mirror_Status :: K1sAppMirrorStatus

section \<open>K1sApp, K1sInferenceEndpoint and K1sResourceSet: capability_types.go\<close>

abbreviation "K1sDeletePolicyDelete \<equiv> ''Delete''"
abbreviation "K1sDeletePolicyOrphan \<equiv> ''Orphan''"

record K1sAppSpec =
  app_ClusterRef :: NamespacedNameRef
  app_Manifest :: bytes
  app_DeletePolicy :: string

record K1sAppStatus =
  aps_ObservedGeneration :: int
  aps_AppName :: string
  aps_Ready :: bool
  aps_Phase :: string
  aps_Endpoint :: string
  aps_Replicas :: K1sReplicaSummary
  aps_Image :: string
  aps_Revision :: string
  aps_LastSyncTime :: "int option"
  aps_Conditions :: "condition list"

record K1sApp =
  app_Meta :: object_meta
  app_Spec :: K1sAppSpec
  app_Status :: K1sAppStatus

record K1sInferenceModelSpec =
  mdl_ModelID :: string
  mdl_LocalPath :: string

record K1sInferenceParallelismSpec =
  par_TP :: i32
  par_PP :: i32

record K1sInferenceExecutorSpec =
  exe_Type :: string
  exe_FallbackMode :: string
  exe_RayImage :: string
  exe_MPImage :: string
  exe_LauncherImage :: string
  exe_DType :: string
  exe_RuntimeClassName :: string

record K1sInferenceMemberSpec =
  mem_SiteID :: string
  mem_NodeID :: string
  mem_GPUCount :: i32

record K1sInferenceFabricSpec =
  fab_Mode :: string
  fab_PolicyMode :: string
  fab_TTLSeconds :: i32

record K1sInferenceCellSetSpec =
  cs_Replicas :: i32
  cs_NameFormat :: string

record K1sInferenceEndpointSpec =
  inf_ClusterRef :: NamespacedNameRef
  inf_Model :: K1sInferenceModelSpec
  inf_Parallelism :: K1sInferenceParallelismSpec
  inf_Executor :: K1sInferenceExecutorSpec
  inf_Fabric :: K1sInferenceFabricSpec
  inf_Members :: "K1sInferenceMemberSpec list option"
  inf_CellSet :: "K1sInferenceCellSetSpec option"
  inf_DeletePolicy :: string

record K1sInferenceEndpointStatus =
  ins_ObservedGeneration :: int
  ins_Ready :: bool
  ins_Phase :: string
  ins_CellName :: string
  ins_CellSetName :: string
  ins_APIEndpoint :: string
  ins_ActiveExecutor :: string
  ins_LastError :: string
  ins_LastSyncTime :: "int option"
  ins_Conditions :: "condition list"

record K1sInferenceEndpoint =
  inf_Meta :: object_meta
  inf_Spec :: K1sInferenceEndpointSpec
  inf_Status :: K1sInferenceEndpointStatus

record K1sResourceSetSpec =
  rs_ClusterRef :: NamespacedNameRef
  rs_Manifests :: "bytes list"
  rs_AllowedKinds :: "string list"
  rs_Prune :: bool
  rs_DeletePolicy :: string

record K1sManagedResourceStatus =
  mr_Kind :: string
  mr_Namespace :: string
  mr_Name :: string
  mr_Hash :: string

record K1sResourceSetStatus =
  rss_ObservedGeneration :: int
  rss_Applied :: i32
  rss_Ready :: bool
  rss_ManagedResources :: "K1sManagedResourceStatus list"
  rss_LastSyncTime :: "int option"
  rss_Conditions :: "condition list"

record K1sResourceSet =
  rs_Meta :: object_meta
  rs_Spec :: K1sResourceSetSpec
  rs_Status :: K1sResourceSetStatus

section \<open>Kubernetes objects\<close>

record Secret =
  sec_Meta :: object_meta
  sec_Data :: "string \<rightharpoonup> bytes"

record ConfigMap =
  cm_Meta :: object_meta
  cm_Data :: "string \<rightharpoonup> string"

record ServicePort =
  sp_Name :: string
  sp_Protocol :: string
  sp_Port :: i32
  sp_TargetPort :: i32

record Service =
  svc_Meta :: object_meta
  svc_Type :: string
  svc_Selector :: "(string \<rightharpoonup> string) option"
  svc_Ports :: "ServicePort list"

record EndpointPort =
  eport_Name :: string
  eport_Protocol :: string
  eport_Port :: i32

record Endpoint =
  endp_Addresses :: "string list"
  endp_Ready :: "bool option"
  endp_NodeName :: "string option"

record EndpointSlice =
  eps_Meta :: object_meta
  eps_AddressType :: string
  eps_Ports :: "EndpointPort list"
  eps_Endpoints :: "Endpoint list"

record IngressPath =
  ip_Path :: string
  ip_PathType :: string
  ip_ServiceName :: string
  ip_ServicePort :: i32

record IngressRule =
  ir_Host :: string
  ir_Paths :: "IngressPath list"

record IngressTLS =
  it_Hosts :: "string list"
  it_SecretName :: string

record IngressSpec =
  igs_ClassName :: "string option"
  igs_Rules :: "IngressRule list"
  igs_TLS :: "IngressTLS list"

record Ingress =
  igr_Meta :: object_meta
  igr_Spec :: IngressSpec

text \<open>\<open>client.Object\<close>: an object of any of the kinds the operator handles.\<close>

datatype object_kind = KindCluster | KindExposure | KindAppMirror | KindApp
  | KindInferenceEndpoint | KindResourceSet | KindSecret | KindConfigMap
  | KindService | KindEndpointSlice | KindIngress

datatype kobject =
    OCluster K1sCluster
  | OExposure K1sExposure
  | OAppMirror K1sAppMirror
  | OApp K1sApp
  | OInference K1sInferenceEndpoint
  | OResourceSet K1sResourceSet
  | OSecret Secret
  | OConfigMap ConfigMap
  | OService Service
  | OEndpointSlice EndpointSlice
  | OIngress Ingress

fun kind_of :: "kobject \<Rightarrow> object_kind" where
  "kind_of (OCluster _) = KindCluster"
| "kind_of (OExposure _) = KindExposure"
| "kind_of (OAppMirror _) = KindAppMirror"
| "kind_of (OApp _) = KindApp"
| "kind_of (OInference _) = KindInferenceEndpoint"
| "kind_of (OResourceSet _) = KindResourceSet"
| "kind_of (OSecret _) = KindSecret"
| "kind_of (OConfigMap _) = KindConfigMap"
| "kind_of (OService _) = KindService"
| "kind_of (OEndpointSlice _) = KindEndpointSlice"
| "kind_of (OIngress _) = KindIngress"

fun meta_of :: "kobject \<Rightarrow> object_meta" where
  "meta_of (OCluster x) = cluster_Meta x"
| "meta_of (OExposure x) = exposure_Meta x"
| "meta_of (OAppMirror x) = mirror_Meta x"
| "meta_of (OApp x) = app_Meta x"
| "meta_of (OInference x) = inf_Meta x"
| "meta_of (OResourceSet x) = rs_Meta x"
| "meta_of (OSecret x) = sec_Meta x"
| "meta_of (OConfigMap x) = cm_Meta x"
| "meta_of (OService x) = svc_Meta x"
| "meta_of (OEndpointSlice x) = eps_Meta x"
| "meta_of (OIngress x) = igr_Meta x"

fun update_meta :: "(object_meta \<Rightarrow> object_meta) \<Rightarrow> kobject \<Rightarrow> kobject" where
  "update_meta f (OCluster x) = OCluster (x\<lparr>cluster_Meta := f (cluster_Meta x)\<rparr>)"
| "update_meta f (OExposure x) = OExposure (x\<lparr>exposure_Meta := f (exposure_Meta x)\<rparr>)"
| "update_meta f (OAppMirror x) = OAppMirror (x\<lparr>mirror_Meta := f (mirror_Meta x)\<rparr>)"
| "update_meta f (OApp x) = OApp (x\<lparr>app_Meta := f (app_Meta x)\<rparr>)"
| "update_meta f (OInference x) = OInference (x\<lparr>inf_Meta := f (inf_Meta x)\<rparr>)"
| "update_meta f (OResourceSet x) = OResourceSet (x\<lparr>rs_Meta := f (rs_Meta x)\<rparr>)"
| "update_meta f (OSecret x) = OSecret (x\<lparr>sec_Meta := f (sec_Meta x)\<rparr>)"
| "update_meta f (OConfigMap x) = OConfigMap (x\<lparr>cm_Meta := f (cm_Meta x)\<rparr>)"
| "update_meta f (OService x) = OService (x\<lparr>svc_Meta := f (svc_Meta x)\<rparr>)"
| "update_meta f (OEndpointSlice x) = OEndpointSlice (x\<lparr>eps_Meta := f (eps_Meta x)\<rparr>)"
| "update_meta f (OIngress x) = OIngress (x\<lparr>igr_Meta := f (igr_Meta x)\<rparr>)"

lemma meta_of_update_meta [simp]: "meta_of (update_meta f x) = f (meta_of x)"
  by (cases x) simp_all

lemma kind_of_update_meta [simp]: "kind_of (update_meta f x) = kind_of x"
  by (cases x) simp_all

definition ObjectKeyFromObject :: "kobject \<Rightarrow> namespaced_name" where
  "ObjectKeyFromObject x = \<lparr>nn_Namespace = Namespace (meta_of x), nn_Name = Name (meta_of x)\<rparr>"

lemmas api_defs [go_defs] = NamespaceOr_def auth_NamespaceOr_def NamespaceOrDefault_def
  ingress_EnabledOrDefault_def probe_EnabledOrDefault_def ObjectKeyFromObject_def

end
