(* ===== verification/GoJSON.thy ===== *)
theory GoJSON
  imports GoStrings "HOL-Library.AList" "HOL-Library.Char_ord" "HOL-Library.List_Lexorder"
begin

text \<open>
  The parts of Go's package \<open>encoding/json\<close> that the operator uses: reading a text, decoding it
  into a \<open>map[string]any\<close> or into a struct with a kind and a metadata field, and rendering a
  value. Numbers decode to the \<open>float64\<close> nearest to them.

  A decoding error does not undo what was decoded before it: the functions return both the
  value and the error, as the code can look at both. A text is read with fuel, its length plus
  one; every nested value uses up a byte, so the fuel does not run out.
\<close>

section \<open>Dynamic values\<close>

text \<open>A finite \<open>float64\<close>: its sign, and a mantissa times a power of two.\<close>

datatype float64 = F64 bool int int

datatype goany =
    GNil
  | GBool bool
  | GFloat float64
  | GInt i64
  | GInt32 i32
  | GInt64 i64
  | GStr string
  | GSlice "goany list"
  | GMap "(string \<times> goany) list"
  | GStruct "(string \<times> goany) list"

text \<open>A map is its members in any order, a struct its marshalled fields in the order of their
  declaration. A \<open>map[string]any\<close> may be nil.\<close>

type_synonym payload = "(string \<times> goany) list option"

definition payload_get :: "payload \<Rightarrow> string \<Rightarrow> goany" where
  "payload_get p k =
     (case p of None \<Rightarrow> GNil
      | Some m \<Rightarrow> (case map_of m k of None \<Rightarrow> GNil | Some v \<Rightarrow> v))"

fun bit_length :: "int \<Rightarrow> int" where
  "bit_length n = (if n \<le> 0 then 0 else 1 + bit_length (n div 2))"

declare bit_length.simps [simp del]

definition round_half_even :: "int \<Rightarrow> int \<Rightarrow> int" where
  "round_half_even n d =
     (let q = n div d; r = n mod d
      in if 2 * r < d then q else if 2 * r > d then q + 1 else if even q then q else q + 1)"

text \<open>The \<open>float64\<close> nearest to the positive fraction \<open>n / d\<close>; none when it is too large.\<close>

definition nearest_float :: "bool \<Rightarrow> int \<Rightarrow> int \<Rightarrow> float64 option" where
  "nearest_float neg n d =
     (let l0 = bit_length n - bit_length d;
          big = (if l0 \<ge> 0 then n \<ge> d * 2 ^ nat l0 else n * 2 ^ nat (- l0) \<ge> d);
          l = (if big then l0 else l0 - 1);
          e = max (l - 52) (- 1074);
          m = (if e \<ge> 0 then round_half_even n (d * 2 ^ nat e)
               else round_half_even (n * 2 ^ nat (- e)) d)
      in if e \<ge> 971 \<and> m \<ge> 2 ^ 53 \<or> e > 971 then None else Some (F64 neg m e))"

text \<open>Conversion to an integer discards the fraction.\<close>

fun float_trunc :: "float64 \<Rightarrow> int" where
  "float_trunc (F64 neg m e) =
     (let a = (if e \<ge> 0 then m * 2 ^ nat e else m div 2 ^ nat (- e)) in if neg then - a else a)"

section \<open>Reading a JSON text\<close>

datatype json = JNull | JBool bool | JNum string | JStr string | JArr "json list"
  | JObj "(string \<times> json) list"

definition json_space :: "char \<Rightarrow> bool" where
  "json_space c \<longleftrightarrow> c \<in> {CHR '' '', CHR 0x09, CHR 0x0A, CHR 0x0D}"

definition skip_space :: "string \<Rightarrow> string" where
  "skip_space s = dropWhile json_space s"

definition json_hex :: "char \<Rightarrow> int option" where
  "json_hex c = (let n = of_char c in
     if 48 \<le> n \<and> n \<le> 57 then Some (n - 48) else if 97 \<le> n \<and> n \<le> 102 then Some (n - 87)
     else if 65 \<le> n \<and> n \<le> 70 then Some (n - 55) else None)"

definition hex4 :: "char \<Rightarrow> char \<Rightarrow> char \<Rightarrow> char \<Rightarrow> int option" where
  "hex4 a b c d =
     (case (json_hex a, json_hex b, json_hex c, json_hex d) of
        (Some a', Some b', Some c', Some d') \<Rightarrow> Some (((a' * 16 + b') * 16 + c') * 16 + d')
      | _ \<Rightarrow> None)"

text \<open>A string literal after its opening quote: the bytes up to the closing quote, still escaped,
  and the rest.\<close>

fun scan_string :: "string \<Rightarrow> (string \<times> string) option" where
  "scan_string [] = None"
| "scan_string (c # s) =
     (if c = CHR 0x22 then Some ([], s)
      else if (of_char c :: int) < 32 then None
      else if c = CHR 0x5C then
        (case s of
           [] \<Rightarrow> None
         | x # t \<Rightarrow>
             if x \<in> set ''bfnrt/'' \<union> {CHR 0x22, CHR 0x5C} then
               map_option (\<lambda>(p, r). (c # x # p, r)) (scan_string t)
             else if x = CHR ''u'' then
               (case t of
                  h1 # h2 # h3 # h4 # u \<Rightarrow>
                    if hex4 h1 h2 h3 h4 = None then None
                    else map_option (\<lambda>(p, r). (c # x # h1 # h2 # h3 # h4 # p, r)) (scan_string u)
                | _ \<Rightarrow> None)
             else None)
      else map_option (\<lambda>(p, r). (c # p, r)) (scan_string s))"

definition simple_escape :: "char \<Rightarrow> char" where
  "simple_escape x =
     (if x = CHR ''b'' then CHR 0x08 else if x = CHR ''f'' then CHR 0x0C
      else if x = CHR ''n'' then CHR 0x0A else if x = CHR ''r'' then CHR 0x0D
      else if x = CHR ''t'' then CHR 0x09 else x)"

definition surrogate_pair :: "int \<Rightarrow> int \<Rightarrow> int option" where
  "surrogate_pair r1 r2 =
     (if 55296 \<le> r1 \<and> r1 < 56320 \<and> 56320 \<le> r2 \<and> r2 < 57344
      then Some ((r1 - 55296) * 1024 + (r2 - 56320) + 65536) else None)"

definition next_u4 :: "string \<Rightarrow> int option" where
  "next_u4 s =
     (case s of
        a # b # h1 # h2 # h3 # h4 # _ \<Rightarrow>
          if a = CHR 0x5C \<and> b = CHR ''u'' then hex4 h1 h2 h3 h4 else None
      | _ \<Rightarrow> None)"

text \<open>Unquoting: one escape or one rune at a time, \<open>fuel\<close> at least the length.\<close>

fun unquote :: "nat \<Rightarrow> string \<Rightarrow> string" where
  "unquote 0 s = []"
| "unquote (Suc n) [] = []"
| "unquote (Suc n) (c # s) =
     (if c = CHR 0x5C then
        (case s of
           [] \<Rightarrow> []
         | x # t \<Rightarrow>
             if x = CHR ''u'' then
               (case next_u4 (c # s) of
                  None \<Rightarrow> []
                | Some r \<Rightarrow>
                    (let rest = drop 4 t in
                     if 55296 \<le> r \<and> r \<le> 57343 then
                       (case next_u4 rest of
                          Some r2 \<Rightarrow>
                            (case surrogate_pair r r2 of
                               Some rr \<Rightarrow> encode_rune rr @ unquote n (drop 6 rest)
                             | None \<Rightarrow> replacement @ unquote n rest)
                        | None \<Rightarrow> replacement @ unquote n rest)
                     else encode_rune r @ unquote n rest))
             else simple_escape x # unquote n t)
      else (let l = utf8_len (c # s) in
        if l = 0 then replacement @ unquote n s
        else take l (c # s) @ unquote n (drop l (c # s))))"

text \<open>A number literal that starts the string: its bytes and the rest.\<close>

definition scan_digits :: "string \<Rightarrow> (string \<times> string) option" where
  "scan_digits s =
     (let ds = takeWhile is_digit s in if ds = [] then None else Some (ds, dropWhile is_digit s))"

definition scan_int :: "string \<Rightarrow> (string \<times> string) option" where
  "scan_int s =
     (case s of
        [] \<Rightarrow> None
      | c # t \<Rightarrow> if c = CHR ''0'' then Some ([c], t) else scan_digits s)"

definition scan_frac :: "string \<Rightarrow> (string \<times> string) option" where
  "scan_frac s =
     (case s of
        c # t \<Rightarrow>
          if c = CHR ''.'' then map_option (\<lambda>(ds, r). (c # ds, r)) (scan_digits t)
          else Some ([], s)
      | [] \<Rightarrow> Some ([], s))"

definition scan_exp :: "string \<Rightarrow> (string \<times> string) option" where
  "scan_exp s =
     (case s of
        c # t \<Rightarrow>
          if c = CHR ''e'' \<or> c = CHR ''E'' then
            (case t of
               d # u \<Rightarrow>
                 if d = CHR ''+'' \<or> d = CHR ''-''
                 then map_option (\<lambda>(ds, r). (c # d # ds, r)) (scan_digits u)
                 else map_option (\<lambda>(ds, r). (c # ds, r)) (scan_digits t)
             | [] \<Rightarrow> None)
          else Some ([], s)
      | [] \<Rightarrow> Some ([], s))"

definition scan_number :: "string \<Rightarrow> (string \<times> string) option" where
  "scan_number s =
     (let (sign, t) = (case s of
            c # u \<Rightarrow> if c = CHR ''-'' then ([c], u) else ([], s) | [] \<Rightarrow> ([], s))
      in case scan_int t of
           None \<Rightarrow> None
         | Some (i, u) \<Rightarrow>
             (case scan_frac u of
                None \<Rightarrow> None
              | Some (f, v) \<Rightarrow>
                  (case scan_exp v of
                     None \<Rightarrow> None
                   | Some (e, w) \<Rightarrow> Some (sign @ i @ f @ e, w))))"

text \<open>The value of a number literal.\<close>

definition ParseFloat :: "string \<Rightarrow> float64 option" where
  "ParseFloat l =
     (let neg = HasPrefix l ''-'';
          body = (if neg then tl l else l);
          ip = takeWhile is_digit body;
          r1 = dropWhile is_digit body;
          fp = (if HasPrefix r1 ''.'' then takeWhile is_digit (tl r1) else []);
          r2 = (if HasPrefix r1 ''.'' then dropWhile is_digit (tl r1) else r1);
          ex = (case r2 of [] \<Rightarrow> 0 | _ # t \<Rightarrow>
             if HasPrefix t ''-'' then - digits_val 0 (tl t)
             else if HasPrefix t ''+'' then digits_val 0 (tl t) else digits_val 0 t);
          d = digits_val 0 (ip @ fp);
          e10 = ex - int (length fp)
      in if d = 0 then Some (F64 neg 0 0)
         else if e10 \<ge> 0 then nearest_float neg (d * 10 ^ nat e10) 1
         else nearest_float neg d (10 ^ nat (- e10)))"

definition max_depth :: int where
  "max_depth = 10000"

fun parse_value :: "nat \<Rightarrow> int \<Rightarrow> string \<Rightarrow> (json \<times> string) option"
  and parse_elems :: "nat \<Rightarrow> int \<Rightarrow> string \<Rightarrow> (json list \<times> string) option"
  and parse_members :: "nat \<Rightarrow> int \<Rightarrow> string \<Rightarrow> ((string \<times> json) list \<times> string) option"
where
  "parse_value 0 d s = None"
| "parse_value (Suc n) d s =
     (case skip_space s of
        [] \<Rightarrow> None
      | c # t \<Rightarrow>
          if c = CHR ''{'' then
            (if d \<ge> max_depth then None
             else (case skip_space t of
                 [] \<Rightarrow> None
               | x # u \<Rightarrow>
                   if x = CHR ''}'' then Some (JObj [], u)
                   else map_option (\<lambda>(ms, r). (JObj ms, r)) (parse_members n (d + 1) (x # u))))
          else if c = CHR ''['' then
            (if d \<ge> max_depth then None
             else (case skip_space t of
                 [] \<Rightarrow> None
               | x # u \<Rightarrow>
                   if x = CHR '']'' then Some (JArr [], u)
                   else map_option (\<lambda>(es, r). (JArr es, r)) (parse_elems n (d + 1) (x # u))))
          else if c = CHR 0x22 then
            map_option (\<lambda>(p, r). (JStr (unquote (length p) p), r)) (scan_string t)
          else if HasPrefix (c # t) ''true'' then Some (JBool True, drop 3 t)
          else if HasPrefix (c # t) ''false'' then Some (JBool False, drop 4 t)
          else if HasPrefix (c # t) ''null'' then Some (JNull, drop 3 t)
          else map_option (\<lambda>(l, r). (JNum l, r)) (scan_number (c # t)))"
| "parse_elems 0 d s = None"
| "parse_elems (Suc n) d s =
     (case parse_value n d s of
        None \<Rightarrow> None
      | Some (v, r) \<Rightarrow>
          (case skip_space r of
             [] \<Rightarrow> None
           | x # u \<Rightarrow>
               if x = CHR '','' then map_option (\<lambda>(vs, w). (v # vs, w)) (parse_elems n d u)
               else if x = CHR '']'' then Some ([v], u) else None))"
| "parse_members 0 d s = None"
| "parse_members (Suc n) d s =
     (case skip_space s of
        [] \<Rightarrow> None
      | c # t \<Rightarrow>
          if c \<noteq> CHR 0x22 then None
          else (case scan_string t of
              None \<Rightarrow> None
            | Some (p, r) \<Rightarrow>
                (case skip_space r of
                   [] \<Rightarrow> None
                 | x # u \<Rightarrow>
                     if x \<noteq> CHR '':'' then None
                     else (case parse_value n d u of
                         None \<Rightarrow> None
                       | Some (v, w) \<Rightarrow>
                           (case skip_space w of
                              [] \<Rightarrow> None
                            | y # z \<Rightarrow>
                                if y = CHR '','' then
                                  map_option (\<lambda>(ms, q). ((unquote (length p) p, v) # ms, q))
                                    (parse_members n d z)
                                else if y = CHR ''}'' then Some ([(unquote (length p) p, v)], z)
                                else None)))))"

definition parse_json :: "bytes \<Rightarrow> json option" where
  "parse_json raw =
     (case parse_value (Suc (length raw)) 0 raw of
        Some (v, rest) \<Rightarrow> if skip_space rest = [] then Some v else None
      | None \<Rightarrow> None)"

section \<open>Decoding\<close>

text \<open>Which kind of error \<open>json.Unmarshal\<close> returned: the text is malformed, or a value does not fit
  the Go type it is decoded into.\<close>

datatype json_error = JSONSyntaxError | JSONTypeError

fun json_to_any :: "json \<Rightarrow> goany" where
  "json_to_any JNull = GNil"
| "json_to_any (JBool b) = GBool b"
| "json_to_any (JNum l) = (case ParseFloat l of None \<Rightarrow> GNil | Some f \<Rightarrow> GFloat f)"
| "json_to_any (JStr s) = GStr s"
| "json_to_any (JArr vs) = GSlice (map json_to_any vs)"
| "json_to_any (JObj ms) = GMap (fold (\<lambda>(k, v) m. AList.update k v m)
     (map (\<lambda>(k, v). (k, json_to_any v)) ms) [])"

fun number_overflow :: "json \<Rightarrow> bool" where
  "number_overflow (JNum l) = (ParseFloat l = None)"
| "number_overflow (JArr vs) = list_ex number_overflow vs"
| "number_overflow (JObj ms) = list_ex (\<lambda>(k, v). number_overflow v) ms"
| "number_overflow _ = False"

text \<open>\<open>json.Unmarshal\<close> into a \<open>*map[string]any\<close>: an object is merged into the map that is there.\<close>

definition Unmarshal_map :: "bytes \<Rightarrow> payload \<Rightarrow> payload \<times> json_error option" where
  "Unmarshal_map raw out =
     (case parse_json raw of
        None \<Rightarrow> (out, Some JSONSyntaxError)
      | Some JNull \<Rightarrow> (None, None)
      | Some (JObj ms) \<Rightarrow>
          (Some (fold (\<lambda>(k, v) m. AList.update k (json_to_any v) m) ms
             (case out of None \<Rightarrow> [] | Some m \<Rightarrow> m)),
           if number_overflow (JObj ms) then Some JSONTypeError else None)
      | Some _ \<Rightarrow> (out, Some JSONTypeError))"

text \<open>\<open>json.Unmarshal\<close> into a struct with a string \<open>kind\<close> and a struct \<open>metadata\<close> with the strings
  \<open>name\<close> and \<open>namespace\<close>. A member goes to the field of that name, or else to the one whose name
  folds to the same upper-case word; \<open>null\<close> leaves a field as it is.\<close>

record manifest_head =
  mh_kind :: string
  mh_name :: string
  mh_namespace :: string
  mh_bad :: bool

fun fold_name :: "string \<Rightarrow> string" where
  "fold_name [] = []"
| "fold_name (a # s) =
     (if 97 \<le> (of_char a :: int) \<and> (of_char a :: int) \<le> 122
      then char_of ((of_char a :: int) - 32) # fold_name s
      else case s of
        b # t \<Rightarrow>
          if a = CHR 0xC5 \<and> b = CHR 0xBF then CHR ''S'' # fold_name t
          else (case t of
              c # u \<Rightarrow>
                if a = CHR 0xE2 \<and> b = CHR 0x84 \<and> c = CHR 0xAA then CHR ''K'' # fold_name u
                else a # fold_name s
            | [] \<Rightarrow> a # fold_name s)
      | [] \<Rightarrow> [a])"

definition field_match :: "string \<Rightarrow> string \<Rightarrow> bool" where
  "field_match key field \<longleftrightarrow> key = field \<or> fold_name key = fold_name field"

definition store_string :: "json \<Rightarrow> (string \<Rightarrow> manifest_head \<Rightarrow> manifest_head) \<Rightarrow>
    manifest_head \<Rightarrow> manifest_head" where
  "store_string v set_field h =
     (case v of JStr s \<Rightarrow> set_field s h | JNull \<Rightarrow> h | _ \<Rightarrow> h\<lparr>mh_bad := True\<rparr>)"

definition store_metadata_member :: "string \<times> json \<Rightarrow> manifest_head \<Rightarrow> manifest_head" where
  "store_metadata_member kv h =
     (if field_match (fst kv) ''name'' then store_string (snd kv) (\<lambda>s h. h\<lparr>mh_name := s\<rparr>) h
      else if field_match (fst kv) ''namespace''
      then store_string (snd kv) (\<lambda>s h. h\<lparr>mh_namespace := s\<rparr>) h
      else h)"

definition store_member :: "string \<times> json \<Rightarrow> manifest_head \<Rightarrow> manifest_head" where
  "store_member kv h =
     (if field_match (fst kv) ''kind'' then store_string (snd kv) (\<lambda>s h. h\<lparr>mh_kind := s\<rparr>) h
      else if field_match (fst kv) ''metadata'' then
        (case snd kv of
           JObj ms \<Rightarrow> fold store_metadata_member ms h
         | JNull \<Rightarrow> h
         | _ \<Rightarrow> h\<lparr>mh_bad := True\<rparr>)
      else h)"

definition empty_head :: manifest_head where
  "empty_head = \<lparr>mh_kind = [], mh_name = [], mh_namespace = [], mh_bad = False\<rparr>"

definition Unmarshal_head :: "bytes \<Rightarrow> manifest_head \<times> json_error option" where
  "Unmarshal_head raw =
     (case parse_json raw of
        None \<Rightarrow> (empty_head, Some JSONSyntaxError)
      | Some JNull \<Rightarrow> (empty_head, None)
      | Some (JObj ms) \<Rightarrow>
          (let h = fold store_member ms empty_head
           in (h, if mh_bad h then Some JSONTypeError else None))
      | Some _ \<Rightarrow> (empty_head, Some JSONTypeError))"

section \<open>Rendering\<close>

text \<open>\<open>json.Marshal\<close>. The keys of a map come out sorted; the shortest decimal of a \<open>float64\<close> is the
  parameter \<open>ff\<close>.\<close>

definition json_escape :: "char \<Rightarrow> string" where
  "json_escape c =
     (if c = CHR 0x22 \<or> c = CHR 0x5C then [CHR 0x5C, c]
      else if c = CHR 0x08 then CHR 0x5C # ''b'' else if c = CHR 0x0C then CHR 0x5C # ''f''
      else if c = CHR 0x0A then CHR 0x5C # ''n'' else if c = CHR 0x0D then CHR 0x5C # ''r''
      else if c = CHR 0x09 then CHR 0x5C # ''t''
      else if (of_char c :: int) < 32 \<or> c \<in> set ''<>&'' then
        CHR 0x5C # ''u00'' @ [hex_digit (of_char c div 16), hex_digit (of_char c mod 16)]
      else [c])"

fun json_string_body :: "nat \<Rightarrow> string \<Rightarrow> string" where
  "json_string_body 0 s = []"
| "json_string_body (Suc n) [] = []"
| "json_string_body (Suc n) (c # s) =
     (let l = utf8_len (c # s) in
      if l = 0 then CHR 0x5C # ''ufffd'' @ json_string_body n s
      else if l = 1 then json_escape c @ json_string_body n s
      else if take 3 (c # s) = [CHR 0xE2, CHR 0x80, CHR 0xA8] then
        CHR 0x5C # ''u2028'' @ json_string_body n (drop l (c # s))
      else if take 3 (c # s) = [CHR 0xE2, CHR 0x80, CHR 0xA9] then
        CHR 0x5C # ''u2029'' @ json_string_body n (drop l (c # s))
      else take l (c # s) @ json_string_body n (drop l (c # s)))"

definition json_string :: "string \<Rightarrow> string" where
  "json_string s = [CHR 0x22] @ json_string_body (length s) s @ [CHR 0x22]"

fun Marshal :: "(float64 \<Rightarrow> string) \<Rightarrow> goany \<Rightarrow> string" where
  "Marshal ff GNil = ''null''"
| "Marshal ff (GBool b) = (if b then ''true'' else ''false'')"
| "Marshal ff (GFloat f) = ff f"
| "Marshal ff (GInt i) = FormatInt (sint i)"
| "Marshal ff (GInt32 i) = FormatInt (sint i)"
| "Marshal ff (GInt64 i) = FormatInt (sint i)"
| "Marshal ff (GStr s) = json_string s"
| "Marshal ff (GSlice vs) = ''['' @ join_with '','' (map (Marshal ff) vs) @ '']''"
| "Marshal ff (GMap ms) =
     ''{'' @ join_with '','' (map (\<lambda>(k, t). json_string k @ '':'' @ t)
        (sort_key fst (map (\<lambda>(k, v). (k, Marshal ff v)) ms))) @ ''}''"
| "Marshal ff (GStruct ms) =
     ''{'' @ join_with '','' (map (\<lambda>(k, v). json_string k @ '':'' @ Marshal ff v) ms) @ ''}''"

lemmas json_defs [go_defs] = payload_get_def round_half_even_def nearest_float_def json_space_def
  skip_space_def in_range_def utf8_len_def replacement_def encode_rune_def json_hex_def hex4_def
  simple_escape_def surrogate_pair_def next_u4_def scan_digits_def scan_int_def scan_frac_def
  scan_exp_def scan_number_def ParseFloat_def max_depth_def parse_json_def Unmarshal_map_def
  field_match_def store_string_def store_metadata_member_def store_member_def empty_head_def
  Unmarshal_head_def json_escape_def json_string_def

end
