(* ===== verification/GoURL.thy ===== *)
theory GoURL
  imports GoStrings
begin

text \<open>
  The parts of Go's packages \<open>net/url\<close> and \<open>path\<close> (Go 1.25, the version of go.mod) that the k1s
  client uses: parsing, the escaping modes, printing a URL, \<open>path.Join\<close>. A URL's \<open>Path\<close> is the
  decoded path: printing encodes it, which is what makes an already escaped segment come out
  escaped twice.
\<close>

section \<open>URLs\<close>

record userinfo =
  u_username :: string
  u_password :: "string option"

record url =
  u_Scheme :: string
  u_Opaque :: string
  u_User :: "userinfo option"
  u_Host :: string
  u_Path :: string
  u_RawPath :: string
  u_OmitHost :: bool
  u_ForceQuery :: bool
  u_RawQuery :: string
  u_Fragment :: string
  u_RawFragment :: string

definition empty_url :: url where
  "empty_url = \<lparr>u_Scheme = [], u_Opaque = [], u_User = None, u_Host = [], u_Path = [],
     u_RawPath = [], u_OmitHost = False, u_ForceQuery = False, u_RawQuery = [],
     u_Fragment = [], u_RawFragment = []\<rparr>"

datatype encoding = EncodePath | EncodePathSegment | EncodeHost | EncodeZone
  | EncodeUserPassword | EncodeQueryComponent | EncodeFragment

section \<open>Escaping\<close>

definition is_alnum :: "char \<Rightarrow> bool" where
  "is_alnum c = (let n = of_char c :: int in
     (97 \<le> n \<and> n \<le> 122) \<or> (65 \<le> n \<and> n \<le> 90) \<or> (48 \<le> n \<and> n \<le> 57))"

definition shouldEscape :: "char \<Rightarrow> encoding \<Rightarrow> bool" where
  "shouldEscape c mode =
     (if is_alnum c then False
      else if mode \<in> {EncodeHost, EncodeZone} \<and> c \<in> set ''!$&()*+,;=:[]<>'' \<union> {CHR 0x22, CHR 0x27}
        then False
      else if c \<in> set ''-_.~'' then False
      else if c \<in> set ''$&+,/:;=?@'' \<and> mode \<notin> {EncodeHost, EncodeZone} then
        (case mode of
           EncodePath \<Rightarrow> c = CHR ''?''
         | EncodePathSegment \<Rightarrow> c \<in> set ''/;,?''
         | EncodeUserPassword \<Rightarrow> c \<in> set ''@/?:''
         | EncodeQueryComponent \<Rightarrow> True
         | _ \<Rightarrow> False)
      else if mode = EncodeFragment \<and> c \<in> set ''!()*'' then False
      else True)"

definition percent :: "char \<Rightarrow> string" where
  "percent c = [CHR ''%'', upper_hex_digit (of_char c div 16), upper_hex_digit (of_char c mod 16)]"

definition escape_char :: "encoding \<Rightarrow> char \<Rightarrow> string" where
  "escape_char mode c =
     (if shouldEscape c mode
      then (if c = CHR '' '' \<and> mode = EncodeQueryComponent then ''+'' else percent c)
      else [c])"

definition escape :: "string \<Rightarrow> encoding \<Rightarrow> string" where
  "escape s mode = concat (map (escape_char mode) s)"

definition PathEscape :: "string \<Rightarrow> string" where
  "PathEscape s = escape s EncodePathSegment"

definition QueryEscape :: "string \<Rightarrow> string" where
  "QueryEscape s = escape s EncodeQueryComponent"

definition ishex :: "char \<Rightarrow> bool" where
  "ishex c = (let n = of_char c :: int in
     (48 \<le> n \<and> n \<le> 57) \<or> (97 \<le> n \<and> n \<le> 102) \<or> (65 \<le> n \<and> n \<le> 70))"

definition unhex :: "char \<Rightarrow> int" where
  "unhex c = (let n = of_char c :: int in
     if 48 \<le> n \<and> n \<le> 57 then n - 48 else if 97 \<le> n \<and> n \<le> 102 then n - 87 else n - 55)"

text \<open>\<open>unescape\<close> first validates, then decodes; any error makes it fail.\<close>

fun unescape :: "string \<Rightarrow> encoding \<Rightarrow> string option" where
  "unescape [] mode = Some []"
| "unescape (c # s) mode =
     (if c = CHR ''%'' then
        (case s of
           a # b # t \<Rightarrow>
             if \<not> (ishex a \<and> ishex b) then None
             else let v = char_of (16 * unhex a + unhex b) in
               if mode = EncodeHost \<and> unhex a < 8 \<and> \<not> (a = CHR ''2'' \<and> b = CHR ''5'') then None
               else if mode = EncodeZone \<and> \<not> (a = CHR ''2'' \<and> b = CHR ''5'') \<and> v \<noteq> CHR '' '' \<and>
                       shouldEscape v EncodeHost then None
               else map_option ((#) v) (unescape t mode)
         | _ \<Rightarrow> None)
      else if c = CHR ''+'' \<and> mode = EncodeQueryComponent then
        map_option ((#) (CHR '' '')) (unescape s mode)
      else if mode \<in> {EncodeHost, EncodeZone} \<and> (of_char c :: int) < 128 \<and> shouldEscape c mode
        then None
      else map_option ((#) c) (unescape s mode))"

definition validEncoded :: "string \<Rightarrow> encoding \<Rightarrow> bool" where
  "validEncoded s mode =
     list_all (\<lambda>c. c \<in> set ''!$&()*+,;=:@[]%'' \<union> {CHR 0x27} \<or> \<not> shouldEscape c mode) s"

definition EscapedPath :: "url \<Rightarrow> string" where
  "EscapedPath u =
     (if u_RawPath u \<noteq> [] \<and> validEncoded (u_RawPath u) EncodePath \<and>
         unescape (u_RawPath u) EncodePath = Some (u_Path u) then u_RawPath u
      else if u_Path u = ''*'' then ''*''
      else escape (u_Path u) EncodePath)"

definition EscapedFragment :: "url \<Rightarrow> string" where
  "EscapedFragment u =
     (if u_RawFragment u \<noteq> [] \<and> validEncoded (u_RawFragment u) EncodeFragment \<and>
         unescape (u_RawFragment u) EncodeFragment = Some (u_Fragment u) then u_RawFragment u
      else escape (u_Fragment u) EncodeFragment)"

section \<open>Printing\<close>

definition userinfo_String :: "userinfo \<Rightarrow> string" where
  "userinfo_String i =
     (if u_username i \<noteq> [] \<or> u_password i \<noteq> None then
        escape (u_username i) EncodeUserPassword @
        (case u_password i of None \<Rightarrow> [] | Some p \<Rightarrow> CHR '':'' # escape p EncodeUserPassword)
      else [])"

definition url_String :: "url \<Rightarrow> string" where
  "url_String u =
     (let scheme = (if u_Scheme u \<noteq> [] then u_Scheme u @ '':'' else []);
          path = EscapedPath u;
          authority =
            (if u_Scheme u \<noteq> [] \<or> u_Host u \<noteq> [] \<or> u_User u \<noteq> None then
               (if u_OmitHost u \<and> u_Host u = [] \<and> u_User u = None then []
                else (if u_Host u \<noteq> [] \<or> u_Path u \<noteq> [] \<or> u_User u \<noteq> None then ''//'' else []) @
                  (case u_User u of None \<Rightarrow> [] | Some i \<Rightarrow> userinfo_String i @ ''@'') @
                  escape (u_Host u) EncodeHost)
             else []);
          front = scheme @ authority @
            (if path \<noteq> [] \<and> hd path \<noteq> CHR ''/'' \<and> u_Host u \<noteq> [] then ''/'' else []);
          body = (if u_Opaque u \<noteq> [] then scheme @ u_Opaque u
            else front @
              (if front = [] \<and> CHR '':'' \<in> set (fst (Cut path (CHR ''/''))) then ''./'' else []) @
              path)
      in body @
         (if u_ForceQuery u \<or> u_RawQuery u \<noteq> [] then CHR ''?'' # u_RawQuery u else []) @
         (if u_Fragment u \<noteq> [] then CHR ''#'' # EscapedFragment u else []))"

definition Redacted :: "url \<Rightarrow> string" where
  "Redacted u =
     url_String (case u_User u of
         Some i \<Rightarrow> (case u_password i of
             Some _ \<Rightarrow> u\<lparr>u_User := Some (i\<lparr>u_password := Some ''xxxxx''\<rparr>)\<rparr>
           | None \<Rightarrow> u)
       | None \<Rightarrow> u)"

section \<open>Parsing\<close>

definition validOptionalPort :: "string \<Rightarrow> bool" where
  "validOptionalPort p = (case p of [] \<Rightarrow> True | c # ds \<Rightarrow> c = CHR '':'' \<and> list_all is_digit ds)"

fun index_of :: "string \<Rightarrow> string \<Rightarrow> nat option" where
  "index_of [] p = (if p = [] then Some 0 else None)"
| "index_of (c # s) p =
     (if HasPrefix (c # s) p then Some 0 else map_option Suc (index_of s p))"

definition parseHost :: "string \<Rightarrow> string + string" where
  "parseHost host =
     (let plain = (case unescape host EncodeHost of
              None \<Rightarrow> Inl ''invalid URL escape or host'' | Some h \<Rightarrow> Inr h)
      in if HasPrefix host ''['' then
        (case cut_last host (CHR '']'') of
           None \<Rightarrow> Inl (''missing '' @ [CHR 0x27] @ '']'' @ [CHR 0x27] @ '' in host'')
         | Some (inner, colonPort) \<Rightarrow>
             if \<not> validOptionalPort colonPort
             then Inl (''invalid port '' @ Quote colonPort @ '' after host'')
             else (case index_of inner ''%25'' of
                 None \<Rightarrow> plain
               | Some zone \<Rightarrow>
                   (case (unescape (take zone host) EncodeHost,
                          unescape (take (length inner - zone) (drop zone host)) EncodeZone,
                          unescape (drop (length inner) host) EncodeHost) of
                      (Some h1, Some h2, Some h3) \<Rightarrow> Inr (h1 @ h2 @ h3)
                    | _ \<Rightarrow> Inl ''invalid URL escape or host'')))
      else (case cut_last host (CHR '':'') of
          Some (_, port) \<Rightarrow>
            if \<not> validOptionalPort (CHR '':'' # port)
            then Inl (''invalid port '' @ Quote (CHR '':'' # port) @ '' after host'')
            else plain
        | None \<Rightarrow> plain))"

definition valid_userinfo_char :: "char \<Rightarrow> bool" where
  "valid_userinfo_char c \<longleftrightarrow> is_alnum c \<or> c \<in> set ''-._:~!$&()*+,;=%@'' \<union> {CHR 0x27}"

definition parseAuthority :: "string \<Rightarrow> string + userinfo option \<times> string" where
  "parseAuthority authority =
     (case cut_last authority (CHR ''@'') of
        None \<Rightarrow> (case parseHost authority of Inl e \<Rightarrow> Inl e | Inr h \<Rightarrow> Inr (None, h))
      | Some (ui, host) \<Rightarrow>
          (case parseHost host of
             Inl e \<Rightarrow> Inl e
           | Inr h \<Rightarrow>
               if \<not> list_all valid_userinfo_char ui then Inl ''net/url: invalid userinfo''
               else (case Cut ui (CHR '':'') of
                   (_, None) \<Rightarrow>
                     (case unescape ui EncodeUserPassword of
                        None \<Rightarrow> Inl ''invalid URL escape''
                      | Some n \<Rightarrow> Inr (Some \<lparr>u_username = n, u_password = None\<rparr>, h))
                 | (n, Some p) \<Rightarrow>
                     (case (unescape n EncodeUserPassword, unescape p EncodeUserPassword) of
                        (Some n', Some p') \<Rightarrow>
                          Inr (Some \<lparr>u_username = n', u_password = Some p'\<rparr>, h)
                      | _ \<Rightarrow> Inl ''invalid URL escape''))))"

text \<open>\<open>getScheme\<close>: the letters before the first colon, where the string has one and they may form
  a scheme; a colon in the first place is an error.\<close>

definition scheme_char :: "char \<Rightarrow> bool" where
  "scheme_char c \<longleftrightarrow> is_alnum c \<or> c \<in> set ''+-.''"

definition getScheme :: "string \<Rightarrow> string + string \<times> string" where
  "getScheme raw =
     (let pre = takeWhile scheme_char raw; post = dropWhile scheme_char raw
      in if pre \<noteq> [] \<and> (is_digit (hd pre) \<or> hd pre \<in> set ''+-.'') then Inr ([], raw)
         else (case post of
             c # rest \<Rightarrow>
               if c = CHR '':'' then
                 (if pre = [] then Inl ''missing protocol scheme'' else Inr (pre, rest))
               else Inr ([], raw)
           | [] \<Rightarrow> Inr ([], raw)))"

definition setPath :: "url \<Rightarrow> string \<Rightarrow> url option" where
  "setPath u p =
     (case unescape p EncodePath of
        None \<Rightarrow> None
      | Some path \<Rightarrow>
          Some (u\<lparr>u_Path := path, u_RawPath := if p = escape path EncodePath then [] else p\<rparr>))"

definition setFragment :: "url \<Rightarrow> string \<Rightarrow> url option" where
  "setFragment u f =
     (case unescape f EncodeFragment of
        None \<Rightarrow> None
      | Some frag \<Rightarrow>
          Some (u\<lparr>u_Fragment := frag,
                  u_RawFragment := if f = escape frag EncodeFragment then [] else f\<rparr>))"

definition ctl_byte :: "char \<Rightarrow> bool" where
  "ctl_byte c \<longleftrightarrow> (of_char c :: int) < 32 \<or> (of_char c :: int) = 127"

definition split_query :: "string \<Rightarrow> url \<Rightarrow> string \<times> url" where
  "split_query rest u =
     (if HasSuffix rest ''?'' \<and> count_list rest (CHR ''?'') = 1
      then (butlast rest, u\<lparr>u_ForceQuery := True\<rparr>)
      else (case Cut rest (CHR ''?'') of
          (r, q) \<Rightarrow> (r, u\<lparr>u_RawQuery := (case q of None \<Rightarrow> [] | Some q \<Rightarrow> q)\<rparr>)))"

definition parse_rest :: "url \<Rightarrow> string \<Rightarrow> string + url" where
  "parse_rest u rest =
     (let finish = (\<lambda>u r. case setPath u r of None \<Rightarrow> Inl ''invalid URL escape'' | Some v \<Rightarrow> Inr v)
      in if (u_Scheme u \<noteq> [] \<or> \<not> HasPrefix rest ''///'') \<and> HasPrefix rest ''//'' then
           (let auth_rest = drop 2 rest;
                authority = takeWhile (\<lambda>c. c \<noteq> CHR ''/'') auth_rest;
                path = dropWhile (\<lambda>c. c \<noteq> CHR ''/'') auth_rest
            in case parseAuthority authority of
                 Inl e \<Rightarrow> Inl e
               | Inr (user, host) \<Rightarrow> finish (u\<lparr>u_User := user, u_Host := host\<rparr>) path)
         else if u_Scheme u \<noteq> [] \<and> HasPrefix rest ''/'' then finish (u\<lparr>u_OmitHost := True\<rparr>) rest
         else finish u rest)"

definition parse_url :: "string \<Rightarrow> string + url" where
  "parse_url raw =
     (if list_ex ctl_byte raw then Inl ''net/url: invalid control character in URL''
      else if raw = ''*'' then Inr (empty_url\<lparr>u_Path := ''*''\<rparr>)
      else (case getScheme raw of
          Inl e \<Rightarrow> Inl e
        | Inr (scheme, rest0) \<Rightarrow>
            (case split_query rest0 (empty_url\<lparr>u_Scheme := ToLower scheme\<rparr>) of
               (rest, u) \<Rightarrow>
                 if \<not> HasPrefix rest ''/'' \<and> u_Scheme u \<noteq> [] then Inr (u\<lparr>u_Opaque := rest\<rparr>)
                 else if \<not> HasPrefix rest ''/'' \<and> CHR '':'' \<in> set (fst (Cut rest (CHR ''/'')))
                 then Inl ''first path segment in URL cannot contain colon''
                 else parse_rest u rest)))"

definition url_Parse :: "string \<Rightarrow> string + url" where
  "url_Parse raw =
     (case Cut raw (CHR ''#'') of
        (u, frag) \<Rightarrow>
          (case parse_url u of
             Inl e \<Rightarrow> Inl (''parse '' @ Quote u @ '': '' @ e)
           | Inr v \<Rightarrow>
               (case frag of
                  None \<Rightarrow> Inr v
                | Some f \<Rightarrow>
                    if f = [] then Inr v
                    else (case setFragment v f of
                        None \<Rightarrow> Inl (''parse '' @ Quote raw @ '': invalid URL escape'')
                      | Some w \<Rightarrow> Inr w))))"

section \<open>Paths\<close>

text \<open>\<open>path.Clean\<close>: the elements of the path on a stack, dots dropped, dot-dots popping.\<close>

fun clean_elems :: "bool \<Rightarrow> string list \<Rightarrow> string list \<Rightarrow> string list" where
  "clean_elems rooted stack [] = rev stack"
| "clean_elems rooted stack (e # es) =
     (if e = [] \<or> e = ''.'' then clean_elems rooted stack es
      else if e = ''..'' then
        (case stack of
           s # ss \<Rightarrow> if s = ''..'' then clean_elems rooted (e # stack) es
                      else clean_elems rooted ss es
         | [] \<Rightarrow> clean_elems rooted (if rooted then [] else [e]) es)
      else clean_elems rooted (e # stack) es)"

definition Clean :: "string \<Rightarrow> string" where
  "Clean p =
     (let rooted = HasPrefix p ''/'';
          body = join_with ''/'' (clean_elems rooted [] (Split p (CHR ''/'')))
      in if rooted then CHR ''/'' # body else if body = [] then ''.'' else body)"

definition Join2 :: "string \<Rightarrow> string \<Rightarrow> string" where
  "Join2 a b =
     (if a = [] \<and> b = [] then []
      else Clean (if a = [] then b else a @ ''/'' @ b))"

lemmas url_defs [go_defs] = is_alnum_def shouldEscape_def percent_def escape_char_def escape_def
  PathEscape_def QueryEscape_def ishex_def unhex_def validEncoded_def EscapedPath_def
  EscapedFragment_def userinfo_String_def url_String_def Redacted_def validOptionalPort_def
  parseHost_def valid_userinfo_char_def parseAuthority_def scheme_char_def getScheme_def
  setPath_def setFragment_def ctl_byte_def split_query_def parse_rest_def parse_url_def
  url_Parse_def Clean_def Join2_def empty_url_def

end
