(* ===== verification/World.thy ===== *)
theory World
  imports ApiTypes GoJSON GoURL
begin

text \<open>
  The world outside the operator: the k1s controller behind HTTP, the Kubernetes API, the clock,
  DNS, and the two third-party packages the reconcilers lean on (apimachinery's condition setter,
  client-go's conflict retry and controller-runtime's CreateOrUpdate). None of them is source of
  the repository. They are the fields of the record \<open>env\<close>, which every definition that uses
  one takes as its argument, and the theorems quantify over it. What a service answers is a
  function of the whole trace, so any behaviour in time is covered.

  Errors are values of \<open>go_error\<close>; \<open>Error\<close> is Go's \<open>Error()\<close> text.
\<close>

section \<open>Errors\<close>

datatype kube_reason = ReasonNotFound | ReasonConflict | ReasonOther

datatype go_error =
    KubeErr kube_reason string
  | TextErr string
  | JSONErr string json_error bytes
  | APIErr string string int string
  | NotLeaderErr string string string string
  | WrapErr string go_error string

text \<open>\<open>JSONErr\<close> holds what was decoded into and the text; how \<open>encoding/json\<close> words the error is the
  parameter \<open>jt\<close>.\<close>

fun error_text :: "(string \<Rightarrow> json_error \<Rightarrow> bytes \<Rightarrow> string) \<Rightarrow> go_error \<Rightarrow> string" where
  "error_text jt (KubeErr _ msg) = msg"
| "error_text jt (TextErr msg) = msg"
| "error_text jt (JSONErr target e raw) = jt target e raw"
| "error_text jt (APIErr method pth code body) =
     ''k1s API '' @ method @ '' '' @ pth @ '' returned '' @ FormatInt code @ '': '' @ body"
| "error_text jt (NotLeaderErr addr method pth body) =
     ''k1s API '' @ method @ '' '' @ pth @ '' returned 409: '' @ body"
| "error_text jt (WrapErr pre e post) = pre @ error_text jt e @ post"

definition kube_IsNotFound :: "go_error \<Rightarrow> bool" where
  "kube_IsNotFound e = (case e of KubeErr r _ \<Rightarrow> r = ReasonNotFound | _ \<Rightarrow> False)"

definition kube_IsConflict :: "go_error \<Rightarrow> bool" where
  "kube_IsConflict e = (case e of KubeErr r _ \<Rightarrow> r = ReasonConflict | _ \<Rightarrow> False)"

lemma kube_reasons [simp]:
  "kube_IsNotFound (KubeErr r m) = (r = ReasonNotFound)"
  "kube_IsConflict (KubeErr r m) = (r = ReasonConflict)"
  by (simp_all add: kube_IsNotFound_def kube_IsConflict_def)

section \<open>Exchanges\<close>

record transport =
  tr_RootCAs :: "bytes option"
  tr_Timeout :: i64

record http_request =
  hq_Method :: string
  hq_URL :: string
  hq_Body :: "bytes option"
  hq_ContentType :: "string option"
  hq_Authorization :: "string option"
  hq_Close :: bool
  hq_Transport :: transport

record http_response =
  hr_StatusCode :: int
  hr_Body :: bytes

text \<open>A transport error and the end of a context are errors of Go's own packages, of which only the
  text is used.\<close>

text \<open>The two readers of a reconciler: the manager's cached client and its uncached API reader.\<close>

datatype reader = CachedClient | APIReader

datatype event =
    EHTTP http_request "string + http_response"
  | ESleep i64 "string option"
  | ENow int
  | EGet reader object_kind namespaced_name "go_error + kobject"
  | EListSlices reader string string "go_error + EndpointSlice list"
  | EStatusPatch kobject kobject "go_error option"
  | EPatch kobject kobject "go_error option"
  | ECreate kobject "go_error option"
  | EUpdate kobject kobject "go_error option"
  | EDelete kobject "go_error option"
  | ELookupHost string "go_error + string list"
  | EProbeDial string i64 "go_error option"
  | EProbeGet string i64 "go_error + int"
  | ELog string

type_synonym history = "event list"
type_synonym 'a io = "(history, 'a) state"

record env =
  e_http :: "history \<Rightarrow> http_request \<Rightarrow> string + http_response"
  e_sleep :: "history \<Rightarrow> i64 \<Rightarrow> string option"
  e_now :: "history \<Rightarrow> int"
  e_get :: "history \<Rightarrow> reader \<Rightarrow> object_kind \<Rightarrow> namespaced_name \<Rightarrow> go_error + kobject"
  e_listSlices :: "history \<Rightarrow> reader \<Rightarrow> string \<Rightarrow> string \<Rightarrow> go_error + EndpointSlice list"
  e_statusPatch :: "history \<Rightarrow> kobject \<Rightarrow> kobject \<Rightarrow> go_error option"
  e_patch :: "history \<Rightarrow> kobject \<Rightarrow> kobject \<Rightarrow> go_error option"
  e_delete :: "history \<Rightarrow> kobject \<Rightarrow> go_error option"
  e_lookupHost :: "history \<Rightarrow> string \<Rightarrow> go_error + string list"
  e_probeDial :: "history \<Rightarrow> string \<Rightarrow> i64 \<Rightarrow> go_error option"
  e_probeGet :: "history \<Rightarrow> string \<Rightarrow> i64 \<Rightarrow> go_error + int"
  e_setStatusCondition :: "condition list \<Rightarrow> condition \<Rightarrow> condition list"
  e_retryOnConflict :: "go_error option io \<Rightarrow> go_error option io"
  e_createOrUpdate :: "kobject \<Rightarrow> (kobject \<Rightarrow> go_error + kobject) \<Rightarrow> (go_error option \<times> kobject) io"
  e_setControllerReference :: "kobject \<Rightarrow> kobject \<Rightarrow> go_error + kobject"
  e_pemHasCerts :: "bytes \<Rightarrow> bool"
  e_formatFloat :: "float64 \<Rightarrow> string"
  e_floatToInt64 :: "float64 \<Rightarrow> i64"
  e_floatToInt32 :: "float64 \<Rightarrow> i32"
  e_jsonErrorText :: "string \<Rightarrow> json_error \<Rightarrow> bytes \<Rightarrow> string"

abbreviation Error :: "env \<Rightarrow> go_error \<Rightarrow> string" where
  "Error E \<equiv> error_text (e_jsonErrorText E)"

section \<open>One exchange at a time\<close>

definition exchange :: "(history \<Rightarrow> 'r) \<Rightarrow> ('r \<Rightarrow> event) \<Rightarrow> 'r io" where
  "exchange ask note = State (\<lambda>h. let r = ask h in (r, h @ [note r]))"

lemma run_exchange [simp, run_simps]:
  "run_state (exchange ask note) h = (ask h, h @ [note (ask h)])"
  by (simp add: exchange_def Let_def)

lemma behaves_exchange: "behaves (exchange ask note) (\<lambda>new r. new = [note r])"
  by (rule behavesI) simp

definition http_Do :: "env \<Rightarrow> http_request \<Rightarrow> (string + http_response) io" where
  "http_Do E q = exchange (\<lambda>h. e_http E h q) (EHTTP q)"

definition sleep :: "env \<Rightarrow> i64 \<Rightarrow> string option io" where
  "sleep E d = exchange (\<lambda>h. e_sleep E h d) (ESleep d)"

definition Now :: "env \<Rightarrow> int io" where
  "Now E = exchange (e_now E) ENow"

text \<open>\<open>Get\<close> fills in the object of the kind and key it is asked for; anything else is no answer.\<close>

definition kube_Get ::
  "env \<Rightarrow> reader \<Rightarrow> object_kind \<Rightarrow> namespaced_name \<Rightarrow> (go_error + kobject) io" where
  "kube_Get E r k key =
     exchange (\<lambda>h. case e_get E h r k key of
         Inl e \<Rightarrow> Inl e
       | Inr x \<Rightarrow> if kind_of x = k \<and> ObjectKeyFromObject x = key then Inr x
                  else Inl (TextErr ''unable to decode object''))
       (EGet r k key)"

definition list_slices ::
  "env \<Rightarrow> reader \<Rightarrow> string \<Rightarrow> string \<Rightarrow> (go_error + EndpointSlice list) io" where
  "list_slices E r ns svc = exchange (\<lambda>h. e_listSlices E h r ns svc) (EListSlices r ns svc)"

definition status_Patch :: "env \<Rightarrow> kobject \<Rightarrow> kobject \<Rightarrow> go_error option io" where
  "status_Patch E a b = exchange (\<lambda>h. e_statusPatch E h a b) (EStatusPatch a b)"

definition kube_Patch :: "env \<Rightarrow> kobject \<Rightarrow> kobject \<Rightarrow> go_error option io" where
  "kube_Patch E a b = exchange (\<lambda>h. e_patch E h a b) (EPatch a b)"

definition kube_Delete :: "env \<Rightarrow> kobject \<Rightarrow> go_error option io" where
  "kube_Delete E x = exchange (\<lambda>h. e_delete E h x) (EDelete x)"

definition LookupHost :: "env \<Rightarrow> string \<Rightarrow> (go_error + string list) io" where
  "LookupHost E d = exchange (\<lambda>h. e_lookupHost E h d) (ELookupHost d)"

definition probe_dial :: "env \<Rightarrow> string \<Rightarrow> i64 \<Rightarrow> go_error option io" where
  "probe_dial E addr t = exchange (\<lambda>h. e_probeDial E h addr t) (EProbeDial addr t)"

definition probe_get :: "env \<Rightarrow> string \<Rightarrow> i64 \<Rightarrow> (go_error + int) io" where
  "probe_get E u t = exchange (\<lambda>h. e_probeGet E h u t) (EProbeGet u t)"

definition log_message :: "string \<Rightarrow> unit io" where
  "log_message m = exchange (\<lambda>_. ()) (\<lambda>_. ELog m)"

lemmas exchange_defs = http_Do_def sleep_def Now_def kube_Get_def list_slices_def
  status_Patch_def kube_Patch_def kube_Delete_def LookupHost_def probe_dial_def probe_get_def
  log_message_def

lemma http_Do_spec: "behaves (http_Do E q) (\<lambda>new r. new = [EHTTP q r])"
  and sleep_spec: "behaves (sleep E d) (\<lambda>new r. new = [ESleep d r])"
  and Now_spec: "behaves (Now E) (\<lambda>new r. new = [ENow r])"
  and list_slices_spec: "behaves (list_slices E rd ns svc) (\<lambda>new r. new = [EListSlices rd ns svc r])"
  and status_Patch_spec: "behaves (status_Patch E a b) (\<lambda>new r. new = [EStatusPatch a b r])"
  and kube_Patch_spec: "behaves (kube_Patch E a b) (\<lambda>new r. new = [EPatch a b r])"
  and kube_Delete_spec: "behaves (kube_Delete E x) (\<lambda>new r. new = [EDelete x r])"
  and LookupHost_spec: "behaves (LookupHost E dn) (\<lambda>new r. new = [ELookupHost dn r])"
  and probe_dial_spec: "behaves (probe_dial E addr t) (\<lambda>new r. new = [EProbeDial addr t r])"
  and probe_get_spec: "behaves (probe_get E u t) (\<lambda>new r. new = [EProbeGet u t r])"
  and log_message_spec: "behaves (log_message msg) (\<lambda>new r. new = [ELog msg])"
  unfolding exchange_defs by (auto intro: behaves_exchange)

lemma kube_Get_spec:
  "behaves (kube_Get E rd k key)
     (\<lambda>new r. new = [EGet rd k key r] \<and> (\<forall>x. r = Inr x \<longrightarrow> kind_of x = k \<and> ObjectKeyFromObject x = key))"
  unfolding kube_Get_def by (rule behavesI) (auto split: sum.splits)

text \<open>The rules that take a program apart at a primitive exchange.\<close>

lemmas exchange_steps = behaves_bind [OF http_Do_spec] behaves_bind [OF sleep_spec]
  behaves_bind [OF Now_spec] behaves_bind [OF list_slices_spec]
  behaves_bind [OF status_Patch_spec] behaves_bind [OF kube_Patch_spec]
  behaves_bind [OF kube_Delete_spec] behaves_bind [OF LookupHost_spec]
  behaves_bind [OF probe_dial_spec] behaves_bind [OF probe_get_spec]
  behaves_bind [OF log_message_spec] behaves_bind [OF kube_Get_spec]

section \<open>Classes of exchanges\<close>

fun is_http :: "event \<Rightarrow> bool" where
  "is_http (EHTTP _ _) = True"
| "is_http _ = False"

text \<open>The exchanges that change an object of the Kubernetes API.\<close>

fun is_kube_write :: "event \<Rightarrow> bool" where
  "is_kube_write (EStatusPatch _ _ _) = True"
| "is_kube_write (EPatch _ _ _) = True"
| "is_kube_write (ECreate _ _) = True"
| "is_kube_write (EUpdate _ _ _) = True"
| "is_kube_write (EDelete _ _) = True"
| "is_kube_write _ = False"

end
