(* ===== verification/Rbac.thy ===== *)
theory Rbac
  imports World
begin

text \<open>
  The permissions of the operator: the installed role (src/config/rbac/role.yaml, put into its namespace
  by src/config/default/kustomization.yaml), the markers of src/internal/controller/doc.go that such a
  role is generated from, and what an exchange with the Kubernetes API needs. A read through the
  manager's cached client is served by an informer, which lists and watches the kind in the namespaces
  that the manager watches, whatever object is asked for; a read through the API reader is a request of
  its own, in the namespace of what it reads.
\<close>

record policy_rule =
  pr_Groups :: "string list"
  pr_Resources :: "string list"
  pr_Verbs :: "string list"

text \<open>A \<open>Role\<close> grants its rules in its own namespace only; without a namespace they hold in every one.\<close>

record role =
  role_Namespace :: "string option"
  role_Rules :: "policy_rule list"

abbreviation (input) rule :: "string \<Rightarrow> string list \<Rightarrow> string list \<Rightarrow> policy_rule" where
  "rule g resources verbs \<equiv> \<lparr>pr_Groups = [g], pr_Resources = resources, pr_Verbs = verbs\<rparr>"

section \<open>The two roles\<close>

definition install_namespace :: string where
  "install_namespace = ''k1s-operator-system''"

definition manager_role :: role where
  "manager_role = \<lparr>role_Namespace = Some install_namespace, role_Rules =
     [rule [] [''configmaps'', ''secrets''] [''get''],
      rule [] [''services'']
        [''create'', ''delete'', ''get'', ''list'', ''patch'', ''update'', ''watch''],
      rule ''discovery.k8s.io'' [''endpointslices'']
        [''create'', ''delete'', ''get'', ''list'', ''patch'', ''update'', ''watch''],
      rule ''networking.k8s.io'' [''ingresses'']
        [''create'', ''delete'', ''get'', ''list'', ''patch'', ''update'', ''watch''],
      rule ''operator.k1s.io'' [''k1sappmirrors'']
        [''create'', ''delete'', ''get'', ''list'', ''patch'', ''update'', ''watch''],
      rule ''operator.k1s.io'' [''k1sappmirrors/status'', ''k1sapps/status'', ''k1sclusters/status'',
          ''k1sexposures/status'', ''k1sinferenceendpoints/status'', ''k1sresourcesets/status'']
        [''get'', ''patch'', ''update''],
      rule ''operator.k1s.io'' [''k1sapps'', ''k1sclusters'', ''k1sexposures'',
          ''k1sinferenceendpoints'', ''k1sresourcesets'']
        [''get'', ''list'', ''patch'', ''update'', ''watch''],
      rule ''operator.k1s.io'' [''k1sapps/finalizers'', ''k1sinferenceendpoints/finalizers'',
          ''k1sresourcesets/finalizers'']
        [''update'']]\<rparr>"

text \<open>The markers name no namespace.\<close>

definition rbac_markers :: role where
  "rbac_markers = \<lparr>role_Namespace = None, role_Rules =
     [rule ''operator.k1s.io'' [''k1sclusters''] [''get'', ''list'', ''watch'', ''update'', ''patch''],
      rule ''operator.k1s.io'' [''k1sclusters/status''] [''get'', ''update'', ''patch''],
      rule ''operator.k1s.io'' [''k1sexposures''] [''get'', ''list'', ''watch'', ''update'', ''patch''],
      rule ''operator.k1s.io'' [''k1sexposures/status''] [''get'', ''update'', ''patch''],
      rule ''operator.k1s.io'' [''k1sappmirrors'']
        [''get'', ''list'', ''watch'', ''create'', ''update'', ''patch'', ''delete''],
      rule ''operator.k1s.io'' [''k1sappmirrors/status''] [''get'', ''update'', ''patch''],
      rule ''operator.k1s.io'' [''k1sapps''] [''get'', ''list'', ''watch'', ''update'', ''patch''],
      rule ''operator.k1s.io'' [''k1sapps/status''] [''get'', ''update'', ''patch''],
      rule ''operator.k1s.io'' [''k1sapps/finalizers''] [''update''],
      rule ''operator.k1s.io'' [''k1sinferenceendpoints''] [''get'', ''list'', ''watch'', ''update'', ''patch''],
      rule ''operator.k1s.io'' [''k1sinferenceendpoints/status''] [''get'', ''update'', ''patch''],
      rule ''operator.k1s.io'' [''k1sinferenceendpoints/finalizers''] [''update''],
      rule ''operator.k1s.io'' [''k1sresourcesets''] [''get'', ''list'', ''watch'', ''update'', ''patch''],
      rule ''operator.k1s.io'' [''k1sresourcesets/status''] [''get'', ''update'', ''patch''],
      rule ''operator.k1s.io'' [''k1sresourcesets/finalizers''] [''update''],
      rule [] [''configmaps'', ''secrets'', ''services''] [''get'', ''list'', ''watch''],
      rule [] [''services''] [''create'', ''update'', ''patch'', ''delete''],
      rule ''discovery.k8s.io'' [''endpointslices'']
        [''get'', ''list'', ''watch'', ''create'', ''update'', ''patch'', ''delete''],
      rule ''networking.k8s.io'' [''ingresses'']
        [''get'', ''list'', ''watch'', ''create'', ''update'', ''patch'', ''delete'']]\<rparr>"

section \<open>What an exchange needs\<close>

fun resource_of :: "object_kind \<Rightarrow> string \<times> string" where
  "resource_of KindCluster = (''operator.k1s.io'', ''k1sclusters'')"
| "resource_of KindExposure = (''operator.k1s.io'', ''k1sexposures'')"
| "resource_of KindAppMirror = (''operator.k1s.io'', ''k1sappmirrors'')"
| "resource_of KindApp = (''operator.k1s.io'', ''k1sapps'')"
| "resource_of KindInferenceEndpoint = (''operator.k1s.io'', ''k1sinferenceendpoints'')"
| "resource_of KindResourceSet = (''operator.k1s.io'', ''k1sresourcesets'')"
| "resource_of KindSecret = ([], ''secrets'')"
| "resource_of KindConfigMap = ([], ''configmaps'')"
| "resource_of KindService = ([], ''services'')"
| "resource_of KindEndpointSlice = (''discovery.k8s.io'', ''endpointslices'')"
| "resource_of KindIngress = (''networking.k8s.io'', ''ingresses'')"

definition grants :: "role \<Rightarrow> string \<Rightarrow> string \<times> string \<Rightarrow> string \<Rightarrow> bool" where
  "grants R ns res verb \<longleftrightarrow> (role_Namespace R = None \<or> role_Namespace R = Some ns) \<and>
     list_ex (\<lambda>r. fst res \<in> set (pr_Groups r) \<and> snd res \<in> set (pr_Resources r) \<and>
       verb \<in> set (pr_Verbs r)) (role_Rules R)"

definition status_of :: "string \<times> string \<Rightarrow> string \<times> string" where
  "status_of res = (fst res, snd res @ ''/status'')"

abbreviation namespace_of :: "kobject \<Rightarrow> string" where
  "namespace_of x \<equiv> Namespace (meta_of x)"

text \<open>\<open>watched\<close> are the namespaces that the manager watches, \<open>None\<close> if it watches all.\<close>

definition read_permitted ::
  "role \<Rightarrow> string set option \<Rightarrow> reader \<Rightarrow> string \<Rightarrow> object_kind \<Rightarrow> string \<Rightarrow> bool" where
  "read_permitted R watched rd ns k verb \<longleftrightarrow> (case rd of
     CachedClient \<Rightarrow> (case watched of
         None \<Rightarrow> role_Namespace R = None \<and> grants R [] (resource_of k) ''list'' \<and> grants R [] (resource_of k) ''watch''
       | Some ws \<Rightarrow> \<forall>w\<in>ws. grants R w (resource_of k) ''list'' \<and> grants R w (resource_of k) ''watch'')
   | APIReader \<Rightarrow> grants R ns (resource_of k) verb)"

definition permitted :: "role \<Rightarrow> string set option \<Rightarrow> event \<Rightarrow> bool" where
  "permitted R watched e \<longleftrightarrow> (case e of
     EGet rd k key _ \<Rightarrow> read_permitted R watched rd (nn_Namespace key) k ''get''
   | EListSlices rd ns _ _ \<Rightarrow> read_permitted R watched rd ns KindEndpointSlice ''list''
   | EStatusPatch cur _ _ \<Rightarrow> grants R (namespace_of cur) (status_of (resource_of (kind_of cur))) ''patch''
   | EPatch cur _ _ \<Rightarrow> grants R (namespace_of cur) (resource_of (kind_of cur)) ''patch''
   | ECreate y _ \<Rightarrow> grants R (namespace_of y) (resource_of (kind_of y)) ''create''
   | EUpdate _ y _ \<Rightarrow> grants R (namespace_of y) (resource_of (kind_of y)) ''update''
   | EDelete y _ \<Rightarrow> grants R (namespace_of y) (resource_of (kind_of y)) ''delete''
   | _ \<Rightarrow> True)"

text \<open>The kinds of the operator's own resources, and those of the objects it generates.\<close>

definition own_kinds :: "object_kind list" where
  "own_kinds = [KindCluster, KindExposure, KindAppMirror, KindApp, KindInferenceEndpoint, KindResourceSet]"

definition generated_kinds :: "object_kind list" where
  "generated_kinds = [KindService, KindEndpointSlice, KindIngress, KindAppMirror]"

definition read_kinds :: "object_kind list" where
  "read_kinds = [KindSecret, KindConfigMap]"

lemma every_kind: "k \<in> set (own_kinds @ generated_kinds @ read_kinds)"
  by (cases k) (simp_all add: own_kinds_def generated_kinds_def read_kinds_def)

text \<open>Where the two roles reach: the installed one only into its namespace.\<close>

lemma manager_role_elsewhere: "ns \<noteq> install_namespace \<Longrightarrow> \<not> grants manager_role ns res verb"
  by (simp add: grants_def manager_role_def)

lemma rbac_markers_everywhere: "grants rbac_markers ns res verb = grants rbac_markers install_namespace res verb"
  by (simp add: grants_def rbac_markers_def)

text \<open>There the role lists and watches all kinds but Secrets and ConfigMaps; the markers ask for all.\<close>

definition grants_reads :: "role \<Rightarrow> string \<Rightarrow> object_kind list \<Rightarrow> bool" where
  "grants_reads R verb ks \<longleftrightarrow> list_all (\<lambda>k. grants R install_namespace (resource_of k) verb) ks"

lemma reads_granted:
  "grants_reads manager_role ''get'' (own_kinds @ generated_kinds @ read_kinds)"
  "grants_reads manager_role ''list'' (own_kinds @ generated_kinds)"
  "grants_reads manager_role ''watch'' (own_kinds @ generated_kinds)"
  "grants_reads rbac_markers ''get'' (own_kinds @ generated_kinds @ read_kinds)"
  "grants_reads rbac_markers ''list'' (own_kinds @ generated_kinds @ read_kinds)"
  "grants_reads rbac_markers ''watch'' (own_kinds @ generated_kinds @ read_kinds)"
  "list_all (\<lambda>k. \<not> grants manager_role install_namespace (resource_of k) ''list'') read_kinds"
  by code_simp+

definition grants_writes :: "role \<Rightarrow> bool" where
  "grants_writes R \<longleftrightarrow>
     list_all (\<lambda>k. grants R install_namespace (resource_of k) ''patch'' \<and>
       grants R install_namespace (status_of (resource_of k)) ''patch'') own_kinds \<and>
     list_all (\<lambda>k. list_all (grants R install_namespace (resource_of k)) [''create'', ''update'', ''delete'']) generated_kinds"

lemma both_grant_writes: "grants_writes manager_role" "grants_writes rbac_markers"
  by code_simp+

lemma grants_read:
  "grants manager_role install_namespace (resource_of k) ''get''"
  "verb \<in> {''get'', ''list'', ''watch''} \<Longrightarrow> grants rbac_markers ns (resource_of k) verb"
  "verb \<in> {''list'', ''watch''} \<Longrightarrow> k \<notin> set read_kinds \<Longrightarrow> grants manager_role install_namespace (resource_of k) verb"
  using every_kind [of k] reads_granted rbac_markers_everywhere [of ns]
  by (auto simp only: grants_reads_def list_all_iff set_append list.set)

lemma grants_write:
  shows "k \<in> set own_kinds \<Longrightarrow> grants manager_role install_namespace (resource_of k) ''patch''"
    and "k \<in> set own_kinds \<Longrightarrow> grants manager_role install_namespace (status_of (resource_of k)) ''patch''"
    and "k \<in> set generated_kinds \<Longrightarrow> verb \<in> {''create'', ''update'', ''delete''} \<Longrightarrow>
      grants manager_role install_namespace (resource_of k) verb"
    and "k \<in> set own_kinds \<Longrightarrow> grants rbac_markers ns (resource_of k) ''patch''"
    and "k \<in> set own_kinds \<Longrightarrow> grants rbac_markers ns (status_of (resource_of k)) ''patch''"
    and "k \<in> set generated_kinds \<Longrightarrow> verb \<in> {''create'', ''update'', ''delete''} \<Longrightarrow>
      grants rbac_markers ns (resource_of k) verb"
  using both_grant_writes rbac_markers_everywhere [of ns]
  by (auto simp only: grants_writes_def list_all_iff list.set)

end
