(* ===== verification/Reference.thy ===== *)
theory Reference
  imports World
begin

text \<open>
  Concrete functions for the parameters of the model that stand for packages outside the
  repository, written after their documentation: apimachinery's \<open>SetStatusCondition\<close>, client-go's
  \<open>RetryOnConflict\<close> with \<open>DefaultRetry\<close> (five steps), controller-runtime's \<open>CreateOrUpdate\<close> and
  \<open>SetControllerReference\<close>. No theorem about the operator is restricted to them: they show that
  the hypotheses the theorems name can be met, and they make the programs run on examples.
  \<open>sample_env\<close> is a quiet world: nothing is found, every write succeeds.
\<close>

section \<open>SetStatusCondition\<close>

definition merge_condition :: "condition \<Rightarrow> condition \<Rightarrow> condition" where
  "merge_condition old new =
     new\<lparr>c_LastTransitionTime :=
       (if c_Status old = c_Status new then c_LastTransitionTime old
        else c_LastTransitionTime new)\<rparr>"

fun ref_SetStatusCondition :: "condition list \<Rightarrow> condition \<Rightarrow> condition list" where
  "ref_SetStatusCondition [] new = [new]"
| "ref_SetStatusCondition (old # rest) new =
     (if c_Type old = c_Type new then merge_condition old new # rest
      else old # ref_SetStatusCondition rest new)"

section \<open>RetryOnConflict\<close>

fun ref_retry :: "nat \<Rightarrow> go_error option io \<Rightarrow> go_error option io" where
  "ref_retry 0 fn = fn"
| "ref_retry (Suc n) fn = do {
     err \<leftarrow> fn;
     case err of
       None \<Rightarrow> State_Monad.return None
     | Some e \<Rightarrow> if kube_IsConflict e then ref_retry n fn else State_Monad.return err
   }"

section \<open>CreateOrUpdate and SetControllerReference\<close>

definition ref_createOrUpdate ::
  "(history \<Rightarrow> reader \<Rightarrow> object_kind \<Rightarrow> namespaced_name \<Rightarrow> go_error + kobject) \<Rightarrow>
     kobject \<Rightarrow> (kobject \<Rightarrow> go_error + kobject) \<Rightarrow> (go_error option \<times> kobject) io" where
  "ref_createOrUpdate get obj mutate = do {
     found \<leftarrow> exchange (\<lambda>h. get h CachedClient (kind_of obj) (ObjectKeyFromObject obj))
       (EGet CachedClient (kind_of obj) (ObjectKeyFromObject obj));
     case found of
       Inl e \<Rightarrow>
         if \<not> kube_IsNotFound e then State_Monad.return (Some e, obj)
         else (case mutate obj of
             Inl e \<Rightarrow> State_Monad.return (Some e, obj)
           | Inr new \<Rightarrow> do {
               _ \<leftarrow> exchange (\<lambda>_. ()) (\<lambda>_. ECreate new None);
               State_Monad.return (None, new)
             })
     | Inr current \<Rightarrow>
         (case mutate current of
             Inl e \<Rightarrow> State_Monad.return (Some e, current)
           | Inr new \<Rightarrow>
               if new = current then State_Monad.return (None, new)
               else do {
                 _ \<leftarrow> exchange (\<lambda>_. ()) (\<lambda>_. EUpdate current new None);
                 State_Monad.return (None, new)
               })
   }"

definition ref_setControllerReference :: "kobject \<Rightarrow> kobject \<Rightarrow> go_error + kobject" where
  "ref_setControllerReference owner obj =
     (let name = Name (meta_of owner)
      in if Namespace (meta_of owner) \<noteq> Namespace (meta_of obj)
         then Inl (TextErr ''cross-namespace owner references are disallowed'')
         else if OwnerReferences (meta_of obj) = []
              then Inr (update_meta (\<lambda>m. m\<lparr>OwnerReferences := [name]\<rparr>) obj)
         else if OwnerReferences (meta_of obj) = [name] then Inr obj
         else Inl (TextErr ''object is already owned by another controller''))"

section \<open>A sample world\<close>

definition not_found_error :: go_error where
  "not_found_error = KubeErr ReasonNotFound ''not found''"

definition sample_env :: env where
  "sample_env =
     \<lparr>e_http = (\<lambda>_ _. Inr \<lparr>hr_StatusCode = 200, hr_Body = ''{}''\<rparr>),
      e_sleep = (\<lambda>_ _. None),
      e_now = (\<lambda>_. 0),
      e_get = (\<lambda>_ _ _ _. Inl not_found_error),
      e_listSlices = (\<lambda>_ _ _ _. Inr []),
      e_statusPatch = (\<lambda>_ _ _. None),
      e_patch = (\<lambda>_ _ _. None),
      e_delete = (\<lambda>_ _. None),
      e_lookupHost = (\<lambda>_ _. Inr []),
      e_probeDial = (\<lambda>_ _ _. None),
      e_probeGet = (\<lambda>_ _ _. Inr 200),
      e_setStatusCondition = ref_SetStatusCondition,
      e_retryOnConflict = ref_retry 4,
      e_createOrUpdate = ref_createOrUpdate (\<lambda>_ _ _ _. Inl not_found_error),
      e_setControllerReference = ref_setControllerReference,
      e_pemHasCerts = (\<lambda>pem. HasPrefix pem ''-----BEGIN CERTIFICATE-----''),
      e_formatFloat = (\<lambda>_. ''0''),
      e_floatToInt64 = (\<lambda>_. 0),
      e_floatToInt32 = (\<lambda>_. 0),
      e_jsonErrorText = (\<lambda>_ _ _. ''invalid JSON'')\<rparr>"

lemma sample_env_simps [simp]:
  "e_http sample_env = (\<lambda>_ _. Inr \<lparr>hr_StatusCode = 200, hr_Body = ''{}''\<rparr>)"
  "e_sleep sample_env = (\<lambda>_ _. None)"
  "e_now sample_env = (\<lambda>_. 0)"
  "e_get sample_env = (\<lambda>_ _ _ _. Inl not_found_error)"
  "e_listSlices sample_env = (\<lambda>_ _ _ _. Inr [])"
  "e_statusPatch sample_env = (\<lambda>_ _ _. None)"
  "e_patch sample_env = (\<lambda>_ _ _. None)"
  "e_delete sample_env = (\<lambda>_ _. None)"
  "e_setStatusCondition sample_env = ref_SetStatusCondition"
  "e_retryOnConflict sample_env = ref_retry 4"
  "e_setControllerReference sample_env = ref_setControllerReference"
  by (simp_all add: sample_env_def)

lemma kube_IsNotFound_sample [simp]: "kube_IsNotFound not_found_error"
  by (simp add: not_found_error_def)

end
