(* ===== verification/Contracts.thy ===== *)
theory Contracts
  imports Reference
begin

text \<open>
  The documented behaviour of the packages outside the repository that the theorems about the
  reconcilers rely on, one predicate per function, and \<open>lawful\<close>, all of them together. The
  functions of the theory Reference satisfy them.
\<close>

section \<open>Conditions\<close>

text \<open>What a reader sees of a list of conditions, by type (the time of the last transition apart).\<close>

type_synonym condition_view = "condition_status \<times> string \<times> string \<times> int"

definition view_condition :: "condition \<Rightarrow> condition_view" where
  "view_condition c = (c_Status c, c_Reason c, c_Message c, c_ObservedGeneration c)"

definition cond_map :: "condition list \<Rightarrow> string \<Rightarrow> condition_view option" where
  "cond_map cs t = map_option view_condition (find (\<lambda>c. c_Type c = t) cs)"

text \<open>\<open>SetStatusCondition\<close> replaces or adds the condition of its type and touches no other.\<close>

definition sets_condition :: "(condition list \<Rightarrow> condition \<Rightarrow> condition list) \<Rightarrow> bool" where
  "sets_condition set_cond \<longleftrightarrow>
     (\<forall>cs c. cond_map (set_cond cs c) = (cond_map cs)(c_Type c \<mapsto> view_condition c))"

lemma cond_map_Nil [simp]: "cond_map [] = Map.empty"
  by (simp add: cond_map_def fun_eq_iff)

lemma cond_map_Cons:
  "cond_map (c # cs) t = (if c_Type c = t then Some (view_condition c) else cond_map cs t)"
  by (simp add: cond_map_def)

lemma cond_map_ref:
  "cond_map (ref_SetStatusCondition cs c) t =
     (if t = c_Type c then Some (view_condition c) else cond_map cs t)"
  by (induction cs) (auto simp: cond_map_Cons merge_condition_def view_condition_def)

lemma ref_sets_condition: "sets_condition ref_SetStatusCondition"
  by (auto simp: sets_condition_def fun_eq_iff cond_map_ref)

section \<open>Retrying on a conflict\<close>

text \<open>A run of \<open>RetryOnConflict\<close>: the function is run, and run again only after a conflict. When the
  attempts are used up the conflict is the result.\<close>

inductive retried :: "go_error option io \<Rightarrow> history \<Rightarrow> go_error option \<times> history \<Rightarrow> bool"
  for fn :: "go_error option io"
where
  once: "retried fn h (run_state fn h)"
| again: "run_state fn h = (Some e, h') \<Longrightarrow> kube_IsConflict e \<Longrightarrow> retried fn h' r \<Longrightarrow> retried fn h r"

definition retries_on_conflict :: "(go_error option io \<Rightarrow> go_error option io) \<Rightarrow> bool" where
  "retries_on_conflict retry \<longleftrightarrow> (\<forall>fn h. retried fn h (run_state (retry fn) h))"

lemma ref_retry_retried: "retried fn h (run_state (ref_retry n fn) h)"
proof (induction n arbitrary: h)
  case 0
  show ?case by (simp add: retried.once)
next
  case (Suc n)
  obtain x h' where run: "run_state fn h = (x, h')" by (cases "run_state fn h")
  have "retried fn h (x, h')" using retried.once [of fn h] by (simp add: run)
  with run Suc show ?case
    by (auto simp: split: option.splits intro: retried.again)
qed

lemma retried_behaves:
  assumes "retried fn h r" and "behaves fn R"
    and "\<And>new a. R new a \<Longrightarrow> T new a"
    and "\<And>n1 e n2 a. R n1 (Some e) \<Longrightarrow> kube_IsConflict e \<Longrightarrow> T n2 a \<Longrightarrow> T (n1 @ n2) a"
  shows "\<exists>new. snd r = h @ new \<and> T new (fst r)"
  using assms(1)
proof (induction rule: retried.induct)
  case (once h)
  show ?case using behavesE [OF assms(2), of h] assms(3) by blast
next
  case (again h e h' r)
  obtain n1 where "h' = h @ n1" "R n1 (Some e)"
    using behavesE [OF assms(2), of h] again.hyps(1) by auto
  with again.IH again.hyps(2) assms(4) show ?case by (metis append_assoc)
qed

text \<open>A relation that holds of one run of the function, and survives a conflicting one before it,
  holds of the retried function.\<close>

lemma behaves_retry:
  assumes "retries_on_conflict retry" and "behaves fn R"
    and "\<And>new a. R new a \<Longrightarrow> T new a"
    and "\<And>n1 e n2 a. R n1 (Some e) \<Longrightarrow> kube_IsConflict e \<Longrightarrow> T n2 a \<Longrightarrow> T (n1 @ n2) a"
  shows "behaves (retry fn) T"
proof (rule behavesI)
  fix h
  have "retried fn h (run_state (retry fn) h)"
    using assms(1) by (simp add: retries_on_conflict_def)
  then show "\<exists>new. trace_of (retry fn) h = h @ new \<and> T new (result_of (retry fn) h)"
    by (rule retried_behaves [where R = R and T = T and fn = fn]) (use assms in auto)
qed

section \<open>CreateOrUpdate\<close>

definition same_object :: "kobject \<Rightarrow> kobject \<Rightarrow> bool" where
  "same_object x y \<longleftrightarrow> kind_of x = kind_of y \<and> ObjectKeyFromObject x = ObjectKeyFromObject y"

text \<open>What a call for \<open>obj\<close> with \<open>mutate\<close> may do: read the object, create what \<open>mutate\<close> makes of
  \<open>obj\<close>, or update the object found to what \<open>mutate\<close> makes of it.\<close>

definition upsert_event :: "kobject \<Rightarrow> (kobject \<Rightarrow> go_error + kobject) \<Rightarrow> event \<Rightarrow> bool" where
  "upsert_event obj mutate e =
     (case e of
        EGet rd k key _ \<Rightarrow> rd = CachedClient \<and> k = kind_of obj \<and> key = ObjectKeyFromObject obj
      | ECreate y _ \<Rightarrow> mutate obj = Inr y
      | EUpdate cur y _ \<Rightarrow> same_object cur obj \<and> mutate cur = Inr y
      | _ \<Rightarrow> False)"

text \<open>The exchanges show that \<open>y\<close> is in the API: it was created, it was written over the object
  found, or it is the object found.\<close>

definition stored :: "kobject \<Rightarrow> event list \<Rightarrow> bool" where
  "stored y new \<longleftrightarrow> ECreate y None \<in> set new \<or> (\<exists>cur. EUpdate cur y None \<in> set new) \<or>
     (\<exists>rd k key. EGet rd k key (Inr y) \<in> set new)"

lemma stored_append [simp]: "stored y (xs @ ys) \<longleftrightarrow> stored y xs \<or> stored y ys"
  by (auto simp: stored_def)

text \<open>Success means that what \<open>mutate\<close> makes of the object is in the API.\<close>

definition upserted :: "kobject \<Rightarrow> (kobject \<Rightarrow> go_error + kobject) \<Rightarrow> event list \<Rightarrow> bool" where
  "upserted obj mutate new \<longleftrightarrow> (\<exists>cur y. same_object cur obj \<and> mutate cur = Inr y \<and> stored y new)"

definition creates_or_updates ::
  "(kobject \<Rightarrow> (kobject \<Rightarrow> go_error + kobject) \<Rightarrow> (go_error option \<times> kobject) io) \<Rightarrow> bool" where
  "creates_or_updates upsert \<longleftrightarrow>
     (\<forall>obj mutate. (\<forall>x y. mutate x = Inr y \<longrightarrow> same_object y x) \<longrightarrow>
        behaves (upsert obj mutate)
          (\<lambda>new r. (\<forall>e\<in>set new. upsert_event obj mutate e) \<and> same_object (snd r) obj \<and>
            (fst r = None \<longrightarrow> upserted obj mutate new)))"

lemma same_object_refl [simp]: "same_object x x"
  by (simp add: same_object_def)

lemma upserted_by: "mutate cur = Inr y \<Longrightarrow> same_object cur obj \<Longrightarrow> stored y new \<Longrightarrow> upserted obj mutate new"
  by (auto simp: upserted_def)

lemma same_object_trans: "same_object x y \<Longrightarrow> same_object y z \<Longrightarrow> same_object x z"
  by (simp add: same_object_def)

lemma same_object_update_meta [simp]:
  "same_object (update_meta (\<lambda>m. m\<lparr>OwnerReferences := refs\<rparr>) x) x"
  by (simp add: same_object_def ObjectKeyFromObject_def)

lemma upsert_event_simps [simp]:
  "upsert_event obj f (EGet rd k key g) \<longleftrightarrow> rd = CachedClient \<and> k = kind_of obj \<and> key = ObjectKeyFromObject obj"
  "upsert_event obj f (ECreate y r) \<longleftrightarrow> f obj = Inr y"
  "upsert_event obj f (EUpdate cur y r) \<longleftrightarrow> same_object cur obj \<and> f cur = Inr y"
  by (simp_all add: upsert_event_def)

lemma ref_creates_or_updates:
  assumes get: "\<And>h rd k key x. get h rd k key = Inr x \<Longrightarrow>
    kind_of x = k \<and> ObjectKeyFromObject x = key"
  shows "creates_or_updates (ref_createOrUpdate get)"
  unfolding creates_or_updates_def
proof (intro allI impI behavesI)
  fix obj :: kobject and mutate :: "kobject \<Rightarrow> go_error + kobject" and h
  assume m: "\<forall>x y. mutate x = Inr y \<longrightarrow> same_object y x"
  have "same_object x obj" if "get h CachedClient (kind_of obj) (ObjectKeyFromObject obj) = Inr x" for x
    using get [OF that] by (simp add: same_object_def)
  with m show "\<exists>new. trace_of (ref_createOrUpdate get obj mutate) h = h @ new \<and>
      (\<forall>e\<in>set new. upsert_event obj mutate e) \<and>
      same_object (snd (result_of (ref_createOrUpdate get obj mutate) h)) obj \<and>
      (fst (result_of (ref_createOrUpdate get obj mutate) h) = None \<longrightarrow> upserted obj mutate new)"
    by (auto simp: stored_def ref_createOrUpdate_def run_pushes split: sum.splits
        intro: same_object_trans upserted_by)
qed

section \<open>SetControllerReference\<close>

definition sets_owner :: "(kobject \<Rightarrow> kobject \<Rightarrow> go_error + kobject) \<Rightarrow> bool" where
  "sets_owner own \<longleftrightarrow> (\<forall>owner x y. own owner x = Inr y \<longrightarrow>
     (\<exists>refs. y = update_meta (\<lambda>m. m\<lparr>OwnerReferences := refs\<rparr>) x))"

lemma update_meta_same: "f (meta_of x) = meta_of x \<Longrightarrow> update_meta f x = x"
  by (cases x) simp_all

lemma ref_sets_owner: "sets_owner ref_setControllerReference"
proof -
  have "\<exists>refs. x = update_meta (\<lambda>m. m\<lparr>OwnerReferences := refs\<rparr>) x" for x
    by (rule exI [of _ "OwnerReferences (meta_of x)"]) (simp add: update_meta_same)
  then show ?thesis
    by (auto simp: sets_owner_def ref_setControllerReference_def Let_def split: if_splits)
qed

section \<open>All of them\<close>

definition lawful :: "env \<Rightarrow> bool" where
  "lawful E \<longleftrightarrow> sets_condition (e_setStatusCondition E) \<and>
     retries_on_conflict (e_retryOnConflict E) \<and>
     creates_or_updates (e_createOrUpdate E) \<and>
     sets_owner (e_setControllerReference E)"

lemma lawfulD:
  assumes "lawful E"
  shows "sets_condition (e_setStatusCondition E)" and "retries_on_conflict (e_retryOnConflict E)"
    and "creates_or_updates (e_createOrUpdate E)" and "sets_owner (e_setControllerReference E)"
  using assms by (simp_all add: lawful_def)

lemma sample_env_lawful [simp]: "lawful sample_env"
proof -
  have "creates_or_updates (e_createOrUpdate sample_env)"
    unfolding sample_env_def by simp (rule ref_creates_or_updates, simp)
  then show ?thesis
    by (auto simp: lawful_def ref_sets_condition retries_on_conflict_def ref_retry_retried
        ref_sets_owner)
qed

text \<open>The laws are about four fields only, so the sample world may be given other answers.\<close>

lemma lawful_update [simp]:
  "lawful (E\<lparr>e_http := f1\<rparr>) = lawful E" "lawful (E\<lparr>e_get := f2\<rparr>) = lawful E"
  "lawful (E\<lparr>e_statusPatch := f3\<rparr>) = lawful E" "lawful (E\<lparr>e_patch := f4\<rparr>) = lawful E"
  "lawful (E\<lparr>e_listSlices := f5\<rparr>) = lawful E" "lawful (E\<lparr>e_lookupHost := f6\<rparr>) = lawful E"
  "lawful (E\<lparr>e_probeGet := f7\<rparr>) = lawful E"
  by (simp_all add: lawful_def)

end
