(* ===== verification/Auth.thy ===== *)
theory Auth
  imports Contracts
begin

text \<open>src/internal/controller/auth.go: the credentials of a cluster, from its Secret.\<close>

section \<open>The code\<close>

definition defaultControllerReadTokenKey :: string where
  "defaultControllerReadTokenKey = ''controllerReadToken''"

definition defaultControllerWriteTokenKey :: string where
  "defaultControllerWriteTokenKey = ''controllerWriteToken''"

definition defaultCABundleKey :: string where
  "defaultCABundleKey = ''ca.crt''"

record apiCredentials =
  readToken :: string
  writeToken :: string
  caBundle :: bytes

definition no_credentials :: apiCredentials where
  "no_credentials = \<lparr>readToken = [], writeToken = [], caBundle = []\<rparr>"

definition key_or :: "string \<Rightarrow> string \<Rightarrow> string" where
  "key_or key defaultKey = (if key = [] then defaultKey else key)"

definition secret_value :: "Secret \<Rightarrow> string \<Rightarrow> bytes" where
  "secret_value secret key = (case sec_Data secret key of None \<Rightarrow> [] | Some raw \<Rightarrow> raw)"

definition credentials_from ::
  "string \<Rightarrow> K1sAuthSecretRef \<Rightarrow> Secret \<Rightarrow> apiCredentials \<times> go_error option" where
  "credentials_from namespace ref secret =
     (let readKey = key_or (asr_ControllerReadTokenKey ref) defaultControllerReadTokenKey;
          writeKey = key_or (asr_ControllerWriteTokenKey ref) defaultControllerWriteTokenKey;
          caKey = key_or (asr_CABundleKey ref) defaultCABundleKey;
          creds = \<lparr>readToken = secret_value secret readKey,
            writeToken = secret_value secret writeKey, caBundle = secret_value secret caKey\<rparr>
      in (creds,
          if asr_ControllerReadTokenKey ref \<noteq> [] \<and> readToken creds = []
          then Some (TextErr (''secret '' @ namespace @ ''/'' @ asr_Name ref @ '' missing key '' @
            Quote readKey))
          else None))"

definition loadCredentials ::
  "env \<Rightarrow> string \<Rightarrow> K1sAuthSecretRef option \<Rightarrow> (apiCredentials \<times> go_error option) io" where
  "loadCredentials E ownerNamespace ref =
     (case ref of
        None \<Rightarrow> State_Monad.return (no_credentials, None)
      | Some r \<Rightarrow> do {
          let namespace = auth_NamespaceOr r ownerNamespace;
          found \<leftarrow> kube_Get E CachedClient KindSecret
            \<lparr>nn_Namespace = namespace, nn_Name = asr_Name r\<rparr>;
          State_Monad.return
            (case found of
               Inl e \<Rightarrow> (no_credentials, Some e)
             | Inr (OSecret secret) \<Rightarrow> credentials_from namespace r secret
             | Inr _ \<Rightarrow> (no_credentials, Some (TextErr ''unable to decode object'')))
        })"

lemmas auth_defs [go_defs] = key_or_def secret_value_def credentials_from_def no_credentials_def
  defaultControllerReadTokenKey_def defaultControllerWriteTokenKey_def defaultCABundleKey_def

section \<open>What it reads\<close>

text \<open>The Secret that a reference names, in the namespace of its owner unless it says otherwise.\<close>

definition secret_get :: "string \<Rightarrow> K1sAuthSecretRef \<Rightarrow> go_error + kobject \<Rightarrow> event" where
  "secret_get ownerNamespace r =
     EGet CachedClient KindSecret
       \<lparr>nn_Namespace = auth_NamespaceOr r ownerNamespace, nn_Name = asr_Name r\<rparr>"

definition credentials_ok ::
  "string \<Rightarrow> K1sAuthSecretRef option \<Rightarrow> event list \<Rightarrow> apiCredentials \<times> go_error option \<Rightarrow> bool" where
  "credentials_ok ownerNamespace ref new r \<longleftrightarrow>
     (case ref of
        None \<Rightarrow> new = [] \<and> r = (no_credentials, None)
      | Some s \<Rightarrow>
          (\<exists>e. new = [secret_get ownerNamespace s (Inl e)] \<and> r = (no_credentials, Some e)) \<or>
          (\<exists>secret. new = [secret_get ownerNamespace s (Inr (OSecret secret))] \<and>
             r = credentials_from (auth_NamespaceOr s ownerNamespace) s secret))"

lemma kind_of_Secret: "kind_of x = KindSecret \<Longrightarrow> \<exists>s. x = OSecret s"
  by (cases x) simp_all

lemma loadCredentials_spec: "behaves (loadCredentials E ns ref) (credentials_ok ns ref)"
  unfolding loadCredentials_def
  by (auto simp: credentials_ok_def secret_get_def Let_def split: sum.splits
      dest!: kind_of_Secret intro!: behaves_case_option behaves_return exchange_steps)

lemma credentials_ok_reads: "credentials_ok ns ref new r \<Longrightarrow> \<forall>e\<in>set new. \<not> is_kube_write e \<and> \<not> is_http e"
  by (auto simp: credentials_ok_def secret_get_def split: option.splits)

section \<open>Properties\<close>

text \<open>
  C37: without a reference there are no credentials and nothing is read; with one, exactly one
  Secret is read, in the reference's namespace or else the cluster's own, and a token or CA bundle
  is what that Secret holds under the configured or the default key. The only check is that an
  explicitly named read key is there: a missing write token or default read token is no error.
\<close>

theorem loadCredentials_correct:
  "behaves (loadCredentials E ownerNamespace ref)
     (\<lambda>new r. case ref of
        None \<Rightarrow> new = [] \<and> r = (no_credentials, None)
      | Some s \<Rightarrow> (case new of
            [EGet rd k key (Inl e)] \<Rightarrow> r = (no_credentials, Some e)
          | [EGet rd k key (Inr (OSecret secret))] \<Rightarrow>
              k = KindSecret \<and> nn_Name key = asr_Name s \<and>
              nn_Namespace key = (if asr_Namespace s = [] then ownerNamespace else asr_Namespace s) \<and>
              readToken (fst r) = secret_value secret
                (key_or (asr_ControllerReadTokenKey s) ''controllerReadToken'') \<and>
              writeToken (fst r) = secret_value secret
                (key_or (asr_ControllerWriteTokenKey s) ''controllerWriteToken'') \<and>
              caBundle (fst r) = secret_value secret (key_or (asr_CABundleKey s) ''ca.crt'') \<and>
              (snd r = None) = (asr_ControllerReadTokenKey s = [] \<or> 0 < length (readToken (fst r)))
          | _ \<Rightarrow> False))"
  by (rule behaves_mono [OF loadCredentials_spec])
    (auto simp: credentials_ok_def secret_get_def auth_defs auth_NamespaceOr_def Let_def
      split: option.splits)

end
