(* ===== verification/Conditions.thy ===== *)
theory Conditions
  imports Contracts
begin

text \<open>
  src/internal/controller/conditions.go: \<open>setCondition\<close> reads the clock and hands the condition to
  apimachinery.
\<close>

definition setCondition ::
  "env \<Rightarrow> condition list \<Rightarrow> string \<Rightarrow> condition_status \<Rightarrow> string \<Rightarrow> string \<Rightarrow> int \<Rightarrow> condition list io"
where
  "setCondition E conditions conditionType status reason message generation = do {
     now \<leftarrow> Now E;
     State_Monad.return (e_setStatusCondition E conditions
       \<lparr>c_Type = conditionType, c_Status = status, c_Reason = reason, c_Message = message,
        c_ObservedGeneration = generation, c_LastTransitionTime = now\<rparr>)
   }"

definition conditionStatus :: "bool \<Rightarrow> condition_status" where
  "conditionStatus ok = (if ok then ConditionTrue else ConditionFalse)"

lemma conditionStatus_simps [simp]:
  "conditionStatus True = ConditionTrue" "conditionStatus False = ConditionFalse"
  "(conditionStatus ok = ConditionTrue) = ok" "(conditionStatus ok = ConditionFalse) = (\<not> ok)"
  "(ConditionTrue = conditionStatus ok) = ok" "conditionStatus ok \<noteq> ConditionUnknown"
  by (simp_all add: conditionStatus_def)

text \<open>An exchange that changes nothing outside: the clock, a read, the log, a probe.\<close>

fun is_now :: "event \<Rightarrow> bool" where
  "is_now (ENow _) = True"
| "is_now _ = False"

definition only_clock :: "event list \<Rightarrow> bool" where
  "only_clock new \<longleftrightarrow> (\<forall>e\<in>set new. is_now e)"

lemma only_clock_simps [simp]:
  "only_clock []" "only_clock (e # es) \<longleftrightarrow> is_now e \<and> only_clock es"
  "only_clock (xs @ ys) \<longleftrightarrow> only_clock xs \<and> only_clock ys"
  by (auto simp: only_clock_def)

lemma setCondition_spec:
  assumes "sets_condition (e_setStatusCondition E)"
  shows "behaves (setCondition E cs t st reason msg gen)
    (\<lambda>new cs'. only_clock new \<and> cond_map cs' = (cond_map cs)(t \<mapsto> (st, reason, msg, gen)))"
  unfolding setCondition_def
  using assms
  by (auto simp: sets_condition_def view_condition_def intro!: exchange_steps behaves_return)

lemmas setCondition_step = behaves_bind [OF setCondition_spec [OF lawfulD(1)]]

end
