(* ===== verification/Names.thy ===== *)
theory Names
  imports ApiTypes
begin

text \<open>src/internal/controller/names.go: the names and labels of the objects made for an exposure.\<close>

section \<open>The code\<close>

abbreviation "labelName \<equiv> ''app.kubernetes.io/name''"
abbreviation "labelManagedBy \<equiv> ''app.kubernetes.io/managed-by''"
abbreviation "labelCluster \<equiv> ''operator.k1s.io/cluster''"
abbreviation "labelExposure \<equiv> ''operator.k1s.io/exposure''"
abbreviation "labelAppNamespace \<equiv> ''operator.k1s.io/app-namespace''"
abbreviation "labelAppName \<equiv> ''operator.k1s.io/app-name''"

definition dnsLabel :: "string \<Rightarrow> string" where
  "dnsLabel value0 =
     (let v1 = ToLower (TrimSpace value0);
          v2 = ReplaceAll v1 (CHR ''_'') ''-'';
          v3 = Trim {CHR ''-'', CHR ''.''} v2;
          v4 = (if length v3 > 63 then TrimRight {CHR ''-''} (take 63 v3) else v3)
      in if v4 = [] then ''k1s'' else v4)"

definition exposureServiceName :: "K1sExposure \<Rightarrow> string" where
  "exposureServiceName x =
     (if esv_Name (exp_Service (exposure_Spec x)) \<noteq> [] then esv_Name (exp_Service (exposure_Spec x))
      else dnsLabel (Name (exposure_Meta x) @ ''-k1s''))"

definition exposureEndpointSliceName :: "K1sExposure \<Rightarrow> string" where
  "exposureEndpointSliceName x = dnsLabel (exposureServiceName x @ ''-proxy'')"

definition exposureIngressName :: "K1sExposure \<Rightarrow> string" where
  "exposureIngressName x =
     (if ing_Name (exp_Ingress (exposure_Spec x)) \<noteq> [] then ing_Name (exp_Ingress (exposure_Spec x))
      else dnsLabel (Name (exposure_Meta x) @ ''-k1s''))"

definition exposurePath :: "K1sExposure \<Rightarrow> string" where
  "exposurePath x = (if exp_Path (exposure_Spec x) \<noteq> [] then exp_Path (exposure_Spec x) else ''/'')"

definition exposureServicePort :: "K1sExposure \<Rightarrow> i32" where
  "exposureServicePort x =
     (if 0 < sint (esv_Port (exp_Service (exposure_Spec x)))
      then esv_Port (exp_Service (exposure_Spec x)) else 80)"

definition managedLabels :: "string \<Rightarrow> K1sExposure \<Rightarrow> string \<rightharpoonup> string" where
  "managedLabels clusterName x =
     [labelName \<mapsto> ''k1s-operator'', labelManagedBy \<mapsto> ''k1s-operator'',
      labelCluster \<mapsto> clusterName, labelExposure \<mapsto> Name (exposure_Meta x),
      labelAppNamespace \<mapsto> NamespaceOrDefault (exp_AppRef (exposure_Spec x)),
      labelAppName \<mapsto> ar_Name (exp_AppRef (exposure_Spec x))]"

lemmas names_defs [go_defs] = dnsLabel_def exposureServiceName_def exposureEndpointSliceName_def
  exposureIngressName_def exposurePath_def exposureServicePort_def managedLabels_def

section \<open>Lemmas\<close>

lemma set_ReplaceAll: "c \<in> set (ReplaceAll s old new) \<Longrightarrow> c \<in> set new \<or> c \<in> set s \<and> c \<noteq> old"
  by (auto simp: ReplaceAll_def split: if_splits)

lemma Trim_hd: "Trim cs s \<noteq> [] \<Longrightarrow> hd (Trim cs s) \<notin> cs"
  unfolding Trim_def by (metis TrimLeft_hd TrimRight_keeps_hd TrimRight_prefix append_is_Nil_conv)

lemma Trim_last: "Trim cs s \<noteq> [] \<Longrightarrow> last (Trim cs s) \<notin> cs"
  unfolding Trim_def by (rule TrimRight_last)

lemma set_Trim: "set (Trim cs s) \<subseteq> set s"
  unfolding Trim_def using set_TrimRight set_TrimLeft by blast

lemma TrimRight_nonempty: "s \<noteq> [] \<Longrightarrow> hd s \<notin> cs \<Longrightarrow> TrimRight cs s \<noteq> []"
  using TrimRight_prefix [of s cs] by (metis append_Nil hd_in_set subsetD)

text \<open>What is cut off a label that is too long is not put back into shape but for its dashes.\<close>

lemma dnsLabel_shape:
  "dnsLabel v \<noteq> [] \<and> length (dnsLabel v) \<le> 63 \<and>
   list_all (\<lambda>c. \<not> upper_case c \<and> c \<noteq> CHR ''_'') (dnsLabel v) \<and>
   hd (dnsLabel v) \<notin> {CHR ''-'', CHR ''.''} \<and> last (dnsLabel v) \<noteq> CHR ''-''"
proof -
  define v2 where "v2 = ReplaceAll (ToLower (TrimSpace v)) (CHR ''_'') ''-''"
  define v3 where "v3 = Trim {CHR ''-'', CHR ''.''} v2"
  define v4 where "v4 = (if length v3 > 63 then TrimRight {CHR ''-''} (take 63 v3) else v3)"
  have good: "\<not> upper_case c \<and> c \<noteq> CHR ''_''" if "c \<in> set v4" for c
  proof -
    have "set v4 \<subseteq> set v3"
      using set_TrimRight [of "{CHR ''-''}" "take 63 v3"] set_take_subset [of 63 v3]
      by (auto simp: v4_def)
    with that have "c \<in> set v2"
      using set_Trim [of "{CHR ''-'', CHR ''.''}" v2] by (auto simp: v3_def)
    then have "c = CHR ''-'' \<or> c \<in> set (ToLower (TrimSpace v)) \<and> c \<noteq> CHR ''_''"
      using set_ReplaceAll [of c "ToLower (TrimSpace v)" "CHR ''_''" "''-''"] by (auto simp: v2_def)
    then show ?thesis
      using ToLower_not_upper by (auto simp: upper_case_def [of "CHR ''-''"])
  qed
  have len: "length v4 \<le> 63"
    using length_TrimRight [of "{CHR ''-''}" "take 63 v3"] by (auto simp: v4_def)
  have ends: "hd v4 \<notin> {CHR ''-'', CHR ''.''} \<and> last v4 \<noteq> CHR ''-''" if "v4 \<noteq> []"
  proof (cases "length v3 > 63")
    case True
    then have "hd v4 = hd (take 63 v3)" "last v4 \<notin> {CHR ''-''}"
      using that TrimRight_keeps_hd [of "{CHR ''-''}" "take 63 v3"]
        TrimRight_last [of "{CHR ''-''}" "take 63 v3"] by (simp_all add: v4_def)
    moreover have "v3 \<noteq> []" using True by auto
    ultimately show ?thesis using Trim_hd [of "{CHR ''-'', CHR ''.''}" v2] by (simp add: v3_def)
  next
    case False
    then show ?thesis
      using that Trim_hd [of "{CHR ''-'', CHR ''.''}" v2] Trim_last [of "{CHR ''-'', CHR ''.''}" v2]
      by (simp add: v4_def v3_def)
  qed
  have "dnsLabel v = (if v4 = [] then ''k1s'' else v4)"
    by (simp add: dnsLabel_def v4_def v3_def v2_def Let_def)
  with good len ends show ?thesis
    by (auto simp: list_all_iff upper_case_def)
qed

text \<open>
  A generated name need not be a DNS label: dots inside are kept, and a name cut at 63 bytes can
  end in one, which the API refuses for a Service.
\<close>

theorem dnsLabel_keeps_dots:
  "dnsLabel ''a.b'' = ''a.b'' \<and> last (dnsLabel (replicate 62 (CHR ''a'') @ ''.b'')) = CHR ''.''"
  by code_simp

section \<open>Properties\<close>

text \<open>
  C40: a name that the operator makes up for an exposure has 1 to 63 bytes, no ASCII capital letter and
  no underscore, begins with neither a dash nor a dot and does not end with a dash, whatever the
  names in the exposure. The name of the EndpointSlice is always made up, those of the Service and of
  the Ingress are when the specification gives none (a given one is used as it is). A name can end
  with a dot, when it was cut (\<open>dnsLabel_keeps_dots\<close>).
\<close>

theorem generated_names_wellformed:
  assumes "name = exposureEndpointSliceName x \<or>
    esv_Name (exp_Service (exposure_Spec x)) = [] \<and> name = exposureServiceName x \<or>
    ing_Name (exp_Ingress (exposure_Spec x)) = [] \<and> name = exposureIngressName x"
  shows "name \<noteq> [] \<and> length name \<le> 63 \<and> list_all (\<lambda>c. \<not> upper_case c \<and> c \<noteq> CHR ''_'') name \<and>
    hd name \<notin> {CHR ''-'', CHR ''.''} \<and> last name \<noteq> CHR ''-''"
proof -
  have "\<exists>v. name = dnsLabel v"
    using assms by (auto simp: exposureEndpointSliceName_def exposureServiceName_def exposureIngressName_def)
  then obtain v where name: "name = dnsLabel v" ..
  show ?thesis unfolding name by (rule dnsLabel_shape)
qed

text \<open>An exposure with a long name of capitals and underscores, and nothing else in it.\<close>

definition shouting_exposure :: K1sExposure where
  "shouting_exposure =
     \<lparr>exposure_Meta = \<lparr>Name = ''_WEB_'' @ replicate 70 (CHR ''A''), Namespace = ''team'', Generation = 1,
        Finalizers = [], Annotations = None, Labels = Map.empty, DeletionTimestamp = None, OwnerReferences = []\<rparr>,
      exposure_Spec = \<lparr>exp_ClusterRef = \<lparr>ref_Name = ''c'', ref_Namespace = []\<rparr>,
        exp_AppRef = \<lparr>ar_Name = ''w'', ar_Namespace = []\<rparr>, exp_Host = ''w'', exp_Path = [],
        exp_Service = \<lparr>esv_Name = [], esv_Port = 0\<rparr>,
        exp_Ingress = \<lparr>ing_Enabled = None, ing_Name = [], ing_ClassName = None, ing_TLSSecretName = [],
          ing_Annotations = Map.empty\<rparr>,
        exp_TrafficProbe = \<lparr>tp_Enabled = None, tp_Type = [], tp_Scheme = [], tp_Path = [], tp_Port = 0,
          tp_TimeoutSeconds = 0, tp_ExpectedStatus = []\<rparr>\<rparr>,
      exposure_Status = \<lparr>exs_ObservedGeneration = 0, exs_AppReady = False, exs_ServiceName = [],
        exs_EndpointSliceName = [], exs_IngressName = [], exs_ProxyEndpointCount = 0,
        exs_LastAppSyncTime = None, exs_Conditions = []\<rparr>\<rparr>"

theorem generated_names_wellformed_witness:
  "exposureServiceName shouting_exposure = ''web-'' @ replicate 59 (CHR ''a'') \<and>
   length (exposureServiceName shouting_exposure) \<le> 63 \<and> last (exposureEndpointSliceName shouting_exposure) \<noteq> CHR ''-''"
proof -
  have "dnsLabel (''_WEB_'' @ replicate 70 (CHR ''A'') @ ''-k1s'') = ''web-'' @ replicate 59 (CHR ''a'')"
    by code_simp
  then have "dnsLabel (Name (exposure_Meta shouting_exposure) @ ''-k1s'') = ''web-'' @ replicate 59 (CHR ''a'')"
    by (simp only: shouting_exposure_def K1sExposure.simps object_meta.simps append_assoc)
  moreover have "esv_Name (exp_Service (exposure_Spec shouting_exposure)) = []"
    by (simp add: shouting_exposure_def)
  moreover from this have "length (exposureServiceName shouting_exposure) \<le> 63"
    using generated_names_wellformed [of "exposureServiceName shouting_exposure" shouting_exposure] by blast
  moreover have "last (exposureEndpointSliceName shouting_exposure) \<noteq> CHR ''-''"
    using generated_names_wellformed [of "exposureEndpointSliceName shouting_exposure" shouting_exposure] by blast
  ultimately show ?thesis
    by (simp only: exposureServiceName_def simp_thms if_False)
qed

end
