(* ===== verification/K1sStatus.thy ===== *)
theory K1sStatus
  imports World
begin

text \<open>
  src/internal/k1s/status.go: what the client reads out of the k1s controller's JSON answers. The
  conversions follow the code's type switches, 32-bit counts wrap, and the conversion of a
  \<open>float64\<close> out of an integer's range is the platform's (two fields of \<open>env\<close>).
\<close>

section \<open>The code\<close>

record Placement =
  pl_Node :: string
  pl_Ready :: bool

record AppStatus =
  as_AppName :: string
  as_Name :: string
  as_Namespace :: string
  as_Ready :: bool
  as_DesiredReplicas :: i32
  as_ReadyReplicas :: i32
  as_LiveReplicas :: i32
  as_Revision :: string
  as_RevisionStatus :: string
  as_Image :: string
  as_IngressHost :: string
  as_IngressPath :: string
  as_Placements :: "Placement list"

record NodeSummary =
  ns_Ready :: i32
  ns_Stale :: i32
  ns_Total :: i32

record InferenceStatus =
  is_Kind :: string
  is_Name :: string
  is_Namespace :: string
  is_Phase :: string
  is_Status :: string
  is_Ready :: bool
  is_APIEndpoint :: string
  is_ActiveExecutor :: string
  is_LastError :: string
  is_Desired :: i32
  is_Current :: i32
  is_ReadyCount :: i32

definition float_to_i64 :: "env \<Rightarrow> float64 \<Rightarrow> i64" where
  "float_to_i64 E f =
     (let n = float_trunc f in
      if - (2 ^ 63) \<le> n \<and> n < 2 ^ 63 then word_of_int n else e_floatToInt64 E f)"

definition float_to_i32 :: "env \<Rightarrow> float64 \<Rightarrow> i32" where
  "float_to_i32 E f =
     (let n = float_trunc f in
      if - (2 ^ 31) \<le> n \<and> n < 2 ^ 31 then word_of_int n else e_floatToInt32 E f)"

definition str :: "env \<Rightarrow> goany \<Rightarrow> string" where
  "str E v =
     (case v of
        GStr t \<Rightarrow> t
      | GFloat t \<Rightarrow> FormatInt (sint (float_to_i64 E t))
      | GInt t \<Rightarrow> FormatInt (sint t)
      | GInt64 t \<Rightarrow> FormatInt (sint t)
      | _ \<Rightarrow> [])"

definition i32_of :: "env \<Rightarrow> goany \<Rightarrow> i32" where
  "i32_of E v =
     (case v of
        GFloat t \<Rightarrow> float_to_i32 E t
      | GInt t \<Rightarrow> word_of_int (sint t)
      | GInt32 t \<Rightarrow> t
      | GInt64 t \<Rightarrow> word_of_int (sint t)
      | GStr t \<Rightarrow> word_of_int (fst (Atoi t))
      | _ \<Rightarrow> 0)"

definition boolv :: "goany \<Rightarrow> bool" where
  "boolv v =
     (case v of
        GBool t \<Rightarrow> t
      | GStr t \<Rightarrow> t = ''true'' \<or> t = ''True'' \<or> t = ''READY'' \<or> t = ''Ready''
      | _ \<Rightarrow> False)"

fun firstStatus :: "string list \<Rightarrow> string" where
  "firstStatus [] = []"
| "firstStatus (v # vs) = (if v \<noteq> [] then v else firstStatus vs)"

definition equalFoldReady :: "string \<Rightarrow> bool" where
  "equalFoldReady v \<longleftrightarrow> v = ''ready'' \<or> v = ''Ready'' \<or> v = ''READY''"

definition placements_of :: "env \<Rightarrow> goany \<Rightarrow> Placement list" where
  "placements_of E pods =
     (case pods of
        GSlice items \<Rightarrow>
          concat (map (\<lambda>item. case item of
              GMap pod \<Rightarrow>
                [\<lparr>pl_Node = str E (payload_get (Some pod) ''node''),
                  pl_Ready = boolv (payload_get (Some pod) ''ready'')\<rparr>]
            | _ \<Rightarrow> []) items)
      | _ \<Rightarrow> [])"

definition ParseAppStatus :: "env \<Rightarrow> payload \<Rightarrow> AppStatus" where
  "ParseAppStatus E p =
     (let desired = i32_of E (payload_get p ''desired_replicas'');
          ready = i32_of E (payload_get p ''ready_replicas'')
      in \<lparr>as_AppName = str E (payload_get p ''app_name''),
          as_Name = str E (payload_get p ''name''),
          as_Namespace = str E (payload_get p ''namespace''),
          as_Ready = (0 < sint desired \<and> sint desired \<le> sint ready),
          as_DesiredReplicas = desired,
          as_ReadyReplicas = ready,
          as_LiveReplicas = i32_of E (payload_get p ''live_replicas''),
          as_Revision = str E (payload_get p ''revision''),
          as_RevisionStatus = str E (payload_get p ''revision_status''),
          as_Image = str E (payload_get p ''image''),
          as_IngressHost = str E (payload_get p ''ingress_host''),
          as_IngressPath = str E (payload_get p ''ingress_path''),
          as_Placements = placements_of E (payload_get p ''pods'')\<rparr>)"

definition ParseInferenceStatus :: "env \<Rightarrow> payload \<Rightarrow> InferenceStatus" where
  "ParseInferenceStatus E p =
     (let phase = firstStatus [str E (payload_get p ''phase''), str E (payload_get p ''status'')];
          kind = str E (payload_get p ''kind'');
          desired = i32_of E (payload_get p ''desired'');
          readyCount = i32_of E (payload_get p ''ready'');
          ready = (boolv (payload_get p ''ready'') \<or> equalFoldReady phase)
      in \<lparr>is_Kind = kind,
          is_Name = str E (payload_get p ''name''),
          is_Namespace = str E (payload_get p ''namespace''),
          is_Phase = phase,
          is_Status = str E (payload_get p ''status''),
          is_Ready =
            (if kind = ''InferenceCellSet'' \<and> 0 < sint desired
             then ready \<or> sint desired \<le> sint readyCount else ready),
          is_APIEndpoint = str E (payload_get p ''api_endpoint''),
          is_ActiveExecutor = str E (payload_get p ''active_executor''),
          is_LastError = str E (payload_get p ''last_error''),
          is_Desired = desired,
          is_Current = i32_of E (payload_get p ''current''),
          is_ReadyCount = readyCount\<rparr>)"

definition node_is_stale :: "(string \<times> goany) list \<Rightarrow> bool" where
  "node_is_stale node = boolv (payload_get (Some node) ''stale'')"

definition node_is_ready :: "env \<Rightarrow> (string \<times> goany) list \<Rightarrow> bool" where
  "node_is_ready E node =
     (str E (payload_get (Some node) ''status'') = ''Ready'' \<and> \<not> node_is_stale node)"

fun count_node :: "env \<Rightarrow> goany \<Rightarrow> NodeSummary \<Rightarrow> NodeSummary" where
  "count_node E (GMap node) s =
     (let s1 = (if node_is_stale node then s\<lparr>ns_Stale := ns_Stale s + 1\<rparr> else s)
      in if node_is_ready E node then s1\<lparr>ns_Ready := ns_Ready s1 + 1\<rparr> else s1)"
| "count_node E _ s = s"

definition ParseNodeSummary :: "env \<Rightarrow> payload \<Rightarrow> NodeSummary" where
  "ParseNodeSummary E p =
     (let summary = \<lparr>ns_Ready = 0, ns_Stale = 0, ns_Total = i32_of E (payload_get p ''count'')\<rparr>
      in case payload_get p ''nodes'' of
           GSlice nodes \<Rightarrow> fold (count_node E) nodes (summary\<lparr>ns_Total := of_nat (length nodes)\<rparr>)
         | _ \<Rightarrow> summary)"

lemmas status_defs [go_defs] = float_to_i64_def float_to_i32_def str_def i32_of_def boolv_def
  equalFoldReady_def placements_of_def ParseAppStatus_def ParseInferenceStatus_def
  node_is_stale_def node_is_ready_def ParseNodeSummary_def

section \<open>Lemmas\<close>

fun stale_node :: "goany \<Rightarrow> bool" where
  "stale_node (GMap node) = node_is_stale node"
| "stale_node _ = False"

fun ready_node :: "env \<Rightarrow> goany \<Rightarrow> bool" where
  "ready_node E (GMap node) = node_is_ready E node"
| "ready_node E _ = False"

lemma count_node_eq:
  "count_node E v s =
     s\<lparr>ns_Stale := ns_Stale s + (if stale_node v then 1 else 0),
       ns_Ready := ns_Ready s + (if ready_node E v then 1 else 0)\<rparr>"
  by (cases v) (simp_all add: Let_def)

lemma fold_count_node:
  "fold (count_node E) nodes s =
     s\<lparr>ns_Stale := ns_Stale s + of_nat (length (filter stale_node nodes)),
       ns_Ready := ns_Ready s + of_nat (length (filter (ready_node E) nodes))\<rparr>"
  by (induction nodes arbitrary: s) (auto simp: count_node_eq algebra_simps)

lemma ready_node_not_stale: "ready_node E v \<Longrightarrow> \<not> stale_node v"
  by (cases v) (auto simp: node_is_ready_def)

lemma stale_ready_le:
  "length (filter stale_node nodes) + length (filter (ready_node E) nodes) \<le> length nodes"
  by (induction nodes) (auto dest: ready_node_not_stale)

lemma sint_of_nat_small: "n < 2 ^ 31 \<Longrightarrow> sint (of_nat n :: i32) = int n"
  by (simp add: signed_of_nat signed_take_bit_int_eq_self)

lemma sint_word_of_int_i32:
  "- (2 ^ 31) \<le> n \<Longrightarrow> n < 2 ^ 31 \<Longrightarrow> sint (word_of_int n :: i32) = n"
  by (simp add: signed_of_int signed_take_bit_int_eq_self)

section \<open>Properties\<close>

text \<open>
  The node summary counts what its fields say: for an answer with a list of fewer than 2^31
  nodes, Total is the number of entries, Stale the number of stale ones, Ready the number of
  entries in status Ready that are not stale, and Ready and Stale together never exceed Total.
\<close>

lemma ParseNodeSummary_counts:
  assumes "payload_get p ''nodes'' = GSlice nodes" and "length nodes < 2 ^ 31"
  shows "sint (ns_Total (ParseNodeSummary E p)) = int (length nodes) \<and>
    sint (ns_Stale (ParseNodeSummary E p)) = int (length (filter stale_node nodes)) \<and>
    sint (ns_Ready (ParseNodeSummary E p)) = int (length (filter (ready_node E) nodes)) \<and>
    sint (ns_Ready (ParseNodeSummary E p)) + sint (ns_Stale (ParseNodeSummary E p))
      \<le> sint (ns_Total (ParseNodeSummary E p))"
proof -
  have le: "length (filter stale_node nodes) \<le> length nodes"
      "length (filter (ready_node E) nodes) \<le> length nodes"
    by (rule length_filter_le)+
  have "ParseNodeSummary E p = \<lparr>ns_Ready = of_nat (length (filter (ready_node E) nodes)),
      ns_Stale = of_nat (length (filter stale_node nodes)), ns_Total = of_nat (length nodes)\<rparr>"
    using assms(1) by (simp add: ParseNodeSummary_def fold_count_node Let_def)
  then show ?thesis
    using assms(2) le stale_ready_le [of nodes E] by (simp add: sint_of_nat_small)
qed

lemma ParseNodeSummary_counts_example:
  "\<forall>E. sint (ns_Total (ParseNodeSummary E
     (Some [(''nodes'', GSlice [GMap [(''stale'', GBool True)], GNil])]))) = 2"
proof
  fix E
  show "sint (ns_Total (ParseNodeSummary E
     (Some [(''nodes'', GSlice [GMap [(''stale'', GBool True)], GNil])]))) = 2"
    using ParseNodeSummary_counts
      [of "Some [(''nodes'', GSlice [GMap [(''stale'', GBool True)], GNil])]"
         "[GMap [(''stale'', GBool True)], GNil]" E]
    by (simp add: payload_get_def)
qed

text \<open>
  A count that arrives as a decimal string is read exactly when it fits 32 bits; one that only
  fits 64 bits wraps around modulo 2^32.
\<close>

lemma i32_of_decimal:
  assumes "- (2 ^ 63) \<le> n" and "n < 2 ^ 63"
  shows "i32_of E (GStr (FormatInt n)) = word_of_int n \<and>
    (- (2 ^ 31) \<le> n \<longrightarrow> n < 2 ^ 31 \<longrightarrow> sint (i32_of E (GStr (FormatInt n))) = n)"
  using assms by (simp add: i32_of_def Atoi_FormatInt sint_word_of_int_i32)

lemma i32_of_decimal_example:
  "\<forall>E. sint (i32_of E (GStr (FormatInt 3))) = 3 \<and> sint (i32_of E (GStr (FormatInt 4294967295))) = - 1"
  using i32_of_decimal [of 3] i32_of_decimal [of 4294967295] by simp

end
