(* ===== verification/K1sClient.thy ===== *)
theory K1sClient
  imports K1sStatus
begin

text \<open>
  src/internal/k1s/client.go: the HTTP client of the k1s controller. A method returns what it
  decoded and the error that goes with it; the value it decodes into is threaded through the
  attempts, because \<open>json.Unmarshal\<close> fills the same map each time.
\<close>

section \<open>Building a client\<close>

definition leaderServiceFallbackAttempts :: nat where
  "leaderServiceFallbackAttempts = 12"

text \<open>\<open>200 * time.Millisecond\<close> and \<open>10 * time.Second\<close>, in nanoseconds.\<close>

definition leaderRetryBackoff :: i64 where
  "leaderRetryBackoff = 200000000"

record Client =
  cli_baseURL :: url
  cli_token :: string
  cli_http :: transport

record clientConfig =
  cc_token :: string
  cc_caBundle :: bytes
  cc_timeout :: i64

type_synonym Option = "clientConfig \<Rightarrow> clientConfig"

definition WithBearerToken :: "string \<Rightarrow> Option" where
  "WithBearerToken token = (\<lambda>c. c\<lparr>cc_token := TrimSpace token\<rparr>)"

definition WithCABundle :: "bytes \<Rightarrow> Option" where
  "WithCABundle bundle = (\<lambda>c. c\<lparr>cc_caBundle := bundle\<rparr>)"

definition WithTimeout :: "i64 \<Rightarrow> Option" where
  "WithTimeout t = (\<lambda>c. c\<lparr>cc_timeout := t\<rparr>)"

definition NewClient :: "env \<Rightarrow> string \<Rightarrow> Option list \<Rightarrow> go_error + Client" where
  "NewClient E rawBaseURL opts =
     (case url_Parse (TrimSpace rawBaseURL) of
        Inl e \<Rightarrow> Inl (TextErr e)
      | Inr base \<Rightarrow>
          if u_Scheme base = [] \<or> u_Host base = []
          then Inl (TextErr ''k1s base URL must include scheme and host'')
          else
            (let cfg = fold (\<lambda>opt c. opt c) opts
                   \<lparr>cc_token = [], cc_caBundle = [], cc_timeout = 10000000000\<rparr>;
                 client = (\<lambda>roots. \<lparr>cli_baseURL = base, cli_token = cc_token cfg,
                   cli_http = \<lparr>tr_RootCAs = roots, tr_Timeout = cc_timeout cfg\<rparr>\<rparr>)
             in if cc_caBundle cfg \<noteq> [] then
                  (if \<not> e_pemHasCerts E (cc_caBundle cfg) then Inl (TextErr ''invalid CA bundle'')
                   else Inr (client (Some (cc_caBundle cfg))))
                else Inr (client None)))"

section \<open>URLs of the endpoints\<close>

definition endpoint_url :: "url \<Rightarrow> string \<Rightarrow> url" where
  "endpoint_url base endpoint =
     (let basePath = TrimRight {CHR ''/''} (u_Path base);
          endpointPath = CHR ''/'' # TrimLeft {CHR ''/''} endpoint;
          joined = Join2 basePath endpointPath;
          next = base\<lparr>u_Path :=
            (if HasSuffix endpointPath ''/'' \<and> \<not> HasSuffix joined ''/'' then joined @ ''/''
             else joined)\<rparr>
      in if Contains endpoint (CHR ''?'') then
           (case Cut endpoint (CHR ''?'') of
              (p, q) \<Rightarrow> next\<lparr>u_Path := Join2 basePath (CHR ''/'' # TrimLeft {CHR ''/''} p),
                            u_RawQuery := (case q of None \<Rightarrow> [] | Some q \<Rightarrow> q)\<rparr>)
         else next)"

definition buildURL :: "url \<Rightarrow> string \<Rightarrow> string" where
  "buildURL base endpoint = url_String (endpoint_url base endpoint)"

definition client_url :: "Client \<Rightarrow> string \<Rightarrow> string" where
  "client_url c endpoint = buildURL (cli_baseURL c) endpoint"

section \<open>One request\<close>

definition strv :: "goany \<Rightarrow> string" where
  "strv v = (case v of GStr s \<Rightarrow> s | _ \<Rightarrow> [])"

text \<open>\<open>parseNotLeader\<close>: the address the follower advertises, when the answer is a follower's.\<close>

definition parseNotLeader :: "int \<Rightarrow> bytes \<Rightarrow> string option" where
  "parseNotLeader statusCode body =
     (if statusCode \<noteq> 409 then None
      else (case Unmarshal_map body None of
          (_, Some _) \<Rightarrow> None
        | (p, None) \<Rightarrow>
            if strv (payload_get p ''error'') \<noteq> ''not_leader'' then None
            else Some (strv (payload_get p ''advertise_addr''))))"

text \<open>\<open>io.LimitReader(resp.Body, 1<<20)\<close>\<close>

definition body_limit :: nat where
  "body_limit = 1048576"

definition request_for :: "Client \<Rightarrow> string \<Rightarrow> string \<Rightarrow> bytes option \<Rightarrow> http_request" where
  "request_for c method rawURL body =
     \<lparr>hq_Method = method, hq_URL = rawURL, hq_Body = body,
      hq_ContentType = (case body of None \<Rightarrow> None | Some _ \<Rightarrow> Some ''application/json''),
      hq_Authorization = (if cli_token c \<noteq> [] then Some (''Bearer '' @ cli_token c) else None),
      hq_Close = True, hq_Transport = cli_http c\<rparr>"

definition read_response ::
  "string \<Rightarrow> string \<Rightarrow> http_response \<Rightarrow> payload \<Rightarrow> payload \<times> go_error option" where
  "read_response method pth resp out =
     (let respBody = take body_limit (hr_Body resp); code = hr_StatusCode resp
      in if code < 200 \<or> code > 299 then
           (case parseNotLeader code respBody of
              Some addr \<Rightarrow> (out, Some (NotLeaderErr addr method pth (TrimSpace respBody)))
            | None \<Rightarrow> (out, Some (APIErr method pth code (TrimSpace respBody))))
         else if respBody = [] then (out, None)
         else (case Unmarshal_map respBody out of
             (out', None) \<Rightarrow> (out', None)
           | (out', Some e) \<Rightarrow> (out', Some (JSONErr ''map'' e respBody))))"

definition doJSONRequest ::
  "env \<Rightarrow> Client \<Rightarrow> string \<Rightarrow> string \<Rightarrow> bytes option \<Rightarrow> payload \<Rightarrow> (payload \<times> go_error option) io"
where
  "doJSONRequest E c method rawURL body out =
     (case url_Parse rawURL of
        Inl e \<Rightarrow> State_Monad.return (out, Some (TextErr e))
      | Inr u \<Rightarrow> do {
          answer \<leftarrow> http_Do E (request_for c method rawURL body);
          State_Monad.return
            (case answer of
               Inl msg \<Rightarrow> (out, Some (TextErr msg))
             | Inr resp \<Rightarrow> read_response method (u_Path u) resp out)
        })"

section \<open>Retrying at the leader\<close>

definition is_notLeaderError :: "go_error \<Rightarrow> bool" where
  "is_notLeaderError e = (case e of NotLeaderErr _ _ _ _ \<Rightarrow> True | _ \<Rightarrow> False)"

text \<open>The loop over the configured Service: it returns at once on success and when the context
  ends, and otherwise stops at the first error that is not a follower's, or after the last
  attempt, with the error it saw last.\<close>

datatype fallback = Returned "go_error option" | GaveUp go_error

fun service_fallback ::
  "env \<Rightarrow> Client \<Rightarrow> string \<Rightarrow> string \<Rightarrow> bytes option \<Rightarrow> nat \<Rightarrow> payload \<Rightarrow> go_error \<Rightarrow>
     (payload \<times> fallback) io"
where
  "service_fallback E c method originalURL body 0 out fallbackErr =
     State_Monad.return (out, GaveUp fallbackErr)"
| "service_fallback E c method originalURL body (Suc n) out fallbackErr = do {
     s \<leftarrow> sleep E leaderRetryBackoff;
     case s of
       Some msg \<Rightarrow> State_Monad.return (out, Returned (Some (TextErr msg)))
     | None \<Rightarrow> do {
         r \<leftarrow> doJSONRequest E c method originalURL body out;
         case snd r of
           None \<Rightarrow> State_Monad.return (fst r, Returned None)
         | Some e \<Rightarrow>
             if is_notLeaderError e then service_fallback E c method originalURL body n (fst r) e
             else State_Monad.return (fst r, GaveUp e)
       }
   }"

definition fallback_result ::
  "env \<Rightarrow> Client \<Rightarrow> (url \<times> go_error) option \<Rightarrow> payload \<times> fallback \<Rightarrow> payload \<times> go_error option"
where
  "fallback_result E c leader r =
     (fst r,
      case snd r of
        Returned e \<Rightarrow> e
      | GaveUp fallbackErr \<Rightarrow>
          let tried = ''k1s leader retry failed after '' @
                FormatInt (int leaderServiceFallbackAttempts) @ '' service fallbacks''
          in case leader of
               Some (leaderBase, leaderErr) \<Rightarrow>
                 Some (WrapErr (tried @ '': advertised '' @ Redacted leaderBase @ '': '') leaderErr
                   (''; service '' @ Redacted (cli_baseURL c) @ '': '' @ Error E fallbackErr))
             | None \<Rightarrow>
                 Some (WrapErr (tried @ '' against '' @ Redacted (cli_baseURL c) @ '': '')
                   fallbackErr []))"

definition retry_at_service ::
  "env \<Rightarrow> Client \<Rightarrow> string \<Rightarrow> string \<Rightarrow> bytes option \<Rightarrow> payload \<Rightarrow> go_error \<Rightarrow>
     (url \<times> go_error) option \<Rightarrow> (payload \<times> go_error option) io"
where
  "retry_at_service E c method originalURL body out err leader = do {
     r \<leftarrow> service_fallback E c method originalURL body leaderServiceFallbackAttempts out err;
     State_Monad.return (fallback_result E c leader r)
   }"

definition doJSONWithLeaderRetry ::
  "env \<Rightarrow> Client \<Rightarrow> string \<Rightarrow> string \<Rightarrow> bytes option \<Rightarrow> payload \<Rightarrow> (payload \<times> go_error option) io"
where
  "doJSONWithLeaderRetry E c method endpoint body out =
     (let originalURL = client_url c endpoint in do {
        first \<leftarrow> doJSONRequest E c method originalURL body out;
        case snd first of
          Some (NotLeaderErr addr m p b) \<Rightarrow>
            if addr \<noteq> [] then
              (case url_Parse addr of
                 Inl _ \<Rightarrow> State_Monad.return first
               | Inr leaderBase \<Rightarrow> do {
                   r \<leftarrow> doJSONRequest E c method (buildURL leaderBase endpoint) body (fst first);
                   case snd r of
                     None \<Rightarrow> State_Monad.return r
                   | Some leaderErr \<Rightarrow>
                       retry_at_service E c method originalURL body (fst r)
                         (NotLeaderErr addr m p b) (Some (leaderBase, leaderErr))
                 })
            else retry_at_service E c method originalURL body (fst first)
                   (NotLeaderErr addr m p b) None
        | _ \<Rightarrow> State_Monad.return first
      })"

definition getJSON :: "env \<Rightarrow> Client \<Rightarrow> string \<Rightarrow> payload \<Rightarrow> (payload \<times> go_error option) io" where
  "getJSON E c endpoint out = doJSONWithLeaderRetry E c ''GET'' endpoint None out"

text \<open>\<open>json.Marshal\<close> of the maps the client posts cannot fail.\<close>

definition payload_any :: "payload \<Rightarrow> goany" where
  "payload_any p = (case p of None \<Rightarrow> GNil | Some m \<Rightarrow> GMap m)"

definition postJSON ::
  "env \<Rightarrow> Client \<Rightarrow> string \<Rightarrow> payload \<Rightarrow> payload \<Rightarrow> (payload \<times> go_error option) io" where
  "postJSON E c endpoint payload out =
     doJSONWithLeaderRetry E c ''POST'' endpoint
       (Some (Marshal (e_formatFloat E) (payload_any payload))) out"

section \<open>The API\<close>

fun status_code_of :: "go_error \<Rightarrow> int option" where
  "status_code_of (APIErr _ _ code _) = Some code"
| "status_code_of (WrapErr _ e _) = status_code_of e"
| "status_code_of _ = None"

definition IsNotFound :: "go_error option \<Rightarrow> bool" where
  "IsNotFound err = (case err of None \<Rightarrow> False | Some e \<Rightarrow> status_code_of e = Some 404)"

definition Health :: "env \<Rightarrow> Client \<Rightarrow> go_error option io" where
  "Health E c = do {
     r \<leftarrow> getJSON E c ''/health'' None;
     case snd r of
       None \<Rightarrow> State_Monad.return None
     | Some _ \<Rightarrow> do {
         r2 \<leftarrow> getJSON E c ''/healthz'' (fst r);
         State_Monad.return (snd r2)
       }
   }"

definition Status :: "env \<Rightarrow> Client \<Rightarrow> (payload \<times> go_error option) io" where
  "Status E c = getJSON E c ''/status'' None"

definition app_ref :: "string \<Rightarrow> string \<Rightarrow> string" where
  "app_ref namespace name =
     (if namespace \<noteq> [] \<and> namespace \<noteq> ''default'' then namespace @ ''/'' @ name else name)"

definition app_status_endpoint :: "string \<Rightarrow> string" where
  "app_status_endpoint appRef = ''/status/'' @ PathEscape appRef @ ''?details=1''"

definition app_status_fallback_endpoint :: "string \<Rightarrow> string" where
  "app_status_fallback_endpoint appRef =
     ''/status/'' @ ReplaceAll appRef (CHR ''/'') ''--'' @ ''?details=1''"

definition empty_AppStatus :: AppStatus where
  "empty_AppStatus = \<lparr>as_AppName = [], as_Name = [], as_Namespace = [], as_Ready = False,
     as_DesiredReplicas = 0, as_ReadyReplicas = 0, as_LiveReplicas = 0, as_Revision = [],
     as_RevisionStatus = [], as_Image = [], as_IngressHost = [], as_IngressPath = [],
     as_Placements = []\<rparr>"

definition api_AppStatus ::
  "env \<Rightarrow> Client \<Rightarrow> string \<Rightarrow> string \<Rightarrow> (AppStatus \<times> go_error option) io" where
  "api_AppStatus E c namespace name =
     (let appRef = app_ref namespace name in do {
        r \<leftarrow> getJSON E c (app_status_endpoint appRef) None;
        r2 \<leftarrow> (if snd r \<noteq> None \<and> Contains appRef (CHR ''/'')
               then getJSON E c (app_status_fallback_endpoint appRef) (fst r)
               else State_Monad.return r);
        State_Monad.return
          (case snd r2 of
             Some e \<Rightarrow> (empty_AppStatus, Some e)
           | None \<Rightarrow> (ParseAppStatus E (fst r2), None))
      })"

definition Nodes :: "env \<Rightarrow> Client \<Rightarrow> (NodeSummary \<times> go_error option) io" where
  "Nodes E c = do {
     r \<leftarrow> getJSON E c ''/nodes'' None;
     State_Monad.return
       (case snd r of
          Some e \<Rightarrow> (\<lparr>ns_Ready = 0, ns_Stale = 0, ns_Total = 0\<rparr>, Some e)
        | None \<Rightarrow> (ParseNodeSummary E (fst r), None))
   }"

definition Apply :: "env \<Rightarrow> Client \<Rightarrow> bytes \<Rightarrow> (payload \<times> go_error option) io" where
  "Apply E c manifest =
     (case Unmarshal_map manifest None of
        (_, Some e) \<Rightarrow> State_Monad.return (None, Some (JSONErr ''map'' e manifest))
      | (p, None) \<Rightarrow> postJSON E c ''/apply'' p None)"

definition DeleteApp :: "env \<Rightarrow> Client \<Rightarrow> string \<Rightarrow> bool \<Rightarrow> (payload \<times> go_error option) io" where
  "DeleteApp E c app purge =
     postJSON E c (''/delete/'' @ PathEscape app @ (if purge then ''?purge=1'' else []))
       (Some []) None"

definition inference_endpoint :: "string \<Rightarrow> string \<Rightarrow> string \<Rightarrow> string" where
  "inference_endpoint collection namespace name =
     ''/inference/'' @ collection @ ''/'' @ PathEscape namespace @ ''/'' @ PathEscape name"

definition empty_InferenceStatus :: InferenceStatus where
  "empty_InferenceStatus = \<lparr>is_Kind = [], is_Name = [], is_Namespace = [], is_Phase = [],
     is_Status = [], is_Ready = False, is_APIEndpoint = [], is_ActiveExecutor = [],
     is_LastError = [], is_Desired = 0, is_Current = 0, is_ReadyCount = 0\<rparr>"

definition inferenceStatus ::
  "env \<Rightarrow> Client \<Rightarrow> string \<Rightarrow> string \<Rightarrow> string \<Rightarrow> (InferenceStatus \<times> go_error option) io" where
  "inferenceStatus E c collection namespace name = do {
     r \<leftarrow> getJSON E c (inference_endpoint collection namespace name) None;
     State_Monad.return
       (case snd r of
          Some e \<Rightarrow> (empty_InferenceStatus, Some e)
        | None \<Rightarrow> (ParseInferenceStatus E (fst r), None))
   }"

definition InferenceCellStatus ::
  "env \<Rightarrow> Client \<Rightarrow> string \<Rightarrow> string \<Rightarrow> (InferenceStatus \<times> go_error option) io" where
  "InferenceCellStatus E c namespace name = inferenceStatus E c ''cells'' namespace name"

definition InferenceCellSetStatus ::
  "env \<Rightarrow> Client \<Rightarrow> string \<Rightarrow> string \<Rightarrow> (InferenceStatus \<times> go_error option) io" where
  "InferenceCellSetStatus E c namespace name = inferenceStatus E c ''cellsets'' namespace name"

definition deleteInference ::
  "env \<Rightarrow> Client \<Rightarrow> string \<Rightarrow> string \<Rightarrow> string \<Rightarrow> (payload \<times> go_error option) io" where
  "deleteInference E c collection namespace name =
     postJSON E c (''/inference/delete/'' @ collection @ ''/'' @ PathEscape name @
       (if namespace \<noteq> [] then ''?namespace='' @ QueryEscape namespace else [])) (Some []) None"

definition DeleteInferenceCell ::
  "env \<Rightarrow> Client \<Rightarrow> string \<Rightarrow> string \<Rightarrow> (payload \<times> go_error option) io" where
  "DeleteInferenceCell E c namespace name = deleteInference E c ''cells'' namespace name"

definition DeleteInferenceCellSet ::
  "env \<Rightarrow> Client \<Rightarrow> string \<Rightarrow> string \<Rightarrow> (payload \<times> go_error option) io" where
  "DeleteInferenceCellSet E c namespace name = deleteInference E c ''cellsets'' namespace name"

end
