(* ===== verification/K1sRetry.thy ===== *)
theory K1sRetry
  imports K1sClient
begin

text \<open>
  What a call of the k1s client does to the outside world: which requests it can send, how many,
  and what it must have seen to report success or "not found". These are the specifications
  the reconcilers' proofs use; they hold whatever the controller answers.
\<close>

section \<open>Answers in the trace\<close>

fun answered :: "(int \<Rightarrow> bool) \<Rightarrow> event \<Rightarrow> bool" where
  "answered P (EHTTP _ (Inr resp)) = P (hr_StatusCode resp)"
| "answered P _ = False"

abbreviation success_code :: "int \<Rightarrow> bool" where
  "success_code code \<equiv> 200 \<le> code \<and> code \<le> 299"

text \<open>An exchange of one client call: a pause of the retry loop, or the call's own method and body
  sent with the client's credentials, transport and one-shot connection.\<close>

definition client_event :: "Client \<Rightarrow> string \<Rightarrow> bytes option \<Rightarrow> event \<Rightarrow> bool" where
  "client_event c method body e =
     (case e of
        EHTTP q _ \<Rightarrow> q = request_for c method (hq_URL q) body
      | ESleep d _ \<Rightarrow> d = leaderRetryBackoff
      | _ \<Rightarrow> False)"

text \<open>An error that carries a status code was caused by an answer with that code.\<close>

definition code_seen :: "event list \<Rightarrow> go_error \<Rightarrow> bool" where
  "code_seen new e \<longleftrightarrow> (\<forall>k. status_code_of e = Some k \<longrightarrow> (\<exists>x\<in>set new. answered ((=) k) x))"

definition success_seen :: "event list \<Rightarrow> bool" where
  "success_seen new \<longleftrightarrow> new \<noteq> [] \<and> answered success_code (last new)"

definition http_count :: "event list \<Rightarrow> nat" where
  "http_count new = length (filter is_http new)"

lemma http_count_simps [simp]:
  "http_count [] = 0"
  "http_count (e # es) = (if is_http e then 1 else 0) + http_count es"
  "http_count (xs @ ys) = http_count xs + http_count ys"
  by (simp_all add: http_count_def)

lemma client_event_simps [simp]:
  "client_event c m b (EHTTP q r) \<longleftrightarrow> q = request_for c m (hq_URL q) b"
  "client_event c m b (ESleep d s) \<longleftrightarrow> d = leaderRetryBackoff"
  by (simp_all add: client_event_def)

lemma request_for_fields [simp]:
  "hq_URL (request_for c m u b) = u"
  "hq_Method (request_for c m u b) = m"
  "hq_Body (request_for c m u b) = b"
  by (simp_all add: request_for_def)

lemma code_seen_append:
  "code_seen xs e \<Longrightarrow> code_seen (xs @ ys) e"
  "code_seen ys e \<Longrightarrow> code_seen (xs @ ys) e"
  by (auto simp: code_seen_def)

lemma code_seen_TextErr [simp]: "code_seen new (TextErr t)"
  by (simp add: code_seen_def)

lemma code_seen_NotLeader [simp]: "is_notLeaderError e \<Longrightarrow> code_seen new e"
  by (auto simp: code_seen_def is_notLeaderError_def split: go_error.splits)

lemma code_seen_WrapErr [simp]: "code_seen new (WrapErr p e q) = code_seen new e"
  by (simp add: code_seen_def)

lemma success_seen_append: "success_seen ys \<Longrightarrow> success_seen (xs @ ys)"
  by (auto simp: success_seen_def)

text \<open>An answer by which a node says it is not the leader, and where it says the leader is.\<close>

fun follower_answer :: "event \<Rightarrow> string option" where
  "follower_answer (EHTTP _ (Inr resp)) =
     parseNotLeader (hr_StatusCode resp) (take body_limit (hr_Body resp))"
| "follower_answer _ = None"

definition https :: "event list \<Rightarrow> event list" where
  "https new = filter is_http new"

lemma https_simps [simp]:
  "https [] = []"
  "https (e # es) = (if is_http e then e # https es else https es)"
  "https (xs @ ys) = https xs @ https ys"
  by (simp_all add: https_def)

lemma http_count_https: "http_count new = length (https new)"
  by (simp add: http_count_def https_def)

section \<open>One request\<close>

definition attempt_ok ::
  "Client \<Rightarrow> string \<Rightarrow> string \<Rightarrow> bytes option \<Rightarrow> event list \<Rightarrow> payload \<times> go_error option \<Rightarrow> bool" where
  "attempt_ok c m u b new r \<longleftrightarrow>
     (case snd r of
        None \<Rightarrow> \<exists>a. new = [EHTTP (request_for c m u b) a] \<and> success_seen new
      | Some e \<Rightarrow> new = [] \<and> \<not> is_notLeaderError e \<and> status_code_of e = None \<or>
          (\<exists>a. new = [EHTTP (request_for c m u b) a] \<and> code_seen new e \<and>
             (\<forall>addr m' p b'. e = NotLeaderErr addr m' p b' \<longrightarrow>
                follower_answer (hd new) = Some addr)))"

lemma parseNotLeader_409: "parseNotLeader code body = Some addr \<Longrightarrow> code = 409"
  by (simp add: parseNotLeader_def split: if_splits)

lemma read_response_cases:
  "snd (read_response m p resp out) = None \<and> success_code (hr_StatusCode resp) \<or>
   (\<exists>e. snd (read_response m p resp out) = Some e \<and>
      (status_code_of e = None \<or> status_code_of e = Some (hr_StatusCode resp)) \<and>
      (\<forall>addr m' p' b'. e = NotLeaderErr addr m' p' b' \<longrightarrow>
         parseNotLeader (hr_StatusCode resp) (take body_limit (hr_Body resp)) = Some addr))"
  by (auto simp: read_response_def Let_def split: option.splits prod.splits if_splits)

lemma doJSONRequest_spec:
  "behaves (doJSONRequest E c m u b out) (attempt_ok c m u b)"
proof (cases "url_Parse u")
  case (Inl e)
  then show ?thesis
    by (auto simp: doJSONRequest_def attempt_ok_def is_notLeaderError_def intro!: behaves_return)
next
  case (Inr v)
  have "attempt_ok c m u b [EHTTP (request_for c m u b) a]
      (case a of Inl msg \<Rightarrow> (out, Some (TextErr msg))
       | Inr resp \<Rightarrow> read_response m (u_Path v) resp out)" for a
  proof (cases a)
    case (Inl msg)
    then show ?thesis by (simp add: attempt_ok_def)
  next
    case a: (Inr resp)
    show ?thesis
      using read_response_cases [of m "u_Path v" resp out]
      by (auto simp: a attempt_ok_def success_seen_def code_seen_def)
  qed
  with Inr show ?thesis
    by (auto simp: doJSONRequest_def intro!: exchange_steps behaves_return)
qed

lemma attempt_ok_events:
  assumes "attempt_ok c m u b new r"
  shows "\<forall>e\<in>set new. client_event c m b e" and "length (https new) \<le> 1" and "length new \<le> 1"
    and "\<forall>q a. EHTTP q a \<in> set new \<longrightarrow> hq_URL q = u" and "https new = new"
    and "butlast new = []"
  using assms by (auto simp: attempt_ok_def split: option.splits)

lemma attempt_ok_outcome:
  assumes "attempt_ok c m u b new r"
  shows "snd r = None \<Longrightarrow> success_seen new"
    and "snd r = Some e \<Longrightarrow> code_seen new e"
    and "snd r = Some (NotLeaderErr addr m' p b') \<Longrightarrow>
      \<exists>q a. new = [EHTTP q a] \<and> hq_URL q = u \<and> follower_answer (EHTTP q a) = Some addr"
  using assms by (auto simp: attempt_ok_def code_seen_def is_notLeaderError_def split: option.splits)

section \<open>The loop over the Service\<close>

definition loop_ok ::
  "Client \<Rightarrow> string \<Rightarrow> string \<Rightarrow> bytes option \<Rightarrow> nat \<Rightarrow> go_error \<Rightarrow> event list \<Rightarrow> payload \<times> fallback \<Rightarrow> bool"
where
  "loop_ok c m u b n err new r \<longleftrightarrow>
     (\<forall>e\<in>set new. client_event c m b e) \<and>
     (\<forall>q a. EHTTP q a \<in> set new \<longrightarrow> hq_URL q = u) \<and>
     length (https new) \<le> n \<and> length new \<le> 2 * n \<and>
     (\<forall>e\<in>set (butlast (https new)). follower_answer e \<noteq> None) \<and>
     (case snd r of
        Returned None \<Rightarrow> success_seen new
      | Returned (Some e) \<Rightarrow> \<exists>t. e = TextErr t
      | GaveUp e \<Rightarrow> e = err \<or> code_seen new e)"

lemma loop_ok_step:
  assumes "attempt_ok c m u b n2 r" and "snd r = Some e" and "is_notLeaderError e"
    and "loop_ok c m u b n e n3 r'"
  shows "loop_ok c m u b (Suc n) err (ESleep leaderRetryBackoff s # n2 @ n3) r'"
proof -
  obtain addr m' p b' where "e = NotLeaderErr addr m' p b'"
    using assms(3) by (auto simp: is_notLeaderError_def split: go_error.splits)
  then obtain q a where n2: "n2 = [EHTTP q a]" and q: "hq_URL q = u"
    and f: "follower_answer (EHTTP q a) = Some addr"
    using attempt_ok_outcome(3) [OF assms(1)] assms(2) by blast
  note ev = attempt_ok_events [OF assms(1)]
  have "code_seen n3 x \<Longrightarrow> code_seen (ESleep leaderRetryBackoff s # n2 @ n3) x" for x
    using code_seen_append(2) [of n3 x "ESleep leaderRetryBackoff s # n2"] by simp
  moreover have "success_seen n3 \<Longrightarrow> success_seen (ESleep leaderRetryBackoff s # n2 @ n3)"
    using success_seen_append [of n3 "ESleep leaderRetryBackoff s # n2"] by simp
  ultimately show ?thesis
    using assms(3,4) ev q f unfolding n2
    by (auto simp: loop_ok_def split: fallback.splits option.splits)
qed

lemma service_fallback_spec:
  "behaves (service_fallback E c m u b n out err) (loop_ok c m u b n err)"
proof (induction n arbitrary: out err)
  case 0
  show ?case by (auto simp: loop_ok_def intro: behaves_return)
next
  case (Suc n)
  have step: "behaves (do {
         r \<leftarrow> doJSONRequest E c m u b out;
         case snd r of
           None \<Rightarrow> State_Monad.return (fst r, Returned None)
         | Some e \<Rightarrow>
             if is_notLeaderError e then service_fallback E c m u b n (fst r) e
             else State_Monad.return (fst r, GaveUp e) })
      (\<lambda>new. loop_ok c m u b (Suc n) err (ESleep leaderRetryBackoff s # new))" for s
  proof (rule behaves_bind [OF doJSONRequest_spec], rule behaves_case_option, goal_cases)
    case (1 n1 r)
    then have "success_seen (ESleep leaderRetryBackoff s # n1)"
      using success_seen_append [of n1 "[ESleep leaderRetryBackoff s]"] attempt_ok_outcome(1)
      by fastforce
    then show ?case
      using attempt_ok_events [OF 1(1)]
        by (auto simp: loop_ok_def intro!: behaves_return dest: in_set_butlastD)
  next
    case (2 n1 r e)
    show ?case
    proof (rule behaves_if, goal_cases)
      case 1
      show ?case
        by (rule behaves_mono [OF Suc.IH]) (simp add: loop_ok_step [OF 2 1])
    next
      case nl: 2
      have "code_seen (ESleep leaderRetryBackoff s # n1) e"
        using attempt_ok_outcome(2) [OF 2] code_seen_append(2) [of n1 e "[ESleep leaderRetryBackoff s]"]
        by simp
      then show ?case
        using attempt_ok_events [OF 2(1)]
          by (auto simp: loop_ok_def intro!: behaves_return)
    qed
  qed
  show ?case
    unfolding service_fallback.simps
  proof (rule behaves_bind [OF sleep_spec], rule behaves_case_option, goal_cases)
    case (1 n1 a)
    then show ?case by (auto intro: behaves_mono [OF step])
  next
    case (2 n1 a msg)
    then show ?case by (auto simp: loop_ok_def intro: behaves_return)
  qed
qed

section \<open>One call\<close>

text \<open>Where a call may send its requests: to the configured base URL, or to the address a follower
  there advertised.\<close>

definition leader_of :: "Client \<Rightarrow> string \<Rightarrow> event list \<Rightarrow> string \<Rightarrow> bool" where
  "leader_of c endpoint new u \<longleftrightarrow>
     (\<exists>x\<in>set new. \<exists>addr base. x = hd (https new) \<and> follower_answer x = Some addr \<and> addr \<noteq> [] \<and>
        url_Parse addr = Inr base \<and> u = buildURL base endpoint)"

definition call_ok ::
  "Client \<Rightarrow> string \<Rightarrow> string \<Rightarrow> bytes option \<Rightarrow> event list \<Rightarrow> payload \<times> go_error option \<Rightarrow> bool" where
  "call_ok c m endpoint b new r \<longleftrightarrow>
     (\<forall>e\<in>set new. client_event c m b e) \<and>
     (\<forall>q a. EHTTP q a \<in> set new \<longrightarrow>
        hq_URL q = client_url c endpoint \<or> leader_of c endpoint new (hq_URL q)) \<and>
     length (https new) \<le> 14 \<and> length new \<le> 26 \<and>
     (2 \<le> length (https new) \<longrightarrow> follower_answer (hd (https new)) \<noteq> None) \<and>
     (\<forall>e\<in>set (butlast (drop 2 (https new))). follower_answer e \<noteq> None) \<and>
     (case snd r of None \<Rightarrow> success_seen new | Some e \<Rightarrow> code_seen new e)"

lemma code_seen_fallback:
  assumes "loop_ok c m u b n err new r" and "code_seen before err"
    and "\<And>base e. leader = Some (base, e) \<Longrightarrow> code_seen before e"
  shows "case snd (fallback_result E c leader r) of
      None \<Rightarrow> success_seen (before @ new) | Some e \<Rightarrow> code_seen (before @ new) e"
  using assms code_seen_append(1) [of before] code_seen_append(2) [of new _ before]
    success_seen_append
  by (auto simp: loop_ok_def fallback_result_def Let_def split: fallback.splits option.splits)

lemma call_ok_fallback:
  assumes r1: "attempt_ok c m (client_url c endpoint) b n1 r"
    and e1: "snd r = Some e" "e = NotLeaderErr addr m' p b'"
    and n2: "\<forall>x\<in>set n2. client_event c m b x" "https n2 = n2" "length n2 \<le> 1"
      "\<forall>q a. EHTTP q a \<in> set n2 \<longrightarrow> addr \<noteq> [] \<and>
         (\<exists>base. url_Parse addr = Inr base \<and> hq_URL q = buildURL base endpoint)"
    and leader: "\<And>base x. leader = Some (base, x) \<Longrightarrow> code_seen n2 x"
    and loop: "loop_ok c m (client_url c endpoint) b leaderServiceFallbackAttempts e n3 r3"
  shows "call_ok c m endpoint b (n1 @ n2 @ n3) (fallback_result E c leader r3)"
proof -
  obtain q a where 1: "n1 = [EHTTP q a]" "hq_URL q = client_url c endpoint"
    and f: "follower_answer (EHTTP q a) = Some addr"
    using attempt_ok_outcome(3) [OF r1] e1 by blast
  have outcome: "case snd (fallback_result E c leader r3) of
      None \<Rightarrow> success_seen (n1 @ n2 @ n3) | Some e \<Rightarrow> code_seen (n1 @ n2 @ n3) e"
    using code_seen_fallback [OF loop, of "n1 @ n2" leader E, unfolded append_assoc]
      attempt_ok_outcome(2) [OF r1 e1(1)] code_seen_append leader by auto
  have urls: "\<forall>q a. EHTTP q a \<in> set (n1 @ n2 @ n3) \<longrightarrow>
      hq_URL q = client_url c endpoint \<or> leader_of c endpoint (n1 @ n2 @ n3) (hq_URL q)"
    using n2(4) loop 1 f by (fastforce simp: leader_of_def loop_ok_def)
  have loop_butlast: "\<forall>x\<in>set (butlast (drop 2 (https (n1 @ n2 @ n3)))). follower_answer x \<noteq> None"
  proof (cases n2)
    case Nil
    have "set (butlast (drop 1 (https n3))) \<subseteq> set (butlast (https n3))"
      by (metis butlast_drop set_drop_subset)
    with Nil 1 loop show ?thesis by (auto simp: loop_ok_def)
  next
    case (Cons x xs)
    then have "drop 2 (https (n1 @ n2 @ n3)) = https n3"
      using n2(2,3) 1 by (auto split: if_splits)
    with loop show ?thesis by (simp add: loop_ok_def)
  qed
  show ?thesis
    unfolding call_ok_def
    using attempt_ok_events [OF r1] n2 loop outcome urls loop_butlast f 1
    by (auto simp: loop_ok_def leaderServiceFallbackAttempts_def)
qed

lemma call_ok_first:
  assumes "attempt_ok c m (client_url c endpoint) b n1 r"
  shows "call_ok c m endpoint b n1 r"
  using attempt_ok_events [OF assms] attempt_ok_outcome [OF assms]
  by (auto simp: call_ok_def split: option.splits)

lemma call_ok_leader:
  assumes r1: "attempt_ok c m (client_url c endpoint) b n1 r"
    and e1: "snd r = Some (NotLeaderErr addr m' p b')" "addr \<noteq> []" "url_Parse addr = Inr base"
    and r2: "attempt_ok c m (buildURL base endpoint) b n2 r2" "snd r2 = None"
  shows "call_ok c m endpoint b (n1 @ n2) r2"
proof -
  obtain q a where 1: "n1 = [EHTTP q a]" "hq_URL q = client_url c endpoint"
    and f: "follower_answer (EHTTP q a) = Some addr"
    using attempt_ok_outcome(3) [OF r1] e1 by blast
  have "\<forall>q a. EHTTP q a \<in> set (n1 @ n2) \<longrightarrow>
      hq_URL q = client_url c endpoint \<or> leader_of c endpoint (n1 @ n2) (hq_URL q)"
    using attempt_ok_events(4) [OF r2(1)] 1 f e1 by (fastforce simp: leader_of_def)
  moreover have "success_seen (n1 @ n2)"
    using attempt_ok_outcome(1) [OF r2] by (rule success_seen_append)
  moreover have "drop 2 (https (n1 @ n2)) = []"
    using attempt_ok_events(2) [OF r2(1)] 1 by simp
  ultimately show ?thesis
    unfolding call_ok_def
    using attempt_ok_events [OF r1] attempt_ok_events [OF r2(1)] r2(2) f 1(1) by auto
qed

lemma doJSONWithLeaderRetry_spec:
  "behaves (doJSONWithLeaderRetry E c m endpoint b out) (call_ok c m endpoint b)"
  unfolding doJSONWithLeaderRetry_def Let_def
proof (rule behaves_bind [OF doJSONRequest_spec], goal_cases)
  case (1 n1 r)
  note first = call_ok_first [OF 1]
  have loop: "behaves (retry_at_service E c m (client_url c endpoint) b o' err leader)
        (\<lambda>n. call_ok c m endpoint b (n1 @ n2 @ n))"
    if "\<And>n3 r3. loop_ok c m (client_url c endpoint) b leaderServiceFallbackAttempts err n3 r3 \<Longrightarrow>
          call_ok c m endpoint b (n1 @ n2 @ n3) (fallback_result E c leader r3)"
    for o' err and leader :: "(url \<times> go_error) option" and n2
    unfolding retry_at_service_def
    by (rule behaves_bind [OF service_fallback_spec], rule behaves_return) (simp add: that)
  show ?case
  proof (cases "\<exists>addr m' p b'. snd r = Some (NotLeaderErr addr m' p b')")
    case False
    with first show ?thesis by (auto intro!: behaves_return split: option.splits go_error.splits)
  next
    case True
    then obtain addr m' p b' where e: "snd r = Some (NotLeaderErr addr m' p b')" by blast
    note fb = call_ok_fallback [OF 1 e refl]
    show ?thesis
    proof (cases "addr = []")
      case True
      have "behaves (retry_at_service E c m (client_url c endpoint) b (fst r)
            (NotLeaderErr addr m' p b') None) (\<lambda>n. call_ok c m endpoint b (n1 @ [] @ n))"
        by (intro loop fb) auto
      with e True show ?thesis by simp
    next
      case addr: False
      show ?thesis
      proof (cases "url_Parse addr")
        case (Inl x)
        with e addr first show ?thesis by (auto intro!: behaves_return)
      next
        case (Inr base)
        have "behaves (case snd r2 of None \<Rightarrow> State_Monad.return r2
              | Some leaderErr \<Rightarrow> retry_at_service E c m (client_url c endpoint) b (fst r2)
                  (NotLeaderErr addr m' p b') (Some (base, leaderErr)))
            (\<lambda>n. call_ok c m endpoint b (n1 @ n2 @ n))"
          if r2: "attempt_ok c m (buildURL base endpoint) b n2 r2" for n2 r2
        proof (rule behaves_case_option)
          assume "snd r2 = None"
          then show "behaves (State_Monad.return r2) (\<lambda>n. call_ok c m endpoint b (n1 @ n2 @ n))"
            using call_ok_leader [OF 1 e addr Inr r2] by (auto intro: behaves_return)
        next
          fix leaderErr
          assume "snd r2 = Some leaderErr"
          then show "behaves (retry_at_service E c m (client_url c endpoint) b (fst r2)
                  (NotLeaderErr addr m' p b') (Some (base, leaderErr)))
              (\<lambda>n. call_ok c m endpoint b (n1 @ n2 @ n))"
            using attempt_ok_events [OF r2] attempt_ok_outcome(2) [OF r2] addr Inr
            by (intro loop fb) auto
        qed
        then show ?thesis
          using e addr Inr by (auto intro!: behaves_bind [OF doJSONRequest_spec])
      qed
    qed
  qed
qed

section \<open>The API's calls\<close>

text \<open>A contract all the calls share, whatever they decode: the traffic is the client's own, and
  success or a status code is reported only when an answer said so.\<close>

definition client_traffic :: "Client \<Rightarrow> event \<Rightarrow> bool" where
  "client_traffic c e =
     (case e of
        EHTTP q _ \<Rightarrow> q = request_for c (hq_Method q) (hq_URL q) (hq_Body q)
      | ESleep d _ \<Rightarrow> d = leaderRetryBackoff
      | _ \<Rightarrow> False)"

lemma client_event_traffic: "client_event c m b e \<Longrightarrow> client_traffic c e"
  by (cases e) (simp_all add: client_traffic_def client_event_def, metis request_for_fields)

definition outcome_seen :: "event list \<Rightarrow> go_error option \<Rightarrow> bool" where
  "outcome_seen new err = (case err of None \<Rightarrow> success_seen new | Some e \<Rightarrow> code_seen new e)"

lemma call_ok_traffic:
  "call_ok c m ep b new r \<Longrightarrow> (\<forall>e\<in>set new. client_traffic c e) \<and> outcome_seen new (snd r)"
  by (auto simp: call_ok_def outcome_seen_def dest: client_event_traffic)

lemma outcome_seen_append: "outcome_seen ys err \<Longrightarrow> outcome_seen (xs @ ys) err"
  by (auto simp: outcome_seen_def dest: success_seen_append code_seen_append(2) split: option.splits)

locale api_call =
  fixes c :: Client and call :: "('a \<times> go_error option) io"
  assumes contract: "behaves call (\<lambda>new r. (\<forall>e\<in>set new. client_traffic c e) \<and> outcome_seen new (snd r))"
begin

lemma traffic: "emits (client_traffic c) call"
  by (rule emitsI [OF contract]) simp

lemma no_kube_write: "emits (\<lambda>e. \<not> is_kube_write e) call"
  by (rule emits_mono [OF traffic]) (auto simp: client_traffic_def split: event.splits)

lemma success: "behaves call (\<lambda>new r. snd r = None \<longrightarrow> success_seen new)"
  by (rule behaves_mono [OF contract]) (auto simp: outcome_seen_def)

lemma not_found: "behaves call (\<lambda>new r. IsNotFound (snd r) \<longrightarrow> (\<exists>x\<in>set new. answered ((=) 404) x))"
  by (rule behaves_mono [OF contract])
    (auto simp: outcome_seen_def IsNotFound_def code_seen_def split: option.splits)

text \<open>What a wrapper of the call returns, and a second call after it, keep the contract.\<close>

lemma contract_map:
  "(\<And>r. snd (f r) = snd r) \<Longrightarrow>
   behaves (do { r \<leftarrow> call; State_Monad.return (f r) })
     (\<lambda>new r. (\<forall>e\<in>set new. client_traffic c e) \<and> outcome_seen new (snd r))"
  by (rule behaves_bind [OF contract], rule behaves_return) simp

end

lemma api_call_doJSON: "api_call c (doJSONWithLeaderRetry E c m ep b out)"
  by (rule api_call.intro, rule behaves_mono [OF doJSONWithLeaderRetry_spec])
    (rule call_ok_traffic)

interpretation get: api_call c "getJSON E c ep out" for E c ep out
  unfolding getJSON_def by (rule api_call_doJSON)

interpretation post: api_call c "postJSON E c ep p out" for E c ep p out
  unfolding postJSON_def by (rule api_call_doJSON)

interpretation status: api_call c "Status E c" for E c
  unfolding Status_def by (rule get.api_call_axioms)

lemma api_AppStatus_contract: "api_call c (api_AppStatus E c ns name)"
  unfolding api_AppStatus_def Let_def
proof (rule api_call.intro, rule behaves_bind [OF get.contract], goal_cases)
  case (1 n1 r)
  have second: "behaves (if snd r \<noteq> None \<and> Contains (app_ref ns name) (CHR ''/'')
        then getJSON E c (app_status_fallback_endpoint (app_ref ns name)) (fst r)
        else State_Monad.return r)
      (\<lambda>new r. (\<forall>e\<in>set (n1 @ new). client_traffic c e) \<and> outcome_seen (n1 @ new) (snd r))"
    using 1 by (auto intro!: behaves_if behaves_return behaves_mono [OF get.contract]
        intro: outcome_seen_append)
  show ?case
    by (rule behaves_bind [OF second]) (auto intro!: behaves_return split: option.splits)
qed

interpretation app_status: api_call c "api_AppStatus E c ns name" for E c ns name
  by (rule api_AppStatus_contract)

interpretation nodes: api_call c "Nodes E c" for E c
  unfolding Nodes_def by (rule api_call.intro, rule get.contract_map) (auto split: option.splits)

interpretation delete_app: api_call c "DeleteApp E c app purge" for E c app purge
  unfolding DeleteApp_def by (rule post.api_call_axioms)

interpretation inference_status: api_call c "inferenceStatus E c coll ns name" for E c coll ns name
  unfolding inferenceStatus_def
  by (rule api_call.intro, rule get.contract_map) (auto split: option.splits)

interpretation delete_inference: api_call c "deleteInference E c coll ns name" for E c coll ns name
  unfolding deleteInference_def by (rule post.api_call_axioms)

lemma code_seen_JSONErr [simp]: "code_seen new (JSONErr t e raw)"
  by (simp add: code_seen_def)

lemma Apply_contract: "api_call c (Apply E c manifest)"
  unfolding Apply_def
  by (rule api_call.intro)
    (auto simp: outcome_seen_def split: prod.splits option.splits
      intro!: behaves_return behaves_mono [OF post.contract])

interpretation apply_manifest: api_call c "Apply E c manifest" for E c manifest
  by (rule Apply_contract)

end
