(* ===== verification/K1sCalls.thy ===== *)
theory K1sCalls
  imports K1sRetry Reference
begin

text \<open>
  The properties of one call of the k1s client: how many requests it sends and where, what it must
  have seen to report success or "not found", when it sends a request again, and that it gets
  through when the cluster elects a leader while it retries.
\<close>

section \<open>Safety of a call\<close>

text \<open>
  C33: a call is bounded: at most 14 requests (one, one to an advertised leader, twelve to the
  Service) and 26 exchanges with its pauses, whatever the controller answers.
\<close>

theorem doJSONWithLeaderRetry_bounded:
  "behaves (doJSONWithLeaderRetry E c m endpoint b out)
     (\<lambda>new _. length (https new) \<le> 14 \<and> length new \<le> 26)"
  by (rule behaves_mono [OF doJSONWithLeaderRetry_spec]) (simp add: call_ok_def)

text \<open>
  C34: a call reports success only when the last exchange is an answer with a 2xx status, and an
  error that carries a status code (what \<open>IsNotFound\<close> looks for, through any wrapping) only when
  an answer of this call had that code.
\<close>

theorem doJSONWithLeaderRetry_outcome:
  "behaves (doJSONWithLeaderRetry E c m endpoint b out)
     (\<lambda>new r. case snd r of
        None \<Rightarrow> new \<noteq> [] \<and> answered success_code (last new)
      | Some e \<Rightarrow> (case status_code_of e of
            None \<Rightarrow> True
          | Some k \<Rightarrow> list_ex (answered (\<lambda>code. code = k)) new))"
  by (rule behaves_mono [OF doJSONWithLeaderRetry_spec])
    (auto simp: call_ok_def success_seen_def code_seen_def list_ex_iff eq_commute
      split: option.splits)

text \<open>
  C35: the bearer token, the method, the body and the TLS roots of a call's requests are always the
  client's own, and a request goes to the configured URL or to the URL of the leader that the
  answer to the first request advertised, nowhere else.
\<close>

theorem doJSONWithLeaderRetry_targets:
  assumes "run_state (doJSONWithLeaderRetry E c m endpoint b out) h = (r, h @ new)"
    and "EHTTP q a \<in> set new"
  shows "q = request_for c m (hq_URL q) b \<and>
    (hq_URL q = client_url c endpoint \<or>
     (\<exists>addr base. follower_answer (hd (https new)) = Some addr \<and> addr \<noteq> [] \<and>
        url_Parse addr = Inr base \<and> hq_URL q = buildURL base endpoint))"
proof -
  have "call_ok c m endpoint b new r"
    using behaves_run [OF doJSONWithLeaderRetry_spec assms(1)] .
  with assms(2) show ?thesis
    by (fastforce simp: call_ok_def leader_of_def)
qed

text \<open>
  A request is repeated only to look for the leader: when a call sends a second request the
  first was answered by a follower, and so was every later one but the last, except the one sent
  to the advertised leader. In particular a POST is not sent again after a transport error, a
  5xx or an unreadable answer of the Service.
\<close>

lemma doJSONWithLeaderRetry_resends:
  "behaves (doJSONWithLeaderRetry E c m endpoint b out)
     (\<lambda>new _. (case https new of
          first # _ # _ \<Rightarrow> \<exists>addr. follower_answer first = Some addr
        | _ \<Rightarrow> True) \<and>
        list_all (\<lambda>x. \<exists>addr. follower_answer x = Some addr) (butlast (drop 2 (https new))))"
  by (rule behaves_mono [OF doJSONWithLeaderRetry_spec])
    (auto simp: call_ok_def list_all_iff split: list.splits)

section \<open>Getting through\<close>

definition good_answer :: "http_response \<Rightarrow> bool" where
  "good_answer resp \<longleftrightarrow> success_code (hr_StatusCode resp) \<and>
     (take body_limit (hr_Body resp) = [] \<or>
      (\<forall>out. snd (Unmarshal_map (take body_limit (hr_Body resp)) out) = None))"

definition follower_without_address :: "http_response \<Rightarrow> bool" where
  "follower_without_address resp \<longleftrightarrow>
     parseNotLeader (hr_StatusCode resp) (take body_limit (hr_Body resp)) = Some []"

lemma read_response_good:
  "good_answer resp \<Longrightarrow> snd (read_response m p resp out) = None"
  by (auto simp: good_answer_def read_response_def Let_def split: prod.splits option.splits)
    (metis option.distinct(1) snd_conv)+

lemma read_response_follower:
  assumes "parseNotLeader (hr_StatusCode resp) (take body_limit (hr_Body resp)) = Some addr"
  shows "\<exists>b. read_response m p resp out = (out, Some (NotLeaderErr addr m p b))"
  using assms parseNotLeader_409 [OF assms] by (auto simp: read_response_def Let_def)

lemma run_doJSONRequest:
  assumes "url_Parse u = Inr v"
  shows "run_state (doJSONRequest E c m u b out) h =
    ((case e_http E h (request_for c m u b) of
        Inl msg \<Rightarrow> (out, Some (TextErr msg))
      | Inr resp \<Rightarrow> read_response m (u_Path v) resp out),
     h @ [EHTTP (request_for c m u b) (e_http E h (request_for c m u b))])"
  using assms by (simp add: doJSONRequest_def http_Do_def)

text \<open>A cluster whose followers answer the first \<open>k\<close> requests after \<open>h\<close>, and its leader the rest.\<close>

definition recovers_after ::
  "env \<Rightarrow> history \<Rightarrow> nat \<Rightarrow> http_response \<Rightarrow> http_response \<Rightarrow> bool" where
  "recovers_after E h k follower leader \<longleftrightarrow>
     (\<forall>new q. e_http E (h @ new) q =
        Inr (if length (https new) < k then follower else leader)) \<and>
     (\<forall>new. e_sleep E (h @ new) leaderRetryBackoff = None)"

lemma service_fallback_recovers:
  assumes "recovers_after E h k follower leader"
    and "follower_without_address follower" and "good_answer leader"
    and url: "url_Parse u = Inr v"
  shows "length (https pre) + d = k \<Longrightarrow> d < n \<Longrightarrow>
    \<exists>out' new. run_state (service_fallback E c m u b n out err) (h @ pre) =
        ((out', Returned None), h @ pre @ new) \<and> length (https new) = Suc d"
proof (induction d arbitrary: pre n out err)
  case 0
  then obtain n' where n: "n = Suc n'" by (cases n) auto
  have sl: "e_sleep E (h @ pre) leaderRetryBackoff = None"
    using assms(1) by (simp add: recovers_after_def)
  have ht: "e_http E (h @ pre @ [ESleep leaderRetryBackoff None]) (request_for c m u b) = Inr leader"
    using assms(1) 0 by (simp add: recovers_after_def)
  show ?case
    using read_response_good [OF assms(3), of m "u_Path v" out]
    by (simp add: n sleep_def sl ht run_doJSONRequest [OF url])
next
  case (Suc d)
  then obtain n' where n: "n = Suc n'" "d < n'" by (cases n) auto
  let ?req = "request_for c m u b"
  let ?mid = "pre @ [ESleep leaderRetryBackoff None]"
  have sl: "e_sleep E (h @ pre) leaderRetryBackoff = None"
    using assms(1) by (simp add: recovers_after_def)
  have ht: "e_http E (h @ ?mid) ?req = Inr follower"
    using assms(1) Suc.prems(1) by (simp add: recovers_after_def)
  obtain b' where rr: "read_response m (u_Path v) follower out =
      (out, Some (NotLeaderErr [] m (u_Path v) b'))"
    using read_response_follower assms(2) unfolding follower_without_address_def by metis
  obtain out' new where IH: "run_state (service_fallback E c m u b n' out
        (NotLeaderErr [] m (u_Path v) b')) (h @ ?mid @ [EHTTP ?req (Inr follower)]) =
      ((out', Returned None), h @ (?mid @ [EHTTP ?req (Inr follower)]) @ new)"
    "length (https new) = Suc d"
    using Suc.IH [of "?mid @ [EHTTP ?req (Inr follower)]" n' out "NotLeaderErr [] m (u_Path v) b'"]
      Suc.prems(1) n(2) by auto
  then show ?case
    by (intro exI [of _ out']
        exI [of _ "[ESleep leaderRetryBackoff None, EHTTP ?req (Inr follower)] @ new"])
      (use sl ht rr in \<open>simp add: n sleep_def run_doJSONRequest [OF url] is_notLeaderError_def\<close>)
qed

text \<open>
  C32: a call outlasts an election: when the first k requests, k at most 12, meet followers that
  know no leader and the leader answers from then on, the call succeeds, with k + 1 requests.
\<close>

theorem doJSONWithLeaderRetry_recovers:
  assumes "recovers_after E h k follower leader"
    and "follower_without_address follower" and "good_answer leader"
    and "url_Parse (client_url c endpoint) = Inr v" and "k \<le> 12"
  shows "\<exists>out' new. run_state (doJSONWithLeaderRetry E c m endpoint b out) h =
      ((out', None), h @ new) \<and> length (https new) = Suc k"
proof (cases k)
  case 0
  have "e_http E h (request_for c m (client_url c endpoint) b) = Inr leader"
    using assms(1) 0 by (auto simp: recovers_after_def dest!: spec [of _ "[]"])
  with read_response_good [OF assms(3), of m "u_Path v" out] show ?thesis
    using 0 by (cases "read_response m (u_Path v) leader out")
      (simp add: doJSONWithLeaderRetry_def Let_def run_doJSONRequest [OF assms(4)])
next
  case (Suc d)
  let ?req = "request_for c m (client_url c endpoint) b"
  have ht: "e_http E h ?req = Inr follower"
    using assms(1) Suc by (auto simp: recovers_after_def dest!: spec [of _ "[]"])
  obtain b' where rr: "read_response m (u_Path v) follower out =
      (out, Some (NotLeaderErr [] m (u_Path v) b'))"
    using read_response_follower assms(2) unfolding follower_without_address_def by metis
  obtain out' new where "run_state (service_fallback E c m (client_url c endpoint) b
        leaderServiceFallbackAttempts out (NotLeaderErr [] m (u_Path v) b'))
        (h @ [EHTTP ?req (Inr follower)]) =
      ((out', Returned None), h @ [EHTTP ?req (Inr follower)] @ new)" "length (https new) = Suc d"
    using service_fallback_recovers [OF assms(1-4), of "[EHTTP ?req (Inr follower)]" d
        leaderServiceFallbackAttempts c m b out "NotLeaderErr [] m (u_Path v) b'"]
      Suc assms(5) by (auto simp: leaderServiceFallbackAttempts_def)
  then show ?thesis
    using Suc rr ht
    by (simp add: doJSONWithLeaderRetry_def Let_def retry_at_service_def fallback_result_def
        run_doJSONRequest [OF assms(4)])
qed

text \<open>
  When the first answer names a leader that can be reached, the call is repeated there once
  and its answer is the result; the Service is not asked again.
\<close>

lemma doJSONWithLeaderRetry_follows_leader:
  assumes "url_Parse (client_url c endpoint) = Inr v"
    and "e_http E h (request_for c m (client_url c endpoint) b) = Inr follower"
    and "parseNotLeader (hr_StatusCode follower) (take body_limit (hr_Body follower)) = Some addr"
    and "addr \<noteq> []" and "url_Parse addr = Inr base"
    and "url_Parse (buildURL base endpoint) = Inr w"
    and "e_http E (h @ [EHTTP (request_for c m (client_url c endpoint) b) (Inr follower)])
          (request_for c m (buildURL base endpoint) b) = Inr leader"
    and "good_answer leader"
  shows "run_state (doJSONWithLeaderRetry E c m endpoint b out) h =
    (read_response m (u_Path w) leader out,
     h @ [EHTTP (request_for c m (client_url c endpoint) b) (Inr follower),
          EHTTP (request_for c m (buildURL base endpoint) b) (Inr leader)])"
proof -
  obtain b' where rr: "read_response m (u_Path v) follower out =
      (out, Some (NotLeaderErr addr m (u_Path v) b'))"
    using read_response_follower [OF assms(3)] by metis
  show ?thesis
    using assms rr read_response_good [OF assms(8), of m "u_Path w" out]
    by (simp add: doJSONWithLeaderRetry_def Let_def run_doJSONRequest)
qed

section \<open>Concrete calls\<close>

text \<open>A client of \<open>http://k1s:80\<close> and the answers of a node that knows no leader, of one that names
  \<open>http://l:80\<close>, and of the leader.\<close>

definition sample_client :: Client where
  "sample_client =
     \<lparr>cli_baseURL = \<lparr>u_Scheme = ''http'', u_Opaque = [], u_User = None, u_Host = ''k1s:80'',
        u_Path = [], u_RawPath = [], u_OmitHost = False, u_ForceQuery = False, u_RawQuery = [],
        u_Fragment = [], u_RawFragment = []\<rparr>,
      cli_token = ''t'', cli_http = \<lparr>tr_RootCAs = None, tr_Timeout = 10000000000\<rparr>\<rparr>"

definition json_string_field :: "string \<Rightarrow> string \<Rightarrow> string" where
  "json_string_field k v = CHR 0x22 # k @ [CHR 0x22, CHR '':'', CHR 0x22] @ v @ [CHR 0x22]"

definition sample_follower :: http_response where
  "sample_follower = \<lparr>hr_StatusCode = 409,
     hr_Body = ''{'' @ json_string_field ''error'' ''not_leader'' @ ''}''\<rparr>"

definition sample_redirect :: http_response where
  "sample_redirect = \<lparr>hr_StatusCode = 409,
     hr_Body = ''{'' @ json_string_field ''error'' ''not_leader'' @ '','' @
       json_string_field ''advertise_addr'' ''http://l:80'' @ ''}''\<rparr>"

definition sample_leader :: http_response where
  "sample_leader = \<lparr>hr_StatusCode = 200, hr_Body = []\<rparr>"

lemma take_body_limit: "length s \<le> 1000 \<Longrightarrow> take body_limit s = s"
  by (simp add: body_limit_def)

lemma sample_follower_answer: "follower_without_address sample_follower"
proof -
  have "take body_limit (hr_Body sample_follower) = hr_Body sample_follower"
    by (rule take_body_limit) (simp add: sample_follower_def json_string_field_def)
  moreover have "parseNotLeader (hr_StatusCode sample_follower) (hr_Body sample_follower) = Some []"
    by code_simp
  ultimately show ?thesis by (simp add: follower_without_address_def)
qed

lemma sample_redirect_answer:
  "parseNotLeader (hr_StatusCode sample_redirect) (take body_limit (hr_Body sample_redirect)) =
     Some ''http://l:80''"
proof -
  have "take body_limit (hr_Body sample_redirect) = hr_Body sample_redirect"
    by (rule take_body_limit) (simp add: sample_redirect_def json_string_field_def)
  moreover have "parseNotLeader (hr_StatusCode sample_redirect) (hr_Body sample_redirect) =
      Some ''http://l:80''"
    by code_simp
  ultimately show ?thesis by simp
qed

lemma sample_leader_answer: "good_answer sample_leader"
  by (simp add: good_answer_def sample_leader_def)

text \<open>The URLs, parsed.\<close>

definition sample_url :: "string \<Rightarrow> url" where
  "sample_url u = (case url_Parse u of Inr v \<Rightarrow> v | Inl _ \<Rightarrow> cli_baseURL sample_client)"

lemma sample_url_Parse:
  "client_url sample_client ''/status'' = ''http://k1s:80/status''"
  "url_Parse ''http://k1s:80/status'' = Inr (sample_url ''http://k1s:80/status'')"
  "url_Parse ''http://l:80'' = Inr (sample_url ''http://l:80'')"
  "buildURL (sample_url ''http://l:80'') ''/status'' = ''http://l:80/status''"
  "url_Parse ''http://l:80/status'' = Inr (sample_url ''http://l:80/status'')"
  by code_simp+

definition recovering_env :: "nat \<Rightarrow> http_response \<Rightarrow> env" where
  "recovering_env k follower = sample_env\<lparr>e_http := \<lambda>h _.
     Inr (if length (https h) < k then follower else sample_leader)\<rparr>"

lemma recovering_env_recovers: "recovers_after (recovering_env k f) [] k f sample_leader"
  by (simp add: recovers_after_def recovering_env_def)

theorem doJSONWithLeaderRetry_recovers_witness:
  "\<exists>out' new. run_state (doJSONWithLeaderRetry (recovering_env 12 sample_follower) sample_client
      ''GET'' ''/status'' None None) [] = ((out', None), new) \<and> length (https new) = 13"
  using doJSONWithLeaderRetry_recovers [OF recovering_env_recovers sample_follower_answer
      sample_leader_answer, of sample_client "''/status''" _ 12 "''GET''" None None]
    sample_url_Parse by simp

lemma doJSONWithLeaderRetry_follows_leader_example:
  "snd (result_of (doJSONWithLeaderRetry (recovering_env 1 sample_redirect) sample_client
      ''GET'' ''/status'' None None) []) = None"
  using doJSONWithLeaderRetry_follows_leader [of sample_client "''/status''" _
      "recovering_env 1 sample_redirect" "[]" "''GET''" None sample_redirect "''http://l:80''" _ _
      sample_leader None, unfolded sample_url_Parse, OF refl _ sample_redirect_answer _ refl _ _
      sample_leader_answer]
    sample_url_Parse read_response_good [OF sample_leader_answer]
  by (simp add: recovering_env_def)

lemma sample_redirect_run:
  "run_state (doJSONWithLeaderRetry (recovering_env 1 sample_redirect) sample_client
      ''GET'' ''/status'' None None) [] =
   ((None, None),
    [EHTTP (request_for sample_client ''GET'' ''http://k1s:80/status'' None) (Inr sample_redirect),
     EHTTP (request_for sample_client ''GET'' ''http://l:80/status'' None) (Inr sample_leader)])"
proof -
  let ?path = "u_Path (sample_url ''http://k1s:80/status'')"
  obtain b where "read_response ''GET'' ?path sample_redirect None =
      (None, Some (NotLeaderErr ''http://l:80'' ''GET'' ?path b))"
    using read_response_follower [OF sample_redirect_answer] by blast
  moreover have "read_response ''GET'' p sample_leader None = (None, None)" for p
    by (simp add: read_response_def sample_leader_def)
  ultimately show ?thesis
    using run_doJSONRequest [OF sample_url_Parse(2)] run_doJSONRequest [OF sample_url_Parse(5)]
    by (simp add: doJSONWithLeaderRetry_def Let_def sample_url_Parse recovering_env_def)
qed

text \<open>The second request of that run goes to the advertised leader, with the client's token.\<close>

theorem doJSONWithLeaderRetry_targets_witness:
  "\<exists>q. hq_URL q = ''http://l:80/status'' \<and> hq_Authorization q = Some ''Bearer t'' \<and>
     EHTTP q (Inr sample_leader) \<in>
       set (trace_of (doJSONWithLeaderRetry (recovering_env 1 sample_redirect) sample_client
         ''GET'' ''/status'' None None) [])"
proof -
  let ?q = "request_for sample_client ''GET'' ''http://l:80/status'' None"
  have "?q = request_for sample_client ''GET'' (hq_URL ?q) None"
    using doJSONWithLeaderRetry_targets [of "recovering_env 1 sample_redirect" sample_client "''GET''"
        "''/status''" None None "[]", simplified append_Nil, OF sample_redirect_run,
        of ?q "Inr sample_leader"] by simp
  then show ?thesis
    by (intro exI [of _ ?q])
      (simp only: sample_redirect_run, simp add: request_for_def sample_client_def)
qed

end
