(* ===== verification/Common.thy ===== *)
theory Common
  imports Auth Conditions Names K1sCalls
begin

text \<open>
  What the five reconcilers of src/internal/controller share: the result of a reconciliation, the
  poll interval and the messages (cluster_controller.go, exposure_controller.go), and the helpers on strings, counts and
  lists at the end of capability_controller.go.
\<close>

section \<open>Results\<close>

text \<open>\<open>ctrl.Result\<close>, with durations in nanoseconds, and the error returned with it.\<close>

record Result =
  res_Requeue :: bool
  res_RequeueAfter :: i64

definition no_result :: Result where
  "no_result = \<lparr>res_Requeue = False, res_RequeueAfter = 0\<rparr>"

definition requeue_after :: "i64 \<Rightarrow> Result" where
  "requeue_after d = no_result\<lparr>res_RequeueAfter := d\<rparr>"

type_synonym outcome = "Result \<times> go_error option"

text \<open>\<open>time.Duration(n) * time.Second\<close>\<close>

definition seconds :: "i32 \<Rightarrow> i64" where
  "seconds n = scast n * 1000000000"

definition pollInterval :: "i32 option \<Rightarrow> i64" where
  "pollInterval raw =
     (case raw of
        None \<Rightarrow> 30000000000
      | Some n \<Rightarrow> if sint n \<le> 0 then 30000000000 else seconds n)"

definition reasonForBool :: "bool \<Rightarrow> string" where
  "reasonForBool ok = (if ok then ReasonReady else ReasonUnavailable)"

definition proxyMessage :: "nat \<Rightarrow> string" where
  "proxyMessage count =
     (if count = 0 then ''proxy has no ready endpoints'' else ''proxy has ready endpoints'')"

definition readyMessage :: "bool \<Rightarrow> string" where
  "readyMessage ok = (if ok then ''resource is ready'' else ''resource is not ready'')"

definition clusterReadyMessage :: "bool \<Rightarrow> string" where
  "clusterReadyMessage ok = (if ok then ''cluster is ready'' else ''cluster is not ready'')"

definition appReadyMessage :: "bool \<Rightarrow> string" where
  "appReadyMessage ready = (if ready then ''k1s app is ready'' else ''k1s app is not ready'')"

section \<open>Helpers\<close>

definition strMap :: "payload \<Rightarrow> string \<Rightarrow> string" where
  "strMap p key = (case payload_get p key of GStr s \<Rightarrow> s | _ \<Rightarrow> [])"

definition defaultI32 :: "i32 \<Rightarrow> i32 \<Rightarrow> i32" where
  "defaultI32 v fallback = (if v = 0 then fallback else v)"

fun firstNonEmpty :: "string list \<Rightarrow> string" where
  "firstNonEmpty [] = []"
| "firstNonEmpty (v # vs) = (if v \<noteq> [] then v else firstNonEmpty vs)"

definition containsString :: "string list \<Rightarrow> string \<Rightarrow> bool" where
  "containsString values wanted \<longleftrightarrow> wanted \<in> set values"

fun removeString :: "string list \<Rightarrow> string \<Rightarrow> string list" where
  "removeString [] unwanted = []"
| "removeString (v # vs) unwanted =
     (if v \<noteq> unwanted then v # removeString vs unwanted else removeString vs unwanted)"

text \<open>The loop of \<open>normalizeKindList\<close>, with what it has already kept.\<close>

fun normalize_from :: "string list \<Rightarrow> string list \<Rightarrow> string list" where
  "normalize_from seen [] = []"
| "normalize_from seen (k # ks) =
     (let kind = TrimSpace k in
      if kind = [] \<or> kind \<in> set seen then normalize_from seen ks
      else kind # normalize_from (kind # seen) ks)"

definition normalizeKindList :: "string list \<Rightarrow> string list" where
  "normalizeKindList kinds = normalize_from [] kinds"

definition kindSet :: "string list \<Rightarrow> string set" where
  "kindSet kinds = set kinds"

lemmas common_defs [go_defs] = no_result_def requeue_after_def seconds_def pollInterval_def
  reasonForBool_def proxyMessage_def readyMessage_def clusterReadyMessage_def strMap_def
  defaultI32_def containsString_def normalizeKindList_def kindSet_def

section \<open>Lemmas\<close>

lemma removeString_filter: "removeString vs u = filter (\<lambda>v. v \<noteq> u) vs"
  by (induction vs) auto

lemma firstNonEmpty_append:
  "firstNonEmpty (vs @ ws) = (if firstNonEmpty vs \<noteq> [] then firstNonEmpty vs else firstNonEmpty ws)"
  by (induction vs) auto

lemma normalize_from_eq:
  "normalize_from seen ks =
     filter (\<lambda>k. k \<notin> set seen) (rev (remdups (rev (filter (\<lambda>k. k \<noteq> []) (map TrimSpace ks)))))"
proof (induction ks arbitrary: seen)
  case (Cons k ks)
  let ?rest = "rev (remdups (rev (filter (\<lambda>k. k \<noteq> []) (map TrimSpace ks))))"
  have first: "rev (remdups (rev (x # xs))) = x # filter (\<lambda>y. y \<noteq> x) (rev (remdups (rev xs)))"
    for x :: string and xs
  proof (induction xs rule: rev_induct)
    case (snoc y xs)
    then show ?case by (auto simp: rev_filter filter_id_conv)
  qed simp
  show ?case
    using Cons first [of "TrimSpace k" "filter (\<lambda>k. k \<noteq> []) (map TrimSpace ks)"]
    by (auto simp: Let_def filter_filter intro!: filter_cong)
qed simp

lemma set_normalizeKindList:
  "set (normalizeKindList kinds) = {k \<in> TrimSpace ` set kinds. k \<noteq> []}"
  by (auto simp: normalizeKindList_def normalize_from_eq)

lemma seconds_sint: "sint (seconds n) = sint n * 1000000000"
proof -
  have "- (2 ^ 31) \<le> sint n" "sint n < 2 ^ 31"
    using sint_ge [of n] sint_lt [of n] by simp_all
  then have b: "- (2 ^ 63) \<le> sint n * 1000000000" "sint n * 1000000000 < 2 ^ 63" by simp_all
  have eq: "seconds n = word_of_int (sint n * 1000000000)"
    by (simp add: seconds_def)
  show ?thesis
    unfolding eq signed_of_int of_int_eq_id id_apply
    using b by (intro signed_take_bit_int_eq_self) simp_all
qed

section \<open>What was observed\<close>

text \<open>Exchanges that change nothing in the Kubernetes API, and an answer of success among them.\<close>

definition observes :: "event list \<Rightarrow> bool" where
  "observes new \<longleftrightarrow> (\<forall>e\<in>set new. \<not> is_kube_write e)"

definition good_seen :: "event list \<Rightarrow> bool" where
  "good_seen new \<longleftrightarrow> (\<exists>e\<in>set new. answered success_code e)"

lemma observes_simps [simp]:
  "observes []" "observes (e # es) \<longleftrightarrow> \<not> is_kube_write e \<and> observes es"
  "observes (xs @ ys) \<longleftrightarrow> observes xs \<and> observes ys"
  by (auto simp: observes_def)

lemma good_seen_simps [simp]:
  "\<not> good_seen []" "good_seen (xs @ ys) \<longleftrightarrow> good_seen xs \<or> good_seen ys"
  "good_seen (e # es) \<longleftrightarrow> answered success_code e \<or> good_seen es"
  by (auto simp: good_seen_def)

lemma only_clock_observes: "only_clock new \<Longrightarrow> observes new"
  by (auto simp: only_clock_def observes_def) (metis is_kube_write.simps is_now.elims(2))

lemma success_seen_good: "success_seen new \<Longrightarrow> good_seen new"
  by (auto simp: success_seen_def good_seen_def)

lemma traffic_observes: "\<forall>e\<in>set new. client_traffic c e \<Longrightarrow> observes new"
  by (auto simp: observes_def client_traffic_def split: event.splits)
    (metis is_kube_write.simps event.exhaust)+

text \<open>The method of a request.\<close>

definition requests :: "string \<Rightarrow> event \<Rightarrow> bool" where
  "requests m e \<longleftrightarrow> (case e of EHTTP q _ \<Rightarrow> hq_Method q = m | _ \<Rightarrow> True)"

definition posts :: "event \<Rightarrow> bool" where
  "posts e \<longleftrightarrow> (case e of EHTTP q _ \<Rightarrow> hq_Method q = ''POST'' | _ \<Rightarrow> False)"

lemma client_event_requests: "client_event c m b e \<Longrightarrow> requests m e"
  by (cases e) (simp_all add: client_event_def requests_def, metis request_for_fields(2))

lemma requests_not_posts: "requests ''GET'' e \<Longrightarrow> \<not> posts e"
  by (auto simp: requests_def posts_def split: event.splits)

lemma getJSON_requests [emits_rules]: "emits (requests ''GET'') (getJSON E c ep out)"
  unfolding getJSON_def
  by (rule emitsI [OF doJSONWithLeaderRetry_spec]) (auto simp: call_ok_def dest: client_event_requests)

lemma api_AppStatus_requests: "emits (requests ''GET'') (api_AppStatus E c ns name)"
  unfolding api_AppStatus_def by (intro emits_rules)

lemma inferenceStatus_requests: "emits (requests ''GET'') (inferenceStatus E c coll ns name)"
  unfolding inferenceStatus_def by (intro emits_rules)

text \<open>What an accepted \<open>Apply\<close> means: the last exchange is a POST of the manifest, decoded and
  rendered again, answered with success.\<close>

definition applied_manifest :: "env \<Rightarrow> Client \<Rightarrow> bytes \<Rightarrow> event \<Rightarrow> bool" where
  "applied_manifest E c manifest e \<longleftrightarrow> answered success_code e \<and>
     client_event c ''POST''
       (Some (Marshal (e_formatFloat E) (payload_any (fst (Unmarshal_map manifest None))))) e"

lemma Apply_spec:
  "behaves (Apply E c manifest)
     (\<lambda>new r. (\<forall>e\<in>set new. client_traffic c e) \<and> outcome_seen new (snd r) \<and>
        (snd r = None \<longrightarrow> new \<noteq> [] \<and> applied_manifest E c manifest (last new)))"
proof (cases "snd (Unmarshal_map manifest None)")
  case (Some e)
  then show ?thesis
    by (auto simp: Apply_def outcome_seen_def split: prod.splits intro!: behaves_return)
next
  case None
  then obtain p where p: "Unmarshal_map manifest None = (p, None)"
    by (cases "Unmarshal_map manifest None") auto
  let ?b = "Some (Marshal (e_formatFloat E) (payload_any p))"
  have "(\<forall>e\<in>set new. client_traffic c e) \<and> outcome_seen new (snd r) \<and>
      (snd r = None \<longrightarrow> new \<noteq> [] \<and> applied_manifest E c manifest (last new))"
    if ok: "call_ok c ''POST'' ''/apply'' ?b new r" for new r
  proof -
    have "new \<noteq> [] \<and> applied_manifest E c manifest (last new)" if "snd r = None"
      using ok that by (simp add: call_ok_def success_seen_def applied_manifest_def p)
    then show ?thesis using call_ok_traffic [OF ok] by blast
  qed
  then show ?thesis
    unfolding Apply_def p prod.case option.case postJSON_def
    by (rule behaves_mono [OF doJSONWithLeaderRetry_spec])
qed

text \<open>A deletion is confirmed by an answer to a POST to its endpoint, at the configured address or at
  the leader's: success, or that there is nothing to delete.\<close>

definition confirmed :: "Client \<Rightarrow> string \<Rightarrow> event list \<Rightarrow> bool" where
  "confirmed c endpoint new \<longleftrightarrow>
     (\<exists>q a. EHTTP q a \<in> set new \<and> hq_Method q = ''POST'' \<and>
        (hq_URL q = client_url c endpoint \<or> leader_of c endpoint new (hq_URL q)) \<and>
        answered (\<lambda>code. success_code code \<or> code = 404) (EHTTP q a))"

lemma answered_EHTTP: "answered P e \<Longrightarrow> \<exists>q a. e = EHTTP q a"
  by (cases "(P, e)" rule: answered.cases) auto

lemma answered_mono: "answered P e \<Longrightarrow> (\<And>k. P k \<Longrightarrow> Q k) \<Longrightarrow> answered Q e"
  by (cases "(P, e)" rule: answered.cases) auto

lemma call_confirmed:
  assumes ok: "call_ok c ''POST'' endpoint b new r" and "snd r = None \<or> IsNotFound (snd r)"
  shows "confirmed c endpoint new"
proof -
  have "\<exists>x\<in>set new. answered (\<lambda>code. success_code code \<or> code = 404) x"
  proof (cases "snd r")
    case None
    with ok show ?thesis
      by (auto simp: call_ok_def success_seen_def intro!: bexI [of _ "last new"] elim: answered_mono)
  next
    case (Some e)
    with ok assms(2) obtain x where "x \<in> set new" "answered ((=) 404) x"
      by (auto simp: call_ok_def IsNotFound_def code_seen_def)
    then show ?thesis by (auto intro!: bexI [of _ x] elim: answered_mono)
  qed
  then obtain q a where qa: "EHTTP q a \<in> set new"
    "answered (\<lambda>code. success_code code \<or> code = 404) (EHTTP q a)"
    by (metis answered_EHTTP)
  moreover have "requests ''POST'' (EHTTP q a)"
    using ok qa(1) client_event_requests by (auto simp: call_ok_def)
  moreover have "hq_URL q = client_url c endpoint \<or> leader_of c endpoint new (hq_URL q)"
    using ok qa(1) unfolding call_ok_def by blast
  ultimately show ?thesis
    unfolding confirmed_def requests_def by auto
qed

text \<open>A deletion through a POST with an empty object: its own traffic, and when there is no error, or
  the error is that it was not found, the deletion is confirmed.\<close>

lemma delete_call_spec:
  "behaves (postJSON E c endpoint p out)
     (\<lambda>new r. (\<forall>e\<in>set new. client_traffic c e) \<and>
        (snd r = None \<or> IsNotFound (snd r) \<longrightarrow> confirmed c endpoint new))"
  unfolding postJSON_def
  by (rule behaves_mono [OF doJSONWithLeaderRetry_spec])
    (auto dest: call_ok_traffic call_confirmed)

section \<open>Properties\<close>

text \<open>
  The poll interval is never negative or zero and never overflows: it is the configured number
  of seconds when that is positive (any 32-bit value), and 30 seconds otherwise.
\<close>

lemma pollInterval_correct:
  "sint (pollInterval raw) =
     (case raw of None \<Rightarrow> 30 | Some n \<Rightarrow> if 0 < sint n then sint n else 30) * 1000000000 \<and>
   0 < sint (pollInterval raw)"
  by (auto simp: pollInterval_def seconds_sint split: option.splits)

text \<open>
  The list of kinds is trimmed, without empty entries or repetitions, in the order of first
  occurrence, and normalising it again changes nothing.
\<close>

theorem normalizeKindList_correct:
  "normalizeKindList kinds =
     rev (remdups (rev (filter (\<lambda>k. k \<noteq> []) (map TrimSpace kinds)))) \<and>
   distinct (normalizeKindList kinds) \<and>
   set (normalizeKindList kinds) = {k. k \<noteq> [] \<and> k \<in> TrimSpace ` set kinds}"
  by (auto simp: normalizeKindList_def normalize_from_eq)

end
