(* ===== verification/GoSHA256.thy ===== *)
theory GoSHA256
  imports GoStrings
begin

text \<open>
  Go's \<open>crypto/sha256\<close>, as FIPS 180-4 defines it: padding, the message schedule, the compression of
  one block, the digest as 32 bytes. The operator's change detection compares hexadecimal digests.
\<close>

unbundle bit_operations_syntax

definition rotr :: "nat \<Rightarrow> i32 \<Rightarrow> i32" where
  "rotr n x = drop_bit n x OR push_bit (32 - n) x"

text \<open>The constants are what the standard says they are: the first 32 bits of the fractional parts of
  the cube roots of the first 64 primes, and for the initial state, of the square roots of the
  first 8. \<open>root_bits e b n r\<close> finds the bits of the \<open>e\<close>-th root below the \<open>b\<close>-th.\<close>

fun root_bits :: "nat \<Rightarrow> nat \<Rightarrow> int \<Rightarrow> int \<Rightarrow> int" where
  "root_bits e 0 n r = r"
| "root_bits e (Suc b) n r =
     (let s = r + 2 ^ b in if s ^ e \<le> n then root_bits e b n s else root_bits e b n r)"

definition root_fraction :: "nat \<Rightarrow> int \<Rightarrow> i32" where
  "root_fraction e p = word_of_int (root_bits e 36 (p * 2 ^ (32 * e)) 0)"

definition small_primes :: "int list" where
  "small_primes =
     filter (\<lambda>p. list_all (\<lambda>d. p \<le> d \<or> p mod d \<noteq> 0) [2, 3, 5, 7, 11, 13, 17]) [2..311]"

definition round_constants :: "i32 list" where
  "round_constants = map (root_fraction 3) small_primes"

record sha_state =
  sh_a :: i32
  sh_b :: i32
  sh_c :: i32
  sh_d :: i32
  sh_e :: i32
  sh_f :: i32
  sh_g :: i32
  sh_h :: i32

definition initial_state :: sha_state where
  "initial_state =
     \<lparr>sh_a = root_fraction 2 2, sh_b = root_fraction 2 3, sh_c = root_fraction 2 5,
      sh_d = root_fraction 2 7, sh_e = root_fraction 2 11, sh_f = root_fraction 2 13,
      sh_g = root_fraction 2 17, sh_h = root_fraction 2 19\<rparr>"

definition byte_word :: "char \<Rightarrow> i32" where
  "byte_word c = word_of_int (of_char c)"

definition be_word :: "char \<Rightarrow> char \<Rightarrow> char \<Rightarrow> char \<Rightarrow> i32" where
  "be_word a b c d = ((byte_word a * 256 + byte_word b) * 256 + byte_word c) * 256 + byte_word d"

fun be_words :: "bytes \<Rightarrow> i32 list" where
  "be_words (a # b # c # d # s) = be_word a b c d # be_words s"
| "be_words _ = []"

definition be_bytes :: "nat \<Rightarrow> int \<Rightarrow> bytes" where
  "be_bytes k n = map (\<lambda>i. char_of (n div 256 ^ (k - 1 - i) mod 256)) [0..<k]"

text \<open>A one bit, zeros, and the length in bits as 64 bits.\<close>

definition sha_pad :: "bytes \<Rightarrow> bytes" where
  "sha_pad msg =
     (let n = int (length msg)
      in msg @ [CHR 0x80] @ replicate (nat ((55 - n) mod 64)) (CHR 0x00) @ be_bytes 8 (8 * n))"

text \<open>The 64 words of the message schedule, latest first while it grows.\<close>

fun extend_schedule :: "nat \<Rightarrow> i32 list \<Rightarrow> i32 list" where
  "extend_schedule 0 ws = ws"
| "extend_schedule (Suc n) ws =
     (let x = ws ! 14; y = ws ! 1;
          s0 = rotr 7 x XOR rotr 18 x XOR drop_bit 3 x;
          s1 = rotr 17 y XOR rotr 19 y XOR drop_bit 10 y
      in extend_schedule n ((s1 + ws ! 6 + s0 + ws ! 15) # ws))"

definition schedule :: "i32 list \<Rightarrow> i32 list" where
  "schedule block = rev (extend_schedule 48 (rev block))"

definition sha_round :: "i32 \<times> i32 \<Rightarrow> sha_state \<Rightarrow> sha_state" where
  "sha_round kw s =
     (let a = sh_a s; e = sh_e s;
          s1 = rotr 6 e XOR rotr 11 e XOR rotr 25 e;
          ch = (e AND sh_f s) XOR (NOT e AND sh_g s);
          t1 = sh_h s + s1 + ch + fst kw + snd kw;
          s0 = rotr 2 a XOR rotr 13 a XOR rotr 22 a;
          maj = (a AND sh_b s) XOR (a AND sh_c s) XOR (sh_b s AND sh_c s);
          t2 = s0 + maj
      in \<lparr>sh_a = t1 + t2, sh_b = a, sh_c = sh_b s, sh_d = sh_c s,
          sh_e = sh_d s + t1, sh_f = e, sh_g = sh_f s, sh_h = sh_g s\<rparr>)"

definition compress :: "sha_state \<Rightarrow> i32 list \<Rightarrow> sha_state" where
  "compress s block =
     (let r = fold sha_round (zip round_constants (schedule block)) s
      in \<lparr>sh_a = sh_a s + sh_a r, sh_b = sh_b s + sh_b r, sh_c = sh_c s + sh_c r,
          sh_d = sh_d s + sh_d r, sh_e = sh_e s + sh_e r, sh_f = sh_f s + sh_f r,
          sh_g = sh_g s + sh_g r, sh_h = sh_h s + sh_h r\<rparr>)"

fun digest_blocks :: "nat \<Rightarrow> sha_state \<Rightarrow> i32 list \<Rightarrow> sha_state" where
  "digest_blocks 0 s ws = s"
| "digest_blocks (Suc n) s ws = digest_blocks n (compress s (take 16 ws)) (drop 16 ws)"

definition sha256 :: "bytes \<Rightarrow> bytes" where
  "sha256 msg =
     (let ws = be_words (sha_pad msg);
          s = digest_blocks (length ws div 16) initial_state ws
      in concat (map (\<lambda>w. be_bytes 4 (uint w))
           [sh_a s, sh_b s, sh_c s, sh_d s, sh_e s, sh_f s, sh_g s, sh_h s]))"

lemma length_be_bytes [simp]: "length (be_bytes k n) = k"
  by (simp add: be_bytes_def)

lemma length_sha256 [simp]: "length (sha256 msg) = 32"
  by (simp add: sha256_def Let_def)

end
