(* ===== verification/Patch.thy ===== *)
theory Patch
  imports Conditions GoSHA256
begin

text \<open>
  src/internal/controller/patch.go: reading an object afresh, changing it and sending the
  difference, again after a conflict; the annotation with the hash of what was applied last.
  The function that changes the object may read the clock, so it is a program.
\<close>

section \<open>The code\<close>

definition lastAppliedHashAnnotation :: string where
  "lastAppliedHashAnnotation = ''operator.k1s.io/last-applied-hash''"

definition patchStatus :: "env \<Rightarrow> kobject \<Rightarrow> (kobject \<Rightarrow> kobject io) \<Rightarrow> go_error option io" where
  "patchStatus E obj mutate =
     (let key = ObjectKeyFromObject obj in
      e_retryOnConflict E (do {
        found \<leftarrow> kube_Get E CachedClient (kind_of obj) key;
        case found of
          Inl e \<Rightarrow> State_Monad.return (Some e)
        | Inr current \<Rightarrow> do {
            changed \<leftarrow> mutate current;
            status_Patch E current changed
          }
      }))"

definition patchObject :: "env \<Rightarrow> kobject \<Rightarrow> (kobject \<Rightarrow> kobject io) \<Rightarrow> go_error option io" where
  "patchObject E obj mutate =
     (let key = ObjectKeyFromObject obj in
      e_retryOnConflict E (do {
        found \<leftarrow> kube_Get E CachedClient (kind_of obj) key;
        case found of
          Inl e \<Rightarrow> State_Monad.return (Some e)
        | Inr current \<Rightarrow> do {
            changed \<leftarrow> mutate current;
            kube_Patch E current changed
          }
      }))"

definition patchFinalizers :: "env \<Rightarrow> kobject \<Rightarrow> string list \<Rightarrow> go_error option io" where
  "patchFinalizers E obj finalizers =
     patchObject E obj
       (\<lambda>current. State_Monad.return (update_meta (\<lambda>m. m\<lparr>Finalizers := finalizers\<rparr>) current))"

definition annotate :: "string \<Rightarrow> string \<Rightarrow> object_meta \<Rightarrow> object_meta" where
  "annotate k v m = m\<lparr>Annotations :=
     Some ((case Annotations m of None \<Rightarrow> Map.empty | Some a \<Rightarrow> a)(k \<mapsto> v))\<rparr>"

definition patchLastAppliedHash :: "env \<Rightarrow> kobject \<Rightarrow> string \<Rightarrow> go_error option io" where
  "patchLastAppliedHash E obj hash =
     patchObject E obj
       (\<lambda>current. State_Monad.return (update_meta (annotate lastAppliedHashAnnotation hash) current))"

definition lastAppliedHash :: "kobject \<Rightarrow> string" where
  "lastAppliedHash obj =
     (case Annotations (meta_of obj) of
        None \<Rightarrow> []
      | Some a \<Rightarrow> (case a lastAppliedHashAnnotation of None \<Rightarrow> [] | Some h \<Rightarrow> h))"

definition hashBytes :: "bytes \<Rightarrow> string" where
  "hashBytes raw = hex_EncodeToString (sha256 raw)"

text \<open>What \<open>hashManifestSet\<close> feeds the digest.\<close>

definition manifest_frame :: "bytes list \<Rightarrow> bytes" where
  "manifest_frame manifests = concat (map (\<lambda>m. CHR 0x00 # m) manifests)"

definition hashManifestSet :: "bytes list \<Rightarrow> string" where
  "hashManifestSet manifests = hex_EncodeToString (sha256 (manifest_frame manifests))"

section \<open>Read, change, write\<close>

text \<open>The two loops are one, over what is written. \<open>M cur y\<close> relates what was read to what may be
  written.\<close>

locale merge_patch =
  fixes E :: env
    and patch :: "kobject \<Rightarrow> (kobject \<Rightarrow> kobject io) \<Rightarrow> go_error option io"
    and send :: "kobject \<Rightarrow> kobject \<Rightarrow> go_error option io"
    and wrote :: "kobject \<Rightarrow> kobject \<Rightarrow> go_error option \<Rightarrow> event"
  assumes patch_is: "patch obj mutate = e_retryOnConflict E (do {
        found \<leftarrow> kube_Get E CachedClient (kind_of obj) (ObjectKeyFromObject obj);
        case found of
          Inl e \<Rightarrow> State_Monad.return (Some e)
        | Inr current \<Rightarrow> State_Monad.bind (mutate current) (send current)
      })"
    and send_spec: "behaves (send cur y) (\<lambda>new r. new = [wrote cur y r])"
begin

definition patch_event :: "kobject \<Rightarrow> (kobject \<Rightarrow> kobject \<Rightarrow> bool) \<Rightarrow> event \<Rightarrow> bool" where
  "patch_event obj M e \<longleftrightarrow> is_now e \<or>
     (\<exists>r. e = EGet CachedClient (kind_of obj) (ObjectKeyFromObject obj) r) \<or>
     (\<exists>cur y r. e = wrote cur y r \<and> same_object cur obj \<and> M cur y)"

definition patch_outcome :: "event list \<Rightarrow> go_error option \<Rightarrow> bool" where
  "patch_outcome new err \<longleftrightarrow> new \<noteq> [] \<and>
     (case err of
        None \<Rightarrow> \<exists>cur y. last new = wrote cur y None
      | Some e \<Rightarrow> (\<exists>cur y. last new = wrote cur y (Some e)) \<or>
          (\<exists>k key. last new = EGet CachedClient k key (Inl e)))"

lemma patch_event_intros:
  "is_now e \<Longrightarrow> patch_event obj M e"
  "patch_event obj M (EGet CachedClient (kind_of obj) (ObjectKeyFromObject obj) g)"
  "same_object cur obj \<Longrightarrow> M cur y \<Longrightarrow> patch_event obj M (wrote cur y r)"
  unfolding patch_event_def by blast+

lemma patch_outcome_append: "patch_outcome ys r \<Longrightarrow> patch_outcome (xs @ ys) r"
  by (auto simp: patch_outcome_def split: option.splits)

lemma patch_spec:
  assumes "retries_on_conflict (e_retryOnConflict E)"
    and mutate: "\<And>cur. same_object cur obj \<Longrightarrow>
      behaves (mutate cur) (\<lambda>new y. only_clock new \<and> M cur y)"
  shows "behaves (patch obj mutate)
    (\<lambda>new r. (\<forall>e\<in>set new. patch_event obj M e) \<and> patch_outcome new r)"
  unfolding patch_is
proof (rule behaves_retry [OF assms(1), where R = "\<lambda>new r.
    (\<forall>e\<in>set new. patch_event obj M e) \<and> patch_outcome new r"], goal_cases)
  case 1
  have step: "behaves (State_Monad.bind (mutate cur) (send cur))
      (\<lambda>new r. (\<forall>e\<in>set (g # new). patch_event obj M e) \<and> patch_outcome (g # new) r)"
    if "same_object cur obj" "patch_event obj M g" for cur g
    by (rule behaves_bind [OF mutate [OF that(1)]], rule behaves_mono [OF send_spec])
      (use that in \<open>auto simp: only_clock_def patch_outcome_def patch_event_intros
        split: option.splits\<close>)
  show ?case
    by (rule exchange_steps, rule behaves_case_sum)
      (auto simp: patch_event_intros patch_outcome_def same_object_def
        intro!: behaves_return behaves_mono [OF step])
next
  case (3 n1 e n2 a)
  then show ?case by (auto intro: patch_outcome_append)
qed

end

interpretation status_patch: merge_patch E "patchStatus E" "status_Patch E" EStatusPatch for E
  by unfold_locales
    (auto simp: patchStatus_def Let_def intro: status_Patch_spec arg_cong [where f = "e_retryOnConflict E"])

interpretation object_patch: merge_patch E "patchObject E" "kube_Patch E" EPatch for E
  by unfold_locales
    (auto simp: patchObject_def Let_def intro: kube_Patch_spec arg_cong [where f = "e_retryOnConflict E"])

lemma status_patch_event:
  "status_patch.patch_event obj M e = (case e of
     ENow _ \<Rightarrow> True
   | EGet rd k key _ \<Rightarrow> rd = CachedClient \<and> k = kind_of obj \<and> key = ObjectKeyFromObject obj
   | EStatusPatch cur y _ \<Rightarrow> same_object cur obj \<and> M cur y
   | _ \<Rightarrow> False)"
  by (auto simp: status_patch.patch_event_def split: event.splits)

lemma object_patch_event:
  "object_patch.patch_event obj M e = (case e of
     ENow _ \<Rightarrow> True
   | EGet rd k key _ \<Rightarrow> rd = CachedClient \<and> k = kind_of obj \<and> key = ObjectKeyFromObject obj
   | EPatch cur y _ \<Rightarrow> same_object cur obj \<and> M cur y
   | _ \<Rightarrow> False)"
  by (auto simp: object_patch.patch_event_def split: event.splits)

lemmas patchStatus_spec = status_patch.patch_spec [OF lawfulD(2)]
lemmas patchObject_spec = object_patch.patch_spec [OF lawfulD(2)]

lemma patchFinalizers_spec:
  assumes "lawful E"
  shows "behaves (patchFinalizers E obj fs)
    (\<lambda>new r. (\<forall>e\<in>set new. object_patch.patch_event obj
        (\<lambda>cur y. y = update_meta (\<lambda>m. m\<lparr>Finalizers := fs\<rparr>) cur) e) \<and>
      object_patch.patch_outcome new r)"
  unfolding patchFinalizers_def
  by (rule patchObject_spec [OF assms]) (auto intro: behaves_return)

lemma patchLastAppliedHash_spec:
  assumes "lawful E"
  shows "behaves (patchLastAppliedHash E obj hash)
    (\<lambda>new r. (\<forall>e\<in>set new. object_patch.patch_event obj
        (\<lambda>cur y. y = update_meta (annotate lastAppliedHashAnnotation hash) cur) e) \<and>
      object_patch.patch_outcome new r)"
  unfolding patchLastAppliedHash_def
  by (rule patchObject_spec [OF assms]) (auto intro: behaves_return)

section \<open>Properties\<close>

text \<open>
  C36: a status patch that reports success has had its last attempt accepted by the API, every
  object it sends is the change applied to a version of this same object that it has just read,
  and it sends nothing but status patches (so it never touches a spec, and never another object).
\<close>

theorem patchStatus_safe:
  assumes "lawful E" and "run_state (patchStatus E obj (\<lambda>cur. State_Monad.return (f cur))) h = (err, h @ new)"
  shows "(\<forall>e\<in>set new. is_kube_write e \<longrightarrow>
      (\<exists>cur r. e = EStatusPatch cur (f cur) r \<and> same_object cur obj)) \<and>
    (err = None \<longrightarrow> (\<exists>cur. last new = EStatusPatch cur (f cur) None))"
proof -
  have "(\<forall>e\<in>set new. status_patch.patch_event obj (\<lambda>cur y. y = f cur) e) \<and>
      status_patch.patch_outcome new err"
    by (rule behaves_run [OF patchStatus_spec assms(2)]) (use assms(1) in \<open>auto intro: behaves_return\<close>)
  then have ev: "\<forall>e\<in>set new. status_patch.patch_event obj (\<lambda>cur y. y = f cur) e"
    and out: "status_patch.patch_outcome new err" by blast+
  have "\<exists>cur. last new = EStatusPatch cur (f cur) None" if none: "err = None"
  proof -
    obtain cur y where l: "last new = EStatusPatch cur y None" and "new \<noteq> []"
      using out none by (auto simp: status_patch.patch_outcome_def)
    then have "EStatusPatch cur y None \<in> set new" by (metis last_in_set)
    with ev l show ?thesis by (fastforce simp: status_patch_event)
  qed
  with ev show ?thesis by (fastforce simp: status_patch_event split: event.splits)
qed

text \<open>Setting the finalizers replaces the whole list, whatever the object read afresh had: a
  finalizer that another controller added since the list was computed is dropped.\<close>

lemma patchFinalizers_replaces:
  assumes "lawful E" and "run_state (patchFinalizers E obj fs) h = (err, h @ new)"
    and "EPatch cur y r \<in> set new"
  shows "Finalizers (meta_of y) = fs \<and> same_object y obj"
proof -
  have "object_patch.patch_event obj (\<lambda>cur y. y = update_meta (\<lambda>m. m\<lparr>Finalizers := fs\<rparr>) cur)
      (EPatch cur y r)"
    using behaves_run [OF patchFinalizers_spec [OF assms(1)] assms(2)] assms(3) by blast
  then show ?thesis by (auto simp: object_patch_event same_object_def ObjectKeyFromObject_def)
qed

text \<open>
  The hash that \<open>patchLastAppliedHash\<close> writes is the hash \<open>lastAppliedHash\<close> reads back, and every
  other annotation of the object is kept.
\<close>

lemma lastAppliedHash_roundtrip:
  assumes "lawful E" and "run_state (patchLastAppliedHash E obj hash) h = (err, h @ new)"
    and "EPatch cur y r \<in> set new"
  shows "lastAppliedHash y = hash \<and>
    (\<forall>k a. k \<noteq> lastAppliedHashAnnotation \<longrightarrow> Annotations (meta_of cur) = Some a \<longrightarrow>
      (\<exists>a'. Annotations (meta_of y) = Some a' \<and> a' k = a k))"
proof -
  have "object_patch.patch_event obj
      (\<lambda>cur y. y = update_meta (annotate lastAppliedHashAnnotation hash) cur) (EPatch cur y r)"
    using behaves_run [OF patchLastAppliedHash_spec [OF assms(1)] assms(2)] assms(3) by blast
  then show ?thesis by (auto simp: object_patch_event lastAppliedHash_def annotate_def)
qed

lemma manifest_frame_Cons: "manifest_frame (m # ms) = CHR 0x00 # m @ manifest_frame ms"
  by (simp add: manifest_frame_def)

lemma manifest_frame_hd: "manifest_frame ms = [] \<or> hd (manifest_frame ms) = CHR 0x00"
  by (cases ms) (simp_all add: manifest_frame_def)

lemma nul_free_split:
  assumes "CHR 0x00 \<notin> set a" and "CHR 0x00 \<notin> set b" and "a @ s = b @ t"
    and "s = [] \<or> hd s = CHR 0x00" and "t = [] \<or> hd t = CHR 0x00"
  shows "a = b \<and> s = t"
  using assms
proof (induction a arbitrary: b)
  case Nil
  then show ?case by (cases b) auto
next
  case (Cons x xs)
  then show ?case by (cases b) auto
qed

text \<open>
  What \<open>hashManifestSet\<close> hashes determines the list of manifests, order and boundaries included,
  as long as no manifest contains a zero byte (JSON text does not).
\<close>

lemma hashManifestSet_framing:
  assumes "\<forall>m\<in>set ms. CHR 0x00 \<notin> set m" and "\<forall>m\<in>set ms'. CHR 0x00 \<notin> set m"
    and "manifest_frame ms = manifest_frame ms'"
  shows "ms = ms'"
  using assms
proof (induction ms arbitrary: ms')
  case Nil
  then show ?case by (cases ms') (auto simp: manifest_frame_def)
next
  case (Cons m ms)
  then obtain m' ms'' where ms': "ms' = m' # ms''"
    by (cases ms') (auto simp: manifest_frame_def)
  have "m @ manifest_frame ms = m' @ manifest_frame ms''"
    using Cons.prems(3) by (simp add: ms' manifest_frame_Cons)
  moreover have "CHR 0x00 \<notin> set m" "CHR 0x00 \<notin> set m'"
    using Cons.prems(1,2) by (simp_all add: ms')
  ultimately have "m = m'" "manifest_frame ms = manifest_frame ms''"
    using nul_free_split manifest_frame_hd by metis+
  moreover have "ms = ms''"
    by (rule Cons.IH) (use Cons.prems(1,2) ms' \<open>manifest_frame ms = manifest_frame ms''\<close> in simp_all)
  ultimately show ?case by (simp add: ms')
qed

text \<open>
  A zero byte inside a manifest reads as a boundary: two different lists then have one hash.
\<close>

theorem hashManifestSet_zero_byte:
  "hashManifestSet [a @ [CHR 0x00] @ b] = hashManifestSet [a, b] \<and> length (hashManifestSet ms) = 64"
  by (simp add: hashManifestSet_def manifest_frame_def length_hex_EncodeToString)

section \<open>Examples\<close>

definition sample_meta :: object_meta where
  "sample_meta = \<lparr>Name = ''web'', Namespace = ''team'', Generation = 1, Finalizers = [],
     Annotations = None, Labels = Map.empty, DeletionTimestamp = None, OwnerReferences = []\<rparr>"

definition sample_configmap :: kobject where
  "sample_configmap = OConfigMap \<lparr>cm_Meta = sample_meta, cm_Data = Map.empty\<rparr>"

text \<open>A world in which every object asked for is the one given.\<close>

definition holding :: "kobject \<Rightarrow> env \<Rightarrow> env" where
  "holding x E = E\<lparr>e_get := \<lambda>_ _ k key.
     if k = kind_of x \<and> key = ObjectKeyFromObject x then Inr x else Inl not_found_error\<rparr>"

lemma holding_lawful [simp]: "lawful (holding x E) = lawful E"
  by (simp add: holding_def)

lemma ref_retry_4_None:
  "result_of fn h = None \<Longrightarrow> run_state (ref_retry 4 fn) h = run_state fn h"
  by (simp add: numeral_eq_Suc prod_eq_iff)

lemma run_patchStatus_sample:
  "run_state (patchStatus (holding x sample_env) x (\<lambda>cur. State_Monad.return (f cur))) h =
     (None, h @ [EGet CachedClient (kind_of x) (ObjectKeyFromObject x) (Inr x),
                 EStatusPatch x (f x) None])"
  by (simp add: patchStatus_def Let_def holding_def ref_retry_4_None kube_Get_def status_Patch_def)

lemma run_patchFinalizers_sample:
  "run_state (patchFinalizers (holding x sample_env) x fs) h =
     (None, h @ [EGet CachedClient (kind_of x) (ObjectKeyFromObject x) (Inr x),
                 EPatch x (update_meta (\<lambda>m. m\<lparr>Finalizers := fs\<rparr>) x) None])"
  by (simp add: patchFinalizers_def patchObject_def Let_def holding_def ref_retry_4_None
      kube_Get_def kube_Patch_def)

lemma run_patchLastAppliedHash_sample:
  "run_state (patchLastAppliedHash (holding x sample_env) x hash) h =
     (None, h @ [EGet CachedClient (kind_of x) (ObjectKeyFromObject x) (Inr x),
                 EPatch x (update_meta (annotate lastAppliedHashAnnotation hash) x) None])"
  by (simp add: patchLastAppliedHash_def patchObject_def Let_def holding_def ref_retry_4_None
      kube_Get_def kube_Patch_def)

theorem patchStatus_safe_witness:
  "last (trace_of (patchStatus (holding sample_configmap sample_env) sample_configmap
     State_Monad.return) []) = EStatusPatch sample_configmap sample_configmap None"
  using patchStatus_safe [of "holding sample_configmap sample_env" sample_configmap "\<lambda>x. x" "[]",
      OF _ run_patchStatus_sample] run_patchStatus_sample [of sample_configmap "\<lambda>x. x" "[]"]
  by auto

lemma lastAppliedHash_roundtrip_example:
  "lastAppliedHash (update_meta (annotate lastAppliedHashAnnotation ''ff'') sample_configmap) = ''ff''"
  using lastAppliedHash_roundtrip [of "holding sample_configmap sample_env" sample_configmap
      "''ff''" "[]", OF _ run_patchLastAppliedHash_sample] by simp

end
