(* ===== verification/Builders.thy ===== *)
theory Builders
  imports Names World
begin

text \<open>
  src/internal/controller/builders.go: the Service, EndpointSlice and Ingress made for an exposure.
  They are values; the API's pointers to constants are the constants.
\<close>

section \<open>The code\<close>

record ProxyEndpoint =
  pe_Addresses :: "string list"
  pe_NodeName :: "string option"
  pe_Ready :: bool

abbreviation "LabelServiceName \<equiv> ''kubernetes.io/service-name''"

definition built_meta :: "string \<Rightarrow> string \<Rightarrow> (string \<rightharpoonup> string) \<Rightarrow> object_meta" where
  "built_meta name namespace labels =
     \<lparr>Name = name, Namespace = namespace, Generation = 0, Finalizers = [], Annotations = None,
      Labels = labels, DeletionTimestamp = None, OwnerReferences = []\<rparr>"

definition BuildExposureService :: "K1sCluster \<Rightarrow> K1sExposure \<Rightarrow> Service" where
  "BuildExposureService cluster x =
     (let port = exposureServicePort x in
      \<lparr>svc_Meta = built_meta (exposureServiceName x) (Namespace (exposure_Meta x))
         (managedLabels (Name (cluster_Meta cluster)) x),
       svc_Type = ''ClusterIP'',
       svc_Selector = None,
       svc_Ports = [\<lparr>sp_Name = ''http'', sp_Protocol = ''TCP'', sp_Port = port, sp_TargetPort = port\<rparr>]\<rparr>)"

definition proxyTargetPort :: "K1sCluster \<Rightarrow> K1sExposure \<Rightarrow> i32" where
  "proxyTargetPort cluster x =
     (let proxy = cl_Proxy (cluster_Spec cluster) in
      if px_Mode proxy = K1sProxyModeService then
        (case px_ServiceRef proxy of
           Some ref \<Rightarrow> if 0 < sint (psr_Port ref) then psr_Port ref else exposureServicePort x
         | None \<Rightarrow> exposureServicePort x)
      else if px_Mode proxy = K1sProxyModeExternal then
        (case px_External proxy of
           Some ext \<Rightarrow> if 0 < sint (ext_Port ext) then ext_Port ext else exposureServicePort x
         | None \<Rightarrow> exposureServicePort x)
      else exposureServicePort x)"

definition endpoint_of :: "ProxyEndpoint \<Rightarrow> Endpoint" where
  "endpoint_of p = \<lparr>endp_Addresses = pe_Addresses p, endp_Ready = Some (pe_Ready p),
     endp_NodeName = pe_NodeName p\<rparr>"

definition BuildExposureEndpointSlice ::
  "K1sCluster \<Rightarrow> K1sExposure \<Rightarrow> ProxyEndpoint list \<Rightarrow> EndpointSlice" where
  "BuildExposureEndpointSlice cluster x endpoints =
     (let port = proxyTargetPort cluster x;
          labels = (managedLabels (Name (cluster_Meta cluster)) x)
            (LabelServiceName \<mapsto> exposureServiceName x)
      in \<lparr>eps_Meta = built_meta (exposureEndpointSliceName x) (Namespace (exposure_Meta x)) labels,
          eps_AddressType = ''IPv4'',
          eps_Ports = [\<lparr>eport_Name = ''http'', eport_Protocol = ''TCP'', eport_Port = port\<rparr>],
          eps_Endpoints = map endpoint_of (filter (\<lambda>p. pe_Addresses p \<noteq> []) endpoints)\<rparr>)"

definition BuildExposureIngress :: "K1sCluster \<Rightarrow> K1sExposure \<Rightarrow> go_error + Ingress option" where
  "BuildExposureIngress cluster x =
     (let spec = exposure_Spec x; ing = exp_Ingress spec in
      if \<not> ingress_EnabledOrDefault ing then Inr None
      else if exp_Host spec = [] then Inl (TextErr ''host is required when ingress is enabled'')
      else
        (let port = exposureServicePort x;
             meta = (built_meta (exposureIngressName x) (Namespace (exposure_Meta x))
               (managedLabels (Name (cluster_Meta cluster)) x))
               \<lparr>Annotations := Some (ing_Annotations ing)\<rparr>
         in Inr (Some
           \<lparr>igr_Meta = meta,
            igr_Spec =
              \<lparr>igs_ClassName = ing_ClassName ing,
               igs_Rules = [\<lparr>ir_Host = exp_Host spec,
                 ir_Paths = [\<lparr>ip_Path = exposurePath x, ip_PathType = ''Prefix'',
                   ip_ServiceName = exposureServiceName x, ip_ServicePort = port\<rparr>]\<rparr>],
               igs_TLS =
                 (if ing_TLSSecretName ing \<noteq> []
                  then [\<lparr>it_Hosts = [exp_Host spec], it_SecretName = ing_TLSSecretName ing\<rparr>]
                  else [])\<rparr>\<rparr>)))"

lemmas builders_defs [go_defs] = built_meta_def BuildExposureService_def proxyTargetPort_def
  endpoint_of_def BuildExposureEndpointSlice_def BuildExposureIngress_def

section \<open>Properties\<close>

lemma exposureServicePort_pos: "0 < sint (exposureServicePort x)"
  by (simp add: exposureServicePort_def)

lemma slice_entries:
  "map (\<lambda>e. (endp_Addresses e, endp_Ready e, endp_NodeName e))
       (eps_Endpoints (BuildExposureEndpointSlice cluster x endpoints)) =
     map (\<lambda>p. (pe_Addresses p, Some (pe_Ready p), pe_NodeName p)) (filter (\<lambda>p. pe_Addresses p \<noteq> []) endpoints)"
  by (induction endpoints) (auto simp: builders_defs Let_def)

text \<open>
  C39: the three objects fit together: the slice carries the label of the Service, the Ingress's one
  backend is that Service at the Service's own port, all are in the exposure's namespace, and
  every port is positive, whatever ports the specs give (zero and negative ones are replaced). The
  slice has one entry per proxy endpoint that has an address, in order, with the same addresses,
  node and readiness.
\<close>

theorem builders_consistent:
  "(let svc = BuildExposureService cluster x;
        slice = BuildExposureEndpointSlice cluster x endpoints
    in Labels (eps_Meta slice) LabelServiceName = Some (Name (svc_Meta svc)) \<and>
       Namespace (svc_Meta svc) = Namespace (exposure_Meta x) \<and>
       Namespace (eps_Meta slice) = Namespace (exposure_Meta x) \<and>
       map sp_Port (svc_Ports svc) = [exposureServicePort x] \<and>
       0 < sint (exposureServicePort x) \<and>
       map eport_Port (eps_Ports slice) = [proxyTargetPort cluster x] \<and>
       0 < sint (proxyTargetPort cluster x) \<and>
       map (\<lambda>e. (endp_Addresses e, endp_Ready e, endp_NodeName e)) (eps_Endpoints slice) =
         map (\<lambda>p. (pe_Addresses p, Some (pe_Ready p), pe_NodeName p))
           (filter (\<lambda>p. pe_Addresses p \<noteq> []) endpoints) \<and>
       (case BuildExposureIngress cluster x of
          Inr (Some ingress) \<Rightarrow>
            Namespace (igr_Meta ingress) = Namespace (exposure_Meta x) \<and>
            (\<exists>rule p. igs_Rules (igr_Spec ingress) = [rule] \<and> ir_Paths rule = [p] \<and>
              ir_Host rule = exp_Host (exposure_Spec x) \<and> ir_Host rule \<noteq> [] \<and>
              ip_ServiceName p = Name (svc_Meta svc) \<and> ip_ServicePort p = exposureServicePort x \<and>
              ip_Path p \<noteq> [])
        | Inr None \<Rightarrow> ing_Enabled (exp_Ingress (exposure_Spec x)) = Some False
        | Inl _ \<Rightarrow> exp_Host (exposure_Spec x) = []))"
  using exposureServicePort_pos [of x] slice_entries [of cluster x endpoints]
  by (auto simp: builders_defs exposurePath_def ingress_EnabledOrDefault_def Let_def
      split: option.splits)

end
