(* ===== verification/Proxy.thy ===== *)
theory Proxy
  imports Builders Contracts
begin

text \<open>
  src/internal/controller/proxy.go: where the traffic of a cluster enters, from a Service's
  EndpointSlices or from configured addresses. \<open>net.ParseIP\<close> is modelled as the test whether a
  text is an IPv4 or IPv6 address, which is all the code uses.
\<close>

section \<open>net.ParseIP\<close>

definition valid_octet :: "string \<Rightarrow> bool" where
  "valid_octet s \<longleftrightarrow> s \<noteq> [] \<and> list_all is_digit s \<and> digits_val 0 s \<le> 255 \<and>
     (length s = 1 \<or> hd s \<noteq> CHR ''0'')"

definition valid_ipv4 :: "string \<Rightarrow> bool" where
  "valid_ipv4 s \<longleftrightarrow> (let parts = Split s (CHR ''.'') in length parts = 4 \<and> list_all valid_octet parts)"

definition is_hex :: "char \<Rightarrow> bool" where
  "is_hex c \<longleftrightarrow> (let n = of_char c :: int in
     48 \<le> n \<and> n \<le> 57 \<or> 97 \<le> n \<and> n \<le> 102 \<or> 65 \<le> n \<and> n \<le> 70)"

text \<open>The groups still to come (of eight), whether \<open>::\<close> was seen, and the rest of the text.\<close>

fun ipv6_groups :: "nat \<Rightarrow> bool \<Rightarrow> string \<Rightarrow> bool" where
  "ipv6_groups 0 ell s = (s = [] \<and> \<not> ell)"
| "ipv6_groups (Suc r) ell s =
     (let ds = takeWhile is_hex s; rest = dropWhile is_hex s in
      if ds = [] \<or> length ds > 4 then False
      else (case rest of
          [] \<Rightarrow> if r > 0 then ell else \<not> ell
        | c # t \<Rightarrow>
            if c = CHR ''.'' then
              (ell \<or> r = 1) \<and> r \<ge> 1 \<and> valid_ipv4 s \<and> (if r > 1 then ell else \<not> ell)
            else if c \<noteq> CHR '':'' then False
            else (case t of
                [] \<Rightarrow> False
              | d # u \<Rightarrow>
                  if d = CHR '':'' then
                    (if ell then False else if u = [] then r > 0 else ipv6_groups r True u)
                  else ipv6_groups r ell t)))"

definition valid_ipv6 :: "string \<Rightarrow> bool" where
  "valid_ipv6 s =
     (if HasPrefix s ''::'' then drop 2 s = [] \<or> ipv6_groups 8 True (drop 2 s)
      else ipv6_groups 8 False s)"

definition ParseIP_ok :: "string \<Rightarrow> bool" where
  "ParseIP_ok s =
     (CHR ''%'' \<notin> set s \<and>
      (case find (\<lambda>c. c = CHR ''.'' \<or> c = CHR '':'') s of
         None \<Rightarrow> False
       | Some c \<Rightarrow> if c = CHR ''.'' then valid_ipv4 s else valid_ipv6 s))"

section \<open>The code\<close>

definition slice_endpoint :: "Endpoint \<Rightarrow> ProxyEndpoint list" where
  "slice_endpoint e =
     (if (case endp_Ready e of None \<Rightarrow> True | Some b \<Rightarrow> b)
      then [\<lparr>pe_Addresses = endp_Addresses e, pe_NodeName = endp_NodeName e, pe_Ready = True\<rparr>]
      else [])"

definition ready_endpoints :: "EndpointSlice list \<Rightarrow> ProxyEndpoint list" where
  "ready_endpoints slices =
     concat (map (\<lambda>slice. concat (map slice_endpoint (eps_Endpoints slice))) slices)"

definition address_endpoint :: "string \<Rightarrow> ProxyEndpoint" where
  "address_endpoint a = \<lparr>pe_Addresses = [a], pe_NodeName = None, pe_Ready = True\<rparr>"

definition discoverProxyEndpoints ::
  "env \<Rightarrow> reader \<Rightarrow> K1sCluster \<Rightarrow> (ProxyEndpoint list \<times> go_error option) io" where
  "discoverProxyEndpoints E kube cluster =
     (let proxy = cl_Proxy (cluster_Spec cluster) in
      if px_Mode proxy = K1sProxyModeService then
        (case px_ServiceRef proxy of
           None \<Rightarrow> State_Monad.return ([],
             Some (TextErr ''proxy.serviceRef is required when proxy.mode=Service''))
         | Some ref \<Rightarrow> do {
             let namespace = (if psr_Namespace ref = [] then Namespace (cluster_Meta cluster)
                              else psr_Namespace ref);
             slices \<leftarrow> list_slices E kube namespace (psr_Name ref);
             State_Monad.return
               (case slices of Inl e \<Rightarrow> ([], Some e) | Inr items \<Rightarrow> (ready_endpoints items, None))
           })
      else if px_Mode proxy = K1sProxyModeExternal then
        (case px_External proxy of
           None \<Rightarrow> State_Monad.return ([],
             Some (TextErr ''proxy.external is required when proxy.mode=External''))
         | Some ext \<Rightarrow>
             let out = map address_endpoint (filter ParseIP_ok (ext_Addresses ext)) in
             if ext_DNSName ext \<noteq> [] then do {
               addrs \<leftarrow> LookupHost E (ext_DNSName ext);
               State_Monad.return
                 (case addrs of
                    Inl e \<Rightarrow> (out, Some e)
                  | Inr as \<Rightarrow> (out @ map address_endpoint as, None))
             } else State_Monad.return (out, None))
      else State_Monad.return ([],
        Some (TextErr (''unsupported proxy.mode '' @ Quote (px_Mode proxy)))))"

lemmas proxy_defs [go_defs] = valid_octet_def valid_ipv4_def is_hex_def valid_ipv6_def ParseIP_ok_def
  slice_endpoint_def ready_endpoints_def address_endpoint_def

section \<open>Lemmas\<close>

lemma never_Cons: "(\<forall>x xs. l \<noteq> x # xs) = (l = [])"
  by (cases l) auto

text \<open>An exchange of the discovery: one list of slices or one lookup.\<close>

definition proxy_event :: "event \<Rightarrow> bool" where
  "proxy_event e \<longleftrightarrow> (case e of EListSlices _ _ _ _ \<Rightarrow> True | ELookupHost _ _ \<Rightarrow> True | _ \<Rightarrow> False)"

lemma ready_endpoints_ready: "p \<in> set (ready_endpoints slices) \<Longrightarrow> pe_Ready p"
  by (auto simp: ready_endpoints_def slice_endpoint_def split: if_splits)

lemma discoverProxyEndpoints_spec:
  "behaves (discoverProxyEndpoints E kube cluster)
     (\<lambda>new r. (\<forall>e\<in>set new. proxy_event e) \<and> (\<forall>p\<in>set (fst r). pe_Ready p))"
  unfolding discoverProxyEndpoints_def Let_def
  by (auto simp: proxy_event_def ready_endpoints_ready address_endpoint_def split: sum.splits
      intro!: behaves_rules behaves_return exchange_steps)

section \<open>Properties\<close>

text \<open>
  C38: in Service mode the endpoints are exactly the ready ones (a missing readiness counts as
  ready) of the slices listed for the referenced Service, in order; the namespace is the cluster's
  unless the reference names one. Without a reference, or when the list fails, there are none and
  there is an error.
\<close>

theorem discover_service_mode:
  assumes "px_Mode (cl_Proxy (cluster_Spec cluster)) = K1sProxyModeService"
  shows "behaves (discoverProxyEndpoints E kube cluster)
    (\<lambda>new r. case px_ServiceRef (cl_Proxy (cluster_Spec cluster)) of
       None \<Rightarrow> new = [] \<and> fst r = [] \<and> snd r \<noteq> None
     | Some ref \<Rightarrow> (case new of
           [EListSlices rd ns svc slices] \<Rightarrow>
             rd = kube \<and> svc = psr_Name ref \<and>
             ns = (if psr_Namespace ref = [] then Namespace (cluster_Meta cluster)
                   else psr_Namespace ref) \<and>
             (case slices of
                Inl e \<Rightarrow> r = ([], Some e)
              | Inr items \<Rightarrow> snd r = None \<and>
                  map (\<lambda>p. (pe_Addresses p, pe_NodeName p)) (fst r) =
                    map (\<lambda>e. (endp_Addresses e, endp_NodeName e))
                      (filter (\<lambda>e. endp_Ready e \<noteq> Some False) (concat (map eps_Endpoints items))))
         | _ \<Rightarrow> False))"
proof -
  have "map (\<lambda>p. (pe_Addresses p, pe_NodeName p)) (concat (map slice_endpoint es)) =
      map (\<lambda>e. (endp_Addresses e, endp_NodeName e)) (filter (\<lambda>e. endp_Ready e \<noteq> Some False) es)" for es
    by (induction es) (auto simp: slice_endpoint_def split: option.splits)
  then have "map (\<lambda>p. (pe_Addresses p, pe_NodeName p)) (ready_endpoints items) =
      map (\<lambda>e. (endp_Addresses e, endp_NodeName e))
        (filter (\<lambda>e. endp_Ready e \<noteq> Some False) (concat (map eps_Endpoints items)))" for items
    by (induction items) (simp_all add: ready_endpoints_def)
  with assms show ?thesis
    unfolding discoverProxyEndpoints_def Let_def
    by (auto split: sum.splits intro!: behaves_rules behaves_return exchange_steps)
qed

text \<open>
  In External mode the endpoints are the configured addresses that are IP addresses, in order,
  then the addresses the DNS name resolves to; when the lookup fails the configured addresses are
  still returned, with the error.
\<close>

lemma discover_external_mode:
  assumes "px_Mode (cl_Proxy (cluster_Spec cluster)) = K1sProxyModeExternal"
    and "px_External (cl_Proxy (cluster_Spec cluster)) = Some ext"
  shows "behaves (discoverProxyEndpoints E kube cluster)
    (\<lambda>new r. concat (map pe_Addresses (fst r)) = filter ParseIP_ok (ext_Addresses ext) @
        (case new of [ELookupHost d (Inr addrs)] \<Rightarrow> addrs | _ \<Rightarrow> []) \<and>
      (snd r = None) = (ext_DNSName ext = [] \<or> (\<exists>addrs. new = [ELookupHost (ext_DNSName ext) (Inr addrs)])) \<and>
      (case new of [] \<Rightarrow> ext_DNSName ext = [] | ELookupHost d _ # rest \<Rightarrow>
            d = ext_DNSName ext \<and> d \<noteq> [] \<and> rest = []
       | _ \<Rightarrow> False))"
proof -
  have "concat (map pe_Addresses (map address_endpoint as)) = as" for as
    by (induction as) (simp_all add: address_endpoint_def)
  then show ?thesis
    unfolding discoverProxyEndpoints_def Let_def
    using assms by (auto split: sum.splits intro!: behaves_rules behaves_return exchange_steps)
qed

text \<open>
  The address test accepts IPv6 as well as IPv4, while the slice built from the addresses
  always declares the address type IPv4.
\<close>

theorem slice_declares_ipv4:
  "eps_AddressType (BuildExposureEndpointSlice cluster x
     (map address_endpoint (filter ParseIP_ok [''fd00::1'', ''10.0.0.1'', ''10.0.0.256'', ''::ffff:10.0.0.1'']))) = ''IPv4'' \<and>
   filter ParseIP_ok [''fd00::1'', ''10.0.0.1'', ''10.0.0.256'', ''::ffff:10.0.0.1''] =
     [''fd00::1'', ''10.0.0.1'', ''::ffff:10.0.0.1'']"
proof -
  have "filter ParseIP_ok [''fd00::1'', ''10.0.0.1'', ''10.0.0.256'', ''::ffff:10.0.0.1''] =
     [''fd00::1'', ''10.0.0.1'', ''::ffff:10.0.0.1'']"
    by code_simp
  then show ?thesis by (simp add: BuildExposureEndpointSlice_def Let_def)
qed

section \<open>Examples\<close>

definition empty_meta :: object_meta where
  "empty_meta = built_meta ''c'' ''k1s'' Map.empty"

definition sample_cluster :: "K1sProxySpec \<Rightarrow> K1sCluster" where
  "sample_cluster proxy =
     \<lparr>cluster_Meta = empty_meta,
      cluster_Spec = \<lparr>cl_Controller = \<lparr>ep_URL = ''http://k1s:80''\<rparr>, cl_Apishim = None,
        cl_BootstrapConfigMapRef = None, cl_AuthSecretRef = None, cl_Proxy = proxy,
        cl_PollIntervalSeconds = None\<rparr>,
      cluster_Status = \<lparr>cls_ObservedGeneration = 0, cls_ControllerAvailable = False,
        cls_ApishimAvailable = False, cls_ProxyReady = False, cls_StackDomain = [],
        cls_WildcardAppsDomain = [], cls_NodeSummary = \<lparr>kns_Ready = 0, kns_Stale = 0, kns_Total = 0\<rparr>,
        cls_Conditions = []\<rparr>\<rparr>"

definition sample_external :: K1sProxySpec where
  "sample_external = \<lparr>px_Mode = K1sProxyModeExternal, px_ServiceRef = None,
     px_External = Some \<lparr>ext_Addresses = [''10.0.0.1'', ''x''], ext_DNSName = [], ext_Port = 0\<rparr>\<rparr>"

definition sample_service :: K1sProxySpec where
  "sample_service = \<lparr>px_Mode = K1sProxyModeService,
     px_ServiceRef = Some \<lparr>psr_Name = ''proxy'', psr_Namespace = [], psr_Port = 80\<rparr>, px_External = None\<rparr>"

theorem discover_service_mode_witness:
  "behaves (discoverProxyEndpoints sample_env CachedClient (sample_cluster sample_service))
     (\<lambda>new r. \<exists>slices. new = [EListSlices CachedClient ''k1s'' ''proxy'' slices])"
  by (rule behaves_mono [OF discover_service_mode])
    (auto simp: sample_cluster_def sample_service_def empty_meta_def built_meta_def neq_Nil_conv
      never_Cons
      split: list.splits event.splits)

lemma discover_external_mode_example:
  "behaves (discoverProxyEndpoints sample_env CachedClient (sample_cluster sample_external))
     (\<lambda>new r. concat (map pe_Addresses (fst r)) = [''10.0.0.1''])"
proof -
  have "filter ParseIP_ok [''10.0.0.1'', ''x''] = [''10.0.0.1'']" by code_simp
  then show ?thesis
    by (intro behaves_mono [OF discover_external_mode])
      (auto simp: sample_cluster_def sample_external_def split: list.splits event.splits)
qed

end
