(* ===== verification/Cluster.thy ===== *)
theory Cluster
  imports Common Patch Proxy K1sCalls
begin

text \<open>
  src/internal/controller/cluster_controller.go: the reconciler of K1sCluster. One pass gathers the
  whole status from nothing: credentials, bootstrap config map, the controller's health and nodes,
  the proxy's endpoints; the last step patches it. The local variable \<open>status\<close> of the code is the
  record that the steps hand on.
\<close>

section \<open>The code\<close>

definition set_cluster_condition ::
  "env \<Rightarrow> K1sCluster \<Rightarrow> string \<Rightarrow> condition_status \<Rightarrow> string \<Rightarrow> string \<Rightarrow> K1sClusterStatus \<Rightarrow>
     K1sClusterStatus io" where
  "set_cluster_condition E cluster t st reason msg status = do {
     cs \<leftarrow> setCondition E (cls_Conditions status) t st reason msg (Generation (cluster_Meta cluster));
     State_Monad.return (status\<lparr>cls_Conditions := cs\<rparr>)
   }"

definition initial_status :: "K1sCluster \<Rightarrow> K1sClusterStatus" where
  "initial_status cluster =
     \<lparr>cls_ObservedGeneration = Generation (cluster_Meta cluster), cls_ControllerAvailable = False,
      cls_ApishimAvailable = False, cls_ProxyReady = False, cls_StackDomain = [],
      cls_WildcardAppsDomain = [], cls_NodeSummary = \<lparr>kns_Ready = 0, kns_Stale = 0, kns_Total = 0\<rparr>,
      cls_Conditions = []\<rparr>"

definition credentials_status ::
  "env \<Rightarrow> K1sCluster \<Rightarrow> go_error option \<Rightarrow> K1sClusterStatus \<Rightarrow> K1sClusterStatus io" where
  "credentials_status E cluster err status =
     (case err of
        Some e \<Rightarrow> set_cluster_condition E cluster CondCredentialsValid ConditionFalse ReasonMissing
          (Error E e) status
      | None \<Rightarrow> set_cluster_condition E cluster CondCredentialsValid ConditionTrue ReasonReady
          ''credentials loaded'' status)"

definition map_value :: "(string \<rightharpoonup> string) \<Rightarrow> string \<Rightarrow> string" where
  "map_value m k = (case m k of None \<Rightarrow> [] | Some v \<Rightarrow> v)"

definition bootstrap_status ::
  "env \<Rightarrow> reader option \<Rightarrow> K1sCluster \<Rightarrow> K1sClusterStatus \<Rightarrow> K1sClusterStatus io" where
  "bootstrap_status E Reader cluster status =
     (case cl_BootstrapConfigMapRef (cluster_Spec cluster) of
        Some ref \<Rightarrow> do {
          let reader = (case Reader of None \<Rightarrow> CachedClient | Some r \<Rightarrow> r);
          found \<leftarrow> kube_Get E reader KindConfigMap
            \<lparr>nn_Namespace = NamespaceOr ref (Namespace (cluster_Meta cluster)), nn_Name = ref_Name ref\<rparr>;
          case found of
            Inl e \<Rightarrow> set_cluster_condition E cluster CondBootstrapLoaded ConditionFalse ReasonMissing
              (Error E e) status
          | Inr (OConfigMap cm) \<Rightarrow>
              set_cluster_condition E cluster CondBootstrapLoaded ConditionTrue ReasonReady
                ''bootstrap loaded''
                (status\<lparr>cls_StackDomain := map_value (cm_Data cm) ''stack_domain'',
                        cls_WildcardAppsDomain := map_value (cm_Data cm) ''wildcard_apps_domain''\<rparr>)
          | Inr _ \<Rightarrow> State_Monad.return status
        }
      | None \<Rightarrow> set_cluster_condition E cluster CondBootstrapLoaded ConditionFalse ReasonMissing
          ''bootstrap configmap not configured'' status)"

definition controller_status ::
  "env \<Rightarrow> K1sCluster \<Rightarrow> apiCredentials \<Rightarrow> K1sClusterStatus \<Rightarrow> K1sClusterStatus io" where
  "controller_status E cluster creds status =
     (case NewClient E (ep_URL (cl_Controller (cluster_Spec cluster)))
         [WithBearerToken (readToken creds), WithCABundle (caBundle creds)] of
        Inl clientErr \<Rightarrow>
          set_cluster_condition E cluster CondControllerAvailable ConditionFalse ReasonInvalid
            (Error E clientErr) status
      | Inr api \<Rightarrow> do {
          healthErr \<leftarrow> Health E api;
          case healthErr of
            Some e \<Rightarrow>
              set_cluster_condition E cluster CondControllerAvailable ConditionFalse
                ReasonUnavailable (Error E e) status
          | None \<Rightarrow> do {
              status \<leftarrow> set_cluster_condition E cluster CondControllerAvailable ConditionTrue
                ReasonReady ''controller API is reachable'' (status\<lparr>cls_ControllerAvailable := True\<rparr>);
              nodes \<leftarrow> Nodes E api;
              State_Monad.return
                (case snd nodes of
                   None \<Rightarrow> status\<lparr>cls_NodeSummary := \<lparr>kns_Ready = ns_Ready (fst nodes),
                     kns_Stale = ns_Stale (fst nodes), kns_Total = ns_Total (fst nodes)\<rparr>\<rparr>
                 | Some _ \<Rightarrow> status)
            }
        })"

definition proxy_status ::
  "env \<Rightarrow> reader option \<Rightarrow> K1sCluster \<Rightarrow> K1sClusterStatus \<Rightarrow> K1sClusterStatus io" where
  "proxy_status E Reader cluster status = do {
     let reader = (case Reader of None \<Rightarrow> CachedClient | Some r \<Rightarrow> r);
     r \<leftarrow> discoverProxyEndpoints E reader cluster;
     case snd r of
       Some proxyErr \<Rightarrow> set_cluster_condition E cluster CondProxyReady ConditionFalse
         ReasonUnavailable (Error E proxyErr) status
     | None \<Rightarrow>
         let ready = 0 < length (fst r) in
         set_cluster_condition E cluster CondProxyReady (conditionStatus ready)
           (reasonForBool ready) (proxyMessage (length (fst r))) (status\<lparr>cls_ProxyReady := ready\<rparr>)
   }"

definition apishim_status ::
  "env \<Rightarrow> K1sCluster \<Rightarrow> K1sClusterStatus \<Rightarrow> K1sClusterStatus io" where
  "apishim_status E cluster status =
     (if cl_Apishim (cluster_Spec cluster) \<noteq> None
      then set_cluster_condition E cluster CondApishimAvailable ConditionFalse ReasonPending
        ''apishim URL configured; active apishim health check is deferred''
        (status\<lparr>cls_ApishimAvailable := False\<rparr>)
      else State_Monad.return status)"

definition ready_status ::
  "env \<Rightarrow> K1sCluster \<Rightarrow> go_error option \<Rightarrow> K1sClusterStatus \<Rightarrow> K1sClusterStatus io" where
  "ready_status E cluster err status =
     (let ready = (cls_ControllerAvailable status \<and> cls_ProxyReady status \<and> err = None) in
      set_cluster_condition E cluster CondReady (conditionStatus ready) (reasonForBool ready)
        (clusterReadyMessage ready) status)"

fun put_cluster_status :: "K1sClusterStatus \<Rightarrow> kobject \<Rightarrow> kobject" where
  "put_cluster_status status (OCluster c) = OCluster (c\<lparr>cluster_Status := status\<rparr>)"
| "put_cluster_status status x = x"

definition gather_cluster_status ::
  "env \<Rightarrow> reader option \<Rightarrow> K1sCluster \<Rightarrow> K1sClusterStatus io" where
  "gather_cluster_status E Reader cluster = do {
     r \<leftarrow> loadCredentials E (Namespace (cluster_Meta cluster))
       (cl_AuthSecretRef (cluster_Spec cluster));
     status \<leftarrow> credentials_status E cluster (snd r) (initial_status cluster);
     status \<leftarrow> bootstrap_status E Reader cluster status;
     status \<leftarrow> (if snd r = None then controller_status E cluster (fst r) status
                else State_Monad.return status);
     status \<leftarrow> proxy_status E Reader cluster status;
     status \<leftarrow> apishim_status E cluster status;
     ready_status E cluster (snd r) status
   }"

definition reconcile_cluster :: "env \<Rightarrow> reader option \<Rightarrow> K1sCluster \<Rightarrow> outcome io" where
  "reconcile_cluster E Reader cluster = do {
     status \<leftarrow> gather_cluster_status E Reader cluster;
     updateErr \<leftarrow> patchStatus E (OCluster cluster)
       (\<lambda>cur. State_Monad.return (put_cluster_status status cur));
     case updateErr of
       Some e \<Rightarrow> do {
         _ \<leftarrow> log_message ''unable to update K1sCluster status'';
         State_Monad.return (no_result, Some e)
       }
     | None \<Rightarrow> State_Monad.return
         (requeue_after (pollInterval (cl_PollIntervalSeconds (cluster_Spec cluster))), None)
   }"

definition K1sCluster_Reconcile :: "env \<Rightarrow> reader option \<Rightarrow> namespaced_name \<Rightarrow> outcome io" where
  "K1sCluster_Reconcile E Reader req = do {
     found \<leftarrow> kube_Get E CachedClient KindCluster req;
     case found of
       Inl e \<Rightarrow> State_Monad.return (no_result, if kube_IsNotFound e then None else Some e)
     | Inr (OCluster cluster) \<Rightarrow> reconcile_cluster E Reader cluster
     | Inr _ \<Rightarrow> State_Monad.return (no_result, None)
   }"

section \<open>Each step\<close>

text \<open>The status of a condition in a cluster status.\<close>

definition cluster_cond :: "K1sClusterStatus \<Rightarrow> string \<Rightarrow> condition_status option" where
  "cluster_cond s t = map_option fst (cond_map (cls_Conditions s) t)"

text \<open>A step that decides the condition \<open>t\<close> and leaves the others, the generation and, apart from
  the two flags, what the ready condition depends on.\<close>

definition decides :: "string \<Rightarrow> K1sClusterStatus \<Rightarrow> K1sClusterStatus \<Rightarrow> bool" where
  "decides t s s' \<longleftrightarrow> cls_ObservedGeneration s' = cls_ObservedGeneration s \<and>
     (\<forall>u. u \<noteq> t \<longrightarrow> cluster_cond s' u = cluster_cond s u)"

lemma decides_refl [simp]: "decides t s s"
  by (simp add: decides_def)

lemma set_cluster_condition_spec:
  assumes "lawful E"
  shows "behaves (set_cluster_condition E cluster t st reason msg s)
    (\<lambda>new s'. observes new \<and> decides t s s' \<and> cluster_cond s' t = Some st \<and>
       cls_ControllerAvailable s' = cls_ControllerAvailable s \<and> cls_ProxyReady s' = cls_ProxyReady s)"
  unfolding set_cluster_condition_def
  by (rule setCondition_step [OF assms])
    (auto simp: decides_def cluster_cond_def only_clock_observes intro!: behaves_return)

lemmas cluster_condition_last = behaves_mono [OF set_cluster_condition_spec]
lemmas cluster_condition_step = behaves_bind [OF set_cluster_condition_spec]

lemma credentials_status_spec:
  assumes "lawful E"
  shows "behaves (credentials_status E cluster err s)
    (\<lambda>new s'. observes new \<and> decides CondCredentialsValid s s' \<and>
       cluster_cond s' CondCredentialsValid = Some (conditionStatus (err = None)) \<and>
       cls_ControllerAvailable s' = cls_ControllerAvailable s \<and> cls_ProxyReady s' = cls_ProxyReady s)"
  unfolding credentials_status_def
  by (auto intro!: behaves_rules cluster_condition_last [OF assms])

lemma decidesD:
  assumes "decides t s s'"
  shows "cls_ObservedGeneration s' = cls_ObservedGeneration s"
    and "u \<noteq> t \<Longrightarrow> cluster_cond s' u = cluster_cond s u"
  using assms by (simp_all add: decides_def)

lemma decides_update:
  "decides t (s\<lparr>cls_StackDomain := a, cls_WildcardAppsDomain := b\<rparr>) s' = decides t s s'"
  "decides t (s\<lparr>cls_ControllerAvailable := c\<rparr>) s' = decides t s s'"
  "decides t (s\<lparr>cls_ProxyReady := c\<rparr>) s' = decides t s s'"
  "decides t (s\<lparr>cls_ApishimAvailable := c\<rparr>) s' = decides t s s'"
  "decides t s (s'\<lparr>cls_NodeSummary := n\<rparr>) = decides t s s'"
  by (simp_all add: decides_def cluster_cond_def)

lemma bootstrap_status_spec:
  assumes "lawful E"
  shows "behaves (bootstrap_status E Reader cluster s)
    (\<lambda>new s'. observes new \<and> decides CondBootstrapLoaded s s' \<and>
       cls_ControllerAvailable s' = cls_ControllerAvailable s \<and> cls_ProxyReady s' = cls_ProxyReady s)"
  unfolding bootstrap_status_def Let_def
  by (auto simp: decides_update split: kobject.splits
      intro!: behaves_rules exchange_steps behaves_return cluster_condition_last [OF assms])

lemma Health_spec:
  "behaves (Health E c) (\<lambda>new err. (\<forall>e\<in>set new. client_traffic c e) \<and> outcome_seen new err)"
  unfolding Health_def
proof (rule behaves_bind [OF get.contract], rule behaves_case_option, goal_cases)
  case (1 n1 r)
  then show ?case by (auto intro: behaves_return)
next
  case (2 n1 r e)
  then show ?case
    by (auto intro!: behaves_bind [OF get.contract] behaves_return intro: outcome_seen_append)
qed

lemma controller_status_spec:
  assumes "lawful E"
  shows "behaves (controller_status E cluster creds s)
    (\<lambda>new s'. observes new \<and> decides CondControllerAvailable s s' \<and>
       (\<not> cls_ControllerAvailable s \<longrightarrow>
          cluster_cond s' CondControllerAvailable = Some (conditionStatus (cls_ControllerAvailable s')) \<and>
          (cls_ControllerAvailable s' \<longrightarrow> good_seen new)) \<and>
       cls_ProxyReady s' = cls_ProxyReady s)"
  unfolding controller_status_def
proof (rule behaves_case_sum, goal_cases)
  case (1 e)
  show ?case by (auto intro!: cluster_condition_last [OF assms])
next
  case (2 api)
  show ?case
  proof (rule behaves_bind [OF Health_spec], rule behaves_case_option, goal_cases)
    case (1 n1 err)
    then have "good_seen n1" "observes n1"
      by (auto simp: outcome_seen_def success_seen_good traffic_observes)
    then show ?case
      by (auto simp: decides_update cluster_cond_def traffic_observes split: option.splits
          intro!: cluster_condition_step [OF assms] behaves_bind [OF nodes.contract] behaves_return)
  next
    case (2 n1 err e)
    then show ?case by (auto simp: traffic_observes intro!: cluster_condition_last [OF assms])
  qed
qed

lemma proxy_observes: "\<forall>e\<in>set new. proxy_event e \<Longrightarrow> observes new"
  by (auto simp: observes_def proxy_event_def split: event.splits)
    (metis is_kube_write.simps event.exhaust)+

lemma proxy_status_spec:
  assumes "lawful E"
  shows "behaves (proxy_status E Reader cluster s)
    (\<lambda>new s'. observes new \<and> decides CondProxyReady s s' \<and>
       (\<not> cls_ProxyReady s \<longrightarrow>
          cluster_cond s' CondProxyReady = Some (conditionStatus (cls_ProxyReady s'))) \<and>
       cls_ControllerAvailable s' = cls_ControllerAvailable s)"
  unfolding proxy_status_def Let_def
  by (rule behaves_bind [OF discoverProxyEndpoints_spec])
    (auto simp: decides_update proxy_observes
      intro!: behaves_rules cluster_condition_last [OF assms])

lemma apishim_status_spec:
  assumes "lawful E"
  shows "behaves (apishim_status E cluster s)
    (\<lambda>new s'. observes new \<and> decides CondApishimAvailable s s' \<and>
       cls_ControllerAvailable s' = cls_ControllerAvailable s \<and> cls_ProxyReady s' = cls_ProxyReady s)"
  unfolding apishim_status_def
  by (auto simp: decides_update intro!: behaves_rules behaves_return cluster_condition_last [OF assms])

text \<open>What a gathered status says, and that it rests on what was observed.\<close>

definition cluster_status_ok :: "K1sCluster \<Rightarrow> event list \<Rightarrow> K1sClusterStatus \<Rightarrow> bool" where
  "cluster_status_ok cluster new s \<longleftrightarrow>
     cls_ObservedGeneration s = Generation (cluster_Meta cluster) \<and>
     (\<exists>creds. cluster_cond s CondCredentialsValid = Some (conditionStatus creds) \<and>
        cluster_cond s CondReady = Some (conditionStatus
          (cls_ControllerAvailable s \<and> cls_ProxyReady s \<and> creds)) \<and>
        (creds \<longrightarrow> cluster_cond s CondControllerAvailable =
           Some (conditionStatus (cls_ControllerAvailable s))) \<and>
        (\<not> creds \<longrightarrow> \<not> cls_ControllerAvailable s)) \<and>
     cluster_cond s CondProxyReady = Some (conditionStatus (cls_ProxyReady s)) \<and>
     (cls_ControllerAvailable s \<longrightarrow> good_seen new)"

lemma loadCredentials_observes:
  "behaves (loadCredentials E ns ref) (\<lambda>new r. observes new)"
  by (rule behaves_mono [OF loadCredentials_spec]) (auto simp: observes_def dest: credentials_ok_reads)

lemma controller_step_spec:
  assumes "lawful E"
  shows "behaves (if err = None then controller_status E cluster creds s else State_Monad.return s)
    (\<lambda>new s'. observes new \<and> decides CondControllerAvailable s s' \<and>
       (\<not> cls_ControllerAvailable s \<longrightarrow>
          (err = None \<longrightarrow> cluster_cond s' CondControllerAvailable =
             Some (conditionStatus (cls_ControllerAvailable s'))) \<and>
          (err \<noteq> None \<longrightarrow> \<not> cls_ControllerAvailable s') \<and>
          (cls_ControllerAvailable s' \<longrightarrow> good_seen new)) \<and>
       cls_ProxyReady s' = cls_ProxyReady s)"
  by (auto intro!: behaves_rules behaves_return behaves_mono [OF controller_status_spec [OF assms]])

lemma gather_cluster_status_spec:
  assumes "lawful E"
  shows "behaves (gather_cluster_status E Reader cluster)
    (\<lambda>new s. observes new \<and> cluster_status_ok cluster new s)"
  unfolding gather_cluster_status_def
proof (rule behaves_bind [OF loadCredentials_observes], rule behaves_bind [OF credentials_status_spec [OF assms]],
    rule behaves_bind [OF bootstrap_status_spec [OF assms]],
    rule behaves_bind [OF controller_step_spec [OF assms]],
    rule behaves_bind [OF proxy_status_spec [OF assms]],
    rule behaves_bind [OF apishim_status_spec [OF assms]], goal_cases)
  case (1 n1 r n2 s2 n3 s3 n4 s4 n5 s5 n6 s6)
  have init: "\<not> cls_ControllerAvailable s2" "\<not> cls_ProxyReady s2" "\<not> cls_ControllerAvailable s3"
      "\<not> cls_ProxyReady s3" "\<not> cls_ProxyReady s4"
    using 1 by (simp_all add: initial_status_def)
  have d: "decides CondCredentialsValid (initial_status cluster) s2"
      "decides CondBootstrapLoaded s2 s3" "decides CondControllerAvailable s3 s4"
      "decides CondProxyReady s4 s5" "decides CondApishimAvailable s5 s6"
    using 1 by blast+
  note keep = d [THEN decidesD(1)] d [THEN decidesD(2)]
  have flags: "cls_ControllerAvailable s6 = cls_ControllerAvailable s4"
      "cls_ProxyReady s6 = cls_ProxyReady s5"
    using 1 by simp_all
  have before: "cls_ObservedGeneration s6 = Generation (cluster_Meta cluster)"
      "cluster_cond s6 CondCredentialsValid = Some (conditionStatus (snd r = None))"
      "snd r = None \<Longrightarrow> cluster_cond s6 CondControllerAvailable =
         Some (conditionStatus (cls_ControllerAvailable s6))"
      "snd r \<noteq> None \<Longrightarrow> \<not> cls_ControllerAvailable s6"
      "cluster_cond s6 CondProxyReady = Some (conditionStatus (cls_ProxyReady s6))"
      "cls_ControllerAvailable s6 \<Longrightarrow> good_seen n4"
    unfolding flags using 1 init by (simp_all add: keep) (simp add: initial_status_def)
  have obs: "observes (n1 @ n2 @ n3 @ n4 @ n5 @ n6)" using 1 by simp
  show ?case
    unfolding ready_status_def Let_def
  proof (rule cluster_condition_last [OF assms], goal_cases)
    case (1 n7 s7)
    then have "decides CondReady s6 s7" by blast
    note keep7 = decidesD [OF this]
    show ?case
      using 1 obs before by (auto simp: cluster_status_ok_def keep7)
  qed
qed

lemma put_cluster_status_same [simp]: "same_object (put_cluster_status s x) x"
  by (cases x) (simp_all add: same_object_def ObjectKeyFromObject_def)

text \<open>What one reconciliation of a cluster does: it gathers a status and patches it.\<close>

lemma reconcile_cluster_spec:
  assumes "lawful E"
  shows "behaves (reconcile_cluster E Reader cluster)
    (\<lambda>new r. \<exists>n1 n2 s err rest. new = n1 @ n2 @ rest \<and> observes n1 \<and> observes rest \<and>
       cluster_status_ok cluster n1 s \<and>
       (\<forall>e\<in>set n2. status_patch.patch_event (OCluster cluster) (\<lambda>cur y. y = put_cluster_status s cur) e) \<and>
       status_patch.patch_outcome n2 err \<and>
       (case err of None \<Rightarrow> rest = [] \<and> r = (requeue_after
            (pollInterval (cl_PollIntervalSeconds (cluster_Spec cluster))), None)
        | Some e \<Rightarrow> r = (no_result, Some e)))"
proof -
  have ps: "behaves (patchStatus E (OCluster cluster) (\<lambda>cur. State_Monad.return (put_cluster_status s cur)))
      (\<lambda>new r. (\<forall>e\<in>set new. status_patch.patch_event (OCluster cluster)
          (\<lambda>cur y. y = put_cluster_status s cur) e) \<and> status_patch.patch_outcome new r)" for s
    by (rule patchStatus_spec [OF assms]) (auto intro: behaves_return)
  show ?thesis
    unfolding reconcile_cluster_def
  proof (rule behaves_bind [OF gather_cluster_status_spec [OF assms]], rule behaves_bind [OF ps],
      rule behaves_case_option, goal_cases)
    case (1 n1 s n2 err)
    then show ?case
      by (intro behaves_return exI [of _ n1] exI [of _ n2] exI [of _ s] exI [of _ err] exI [of _ "[]"]) simp
  next
    case (2 n1 s n2 err e)
    then show ?case
      by (intro exchange_steps behaves_return exI [of _ n1] exI [of _ n2] exI [of _ s] exI [of _ err]
          exI [of _ "[ELog ''unable to update K1sCluster status'']"]) simp
  qed
qed

section \<open>Properties\<close>

text \<open>
  C18: Ready is earned. Whatever the services answer, every write of a reconciliation of a cluster is
  a patch of that cluster's own status, with this generation observed; in the status it writes,
  Ready is True exactly when the controller is available, the proxy has endpoints and the
  credentials are valid, each of these flags agrees with its condition, and a controller reported
  available did answer with a 2xx status earlier in this same reconciliation.
\<close>

theorem cluster_ready_is_earned:
  assumes "lawful E"
    and "run_state (reconcile_cluster E Reader cluster) h = (r, h @ new)"
    and "e \<in> set new" and "is_kube_write e"
  shows "\<exists>cur y res. e = EStatusPatch (OCluster cur) (OCluster y) res \<and>
    same_object (OCluster cur) (OCluster cluster) \<and> y = cur\<lparr>cluster_Status := cluster_Status y\<rparr> \<and>
    (let s = cluster_Status y in
       cls_ObservedGeneration s = Generation (cluster_Meta cluster) \<and>
       (cluster_cond s ''Ready'' = Some ConditionTrue) =
         (cls_ControllerAvailable s \<and> cls_ProxyReady s \<and>
          cluster_cond s ''CredentialsValid'' = Some ConditionTrue) \<and>
       (cluster_cond s ''ProxyReady'' = Some ConditionTrue) = cls_ProxyReady s \<and>
       (cls_ControllerAvailable s \<longrightarrow> cluster_cond s ''ControllerAvailable'' = Some ConditionTrue \<and>
          (\<exists>x\<in>set new. answered success_code x)))"
proof -
  obtain n1 n2 s rest where new: "new = n1 @ n2 @ rest" "observes n1" "observes rest"
    and s: "cluster_status_ok cluster n1 s"
    and ev: "\<forall>e\<in>set n2. status_patch.patch_event (OCluster cluster)
      (\<lambda>cur y. y = put_cluster_status s cur) e"
    using behaves_run [OF reconcile_cluster_spec [OF assms(1)] assms(2)] by blast
  have "e \<in> set n2"
    using new assms(3,4) by (auto simp: observes_def)
  with ev assms(4) obtain x res where e: "e = EStatusPatch x (put_cluster_status s x) res"
    and x: "same_object x (OCluster cluster)"
    by (cases e) (auto simp: status_patch_event)
  obtain cur where cur: "x = OCluster cur"
    using x by (cases x) (auto simp: same_object_def)
  from s show ?thesis
    using e x by (auto simp: cur new cluster_status_ok_def good_seen_def)
qed

lemma run_reconcile_cluster_sample:
  "run_state (reconcile_cluster (holding (OCluster c) sample_env) Reader c) [] =
     ((requeue_after (pollInterval (cl_PollIntervalSeconds (cluster_Spec c))), None),
      [] @ (trace_of (gather_cluster_status (holding (OCluster c) sample_env) Reader c) [] @
      [EGet CachedClient KindCluster (ObjectKeyFromObject (OCluster c)) (Inr (OCluster c)),
       EStatusPatch (OCluster c) (put_cluster_status
         (result_of (gather_cluster_status (holding (OCluster c) sample_env) Reader c) [])
         (OCluster c)) None]))"
  by (simp add: reconcile_cluster_def run_patchStatus_sample)

theorem cluster_ready_is_earned_witness:
  "\<exists>e cur y res. e \<in> set (trace_of (reconcile_cluster
       (holding (OCluster (sample_cluster sample_external)) sample_env) None
       (sample_cluster sample_external)) []) \<and>
     e = EStatusPatch (OCluster cur) (OCluster y) res \<and>
     cls_ObservedGeneration (cluster_Status y) = 0"
proof -
  let ?c = "sample_cluster sample_external"
  let ?E = "holding (OCluster ?c) sample_env"
  let ?e = "EStatusPatch (OCluster ?c) (put_cluster_status
      (result_of (gather_cluster_status ?E None ?c) []) (OCluster ?c)) None"
  have "\<exists>cur y res. ?e = EStatusPatch (OCluster cur) (OCluster y) res \<and>
      cls_ObservedGeneration (cluster_Status y) = Generation (cluster_Meta ?c)"
    using cluster_ready_is_earned [OF _ run_reconcile_cluster_sample [of ?c None], where e = ?e]
    by (auto simp: Let_def)
  then show ?thesis
    using run_reconcile_cluster_sample [of ?c None]
    by (auto simp: sample_cluster_def empty_meta_def built_meta_def)
qed

text \<open>
  C19: a reconciliation of a cluster that returns no error found no such cluster, or had its status
  accepted by the API as its last exchange and asks to be called again after the poll interval.
  Any error of reading the cluster or of the patch is returned, and then nothing is scheduled.
\<close>

theorem cluster_success_is_written:
  assumes "lawful E"
  shows "behaves (K1sCluster_Reconcile E Reader req)
    (\<lambda>new r. case snd r of
       Some _ \<Rightarrow> fst r = no_result
     | None \<Rightarrow> (\<exists>e. new = [EGet CachedClient KindCluster req (Inl e)] \<and> kube_IsNotFound e \<and>
           fst r = no_result) \<or>
         (\<exists>cluster cur y. hd new = EGet CachedClient KindCluster req (Inr (OCluster cluster)) \<and>
           last new = EStatusPatch cur y None \<and>
           fst r = requeue_after (pollInterval (cl_PollIntervalSeconds (cluster_Spec cluster)))))"
  unfolding K1sCluster_Reconcile_def
proof (rule exchange_steps, rule behaves_case_sum, goal_cases)
  case (1 n1 found e)
  then show ?case by (auto intro!: behaves_return)
next
  case (2 n1 found x)
  then obtain cluster where x: "x = OCluster cluster" by (cases x) auto
  show ?case
    unfolding x kobject.case
    by (rule behaves_mono [OF reconcile_cluster_spec [OF assms]])
      (use 2 x in \<open>fastforce simp: status_patch.patch_outcome_def split: option.splits\<close>)
qed

theorem cluster_success_is_written_witness:
  "\<exists>new. trace_of (K1sCluster_Reconcile sample_env None \<lparr>nn_Namespace = ''a'', nn_Name = ''b''\<rparr>) [] = new \<and>
     length new = 1"
proof -
  let ?m = "K1sCluster_Reconcile sample_env None \<lparr>nn_Namespace = ''a'', nn_Name = ''b''\<rparr>"
  have none: "snd (result_of ?m []) = None" "fst (result_of ?m []) = no_result"
    by (simp_all add: K1sCluster_Reconcile_def kube_Get_def)
  have "behaves ?m (\<lambda>new r. snd r = None \<longrightarrow> new \<noteq> [] \<and> fst r = no_result \<longrightarrow> length new = 1 \<or>
      (\<exists>cur y. last new = EStatusPatch cur y None))"
    by (rule behaves_mono [OF cluster_success_is_written]) (auto split: option.splits)
  then show ?thesis
    using none by (simp add: K1sCluster_Reconcile_def kube_Get_def)
qed

end
