(* ===== verification/Capability.thy ===== *)
theory Capability
  imports Common Patch K1sCalls
begin

text \<open>
  src/internal/controller/capability_controller.go, what the reconcilers of K1sApp,
  K1sInferenceEndpoint and K1sResourceSet share: the client with the write token, the names found
  in a manifest, and the life of the clean-up finalizer. The three \<open>Reconcile\<close> functions repeat
  one skeleton; the locale \<open>capability\<close> states it, with what each of them fills in, and its lemmas
  hold for all three.
\<close>

section \<open>The code\<close>

definition capabilityFinalizer :: string where
  "capabilityFinalizer = ''operator.k1s.io/capability-cleanup''"

definition writeClient ::
  "env \<Rightarrow> string \<Rightarrow> NamespacedNameRef \<Rightarrow> (go_error + Client \<times> K1sCluster) io" where
  "writeClient E namespace ref = do {
     found \<leftarrow> kube_Get E CachedClient KindCluster
       \<lparr>nn_Namespace = NamespaceOr ref namespace, nn_Name = ref_Name ref\<rparr>;
     case found of
       Inl e \<Rightarrow> State_Monad.return (Inl e)
     | Inr (OCluster cluster) \<Rightarrow> do {
         r \<leftarrow> loadCredentials E (Namespace (cluster_Meta cluster))
           (cl_AuthSecretRef (cluster_Spec cluster));
         State_Monad.return
           (case snd r of
              Some e \<Rightarrow> Inl e
            | None \<Rightarrow>
                if writeToken (fst r) = []
                then Inl (TextErr ''write token is required for k1s capability CRUD'')
                else (case NewClient E (ep_URL (cl_Controller (cluster_Spec cluster)))
                    [WithBearerToken (writeToken (fst r)), WithCABundle (caBundle (fst r))] of
                    Inl e \<Rightarrow> Inl e
                  | Inr api \<Rightarrow> Inr (api, cluster)))
       }
     | Inr _ \<Rightarrow> State_Monad.return (Inl (TextErr ''unable to decode object''))
   }"

definition kindFromManifest :: "bytes \<Rightarrow> string" where
  "kindFromManifest raw = mh_kind (fst (Unmarshal_head raw))"

definition appRefFromManifest :: "bytes \<Rightarrow> string \<times> string" where
  "appRefFromManifest raw =
     (let head = fst (Unmarshal_head raw) in
      (if mh_namespace head = [] then ''default'' else mh_namespace head, mh_name head))"

definition resourceDeleteName :: "string \<Rightarrow> string \<Rightarrow> string" where
  "resourceDeleteName namespace name =
     (if namespace \<noteq> [] \<and> namespace \<noteq> ''default'' then namespace @ ''--'' @ name else name)"

definition appNameFromManifest :: "bytes \<Rightarrow> string" where
  "appNameFromManifest raw =
     (case appRefFromManifest raw of
        (namespace, name) \<Rightarrow>
          if namespace \<noteq> [] \<and> namespace \<noteq> ''default'' then namespace @ ''--'' @ name else name)"

definition has_finalizer :: "kobject \<Rightarrow> bool" where
  "has_finalizer obj = containsString (Finalizers (meta_of obj)) capabilityFinalizer"

definition being_deleted :: "kobject \<Rightarrow> bool" where
  "being_deleted obj = (DeletionTimestamp (meta_of obj) \<noteq> None)"

definition add_finalizer :: "env \<Rightarrow> kobject \<Rightarrow> outcome io" where
  "add_finalizer E obj = do {
     err \<leftarrow> patchFinalizers E obj (Finalizers (meta_of obj) @ [capabilityFinalizer]);
     State_Monad.return
       (case err of
          Some e \<Rightarrow> (no_result, Some e)
        | None \<Rightarrow> (no_result\<lparr>res_Requeue := True\<rparr>, None))
   }"

definition remove_finalizer :: "env \<Rightarrow> kobject \<Rightarrow> outcome io" where
  "remove_finalizer E obj = do {
     err \<leftarrow> patchFinalizers E obj (removeString (Finalizers (meta_of obj)) capabilityFinalizer);
     State_Monad.return (no_result, err)
   }"

lemmas capability_defs [go_defs] = kindFromManifest_def appRefFromManifest_def
  resourceDeleteName_def appNameFromManifest_def has_finalizer_def being_deleted_def

section \<open>The write client\<close>

text \<open>What a client made here is allowed: the token is the write token of the Secret that was read.\<close>

definition writer_ok ::
  "event list \<Rightarrow> go_error + Client \<times> K1sCluster \<Rightarrow> bool" where
  "writer_ok new r \<longleftrightarrow>
     (\<forall>e\<in>set new. \<not> is_kube_write e \<and> \<not> is_http e) \<and>
     (\<forall>api cluster. r = Inr (api, cluster) \<longrightarrow>
        (\<exists>k key ns s secret. new = [EGet CachedClient KindCluster key (Inr (OCluster cluster)),
            secret_get ns s (Inr (OSecret secret))] \<and>
           cl_AuthSecretRef (cluster_Spec cluster) = Some s \<and>
           cli_token api = TrimSpace (writeToken (fst (credentials_from k s secret))) \<and>
           writeToken (fst (credentials_from k s secret)) \<noteq> []))"

lemma NewClient_token:
  assumes "NewClient E u [WithBearerToken t, WithCABundle ca] = Inr api"
  shows "cli_token api = TrimSpace t"
  using assms
  by (auto simp: NewClient_def WithBearerToken_def WithCABundle_def Let_def
      split: sum.splits if_splits)

lemma writeClient_spec: "behaves (writeClient E ns ref) writer_ok"
  unfolding writeClient_def
proof (rule exchange_steps, rule behaves_case_sum, goal_cases)
  case (1 n1 found e)
  then show ?case by (auto simp: writer_ok_def intro!: behaves_return)
next
  case (2 n1 found x)
  then obtain cluster where x: "x = OCluster cluster" by (cases x) auto
  show ?case
    unfolding x kobject.case
  proof (rule behaves_bind [OF loadCredentials_spec], rule behaves_return, goal_cases)
    case (1 n2 r)
    show ?case
      using 1 2 credentials_ok_reads [OF 1]
      by (fastforce simp: x writer_ok_def credentials_ok_def no_credentials_def secret_get_def
          dest: NewClient_token split: option.splits sum.splits if_splits)
  qed
qed

section \<open>The life of the finalizer\<close>

definition removes_finalizer :: "event \<Rightarrow> bool" where
  "removes_finalizer e \<longleftrightarrow>
     (case e of EPatch cur y _ \<Rightarrow> has_finalizer cur \<and> \<not> has_finalizer y | _ \<Rightarrow> False)"

text \<open>A write to the object itself: its status, or its metadata.\<close>

definition writes_to :: "kobject \<Rightarrow> event \<Rightarrow> bool" where
  "writes_to obj e \<longleftrightarrow>
     (case e of EStatusPatch cur _ _ \<Rightarrow> same_object cur obj | EPatch cur _ _ \<Rightarrow> same_object cur obj
      | _ \<Rightarrow> \<not> is_kube_write e)"

text \<open>An exchange of a step that reports: no request, and no change but of the object's status.\<close>

definition reports :: "kobject \<Rightarrow> event \<Rightarrow> bool" where
  "reports obj e \<longleftrightarrow> writes_to obj e \<and> \<not> is_http e \<and> (case e of EPatch _ _ _ \<Rightarrow> False | _ \<Rightarrow> True)"

text \<open>An exchange of a step that applies: a request of the client, or a change that keeps the
  finalizers.\<close>

definition applies :: "kobject \<Rightarrow> Client \<Rightarrow> event \<Rightarrow> bool" where
  "applies obj api e \<longleftrightarrow> writes_to obj e \<and> (is_http e \<longrightarrow> client_traffic api e) \<and>
     (case e of EPatch cur y _ \<Rightarrow> Finalizers (meta_of y) = Finalizers (meta_of cur) | _ \<Rightarrow> True)"

lemma reports_applies: "reports obj e \<Longrightarrow> applies obj api e"
  by (auto simp: reports_def applies_def split: event.splits)

lemma traffic_applies: "client_traffic api e \<Longrightarrow> applies obj api e"
  by (auto simp: applies_def writes_to_def client_traffic_def split: event.splits)

text \<open>An exchange that applies nothing: it reads from the controller, or reports.\<close>

definition looks :: "kobject \<Rightarrow> Client \<Rightarrow> event \<Rightarrow> bool" where
  "looks obj api e \<longleftrightarrow> applies obj api e \<and> requests ''GET'' e \<and>
     (case e of EPatch _ _ _ \<Rightarrow> False | _ \<Rightarrow> True)"

lemma reports_looks: "reports obj e \<Longrightarrow> looks obj api e"
  by (auto simp: reports_def applies_def looks_def requests_def split: event.splits)

lemma traffic_looks: "client_traffic api e \<Longrightarrow> requests ''GET'' e \<Longrightarrow> looks obj api e"
  by (auto simp: looks_def traffic_applies client_traffic_def split: event.splits)

lemma looks_applies: "looks obj api e \<Longrightarrow> applies obj api e"
  by (simp add: looks_def)

lemma applies_not_removing: "applies obj api e \<Longrightarrow> \<not> removes_finalizer e"
  by (auto simp: applies_def removes_finalizer_def has_finalizer_def split: event.splits)

lemma reports_not_removing: "reports obj e \<Longrightarrow> \<not> removes_finalizer e \<and> \<not> is_http e"
  by (auto simp: reports_def removes_finalizer_def split: event.splits)

lemma patch_status_reports:
  "status_patch.patch_event obj M e \<Longrightarrow> reports obj e"
  by (auto simp: status_patch_event reports_def writes_to_def split: event.splits)

lemma clock_reports: "is_now e \<Longrightarrow> reports obj e"
  by (cases e) (auto simp: reports_def writes_to_def)

lemma only_clock_reports: "only_clock new \<Longrightarrow> e \<in> set new \<Longrightarrow> reports obj e"
  by (auto simp: only_clock_def intro: clock_reports)

lemma clock_looks: "only_clock new \<Longrightarrow> e \<in> set new \<Longrightarrow> looks obj api e"
  by (rule reports_looks) (rule only_clock_reports)

lemma patch_hash_applies:
  "object_patch.patch_event obj (\<lambda>cur y. y = update_meta (annotate k v) cur) e \<Longrightarrow> applies obj api e"
  by (auto simp: object_patch_event applies_def writes_to_def annotate_def split: event.splits)

text \<open>The hash of what was applied last is written only after the controller accepted this very
  manifest (\<open>accepted\<close>, of an exchange of the same run).\<close>

definition hash_written :: "string \<Rightarrow> (event \<Rightarrow> bool) \<Rightarrow> event list \<Rightarrow> event \<Rightarrow> bool" where
  "hash_written hash accepted new x \<longleftrightarrow> (case x of
     EPatch cur y _ \<Rightarrow> y = update_meta (annotate lastAppliedHashAnnotation hash) cur \<and>
       (\<exists>z\<in>set new. accepted z)
   | _ \<Rightarrow> True)"

lemma hash_written_middle:
  "hash_written hash accepted ys x \<Longrightarrow> hash_written hash accepted (xs @ ys @ zs) x"
  by (auto simp: hash_written_def split: event.splits)

lemma looks_hash_written: "looks obj api x \<Longrightarrow> hash_written hash accepted new x"
  by (auto simp: looks_def hash_written_def split: event.splits)

lemma looks_not_posts: "looks obj api x \<Longrightarrow> \<not> posts x"
  by (simp add: looks_def requests_not_posts)

lemma traffic_hash_written: "client_traffic api x \<Longrightarrow> hash_written hash accepted new x"
  by (auto simp: client_traffic_def hash_written_def split: event.splits)

text \<open>
  The skeleton. \<open>gone\<close> says, of the exchanges of \<open>delete_remote\<close>, what shows that the resources in
  the k1s cluster are gone.
\<close>

locale capability =
  fixes E :: env and obj :: kobject and cluster_ref :: NamespacedNameRef and orphan :: bool
    and reconcile :: "outcome io"
    and no_client :: "go_error \<Rightarrow> outcome io"
    and delete_remote :: "Client \<Rightarrow> go_error option io"
    and delete_failed :: "go_error \<Rightarrow> outcome io"
    and sync :: "Client \<Rightarrow> K1sCluster \<Rightarrow> outcome io"
    and gone :: "Client \<Rightarrow> event list \<Rightarrow> bool"
  assumes reconcile_is: "reconcile = do {
        w \<leftarrow> writeClient E (Namespace (meta_of obj)) cluster_ref;
        case w of
          Inl e \<Rightarrow> no_client e
        | Inr (api, cluster) \<Rightarrow>
            if being_deleted obj then
              (if \<not> has_finalizer obj then State_Monad.return (no_result, None)
               else if orphan then remove_finalizer E obj
               else do {
                 failure \<leftarrow> delete_remote api;
                 case failure of
                   Some e \<Rightarrow> delete_failed e
                 | None \<Rightarrow> remove_finalizer E obj
               })
            else if \<not> has_finalizer obj then add_finalizer E obj
            else sync api cluster
      }"
    and no_client_reports: "lawful E \<Longrightarrow> behaves (no_client e) (\<lambda>new _. \<forall>x\<in>set new. reports obj x)"
    and delete_remote_contract: "behaves (delete_remote api)
      (\<lambda>new r. (\<forall>x\<in>set new. client_traffic api x) \<and> (r = None \<longrightarrow> gone api new))"
    and delete_failed_reports: "lawful E \<Longrightarrow>
      behaves (delete_failed e) (\<lambda>new r. (\<forall>x\<in>set new. reports obj x) \<and> snd r \<noteq> None)"
    and sync_applies: "lawful E \<Longrightarrow>
      behaves (sync api cluster) (\<lambda>new _. \<forall>x\<in>set new. applies obj api x)"
begin

definition finalizer_event :: "string list \<Rightarrow> event \<Rightarrow> bool" where
  "finalizer_event fs e \<longleftrightarrow> writes_to obj e \<and> \<not> is_http e \<and>
     (case e of EPatch cur y _ \<Rightarrow> Finalizers (meta_of y) = fs | _ \<Rightarrow> True)"

lemma remove_finalizer_spec:
  "lawful E \<Longrightarrow> behaves (remove_finalizer E obj) (\<lambda>new r. (\<forall>x\<in>set new.
     finalizer_event (removeString (Finalizers (meta_of obj)) capabilityFinalizer) x))"
  unfolding remove_finalizer_def
  by (rule behaves_bind [OF patchFinalizers_spec])
    (auto intro!: behaves_return simp: object_patch_event finalizer_event_def writes_to_def
      split: event.splits)

lemma add_finalizer_spec:
  "lawful E \<Longrightarrow> behaves (add_finalizer E obj) (\<lambda>new r. (\<forall>x\<in>set new.
     finalizer_event (Finalizers (meta_of obj) @ [capabilityFinalizer]) x))"
  unfolding add_finalizer_def
  by (rule behaves_bind [OF patchFinalizers_spec])
    (auto intro!: behaves_return simp: object_patch_event finalizer_event_def writes_to_def
      split: event.splits)

text \<open>The exchanges after the client was made, by what the object asks for.\<close>

definition phase :: "go_error + Client \<times> K1sCluster \<Rightarrow> event list \<Rightarrow> outcome \<Rightarrow> bool" where
  "phase w rest r \<longleftrightarrow>
     (case w of
        Inl _ \<Rightarrow> \<forall>x\<in>set rest. reports obj x
      | Inr (api, cluster) \<Rightarrow>
          if being_deleted obj then
            (if \<not> has_finalizer obj then rest = []
             else \<exists>del fin. rest = del @ fin \<and>
               (if orphan then del = [] else \<forall>x\<in>set del. client_traffic api x) \<and>
               ((orphan \<or> gone api del) \<and> (\<forall>x\<in>set fin.
                   finalizer_event (removeString (Finalizers (meta_of obj)) capabilityFinalizer) x) \<or>
                (\<forall>x\<in>set fin. reports obj x) \<and> snd r \<noteq> None))
          else if \<not> has_finalizer obj then
            (\<forall>x\<in>set rest. finalizer_event (Finalizers (meta_of obj) @ [capabilityFinalizer]) x)
          else (\<forall>x\<in>set rest. applies obj api x))"

definition life :: "event list \<Rightarrow> outcome \<Rightarrow> bool" where
  "life new r \<longleftrightarrow> (\<exists>start w rest. new = start @ rest \<and> writer_ok start w \<and> phase w rest r)"

lemma lifeI: "writer_ok start w \<Longrightarrow> phase w rest r \<Longrightarrow> life (start @ rest) r"
  unfolding life_def by blast

lemma reconcile_life:
  assumes "lawful E"
  shows "behaves reconcile life"
  unfolding reconcile_is
proof (rule behaves_bind [OF writeClient_spec], rule behaves_case_sum, goal_cases)
  case (1 start w e)
  then show ?case
    by (intro behaves_mono [OF no_client_reports [OF assms]] lifeI [where w = w]) (auto simp: phase_def)
next
  case (2 start w p)
  obtain api cluster where p: "p = (api, cluster)" by (cases p)
  have del: "behaves (do {
         failure \<leftarrow> delete_remote api;
         case failure of Some e \<Rightarrow> delete_failed e | None \<Rightarrow> remove_finalizer E obj })
      (\<lambda>rest r. \<exists>del fin. rest = del @ fin \<and> (\<forall>x\<in>set del. client_traffic api x) \<and>
         (gone api del \<and> (\<forall>x\<in>set fin.
            finalizer_event (removeString (Finalizers (meta_of obj)) capabilityFinalizer) x) \<or>
          (\<forall>x\<in>set fin. reports obj x) \<and> snd r \<noteq> None))"
  proof (rule behaves_bind [OF delete_remote_contract], rule behaves_case_option, goal_cases)
    case (1 n1 a)
    then show ?case by (intro behaves_mono [OF remove_finalizer_spec [OF assms]]) blast
  next
    case (2 n1 a e)
    then show ?case by (intro behaves_mono [OF delete_failed_reports [OF assms]]) blast
  qed
  have w: "w = Inr (api, cluster)" "writer_ok start w" using 2 p by simp_all
  show ?case
    unfolding p prod.case
  proof (intro behaves_if, goal_cases)
    case 1
    then show ?case by (intro behaves_return lifeI [OF w(2)]) (simp add: phase_def w)
  next
    case 2
    then show ?case
      by (intro behaves_mono [OF remove_finalizer_spec [OF assms]] lifeI [OF w(2)])
        (unfold phase_def w(1), simp)
  next
    case 3
    then show ?case
      by (intro behaves_mono [OF del] lifeI [OF w(2)]) (unfold phase_def w(1), simp)
  next
    case 4
    then show ?case
      by (intro behaves_mono [OF add_finalizer_spec [OF assms]] lifeI [OF w(2)]) (simp add: phase_def w)
  next
    case 5
    then show ?case
      by (intro behaves_mono [OF sync_applies [OF assms]] lifeI [OF w(2)]) (simp add: phase_def w)
  qed
qed

text \<open>The phase an exchange can be in.\<close>

lemma phase_cases:
  assumes "phase w rest r" and "x \<in> set rest"
  obtains "reports obj x"
  | api cluster where "w = Inr (api, cluster)" "has_finalizer obj" "applies obj api x"
  | api cluster del fin where "w = Inr (api, cluster)" "being_deleted obj" "has_finalizer obj"
      "rest = del @ fin" "orphan \<or> gone api del" "x \<in> set fin" "writes_to obj x" "\<not> is_http x"
  | "\<not> has_finalizer obj" "finalizer_event (Finalizers (meta_of obj) @ [capabilityFinalizer]) x"
proof (cases w)
  case (Inl e)
  with assms that(1) show ?thesis by (simp add: phase_def)
next
  case (Inr p)
  obtain api cluster where p: "p = (api, cluster)" by (cases p)
  show ?thesis
  proof (cases "being_deleted obj")
    case False
    with assms that(2,4) Inr p show ?thesis by (auto simp: phase_def split: if_splits)
  next
    case True
    have fin: "has_finalizer obj"
      using assms True by (auto simp: phase_def Inr p split: if_splits)
    have "\<exists>del fin. rest = del @ fin \<and>
        (if orphan then del = [] else \<forall>x\<in>set del. client_traffic api x) \<and>
        ((orphan \<or> gone api del) \<and> (\<forall>x\<in>set fin.
           finalizer_event (removeString (Finalizers (meta_of obj)) capabilityFinalizer) x) \<or>
         (\<forall>x\<in>set fin. reports obj x) \<and> snd r \<noteq> None)"
      using assms(1) by (simp only: phase_def Inr p sum.case prod.case True fin if_True
          not_True_eq_False if_False)
    then obtain del fin where df: "rest = del @ fin"
      "if orphan then del = [] else \<forall>x\<in>set del. client_traffic api x"
      "(orphan \<or> gone api del) \<and> (\<forall>x\<in>set fin.
         finalizer_event (removeString (Finalizers (meta_of obj)) capabilityFinalizer) x) \<or>
       (\<forall>x\<in>set fin. reports obj x) \<and> snd r \<noteq> None"
      by blast
    show ?thesis
    proof (cases "x \<in> set del")
      case True
      then have "applies obj api x"
        using df(2) traffic_applies by (auto split: if_splits)
      with that(2) fin Inr p show ?thesis by blast
    next
      case x: False
      then have "x \<in> set fin" using assms(2) df(1) by simp
      with df(3) show ?thesis
      proof (elim disjE conjE, goal_cases)
        case 3
        with that(1) show ?thesis by blast
      qed (use that(3) [OF _ True fin df(1)] Inr p in \<open>auto simp: finalizer_event_def\<close>)
    qed
  qed
qed

lemma phase_writes_to: "phase w rest r \<Longrightarrow> x \<in> set rest \<Longrightarrow> writes_to obj x"
  by (erule (1) phase_cases) (auto simp: reports_def applies_def finalizer_event_def)

lemma phase_http: "phase w rest r \<Longrightarrow> x \<in> set rest \<Longrightarrow> is_http x \<Longrightarrow>
    has_finalizer obj \<and> (\<exists>api cluster. w = Inr (api, cluster) \<and> client_traffic api x)"
  by (erule (1) phase_cases) (auto simp: reports_def applies_def finalizer_event_def)

lemma phase_removes:
  assumes "phase w rest r" and "x \<in> set rest" and "removes_finalizer x"
  shows "being_deleted obj \<and> has_finalizer obj \<and>
    (\<exists>api cluster del fin. w = Inr (api, cluster) \<and> rest = del @ fin \<and>
       (orphan \<or> gone api del) \<and> x \<in> set fin)"
  using assms(1,2)
proof (cases rule: phase_cases)
  case 1
  with assms(3) show ?thesis by (auto dest: reports_not_removing)
next
  case (2 api cluster)
  with assms(3) show ?thesis by (auto dest: applies_not_removing)
next
  case 4
  with assms(3) show ?thesis
    by (auto simp: finalizer_event_def removes_finalizer_def has_finalizer_def containsString_def
        split: event.splits)
qed blast

lemma writer_ok_events: "writer_ok start w \<Longrightarrow> x \<in> set start \<Longrightarrow>
    writes_to obj x \<and> \<not> is_http x \<and> \<not> removes_finalizer x"
  by (auto simp: writer_ok_def writes_to_def removes_finalizer_def split: event.splits)

text \<open>What follows for a whole run.\<close>

lemma reconcile_safe:
  assumes "lawful E" and "run_state reconcile h = (r, h @ new)" and "x \<in> set new"
  shows "writes_to obj x"
    and "is_http x \<Longrightarrow> has_finalizer obj"
    and "is_http x \<Longrightarrow> \<exists>api cluster start.
      writer_ok start (Inr (api, cluster)) \<and> client_traffic api x \<and> (\<exists>rest. new = start @ rest)"
    and "removes_finalizer x \<Longrightarrow> being_deleted obj \<and>
      (\<exists>api cluster before del fin. new = before @ del @ fin \<and>
         writer_ok before (Inr (api, cluster)) \<and> (orphan \<or> gone api del) \<and> x \<in> set fin)"
proof -
  have "life new r" by (rule behaves_run [OF reconcile_life [OF assms(1)] assms(2)])
  then obtain start w rest where new: "new = start @ rest" and w: "writer_ok start w"
    and ph: "phase w rest r" unfolding life_def by blast
  note before = writer_ok_events [OF w, of x] and after = phase_writes_to [OF ph, of x]
    phase_http [OF ph, of x] phase_removes [OF ph, of x]
  show "writes_to obj x" and "is_http x \<Longrightarrow> has_finalizer obj"
    using assms(3) before after by (auto simp: new)
  show "is_http x \<Longrightarrow> \<exists>api cluster start.
      writer_ok start (Inr (api, cluster)) \<and> client_traffic api x \<and> (\<exists>rest. new = start @ rest)"
    using assms(3) before after w by (auto simp: new)
  show "removes_finalizer x \<Longrightarrow> being_deleted obj \<and>
      (\<exists>api cluster before del fin. new = before @ del @ fin \<and>
         writer_ok before (Inr (api, cluster)) \<and> (orphan \<or> gone api del) \<and> x \<in> set fin)"
  proof -
    assume rm: "removes_finalizer x"
    then have "x \<in> set rest" using assms(3) before by (auto simp: new)
    with after rm obtain api cluster del fin where "being_deleted obj" "w = Inr (api, cluster)"
        "rest = del @ fin" "orphan \<or> gone api del" "x \<in> set fin" by blast
    with w show ?thesis
      by (intro conjI exI [of _ api] exI [of _ cluster] exI [of _ start] exI [of _ del]
          exI [of _ fin]) (simp_all add: new)
  qed
qed

end

section \<open>An example world\<close>

text \<open>A cluster \<open>c\<close> in namespace \<open>k1s\<close>, its Secret with the write token \<open>t\<close>, and one object; the
  controller answers every request with 200 and no body.\<close>

definition example_cluster :: K1sCluster where
  "example_cluster =
     \<lparr>cluster_Meta = \<lparr>Name = ''c'', Namespace = ''k1s'', Generation = 1, Finalizers = [],
        Annotations = None, Labels = Map.empty, DeletionTimestamp = None, OwnerReferences = []\<rparr>,
      cluster_Spec = \<lparr>cl_Controller = \<lparr>ep_URL = ''http://k1s:80''\<rparr>, cl_Apishim = None,
        cl_BootstrapConfigMapRef = None,
        cl_AuthSecretRef = Some \<lparr>asr_Name = ''s'', asr_Namespace = [],
          asr_ControllerReadTokenKey = [], asr_ControllerWriteTokenKey = [],
          asr_ApishimReadTokenKey = [], asr_ApishimWriteTokenKey = [], asr_CABundleKey = []\<rparr>,
        cl_Proxy = \<lparr>px_Mode = K1sProxyModeService, px_ServiceRef = None, px_External = None\<rparr>,
        cl_PollIntervalSeconds = None\<rparr>,
      cluster_Status = \<lparr>cls_ObservedGeneration = 0, cls_ControllerAvailable = False,
        cls_ApishimAvailable = False, cls_ProxyReady = False, cls_StackDomain = [],
        cls_WildcardAppsDomain = [], cls_NodeSummary = \<lparr>kns_Ready = 0, kns_Stale = 0, kns_Total = 0\<rparr>,
        cls_Conditions = []\<rparr>\<rparr>"

definition example_secret :: Secret where
  "example_secret =
     \<lparr>sec_Meta = \<lparr>Name = ''s'', Namespace = ''k1s'', Generation = 1, Finalizers = [],
        Annotations = None, Labels = Map.empty, DeletionTimestamp = None, OwnerReferences = []\<rparr>,
      sec_Data = [''controllerWriteToken'' \<mapsto> ''t'']\<rparr>"

definition example_ref :: NamespacedNameRef where
  "example_ref = \<lparr>ref_Name = ''c'', ref_Namespace = ''k1s''\<rparr>"

definition example_world :: "kobject \<Rightarrow> env" where
  "example_world x = sample_env
     \<lparr>e_get := \<lambda>_ _ k key.
        if k = KindCluster then Inr (OCluster example_cluster)
        else if k = KindSecret then Inr (OSecret example_secret)
        else if k = kind_of x \<and> key = ObjectKeyFromObject x then Inr x
        else Inl not_found_error,
      e_http := \<lambda>_ _. Inr sample_leader\<rparr>"

definition example_client :: Client where
  "example_client = \<lparr>cli_baseURL = sample_url ''http://k1s:80'', cli_token = ''t'',
     cli_http = \<lparr>tr_RootCAs = None, tr_Timeout = 10000000000\<rparr>\<rparr>"

lemma example_world_lawful [simp]: "lawful (example_world x)"
  by (simp add: example_world_def)

lemma NewClient_example:
  "NewClient (example_world x) ''http://k1s:80'' [WithBearerToken ''t'', WithCABundle []] =
     Inr example_client"
proof -
  have "url_Parse (TrimSpace ''http://k1s:80'') = Inr (sample_url ''http://k1s:80'') \<and>
      u_Scheme (sample_url ''http://k1s:80'') \<noteq> [] \<and> u_Host (sample_url ''http://k1s:80'') \<noteq> []"
    by code_simp
  moreover have "TrimSpace ''t'' = ''t''" by code_simp
  ultimately show ?thesis
    by (simp add: example_client_def NewClient_def WithBearerToken_def WithCABundle_def Let_def)
qed

definition example_reads :: "event list" where
  "example_reads =
     [EGet CachedClient KindCluster \<lparr>nn_Namespace = ''k1s'', nn_Name = ''c''\<rparr> (Inr (OCluster example_cluster)),
      EGet CachedClient KindSecret \<lparr>nn_Namespace = ''k1s'', nn_Name = ''s''\<rparr> (Inr (OSecret example_secret))]"

lemma run_writeClient_example:
  "run_state (writeClient (example_world x) ns example_ref) h =
     (Inr (example_client, example_cluster), h @ example_reads)"
  using NewClient_example [of x]
  by (simp add: writeClient_def loadCredentials_def kube_Get_def example_world_def example_ref_def
      example_cluster_def example_secret_def example_reads_def NamespaceOr_def auth_NamespaceOr_def
      ObjectKeyFromObject_def credentials_from_def secret_value_def key_or_def Let_def
      defaultControllerReadTokenKey_def defaultControllerWriteTokenKey_def defaultCABundleKey_def)

lemma run_patchFinalizers_example:
  assumes "kind_of x \<noteq> KindCluster" and "kind_of x \<noteq> KindSecret"
  shows "run_state (patchFinalizers (example_world x) x fs) h =
    (None, h @ [EGet CachedClient (kind_of x) (ObjectKeyFromObject x) (Inr x),
                EPatch x (update_meta (\<lambda>m. m\<lparr>Finalizers := fs\<rparr>) x) None])"
  using assms
  by (simp add: patchFinalizers_def patchObject_def Let_def example_world_def ref_retry_4_None
      kube_Get_def kube_Patch_def)

text \<open>A call in that world is one request.\<close>

lemma run_call_example:
  assumes "url_Parse (client_url c endpoint) = Inr v"
  shows "run_state (doJSONWithLeaderRetry (example_world x) c m endpoint b out) h =
    ((out, None), h @ [EHTTP (request_for c m (client_url c endpoint) b) (Inr sample_leader)])"
  using assms
  by (simp add: doJSONWithLeaderRetry_def Let_def run_doJSONRequest example_world_def
      read_response_def sample_leader_def)

lemma run_patchStatus_example:
  assumes "kind_of x \<noteq> KindCluster" and "kind_of x \<noteq> KindSecret"
  shows "run_state (patchStatus (example_world x) x (\<lambda>cur. State_Monad.return (f cur))) h =
    (None, h @ [EGet CachedClient (kind_of x) (ObjectKeyFromObject x) (Inr x), EStatusPatch x (f x) None])"
  using assms
  by (simp add: patchStatus_def Let_def example_world_def ref_retry_4_None kube_Get_def status_Patch_def)

lemma run_patchLastAppliedHash_example:
  assumes "kind_of x \<noteq> KindCluster" and "kind_of x \<noteq> KindSecret"
  shows "run_state (patchLastAppliedHash (example_world x) x hash) h =
    (None, h @ [EGet CachedClient (kind_of x) (ObjectKeyFromObject x) (Inr x),
                EPatch x (update_meta (annotate lastAppliedHashAnnotation hash) x) None])"
  using assms
  by (simp add: patchLastAppliedHash_def patchObject_def Let_def example_world_def ref_retry_4_None
      kube_Get_def kube_Patch_def)

text \<open>A manifest of a Deployment \<open>w\<close>, and its application.\<close>

definition example_manifest :: bytes where
  "example_manifest = ''{'' @ json_string_field ''kind'' ''Deployment'' @ '','' @
     [CHR 0x22] @ ''metadata'' @ [CHR 0x22] @ '':{'' @ json_string_field ''name'' ''w'' @ ''}}''"

lemma example_manifest_simps:
  "example_manifest \<noteq> []"
  "kindFromManifest example_manifest = ''Deployment''"
  "snd (Unmarshal_map example_manifest None) = None"
  by code_simp+

lemma apply_url_example: "\<exists>v. url_Parse (client_url example_client ''/apply'') = Inr v"
  by (rule exI [of _ "sample_url ''http://k1s:80/apply''"]) code_simp

definition example_apply :: "bytes \<Rightarrow> event" where
  "example_apply raw = EHTTP (request_for example_client ''POST'' (client_url example_client ''/apply'')
     (Some (Marshal (e_formatFloat sample_env) (payload_any (fst (Unmarshal_map raw None))))))
     (Inr sample_leader)"

lemma run_Apply_example:
  assumes "snd (Unmarshal_map raw None) = None"
  shows "run_state (Apply (example_world x) example_client raw) h = ((None, None), h @ [example_apply raw])"
proof -
  obtain v where v: "url_Parse (client_url example_client ''/apply'') = Inr v"
    using apply_url_example by blast
  obtain p where p: "Unmarshal_map raw None = (p, None)"
    using assms by (cases "Unmarshal_map raw None") auto
  have "e_formatFloat (example_world x) = e_formatFloat sample_env"
    by (simp add: example_world_def)
  with p show ?thesis
    by (simp add: Apply_def postJSON_def run_call_example [OF v] example_apply_def)
qed

lemma hash_not_empty: "hashBytes raw \<noteq> []"
proof
  assume "hashBytes raw = []"
  then have "length (hashBytes raw) = 0" by simp
  then show False by (simp add: hashBytes_def length_hex_EncodeToString)
qed

end
