(* ===== verification/Resync.thy ===== *)
theory Resync
  imports Capability
begin

text \<open>
  What the reconcilers of K1sApp and K1sInferenceEndpoint do with an accepted manifest
  (src/internal/controller/capability_controller.go): look whether it is applied, apply it and
  record its hash when it is not, report. The two functions repeat these steps; the locale
  \<open>resync\<close> proves what follows from the order of the steps once.
\<close>

section \<open>Applying\<close>

text \<open>\<open>result, applyErr\<close> and the error of recording the hash.\<close>

definition apply_manifest ::
  "env \<Rightarrow> kobject \<Rightarrow> Client \<Rightarrow> bytes \<Rightarrow> bool \<Rightarrow>
     ((payload \<times> go_error option) \<times> go_error option) io" where
  "apply_manifest E obj api raw shouldApply =
     (if \<not> shouldApply then State_Monad.return ((None, None), None)
      else do {
        a \<leftarrow> Apply E api raw;
        patchErr \<leftarrow> (if snd a = None then patchLastAppliedHash E obj (hashBytes raw)
                     else State_Monad.return None);
        State_Monad.return (a, patchErr)
      })"

text \<open>The status patches of a run write a status that satisfies \<open>P\<close>; \<open>put\<close> stores a status.\<close>

definition writes_status :: "('s \<Rightarrow> kobject \<Rightarrow> kobject) \<Rightarrow> ('s \<Rightarrow> bool) \<Rightarrow> event \<Rightarrow> bool" where
  "writes_status put P e \<longleftrightarrow> (case e of
     EStatusPatch cur y _ \<Rightarrow> \<exists>s. y = put s cur \<and> P s | _ \<Rightarrow> True)"

lemma patch_writes_status:
  "status_patch.patch_event obj (\<lambda>cur y. y = put s cur) e \<Longrightarrow> P s \<Longrightarrow> writes_status put P e"
  by (auto simp: status_patch_event writes_status_def split: event.splits)

lemma traffic_writes_status: "client_traffic api e \<Longrightarrow> writes_status put P e"
  by (auto simp: client_traffic_def writes_status_def split: event.splits)

lemma observes_writes_status: "observes new \<Longrightarrow> x \<in> set new \<Longrightarrow> writes_status put P x"
  by (auto simp: observes_def writes_status_def split: event.splits)

lemma apply_manifest_spec:
  assumes "lawful E"
  shows "behaves (apply_manifest E obj api raw sh)
    (\<lambda>new r. (\<forall>x\<in>set new. applies obj api x) \<and> (\<not> sh \<longrightarrow> new = []) \<and>
       (\<forall>x\<in>set new. hash_written (hashBytes raw) (applied_manifest E api raw) new x) \<and>
       (\<forall>x\<in>set new. \<forall>P. writes_status put P x))"
  unfolding apply_manifest_def
proof (rule behaves_if, goal_cases)
  case 1
  then show ?case by (auto intro: behaves_return)
next
  case 2
  show ?case
  proof (rule behaves_bind [OF Apply_spec], goal_cases)
    case (1 n1 a)
    have n1: "\<forall>x\<in>set n1. applies obj api x \<and>
        hash_written (hashBytes raw) (applied_manifest E api raw) n x \<and> writes_status put P x" for P n
      using 1 by (auto intro: traffic_applies traffic_hash_written traffic_writes_status)
    show ?case
    proof (cases "snd a = None")
      case True
      with 1 have acc: "\<exists>z\<in>set n1. applied_manifest E api raw z" by (auto intro: last_in_set)
      have ev: "applies obj api x \<and>
          hash_written (hashBytes raw) (applied_manifest E api raw) (n1 @ n2) x \<and> writes_status put P x"
        if "object_patch.patch_event obj
          (\<lambda>cur y. y = update_meta (annotate lastAppliedHashAnnotation (hashBytes raw)) cur) x" for x n2 P
        using patch_hash_applies [OF that, of api] that acc
        by (auto simp: object_patch_event hash_written_def writes_status_def split: event.splits)
      show ?thesis
        using 2 True n1
        by (auto intro!: behaves_bind [OF patchLastAppliedHash_spec [OF assms]] behaves_return dest: ev)
    next
      case False
      then show ?thesis using 2 n1 by (auto intro!: behaves_return)
    qed
  qed
qed

section \<open>Look, apply, report\<close>

text \<open>A status \<open>ok\<close> for whether the manifest is applied, and whether it says \<open>ready\<close>.\<close>

definition resync_ok ::
  "env \<Rightarrow> kobject \<Rightarrow> Client \<Rightarrow> bytes \<Rightarrow> ('s \<Rightarrow> kobject \<Rightarrow> kobject) \<Rightarrow> (bool \<Rightarrow> 's \<Rightarrow> bool) \<Rightarrow>
     ('s \<Rightarrow> bool) \<Rightarrow> event list \<Rightarrow> bool" where
  "resync_ok E obj api raw put ok ready new \<longleftrightarrow>
     (\<forall>x\<in>set new. applies obj api x) \<and>
     (\<forall>x\<in>set new. hash_written (hashBytes raw) (applied_manifest E api raw) new x) \<and>
     ((\<exists>x\<in>set new. posts x) \<longrightarrow>
        lastAppliedHash obj \<noteq> hashBytes raw \<or> (\<exists>z\<in>set new. answered ((=) 404) z)) \<and>
     (\<forall>x\<in>set new. writes_status put (\<lambda>s. (\<exists>applied. ok applied s) \<and> (ready s \<longrightarrow> good_seen new)) x)"

locale resync =
  fixes E :: env and obj :: kobject and api :: Client and raw :: bytes
    and look :: "(bool \<times> 'o option) io"
    and report :: "bool \<Rightarrow> 'o option \<Rightarrow> payload \<times> go_error option \<Rightarrow> outcome io"
    and sync :: "outcome io"
    and put :: "'s \<Rightarrow> kobject \<Rightarrow> kobject" and ok :: "bool \<Rightarrow> 's \<Rightarrow> bool" and ready :: "'s \<Rightarrow> bool"
  assumes sync_is: "sync = do {
        l \<leftarrow> look;
        d \<leftarrow> apply_manifest E obj api raw (fst l);
        case snd d of
          Some patchErr \<Rightarrow> State_Monad.return (no_result, Some patchErr)
        | None \<Rightarrow> report (fst l) (snd l) (fst d)
      }"
    and look_spec: "behaves look (\<lambda>new r. (\<forall>x\<in>set new. looks obj api x) \<and> observes new \<and>
        (snd r \<noteq> None \<longrightarrow> good_seen new) \<and>
        (fst r \<longrightarrow> lastAppliedHash obj \<noteq> hashBytes raw \<or> (\<exists>z\<in>set new. answered ((=) 404) z)))"
    and report_spec: "lawful E \<Longrightarrow> behaves (report sh o0 a)
      (\<lambda>new _. (\<forall>x\<in>set new. looks obj api x) \<and>
         (\<forall>x\<in>set new. writes_status put
            (\<lambda>s. ok (snd a = None) s \<and> (ready s \<longrightarrow> o0 \<noteq> None \<or> good_seen new)) x))"
begin

lemma sync_spec:
  assumes "lawful E"
  shows "behaves sync (\<lambda>new _. resync_ok E obj api raw put ok ready new)"
  unfolding sync_is
proof (rule behaves_bind [OF look_spec], rule behaves_bind [OF apply_manifest_spec [OF assms, where put = put]],
    goal_cases)
  case (1 n1 l n2 d)
  have fine: "resync_ok E obj api raw put ok ready (n1 @ n2 @ n3)"
    if looks: "\<forall>x\<in>set n3. looks obj api x"
      and st: "\<forall>x\<in>set n3. writes_status put (\<lambda>s. ok (snd (fst d) = None) s \<and>
        (ready s \<longrightarrow> snd l \<noteq> None \<or> good_seen n3)) x" for n3
  proof -
    let ?Q = "\<lambda>s. (\<exists>applied. ok applied s) \<and> (ready s \<longrightarrow> good_seen (n1 @ n2 @ n3))"
    have "\<forall>x\<in>set (n1 @ n2 @ n3). writes_status put ?Q x"
    proof -
      have "writes_status put ?Q x" if "x \<in> set n3" for x
        using st that 1(1) by (fastforce simp: writes_status_def split: event.splits)
      then show ?thesis using 1 observes_writes_status [of n1] by auto
    qed
    moreover have "\<forall>x\<in>set (n1 @ n2 @ n3).
        hash_written (hashBytes raw) (applied_manifest E api raw) (n1 @ n2 @ n3) x"
      using 1 looks by (auto intro: looks_hash_written hash_written_middle)
    moreover have "\<forall>x\<in>set (n1 @ n2 @ n3). applies obj api x"
      using 1 looks by (auto dest: looks_applies)
    moreover have "fst l" if "\<exists>x\<in>set (n1 @ n2 @ n3). posts x"
      using that 1 looks by (auto dest: looks_not_posts)
    ultimately show ?thesis
      using 1(1) unfolding resync_ok_def by auto
  qed
  show ?case
  proof (rule behaves_case_option, goal_cases)
    case 1
    show ?case by (rule behaves_mono [OF report_spec [OF assms]]) (auto intro: fine)
  next
    case (2 e)
    show ?case by (rule behaves_return) (use fine [of "[]"] in simp)
  qed
qed

text \<open>What the statement says of single exchanges.\<close>

lemma resync_okD:
  assumes "resync_ok E obj api raw put ok ready new" and "x \<in> set new"
  shows "applies obj api x"
    and "hash_written (hashBytes raw) (applied_manifest E api raw) new x"
    and "posts x \<Longrightarrow> lastAppliedHash obj \<noteq> hashBytes raw \<or> (\<exists>z\<in>set new. answered ((=) 404) z)"
    and "writes_status put (\<lambda>s. (\<exists>applied. ok applied s) \<and> (ready s \<longrightarrow> good_seen new)) x"
  using assms by (auto simp: resync_ok_def)

text \<open>The hash that is written, with the request that was accepted before.\<close>

lemma hash_means_applied:
  assumes "resync_ok E obj api raw put ok ready new" and "EPatch cur y res \<in> set new"
  shows "y = update_meta (annotate lastAppliedHashAnnotation (hashBytes raw)) cur \<and>
    (\<exists>q a. EHTTP q a \<in> set new \<and> answered success_code (EHTTP q a) \<and> hq_Method q = ''POST'' \<and>
       hq_Body q = Some (Marshal (e_formatFloat E) (payload_any (fst (Unmarshal_map raw None)))))"
proof -
  from resync_okD(2) [OF assms]
  obtain z where y: "y = update_meta (annotate lastAppliedHashAnnotation (hashBytes raw)) cur"
    and z: "z \<in> set new" "applied_manifest E api raw z"
    by (auto simp: hash_written_def)
  obtain q a where qa: "z = EHTTP q a"
    using z(2) answered_EHTTP unfolding applied_manifest_def by blast
  have "hq_Method q = ''POST'' \<and> hq_Body q = Some (Marshal (e_formatFloat E)
      (payload_any (fst (Unmarshal_map raw None))))"
    using z(2) unfolding qa applied_manifest_def client_event_simps by (metis request_for_fields(2,3))
  with y z qa show ?thesis by (auto simp: applied_manifest_def)
qed

end

section \<open>Examples\<close>

text \<open>A run that ends with a status patch extends its history by it.\<close>

lemma run_ends_with_patch:
  assumes "behaves m R" and "run_state m h = (r, X @ [EStatusPatch cur y None])"
    and "h \<noteq> []" and "\<And>cur y. last h \<noteq> EStatusPatch cur y None"
  shows "\<exists>mid. run_state m h = (r, h @ mid @ [EStatusPatch cur y None])"
proof -
  obtain n where n: "h @ n = X @ [EStatusPatch cur y None]"
    using behavesE [OF assms(1), of h] assms(2) by (metis snd_conv)
  with assms(3,4) have "n \<noteq> []" by (metis append_Nil2 last_snoc)
  with n obtain mid where "n = mid @ [EStatusPatch cur y None]"
    by (metis append_butlast_last_id last_appendR last_snoc)
  with assms(2) n show ?thesis by auto
qed

text \<open>The exchanges of applying a manifest and recording its hash, in the example world.\<close>

definition example_hash_patch :: "kobject \<Rightarrow> bytes \<Rightarrow> event" where
  "example_hash_patch x raw =
     EPatch x (update_meta (annotate lastAppliedHashAnnotation (hashBytes raw)) x) None"

definition example_applied :: "kobject \<Rightarrow> bytes \<Rightarrow> event list" where
  "example_applied x raw =
     [example_apply raw, EGet CachedClient (kind_of x) (ObjectKeyFromObject x) (Inr x),
      example_hash_patch x raw]"

lemma run_apply_manifest_example:
  assumes "snd (Unmarshal_map raw None) = None" and "kind_of x \<noteq> KindCluster" and "kind_of x \<noteq> KindSecret"
  shows "run_state (apply_manifest (example_world x) x example_client raw True) h =
    (((None, None), None), h @ example_applied x raw)"
  using assms
  by (simp add: apply_manifest_def run_Apply_example run_patchLastAppliedHash_example example_applied_def
      example_hash_patch_def)

lemma example_applied_simps [simp]:
  "example_applied x raw \<noteq> []" "last (example_applied x raw) \<noteq> EStatusPatch cur y res"
  "example_apply raw \<in> set (example_applied x raw)"
  "example_hash_patch x raw \<in> set (example_applied x raw)"
  by (simp_all add: example_applied_def example_hash_patch_def)

end
