(* ===== verification/Reporting.thy ===== *)
theory Reporting
  imports Capability
begin

text \<open>
  How a reconciler reports: it decides conditions of a status it holds in memory, one after the
  other, and then patches the status of its object. Each of the reconcilers of
  src/internal/controller does this with a status type of its own; the locale \<open>reporter\<close> states
  what a decision and a patch are, and proves what they exchange and leave behind.
\<close>

definition cond_of :: "condition list \<Rightarrow> string \<Rightarrow> condition_status option" where
  "cond_of cs t = map_option fst (cond_map cs t)"

locale reporter =
  fixes obj :: kobject and gen :: int
    and conds :: "'s \<Rightarrow> condition list"
    and with_conds :: "condition list \<Rightarrow> 's \<Rightarrow> 's"
    and put :: "'s \<Rightarrow> kobject \<Rightarrow> kobject"
    and set_cond :: "env \<Rightarrow> string \<Rightarrow> condition_status \<Rightarrow> string \<Rightarrow> string \<Rightarrow> 's \<Rightarrow> 's io"
    and patch :: "env \<Rightarrow> 's \<Rightarrow> go_error option io"
  assumes set_cond_is: "set_cond E t st reason msg s = do {
        cs \<leftarrow> setCondition E (conds s) t st reason msg gen;
        State_Monad.return (with_conds cs s)
      }"
    and patch_is: "patch E s = patchStatus E obj (\<lambda>cur. State_Monad.return (put s cur))"
    and conds_with: "conds (with_conds cs s) = cs"
    and put_same: "same_object (put s x) x"
begin

text \<open>A decision reads the clock, decides one condition and leaves the rest of the status.\<close>

lemma set_cond_spec:
  assumes "lawful E"
  shows "behaves (set_cond E t st reason msg s)
    (\<lambda>new s'. only_clock new \<and> cond_of (conds s') = (cond_of (conds s))(t \<mapsto> st) \<and>
       (\<exists>cs. s' = with_conds cs s))"
  unfolding set_cond_is
  by (rule setCondition_step [OF assms]) (auto simp: cond_of_def fun_eq_iff conds_with intro!: behaves_return)

lemmas step = behaves_bind [OF set_cond_spec]
lemmas last_step = behaves_mono [OF set_cond_spec]

lemma patch_spec:
  assumes "lawful E"
  shows "behaves (patch E s)
    (\<lambda>new r. (\<forall>e\<in>set new. status_patch.patch_event obj (\<lambda>cur y. y = put s cur) e) \<and>
       status_patch.patch_outcome new r)"
  unfolding patch_is by (rule patchStatus_spec [OF assms]) (auto intro: behaves_return put_same)

lemmas patch_step = behaves_bind [OF patch_spec]

lemma patch_reports:
  assumes "lawful E"
  shows "behaves (patch E s) (\<lambda>new _. \<forall>x\<in>set new. reports obj x)"
  by (rule behaves_mono [OF patch_spec [OF assms]]) (auto intro: patch_status_reports)

text \<open>A report with one decision.\<close>

lemma one_decision:
  assumes "lawful E"
  shows "behaves (do {
       status \<leftarrow> set_cond E t st reason msg s;
       err \<leftarrow> patch E (f status);
       State_Monad.return (g err)
     }) (\<lambda>new r. (\<forall>x\<in>set new. reports obj x) \<and> r \<in> range g)"
  by (rule step [OF assms], rule patch_step [OF assms], rule behaves_return)
    (auto intro: only_clock_reports patch_status_reports)

end

end
