(* ===== verification/App.thy ===== *)
theory App
  imports Resync Reporting
begin

text \<open>
  src/internal/controller/capability_controller.go: the reconciler of K1sApp. It applies one
  Deployment manifest to the k1s cluster when its hash changed or the app is gone, and reports
  what the controller says of the app. \<open>app.Status\<close> is the record that the steps hand on.
\<close>

section \<open>The code\<close>

definition set_app_condition ::
  "env \<Rightarrow> K1sApp \<Rightarrow> string \<Rightarrow> condition_status \<Rightarrow> string \<Rightarrow> string \<Rightarrow> K1sAppStatus \<Rightarrow> K1sAppStatus io"
where
  "set_app_condition E app t st reason msg status = do {
     cs \<leftarrow> setCondition E (aps_Conditions status) t st reason msg (Generation (app_Meta app));
     State_Monad.return (status\<lparr>aps_Conditions := cs\<rparr>)
   }"

fun put_app_status :: "K1sAppStatus \<Rightarrow> kobject \<Rightarrow> kobject" where
  "put_app_status status (OApp x) = OApp (x\<lparr>app_Status := status\<rparr>)"
| "put_app_status status x = x"

definition patch_app_status :: "env \<Rightarrow> K1sApp \<Rightarrow> K1sAppStatus \<Rightarrow> go_error option io" where
  "patch_app_status E app status =
     patchStatus E (OApp app) (\<lambda>cur. State_Monad.return (put_app_status status cur))"

text \<open>\<open>app.Status\<close> after \<open>app.Status.ObservedGeneration = app.Generation\<close>.\<close>

definition app_observed :: "K1sApp \<Rightarrow> K1sAppStatus" where
  "app_observed app = (app_Status app)\<lparr>aps_ObservedGeneration := Generation (app_Meta app)\<rparr>"

definition app_no_client :: "env \<Rightarrow> K1sApp \<Rightarrow> go_error \<Rightarrow> outcome io" where
  "app_no_client E app e = do {
     status \<leftarrow> set_app_condition E app CondCredentialsValid ConditionFalse ReasonMissing (Error E e)
       (app_observed app);
     err \<leftarrow> patch_app_status E app status;
     State_Monad.return (no_result, err)
   }"

definition appDeleteName :: "K1sApp \<Rightarrow> string" where
  "appDeleteName app = firstNonEmpty [aps_AppName (app_Status app),
     appNameFromManifest (app_Manifest (app_Spec app)), Name (app_Meta app)]"

definition app_delete_remote :: "env \<Rightarrow> K1sApp \<Rightarrow> Client \<Rightarrow> go_error option io" where
  "app_delete_remote E app api = do {
     r \<leftarrow> DeleteApp E api (appDeleteName app) True;
     State_Monad.return (if snd r \<noteq> None \<and> \<not> IsNotFound (snd r) then snd r else None)
   }"

definition app_delete_failed :: "env \<Rightarrow> K1sApp \<Rightarrow> go_error \<Rightarrow> outcome io" where
  "app_delete_failed E app e = do {
     status \<leftarrow> set_app_condition E app CondApplied ConditionFalse ReasonUnavailable
       (''failed to delete k1s app: '' @ Error E e) (app_observed app);
     _ \<leftarrow> patch_app_status E app status;
     State_Monad.return (no_result, Some e)
   }"

definition observedEndpoint :: "AppStatus \<Rightarrow> string" where
  "observedEndpoint observed =
     (if as_IngressHost observed = [] then []
      else if as_IngressPath observed = [] \<or> as_IngressPath observed = ''/'' then as_IngressHost observed
      else as_IngressHost observed @ as_IngressPath observed)"

definition applyObservedAppStatus :: "K1sAppStatus \<Rightarrow> AppStatus \<Rightarrow> K1sAppStatus" where
  "applyObservedAppStatus status observed =
     status\<lparr>aps_AppName := firstNonEmpty [as_AppName observed, aps_AppName status],
       aps_Ready := as_Ready observed,
       aps_Phase := firstNonEmpty [as_RevisionStatus observed, aps_Phase status],
       aps_Endpoint := observedEndpoint observed,
       aps_Replicas := \<lparr>rep_Desired = as_DesiredReplicas observed,
         rep_Ready = as_ReadyReplicas observed, rep_Live = as_LiveReplicas observed\<rparr>,
       aps_Image := as_Image observed,
       aps_Revision := as_Revision observed\<rparr>"

text \<open>The manifest is not one the operator applies: the status says so, nothing is scheduled.\<close>

definition app_reject_empty :: "env \<Rightarrow> K1sApp \<Rightarrow> outcome io" where
  "app_reject_empty E app = do {
     status \<leftarrow> set_app_condition E app CondAccepted ConditionFalse ReasonInvalid
       ''manifest is required'' (app_observed app);
     err \<leftarrow> patch_app_status E app status;
     State_Monad.return (no_result, err)
   }"

definition app_reject_kind :: "env \<Rightarrow> K1sApp \<Rightarrow> bytes \<Rightarrow> outcome io" where
  "app_reject_kind E app raw = do {
     status \<leftarrow> set_app_condition E app CondAccepted ConditionFalse ReasonInvalid
       (''K1sApp supports kind Deployment, got '' @ Quote (kindFromManifest raw))
       ((app_observed app)\<lparr>aps_AppName := appNameFromManifest raw\<rparr>);
     status \<leftarrow> set_app_condition E app CondReady ConditionFalse ReasonInvalid
       ''resource is not ready'' status;
     err \<leftarrow> patch_app_status E app status;
     State_Monad.return (no_result, err)
   }"

text \<open>The status of an app whose manifest is applied: the observation made before applying is used
  when there is one.\<close>

definition app_observe ::
  "env \<Rightarrow> K1sApp \<Rightarrow> Client \<Rightarrow> bytes \<Rightarrow> AppStatus option \<Rightarrow> K1sAppStatus \<Rightarrow> K1sAppStatus io" where
  "app_observe E app api raw observed0 status = do {
     observed \<leftarrow> (case observed0 of
         Some o0 \<Rightarrow> State_Monad.return (o0, None)
       | None \<Rightarrow> api_AppStatus E api (fst (appRefFromManifest raw)) (snd (appRefFromManifest raw)));
     case snd observed of
       None \<Rightarrow>
         let status = applyObservedAppStatus status (fst observed) in
         set_app_condition E app CondAppReady (conditionStatus (aps_Ready status))
           (reasonForBool (aps_Ready status)) (appReadyMessage (aps_Ready status)) status
     | Some statusErr \<Rightarrow>
         set_app_condition E app CondAppReady ConditionFalse ReasonUnavailable
           (''manifest applied but app status could not be read: '' @ Error E statusErr)
           (status\<lparr>aps_Ready := False\<rparr>)
   }"

definition app_report ::
  "env \<Rightarrow> K1sApp \<Rightarrow> Client \<Rightarrow> K1sCluster \<Rightarrow> bytes \<Rightarrow> bool \<Rightarrow> AppStatus option \<Rightarrow>
     payload \<times> go_error option \<Rightarrow> outcome io" where
  "app_report E app api cluster raw shouldApply observed0 a = do {
     now \<leftarrow> Now E;
     let phase = firstNonEmpty [strMap (fst a) ''status'', ''Applied''];
     let status = (app_observed app)
       \<lparr>aps_LastSyncTime := Some now,
        aps_AppName := firstNonEmpty [strMap (fst a) ''app'', appNameFromManifest raw, Name (app_Meta app)],
        aps_Phase := phase,
        aps_Ready := EqualFold phase ''ready'' \<or> EqualFold phase ''live''\<rparr>;
     status \<leftarrow> set_app_condition E app CondAccepted ConditionTrue ReasonReady
       ''K1sApp accepted by operator'' status;
     status \<leftarrow> (case snd a of
         Some applyErr \<Rightarrow> do {
           status \<leftarrow> set_app_condition E app CondApplied ConditionFalse ReasonUnavailable
             (Error E applyErr) status;
           status \<leftarrow> set_app_condition E app CondAppReady ConditionFalse ReasonUnavailable
             ''manifest was not applied'' status;
           State_Monad.return (status\<lparr>aps_Ready := False\<rparr>)
         }
       | None \<Rightarrow> do {
           status \<leftarrow> set_app_condition E app CondApplied ConditionTrue ReasonApplied
             (if shouldApply then ''manifest applied to k1s'' else ''manifest already applied to k1s'')
             status;
           app_observe E app api raw observed0 status
         });
     status \<leftarrow> set_app_condition E app CondReady (conditionStatus (aps_Ready status))
       (reasonForBool (aps_Ready status)) (readyMessage (aps_Ready status)) status;
     err \<leftarrow> patch_app_status E app status;
     State_Monad.return
       (requeue_after (pollInterval (cl_PollIntervalSeconds (cluster_Spec cluster))), err)
   }"

text \<open>With an unchanged manifest the app's status is read first; not finding the app means that it
  has to be applied again.\<close>

definition app_look ::
  "env \<Rightarrow> K1sApp \<Rightarrow> Client \<Rightarrow> bytes \<Rightarrow> (bool \<times> AppStatus option) io" where
  "app_look E app api raw =
     (if lastAppliedHash (OApp app) \<noteq> hashBytes raw then State_Monad.return (True, None)
      else do {
        r \<leftarrow> api_AppStatus E api (fst (appRefFromManifest raw)) (snd (appRefFromManifest raw));
        State_Monad.return
          (IsNotFound (snd r), case snd r of None \<Rightarrow> Some (fst r) | Some _ \<Rightarrow> None)
      })"

definition app_resync :: "env \<Rightarrow> K1sApp \<Rightarrow> Client \<Rightarrow> K1sCluster \<Rightarrow> bytes \<Rightarrow> outcome io" where
  "app_resync E app api cluster raw = do {
     look \<leftarrow> app_look E app api raw;
     done \<leftarrow> apply_manifest E (OApp app) api raw (fst look);
     case snd done of
       Some patchErr \<Rightarrow> State_Monad.return (no_result, Some patchErr)
     | None \<Rightarrow> app_report E app api cluster raw (fst look) (snd look) (fst done)
   }"

definition app_sync :: "env \<Rightarrow> K1sApp \<Rightarrow> Client \<Rightarrow> K1sCluster \<Rightarrow> outcome io" where
  "app_sync E app api cluster =
     (let raw = app_Manifest (app_Spec app) in
      if raw = [] then app_reject_empty E app
      else if kindFromManifest raw \<noteq> ''Deployment'' then app_reject_kind E app raw
      else app_resync E app api cluster raw)"

definition reconcile_app :: "env \<Rightarrow> K1sApp \<Rightarrow> outcome io" where
  "reconcile_app E app = do {
     w \<leftarrow> writeClient E (Namespace (app_Meta app)) (app_ClusterRef (app_Spec app));
     case w of
       Inl e \<Rightarrow> app_no_client E app e
     | Inr (api, cluster) \<Rightarrow>
         if DeletionTimestamp (app_Meta app) \<noteq> None then
           (if containsString (Finalizers (app_Meta app)) capabilityFinalizer then
              (if app_DeletePolicy (app_Spec app) \<noteq> K1sDeletePolicyOrphan then do {
                 failure \<leftarrow> app_delete_remote E app api;
                 case failure of
                   Some e \<Rightarrow> app_delete_failed E app e
                 | None \<Rightarrow> remove_finalizer E (OApp app)
               }
               else remove_finalizer E (OApp app))
            else State_Monad.return (no_result, None))
         else if \<not> containsString (Finalizers (app_Meta app)) capabilityFinalizer
         then add_finalizer E (OApp app)
         else app_sync E app api cluster
   }"

definition K1sApp_Reconcile :: "env \<Rightarrow> namespaced_name \<Rightarrow> outcome io" where
  "K1sApp_Reconcile E req = do {
     found \<leftarrow> kube_Get E CachedClient KindApp req;
     case found of
       Inl e \<Rightarrow> State_Monad.return (no_result, if kube_IsNotFound e then None else Some e)
     | Inr (OApp app) \<Rightarrow> reconcile_app E app
     | Inr _ \<Rightarrow> State_Monad.return (no_result, None)
   }"

section \<open>Each step\<close>

definition app_cond :: "K1sAppStatus \<Rightarrow> string \<Rightarrow> condition_status option" where
  "app_cond s = cond_of (aps_Conditions s)"

lemma app_cond_update [simp]:
  "app_cond (s\<lparr>aps_Ready := b\<rparr>) t = app_cond s t"
  "app_cond (applyObservedAppStatus s observed) t = app_cond s t"
  by (simp_all add: app_cond_def applyObservedAppStatus_def)

lemma applyObservedAppStatus_simps [simp]:
  "aps_Ready (applyObservedAppStatus s observed) = as_Ready observed"
  "aps_ObservedGeneration (applyObservedAppStatus s observed) = aps_ObservedGeneration s"
  by (simp_all add: applyObservedAppStatus_def)

lemma put_app_status_same [simp]: "same_object (put_app_status s x) x"
  by (cases x) (simp_all add: same_object_def ObjectKeyFromObject_def)

interpretation app_says: reporter "OApp app" "Generation (app_Meta app)" aps_Conditions
    "\<lambda>cs s. s\<lparr>aps_Conditions := cs\<rparr>" put_app_status "\<lambda>E. set_app_condition E app"
    "\<lambda>E. patch_app_status E app"
  for app
  by unfold_locales (simp_all add: set_app_condition_def patch_app_status_def)

lemmas app_condition_step = app_says.step [folded app_cond_def]
lemmas app_condition_last = app_says.last_step [folded app_cond_def]

lemma app_no_client_spec:
  "lawful E \<Longrightarrow> behaves (app_no_client E app e) (\<lambda>new _. \<forall>x\<in>set new. reports (OApp app) x)"
  unfolding app_no_client_def by (rule behaves_mono [OF app_says.one_decision [where f = id, simplified]]) auto

lemma app_delete_failed_spec:
  "lawful E \<Longrightarrow> behaves (app_delete_failed E app e)
     (\<lambda>new r. (\<forall>x\<in>set new. reports (OApp app) x) \<and> snd r \<noteq> None)"
  unfolding app_delete_failed_def
  by (rule behaves_mono [OF app_says.one_decision [where f = id, simplified]]) auto

text \<open>The deletion of an app is a POST to this endpoint.\<close>

definition app_delete_endpoint :: "K1sApp \<Rightarrow> string" where
  "app_delete_endpoint app = ''/delete/'' @ PathEscape (appDeleteName app) @ ''?purge=1''"

lemma app_delete_remote_spec:
  "behaves (app_delete_remote E app api)
     (\<lambda>new r. (\<forall>x\<in>set new. client_traffic api x) \<and>
        (r = None \<longrightarrow> confirmed api (app_delete_endpoint app) new))"
  unfolding app_delete_remote_def DeleteApp_def
  by (rule behaves_bind [OF delete_call_spec], rule behaves_return)
    (auto simp: app_delete_endpoint_def split: if_splits)

text \<open>What a report says: Ready and AppReady agree with the flag, a ready app is an applied one,
  and its readiness was observed.\<close>

definition app_status_ok :: "K1sApp \<Rightarrow> bool \<Rightarrow> K1sAppStatus \<Rightarrow> bool" where
  "app_status_ok app applied s \<longleftrightarrow>
     aps_ObservedGeneration s = Generation (app_Meta app) \<and>
     app_cond s CondAccepted = Some ConditionTrue \<and>
     app_cond s CondApplied = Some (conditionStatus applied) \<and>
     app_cond s CondAppReady = Some (conditionStatus (aps_Ready s)) \<and>
     app_cond s CondReady = Some (conditionStatus (aps_Ready s)) \<and>
     (aps_Ready s \<longrightarrow> applied)"

lemma app_observe_spec:
  assumes "lawful E"
  shows "behaves (app_observe E app api raw o0 s)
    (\<lambda>new s'. (\<forall>x\<in>set new. looks (OApp app) api x) \<and> observes new \<and>
       app_cond s' = (app_cond s)(CondAppReady \<mapsto> conditionStatus (aps_Ready s')) \<and>
       aps_ObservedGeneration s' = aps_ObservedGeneration s \<and>
       (aps_Ready s' \<longrightarrow> o0 \<noteq> None \<or> good_seen new))"
proof -
  have read: "behaves (case o0 of Some o0 \<Rightarrow> State_Monad.return (o0, None)
      | None \<Rightarrow> api_AppStatus E api (fst (appRefFromManifest raw)) (snd (appRefFromManifest raw)))
      (\<lambda>new r. (\<forall>x\<in>set new. client_traffic api x) \<and> (\<forall>x\<in>set new. requests ''GET'' x) \<and>
         (snd r = None \<longrightarrow> o0 \<noteq> None \<or> good_seen new))"
    by (rule behaves_case_option [OF behaves_mono [OF behaves_conj [OF app_status.contract
            emits_behaves [OF api_AppStatus_requests]]]])
      (auto intro: behaves_return simp: outcome_seen_def success_seen_good)
  show ?thesis
    unfolding app_observe_def Let_def
    by (rule behaves_bind [OF read], rule behaves_case_option; rule app_condition_last [OF assms])
      (auto intro: traffic_looks reports_looks only_clock_reports only_clock_observes
        simp: traffic_observes)
qed

lemma app_report_spec:
  assumes "lawful E"
  shows "behaves (app_report E app api cluster raw sh o0 a)
    (\<lambda>new _. (\<forall>x\<in>set new. looks (OApp app) api x) \<and>
       (\<forall>x\<in>set new. writes_status put_app_status (\<lambda>s. app_status_ok app (snd a = None) s \<and>
          (aps_Ready s \<longrightarrow> o0 \<noteq> None \<or> good_seen new)) x))"
proof -
  have decide: "behaves (case snd a of
         Some applyErr \<Rightarrow> do {
           status \<leftarrow> set_app_condition E app CondApplied ConditionFalse ReasonUnavailable
             (Error E applyErr) s;
           status \<leftarrow> set_app_condition E app CondAppReady ConditionFalse ReasonUnavailable
             ''manifest was not applied'' status;
           State_Monad.return (status\<lparr>aps_Ready := False\<rparr>)
         }
       | None \<Rightarrow> do {
           status \<leftarrow> set_app_condition E app CondApplied ConditionTrue ReasonApplied msg s;
           app_observe E app api raw o0 status
         })
      (\<lambda>new s'. (\<forall>x\<in>set new. looks (OApp app) api x) \<and> observes new \<and>
         app_cond s' = (app_cond s)(CondApplied \<mapsto> conditionStatus (snd a = None),
           CondAppReady \<mapsto> conditionStatus (aps_Ready s')) \<and>
         aps_ObservedGeneration s' = aps_ObservedGeneration s \<and>
         (aps_Ready s' \<longrightarrow> snd a = None \<and> (o0 \<noteq> None \<or> good_seen new)))" for s msg
  proof (rule behaves_case_option, goal_cases)
    case 1
    then show ?case
      by (intro app_condition_step [OF assms] behaves_mono [OF app_observe_spec [OF assms]])
        (auto intro: reports_looks only_clock_reports only_clock_observes)
  next
    case (2 e)
    then show ?case
      by (intro app_condition_step [OF assms] behaves_return)
        (auto intro: reports_looks only_clock_reports only_clock_observes)
  qed
  show ?thesis
    unfolding app_report_def Let_def
  proof (rule behaves_bind [OF Now_spec], rule app_condition_step [OF assms], rule behaves_bind [OF decide],
      rule app_condition_step [OF assms], rule app_says.patch_step [OF assms], rule behaves_return, goal_cases)
    case (1 n1 now n2 s2 n3 s3 n4 s4 n5 err)
    have cond: "app_cond s4 = (app_cond s2)(CondApplied \<mapsto> conditionStatus (snd a = None),
        CondAppReady \<mapsto> conditionStatus (aps_Ready s3), CondReady \<mapsto> conditionStatus (aps_Ready s3))"
      using 1 by simp
    have "app_cond s2 CondAccepted = Some ConditionTrue" "aps_Ready s4 = aps_Ready s3"
      "aps_ObservedGeneration s4 = Generation (app_Meta app)"
      using 1 by (auto simp: app_observed_def)
    then have s4: "app_status_ok app (snd a = None) s4"
      "aps_Ready s4 \<longrightarrow> o0 \<noteq> None \<or> good_seen n3"
      using 1(3) by (auto simp: app_status_ok_def cond)
    have "only_clock (n1 @ n2 @ n4)" using 1 by simp
    then have before: "observes (n1 @ n2 @ n3 @ n4)" "\<forall>x\<in>set (n1 @ n2 @ n3 @ n4). looks (OApp app) api x"
      using 1(3) only_clock_observes [of n1] only_clock_observes [of n2] only_clock_observes [of n4]
        clock_looks [of "n1 @ n2 @ n4"] by auto
    have good: "good_seen n3 \<Longrightarrow> good_seen (n1 @ n2 @ n3 @ n4 @ n5)" by simp
    let ?P = "\<lambda>s. app_status_ok app (snd a = None) s \<and>
      (aps_Ready s \<longrightarrow> o0 \<noteq> None \<or> good_seen (n1 @ n2 @ n3 @ n4 @ n5))"
    have after: "\<forall>x\<in>set n5. looks (OApp app) api x \<and> writes_status put_app_status ?P x"
      using 1(5) s4 good
      by (auto intro!: patch_writes_status intro: reports_looks patch_status_reports)
    have "\<forall>x\<in>set (n1 @ n2 @ n3 @ n4). writes_status put_app_status ?P x"
      using before(1) by (auto intro: observes_writes_status)
    with before(2) after show ?case by auto
  qed
qed

lemma app_look_spec:
  "behaves (app_look E app api raw)
     (\<lambda>new r. (\<forall>x\<in>set new. looks (OApp app) api x) \<and> observes new \<and>
        (snd r \<noteq> None \<longrightarrow> good_seen new) \<and>
        (fst r \<longrightarrow> lastAppliedHash (OApp app) \<noteq> hashBytes raw \<or> (\<exists>z\<in>set new. answered ((=) 404) z)))"
proof -
  have get: "behaves (api_AppStatus E api ns name) (\<lambda>new r.
      ((\<forall>x\<in>set new. client_traffic api x) \<and> outcome_seen new (snd r)) \<and>
      (\<forall>x\<in>set new. requests ''GET'' x))" for ns name
    by (rule behaves_conj [OF app_status.contract emits_behaves [OF api_AppStatus_requests]])
  show ?thesis
    unfolding app_look_def
  proof (rule behaves_if, goal_cases)
    case 1
    then show ?case by (auto intro: behaves_return)
  next
    case 2
    show ?case
    proof (rule behaves_bind [OF get], rule behaves_return, goal_cases)
      case (1 n1 r)
      then show ?case
        by (auto intro: traffic_looks success_seen_good
            simp: traffic_observes outcome_seen_def IsNotFound_def code_seen_def split: option.splits)
    qed
  qed
qed

lemma app_reject_spec:
  assumes "lawful E"
  shows "behaves (app_reject_empty E app) (\<lambda>new _. \<forall>x\<in>set new. reports (OApp app) x)"
    and "behaves (app_reject_kind E app raw) (\<lambda>new _. \<forall>x\<in>set new. reports (OApp app) x)"
  unfolding app_reject_empty_def app_reject_kind_def
  by (intro app_condition_step [OF assms] app_says.patch_step [OF assms] behaves_return;
      auto intro: only_clock_reports patch_status_reports)+

text \<open>A manifest that the operator applies.\<close>

definition app_accepted :: "K1sApp \<Rightarrow> bool" where
  "app_accepted app \<longleftrightarrow> app_Manifest (app_Spec app) \<noteq> [] \<and>
     kindFromManifest (app_Manifest (app_Spec app)) = ''Deployment''"

interpretation app_resync: resync E "OApp app" api raw "app_look E app api raw"
    "app_report E app api cluster raw" "app_resync E app api cluster raw" put_app_status
    "app_status_ok app" aps_Ready
  for E app api raw cluster
  by (unfold_locales, rule app_resync_def, rule app_look_spec, rule app_report_spec)

definition app_sync_ok :: "env \<Rightarrow> K1sApp \<Rightarrow> Client \<Rightarrow> event list \<Rightarrow> bool" where
  "app_sync_ok E app api new \<longleftrightarrow>
     (if app_accepted app
      then resync_ok E (OApp app) api (app_Manifest (app_Spec app)) put_app_status
        (app_status_ok app) aps_Ready new
      else \<forall>x\<in>set new. reports (OApp app) x)"

lemma app_sync_spec:
  assumes "lawful E"
  shows "behaves (app_sync E app api cluster) (\<lambda>new _. app_sync_ok E app api new)"
  unfolding app_sync_def Let_def
  by (auto simp: app_accepted_def app_sync_ok_def
      intro!: behaves_if behaves_mono [OF app_reject_spec(1) [OF assms]]
        behaves_mono [OF app_reject_spec(2) [OF assms]] behaves_mono [OF app_resync.sync_spec [OF assms]])

lemma app_sync_applies: "app_sync_ok E app api new \<Longrightarrow> x \<in> set new \<Longrightarrow> applies (OApp app) api x"
  by (auto simp: app_sync_ok_def resync_ok_def intro: reports_applies split: if_splits)

lemma app_sync_accepted:
  assumes "app_sync_ok E app api new" and "x \<in> set new" and "\<not> reports (OApp app) x"
  shows "app_accepted app" and "resync_ok E (OApp app) api (app_Manifest (app_Spec app)) put_app_status
        (app_status_ok app) aps_Ready new"
  using assms by (auto simp: app_sync_ok_def split: if_splits)

interpretation app: capability E "OApp app" "app_ClusterRef (app_Spec app)"
    "app_DeletePolicy (app_Spec app) = K1sDeletePolicyOrphan" "reconcile_app E app"
    "app_no_client E app" "app_delete_remote E app" "app_delete_failed E app" "app_sync E app"
    "\<lambda>api. confirmed api (app_delete_endpoint app)"
  for E app
proof unfold_locales
  show "lawful E \<Longrightarrow> behaves (app_sync E app api cluster) (\<lambda>new _. \<forall>x\<in>set new. applies (OApp app) api x)"
    for api cluster
    by (rule behaves_mono [OF app_sync_spec]) (auto intro: app_sync_applies)
  show "reconcile_app E app = do {
        w \<leftarrow> writeClient E (Namespace (meta_of (OApp app))) (app_ClusterRef (app_Spec app));
        case w of
          Inl e \<Rightarrow> app_no_client E app e
        | Inr (api, cluster) \<Rightarrow>
            if being_deleted (OApp app) then
              (if \<not> has_finalizer (OApp app) then State_Monad.return (no_result, None)
               else if app_DeletePolicy (app_Spec app) = K1sDeletePolicyOrphan
               then remove_finalizer E (OApp app)
               else do {
                 failure \<leftarrow> app_delete_remote E app api;
                 case failure of
                   Some e \<Rightarrow> app_delete_failed E app e
                 | None \<Rightarrow> remove_finalizer E (OApp app)
               })
            else if \<not> has_finalizer (OApp app) then add_finalizer E (OApp app)
            else app_sync E app api cluster
      }"
    unfolding reconcile_app_def
    by (auto simp: being_deleted_def has_finalizer_def fun_eq_iff intro!: arg_cong [where f = "State_Monad.bind _"]
        split: sum.splits)
qed (rule app_no_client_spec app_delete_remote_spec app_delete_failed_spec; assumption?)+

section \<open>Properties\<close>

text \<open>
  C4: the clean-up of an app is safe. Whatever the API and the controller answer, a reconciliation
  writes to no Kubernetes object but the app itself; it sends nothing to the k1s cluster unless
  the app it read carries the clean-up finalizer; and it takes the finalizer off only while the
  app is being deleted and, unless its policy is Orphan, after the controller confirmed the
  deletion of this app with a 2xx or a 404.
\<close>

theorem app_cleanup_safe:
  assumes "lawful E" and "run_state (reconcile_app E app) h = (r, h @ new)" and "e \<in> set new"
  shows "writes_to (OApp app) e \<and>
    (is_http e \<longrightarrow> capabilityFinalizer \<in> set (Finalizers (app_Meta app))) \<and>
    (removes_finalizer e \<longrightarrow> DeletionTimestamp (app_Meta app) \<noteq> None \<and>
       (app_DeletePolicy (app_Spec app) = ''Orphan'' \<or>
        (\<exists>api before del fin. new = before @ del @ fin \<and> e \<in> set fin \<and>
           confirmed api (''/delete/'' @ PathEscape (appDeleteName app) @ ''?purge=1'') del)))"
  using app.reconcile_safe [OF assms]
  by (auto simp: has_finalizer_def containsString_def being_deleted_def app_delete_endpoint_def)

text \<open>
  C5: the last-applied hash never lies: a reconciliation writes it (and changes nothing else of the
  app's metadata) only as the hash of the app's current manifest, and only when a POST of this
  manifest was answered with success in the same run.
\<close>

theorem app_hash_means_applied:
  assumes "lawful E" and "run_state (app_sync E app api cluster) h = (r, h @ new)"
    and "EPatch cur y res \<in> set new"
  shows "y = update_meta (annotate lastAppliedHashAnnotation
      (hashBytes (app_Manifest (app_Spec app)))) cur \<and>
    (\<exists>q a. EHTTP q a \<in> set new \<and> answered success_code (EHTTP q a) \<and> hq_Method q = ''POST'' \<and>
       hq_Body q = Some (Marshal (e_formatFloat E)
         (payload_any (fst (Unmarshal_map (app_Manifest (app_Spec app)) None)))))"
proof -
  have ok: "app_sync_ok E app api new"
    by (rule behaves_run [OF app_sync_spec [OF assms(1)] assms(2)])
  have "\<not> reports (OApp app) (EPatch cur y res)" by (simp add: reports_def)
  from app_resync.hash_means_applied [OF app_sync_accepted(2) [OF ok assms(3) this] assms(3)]
  show ?thesis .
qed

text \<open>
  C6: an app is not applied twice: nothing is posted for an app whose recorded hash is that of its
  manifest, unless an answer of the same run was a 404; and nothing is posted at all for an empty
  manifest or one that is no Deployment.
\<close>

theorem app_applies_once:
  assumes "lawful E" and "run_state (app_sync E app api cluster) h = (r, h @ new)"
    and "e \<in> set new" and "posts e"
  shows "kindFromManifest (app_Manifest (app_Spec app)) = ''Deployment'' \<and>
    (lastAppliedHash (OApp app) \<noteq> hashBytes (app_Manifest (app_Spec app)) \<or>
     (\<exists>z\<in>set new. answered (\<lambda>code. code = 404) z))"
proof -
  have ok: "app_sync_ok E app api new"
    by (rule behaves_run [OF app_sync_spec [OF assms(1)] assms(2)])
  have "\<not> reports (OApp app) e"
    using assms(4) by (auto simp: posts_def reports_def split: event.splits)
  note acc = app_sync_accepted [OF ok assms(3) this]
  from app_resync.resync_okD(3) [OF acc(2) assms(3,4)] acc(1) show ?thesis
    unfolding app_accepted_def eq_commute [of 404] by simp
qed

text \<open>
  C7: what is reported of an accepted app is consistent and observed: the status written carries
  this generation, Ready and AppReady both say what the flag says, a ready app is reported as
  applied, and readiness was read from a 2xx answer of this run.
\<close>

theorem app_report_is_earned:
  assumes "lawful E" and "run_state (app_sync E app api cluster) h = (r, h @ new)"
    and "app_Manifest (app_Spec app) \<noteq> []"
    and "kindFromManifest (app_Manifest (app_Spec app)) = ''Deployment''"
    and "EStatusPatch cur y res \<in> set new"
  shows "\<exists>s. y = put_app_status s cur \<and>
    aps_ObservedGeneration s = Generation (app_Meta app) \<and>
    app_cond s ''Accepted'' = Some ConditionTrue \<and>
    app_cond s ''Ready'' = Some (conditionStatus (aps_Ready s)) \<and>
    app_cond s ''AppReady'' = Some (conditionStatus (aps_Ready s)) \<and>
    (aps_Ready s \<longrightarrow> app_cond s ''Applied'' = Some ConditionTrue \<and>
       (\<exists>z\<in>set new. answered success_code z))"
proof -
  have "app_sync_ok E app api new"
    by (rule behaves_run [OF app_sync_spec [OF assms(1)] assms(2)])
  with assms(3,4) have "resync_ok E (OApp app) api (app_Manifest (app_Spec app)) put_app_status
      (app_status_ok app) aps_Ready new"
    by (simp add: app_sync_ok_def app_accepted_def)
  from app_resync.resync_okD(4) [OF this assms(5)] show ?thesis
    by (auto simp: writes_status_def app_status_ok_def good_seen_def)
qed

section \<open>Examples\<close>

definition example_app :: "string list \<Rightarrow> int option \<Rightarrow> bytes \<Rightarrow> K1sApp" where
  "example_app finalizers deletion manifest =
     \<lparr>app_Meta = \<lparr>Name = ''web'', Namespace = ''team'', Generation = 3, Finalizers = finalizers,
        Annotations = None, Labels = Map.empty, DeletionTimestamp = deletion, OwnerReferences = []\<rparr>,
      app_Spec = \<lparr>app_ClusterRef = example_ref, app_Manifest = manifest, app_DeletePolicy = ''Delete''\<rparr>,
      app_Status = \<lparr>aps_ObservedGeneration = 0, aps_AppName = ''web'', aps_Ready = False, aps_Phase = [],
        aps_Endpoint = [], aps_Replicas = \<lparr>rep_Desired = 0, rep_Ready = 0, rep_Live = 0\<rparr>,
        aps_Image = [], aps_Revision = [], aps_LastSyncTime = None, aps_Conditions = []\<rparr>\<rparr>"

abbreviation deleted_app :: K1sApp where
  "deleted_app \<equiv> example_app [capabilityFinalizer] (Some 5) []"

lemma delete_url_example:
  "\<exists>v. url_Parse (client_url example_client (app_delete_endpoint deleted_app)) = Inr v"
  by (rule exI [of _ "sample_url ''http://k1s:80/delete/web?purge=1''"]) code_simp

text \<open>The deletion of that app: its cluster and Secret are read, the app is deleted in the k1s
  cluster, and the finalizer comes off.\<close>

lemma run_delete_example:
  "run_state (reconcile_app (example_world (OApp deleted_app)) deleted_app) [] =
     ((no_result, None), [] @ (example_reads @
       [EHTTP (request_for example_client ''POST''
          (client_url example_client (app_delete_endpoint deleted_app)) (Some ''{}'')) (Inr sample_leader),
        EGet CachedClient KindApp (ObjectKeyFromObject (OApp deleted_app)) (Inr (OApp deleted_app)),
        EPatch (OApp deleted_app)
          (update_meta (\<lambda>m. m\<lparr>Finalizers := []\<rparr>) (OApp deleted_app)) None]))"
proof -
  obtain v where v: "url_Parse (client_url example_client (app_delete_endpoint deleted_app)) = Inr v"
    using delete_url_example by blast
  have body: "Marshal f (payload_any (Some [])) = ''{}''" for f
    by (simp add: payload_any_def)
  have del: "run_state (DeleteApp (example_world (OApp deleted_app)) example_client
        (appDeleteName deleted_app) True) h =
      ((None, None), h @ [EHTTP (request_for example_client ''POST''
          (client_url example_client (app_delete_endpoint deleted_app)) (Some ''{}'')) (Inr sample_leader)])" for h
    using run_call_example [OF v] by (simp add: DeleteApp_def postJSON_def body app_delete_endpoint_def)
  have ref: "app_ClusterRef (app_Spec deleted_app) = example_ref"
    by (simp add: example_app_def)
  have meta: "DeletionTimestamp (app_Meta deleted_app) = Some 5"
      "Finalizers (app_Meta deleted_app) = [capabilityFinalizer]"
      "app_DeletePolicy (app_Spec deleted_app) = ''Delete''"
    by (simp_all add: example_app_def)
  show ?thesis
    by (simp add: reconcile_app_def ref run_writeClient_example meta containsString_def
        app_delete_remote_def del remove_finalizer_def run_patchFinalizers_example)
qed

theorem app_cleanup_safe_witness:
  "\<exists>e api before del fin. removes_finalizer e \<and>
     trace_of (reconcile_app (example_world (OApp deleted_app)) deleted_app) [] = before @ del @ fin \<and>
     e \<in> set fin \<and> confirmed api ''/delete/web?purge=1'' del"
proof -
  let ?e = "EPatch (OApp deleted_app) (update_meta (\<lambda>m. m\<lparr>Finalizers := []\<rparr>) (OApp deleted_app)) None"
  let ?m = "reconcile_app (example_world (OApp deleted_app)) deleted_app"
  obtain r new where run: "run_state ?m [] = (r, [] @ new)" and mem: "?e \<in> set new"
    using run_delete_example by simp
  have rm: "removes_finalizer ?e"
    by (simp add: removes_finalizer_def has_finalizer_def containsString_def example_app_def)
  have "app_DeletePolicy (app_Spec deleted_app) \<noteq> ''Orphan''"
    by (simp add: example_app_def)
  moreover have "''/delete/'' @ PathEscape (appDeleteName deleted_app) @ ''?purge=1'' =
      ''/delete/web?purge=1''"
    by code_simp
  ultimately obtain api before del fin where "new = before @ del @ fin" "?e \<in> set fin"
      "confirmed api ''/delete/web?purge=1'' del"
    using app_cleanup_safe [OF _ run mem] rm by auto
  then show ?thesis
    using run rm by (metis append_Nil snd_conv)
qed

abbreviation new_app :: K1sApp where
  "new_app \<equiv> example_app [capabilityFinalizer] None example_manifest"

text \<open>The first application of that app: the manifest is posted, the hash recorded, the status
  patched.\<close>

lemma sync_example:
  obtains r new cur y where
    "run_state (app_sync (example_world (OApp new_app)) new_app example_client example_cluster) [] =
       (r, [] @ new)"
    and "example_apply example_manifest \<in> set new"
    and "example_hash_patch (OApp new_app) example_manifest \<in> set new"
    and "EStatusPatch cur y None \<in> set new"
proof -
  let ?E = "example_world (OApp new_app)" and ?h = "example_applied (OApp new_app) example_manifest"
  let ?rep = "app_report ?E new_app example_client example_cluster example_manifest True None (None, None)"
  have "\<exists>X cur y r. run_state ?rep ?h = (r, X @ [EStatusPatch cur y None])"
    by (simp add: app_report_def Let_def patch_app_status_def run_patchStatus_example)
  then obtain mid cur y r where rep: "run_state ?rep ?h = (r, ?h @ mid @ [EStatusPatch cur y None])"
    using run_ends_with_patch [OF app_report_spec [of ?E]] by (metis example_applied_simps(1,2) example_world_lawful)
  have meta: "lastAppliedHash (OApp new_app) = []" "app_Manifest (app_Spec new_app) = example_manifest"
    by (simp_all add: lastAppliedHash_def example_app_def)
  have "run_state (app_sync ?E new_app example_client example_cluster) [] =
      (r, [] @ (?h @ mid @ [EStatusPatch cur y None]))"
    using rep by (simp add: app_sync_def app_resync_def meta example_manifest_simps app_look_def
        hash_not_empty [symmetric] run_apply_manifest_example)
  then show thesis by (rule that [of r _ cur y]) simp_all
qed

theorem app_hash_means_applied_witness:
  "\<exists>r new cur y res q a. run_state (app_sync (example_world (OApp new_app)) new_app example_client
      example_cluster) [] = (r, new) \<and> EPatch cur y res \<in> set new \<and>
     EHTTP q a \<in> set new \<and> hq_Method q = ''POST''"
proof (rule sync_example)
  fix r new cur y
  let ?p = "example_hash_patch (OApp new_app) example_manifest"
  assume run: "run_state (app_sync (example_world (OApp new_app)) new_app example_client
      example_cluster) [] = (r, [] @ new)" and p: "?p \<in> set new"
  from app_hash_means_applied [OF _ run p [unfolded example_hash_patch_def]] run p
  show ?thesis unfolding example_hash_patch_def by fastforce
qed

theorem app_applies_once_witness:
  "kindFromManifest (app_Manifest (app_Spec new_app)) = ''Deployment'' \<and> posts (example_apply example_manifest)"
proof -
  have posted: "posts (example_apply example_manifest)" by (simp add: posts_def example_apply_def)
  show ?thesis
  proof (rule sync_example)
    fix r new cur y
    assume run: "run_state (app_sync (example_world (OApp new_app)) new_app example_client
        example_cluster) [] = (r, [] @ new)" and e: "example_apply example_manifest \<in> set new"
    from app_applies_once [OF _ run e posted] posted show ?thesis by simp
  qed
qed

theorem app_report_is_earned_witness:
  "\<exists>r new cur y res s. run_state (app_sync (example_world (OApp new_app)) new_app example_client
      example_cluster) [] = (r, new) \<and> EStatusPatch cur y res \<in> set new \<and>
     y = put_app_status s cur \<and> aps_ObservedGeneration s = 3"
proof (rule sync_example)
  fix r new cur y
  assume run: "run_state (app_sync (example_world (OApp new_app)) new_app example_client
      example_cluster) [] = (r, [] @ new)" and st: "EStatusPatch cur y None \<in> set new"
  have "\<exists>s. y = put_app_status s cur \<and> aps_ObservedGeneration s = Generation (app_Meta new_app)"
    using app_report_is_earned [OF _ run _ _ st] example_manifest_simps
    by (auto simp: example_app_def)
  with run st show ?thesis
    by (fastforce simp: example_app_def)
qed

end
