(* ===== verification/InferenceManifest.thy ===== *)
theory InferenceManifest
  imports Common
begin

text \<open>
  The manifest of a K1sInferenceEndpoint: \<open>buildInferenceManifest\<close> of
  src/internal/controller/capability_controller.go. Maps are rendered with sorted keys, the members
  of the cell as the structs that they are.
\<close>

definition addString :: "(string \<times> goany) list \<Rightarrow> string \<Rightarrow> string \<Rightarrow> (string \<times> goany) list" where
  "addString payload key v = (if v \<noteq> [] then AList.update key (GStr v) payload else payload)"

definition executor_payload :: "K1sInferenceExecutorSpec \<Rightarrow> (string \<times> goany) list" where
  "executor_payload x =
     (let p = [(''type'', GStr (firstNonEmpty [exe_Type x, ''ray'']))];
          p = addString p ''fallbackMode'' (exe_FallbackMode x);
          p = addString p ''rayImage'' (exe_RayImage x);
          p = addString p ''mpImage'' (exe_MPImage x);
          p = addString p ''launcherImage'' (exe_LauncherImage x);
          p = addString p ''dtype'' (exe_DType x)
      in addString p ''runtimeClassName'' (exe_RuntimeClassName x))"

text \<open>A member, with the fields that \<open>omitempty\<close> leaves.\<close>

definition member_value :: "K1sInferenceMemberSpec \<Rightarrow> goany" where
  "member_value m = GStruct
     ((if mem_SiteID m = [] then [] else [(''siteId'', GStr (mem_SiteID m))]) @
      (if mem_NodeID m = [] then [] else [(''nodeId'', GStr (mem_NodeID m))]) @
      (if mem_GPUCount m = 0 then [] else [(''gpuCount'', GInt32 (mem_GPUCount m))]))"

definition cell_spec :: "K1sInferenceEndpointSpec \<Rightarrow> goany" where
  "cell_spec s = GMap
     [(''model'', GMap
         [(''modelId'', GStr (mdl_ModelID (inf_Model s))),
          (''localPath'', GStr (mdl_LocalPath (inf_Model s)))]),
      (''parallelism'', GMap
         [(''tp'', GInt32 (defaultI32 (par_TP (inf_Parallelism s)) 1)),
          (''pp'', GInt32 (defaultI32 (par_PP (inf_Parallelism s)) 1))]),
      (''executor'', GMap (executor_payload (inf_Executor s))),
      (''fabric'', GMap
         [(''mode'', GStr (firstNonEmpty [fab_Mode (inf_Fabric s), ''lan_direct''])),
          (''policyMode'', GStr (firstNonEmpty [fab_PolicyMode (inf_Fabric s), ''strict_membership''])),
          (''ttlSeconds'', GInt32 (defaultI32 (fab_TTLSeconds (inf_Fabric s)) 300))]),
      (''members'', case inf_Members s of None \<Rightarrow> GNil | Some ms \<Rightarrow> GSlice (map member_value ms)),
      (''linkMetrics'', GSlice [])]"

text \<open>The kind and the spec of what is applied: a cell, or a set of cells with the cell as template.\<close>

definition inference_resource :: "K1sInferenceEndpointSpec \<Rightarrow> string \<times> goany" where
  "inference_resource s =
     (case inf_CellSet s of
        None \<Rightarrow> (''InferenceCell'', cell_spec s)
      | Some cs \<Rightarrow> (''InferenceCellSet'', GMap
          [(''replicas'', GInt32 (defaultI32 (cs_Replicas cs) 1)),
           (''nameFormat'', GStr (firstNonEmpty [cs_NameFormat cs, ''{set}-{i:03d}''])),
           (''template'', cell_spec s)]))"

definition inference_payload :: "K1sInferenceEndpoint \<Rightarrow> goany" where
  "inference_payload x = GMap
     [(''apiVersion'', GStr ''ae.dev/v1alpha1''),
      (''kind'', GStr (fst (inference_resource (inf_Spec x)))),
      (''metadata'', GMap
         [(''name'', GStr (Name (inf_Meta x))),
          (''namespace'', GStr (Namespace (inf_Meta x))),
          (''labels'', GMap
             [(''app.kubernetes.io/managed-by'', GStr ''k1s-operator''),
              (''operator.k1s.io/inference-endpoint'', GStr (Name (inf_Meta x)))])]),
      (''spec'', snd (inference_resource (inf_Spec x)))]"

definition buildInferenceManifest :: "env \<Rightarrow> K1sInferenceEndpoint \<Rightarrow> go_error + bytes" where
  "buildInferenceManifest E x =
     (if mdl_ModelID (inf_Model (inf_Spec x)) = [] then Inl (TextErr ''spec.model.modelId is required'')
      else Inr (Marshal (e_formatFloat E) (inference_payload x)))"

lemmas manifest_defs [go_defs] = addString_def executor_payload_def member_value_def cell_spec_def
  inference_resource_def inference_payload_def

end
