(* ===== verification/Inference.thy ===== *)
theory Inference
  imports Resync Reporting InferenceManifest
begin

text \<open>
  src/internal/controller/capability_controller.go: the reconciler of K1sInferenceEndpoint. It
  builds the manifest of an inference cell, or of a set of cells, applies it to the k1s cluster when
  its hash changed or the resource is gone, and reports what the controller says of it.
\<close>

section \<open>The code\<close>

definition set_inference_condition ::
  "env \<Rightarrow> K1sInferenceEndpoint \<Rightarrow> string \<Rightarrow> condition_status \<Rightarrow> string \<Rightarrow> string \<Rightarrow>
     K1sInferenceEndpointStatus \<Rightarrow> K1sInferenceEndpointStatus io"
where
  "set_inference_condition E x t st reason msg status = do {
     cs \<leftarrow> setCondition E (ins_Conditions status) t st reason msg (Generation (inf_Meta x));
     State_Monad.return (status\<lparr>ins_Conditions := cs\<rparr>)
   }"

fun put_inference_status :: "K1sInferenceEndpointStatus \<Rightarrow> kobject \<Rightarrow> kobject" where
  "put_inference_status status (OInference x) = OInference (x\<lparr>inf_Status := status\<rparr>)"
| "put_inference_status status x = x"

definition patch_inference_status ::
  "env \<Rightarrow> K1sInferenceEndpoint \<Rightarrow> K1sInferenceEndpointStatus \<Rightarrow> go_error option io" where
  "patch_inference_status E x status =
     patchStatus E (OInference x) (\<lambda>cur. State_Monad.return (put_inference_status status cur))"

text \<open>\<open>endpoint.Status\<close> after \<open>endpoint.Status.ObservedGeneration = endpoint.Generation\<close>.\<close>

definition inference_observed :: "K1sInferenceEndpoint \<Rightarrow> K1sInferenceEndpointStatus" where
  "inference_observed x = (inf_Status x)\<lparr>ins_ObservedGeneration := Generation (inf_Meta x)\<rparr>"

definition inference_no_client :: "env \<Rightarrow> K1sInferenceEndpoint \<Rightarrow> go_error \<Rightarrow> outcome io" where
  "inference_no_client E x e = do {
     status \<leftarrow> set_inference_condition E x CondCredentialsValid ConditionFalse ReasonMissing (Error E e)
       (inference_observed x);
     err \<leftarrow> patch_inference_status E x status;
     State_Monad.return (no_result, err)
   }"

definition inference_delete_remote ::
  "env \<Rightarrow> K1sInferenceEndpoint \<Rightarrow> Client \<Rightarrow> go_error option io" where
  "inference_delete_remote E x api = do {
     r \<leftarrow> (case inf_CellSet (inf_Spec x) of
         Some _ \<Rightarrow> DeleteInferenceCellSet E api (Namespace (inf_Meta x)) (Name (inf_Meta x))
       | None \<Rightarrow> DeleteInferenceCell E api (Namespace (inf_Meta x)) (Name (inf_Meta x)));
     State_Monad.return (if snd r \<noteq> None \<and> \<not> IsNotFound (snd r) then snd r else None)
   }"

definition inference_delete_failed :: "env \<Rightarrow> K1sInferenceEndpoint \<Rightarrow> go_error \<Rightarrow> outcome io" where
  "inference_delete_failed E x e = do {
     status \<leftarrow> set_inference_condition E x CondApplied ConditionFalse ReasonUnavailable
       (''failed to delete k1s inference resource: '' @ Error E e)
       ((inference_observed x)\<lparr>ins_LastError := Error E e\<rparr>);
     _ \<leftarrow> patch_inference_status E x status;
     State_Monad.return (no_result, Some e)
   }"

definition inference_reject :: "env \<Rightarrow> K1sInferenceEndpoint \<Rightarrow> go_error \<Rightarrow> outcome io" where
  "inference_reject E x e = do {
     status \<leftarrow> set_inference_condition E x CondAccepted ConditionFalse ReasonInvalid (Error E e)
       (inference_observed x);
     err \<leftarrow> patch_inference_status E x status;
     State_Monad.return (no_result, err)
   }"

definition inferenceStatusForEndpoint ::
  "env \<Rightarrow> Client \<Rightarrow> K1sInferenceEndpoint \<Rightarrow> (InferenceStatus \<times> go_error option) io" where
  "inferenceStatusForEndpoint E api x =
     (case inf_CellSet (inf_Spec x) of
        Some _ \<Rightarrow> InferenceCellSetStatus E api (Namespace (inf_Meta x)) (Name (inf_Meta x))
      | None \<Rightarrow> InferenceCellStatus E api (Namespace (inf_Meta x)) (Name (inf_Meta x)))"

definition applyObservedInferenceStatus ::
  "K1sInferenceEndpointStatus \<Rightarrow> InferenceStatus \<Rightarrow> K1sInferenceEndpointStatus" where
  "applyObservedInferenceStatus status observed =
     (let status = status
        \<lparr>ins_Ready := is_Ready observed,
         ins_Phase := firstNonEmpty [is_Phase observed, is_Status observed, ins_Phase status],
         ins_APIEndpoint := firstNonEmpty [is_APIEndpoint observed, ins_APIEndpoint status],
         ins_ActiveExecutor := firstNonEmpty [is_ActiveExecutor observed, ins_ActiveExecutor status],
         ins_LastError := is_LastError observed\<rparr> in
      if is_Kind observed = ''InferenceCellSet'' then
        status\<lparr>ins_CellName := [],
          ins_CellSetName := firstNonEmpty [is_Name observed, ins_CellSetName status]\<rparr>
      else status\<lparr>ins_CellName := firstNonEmpty [is_Name observed, ins_CellName status]\<rparr>)"

text \<open>The status of an endpoint whose manifest is applied: the observation made before applying is
  used when there is one.\<close>

definition inference_observe ::
  "env \<Rightarrow> K1sInferenceEndpoint \<Rightarrow> Client \<Rightarrow> InferenceStatus option \<Rightarrow>
     K1sInferenceEndpointStatus \<Rightarrow> K1sInferenceEndpointStatus io" where
  "inference_observe E x api observed0 status = do {
     observed \<leftarrow> (case observed0 of
         Some o0 \<Rightarrow> State_Monad.return (o0, None)
       | None \<Rightarrow> inferenceStatusForEndpoint E api x);
     case snd observed of
       None \<Rightarrow> State_Monad.return (applyObservedInferenceStatus status (fst observed))
     | Some statusErr \<Rightarrow>
         set_inference_condition E x CondReady ConditionFalse ReasonUnavailable
           (''manifest applied but inference status could not be read: '' @ Error E statusErr)
           (status\<lparr>ins_Ready := False, ins_LastError := Error E statusErr\<rparr>)
   }"

text \<open>The status before its conditions are decided.\<close>

definition inference_synced ::
  "K1sInferenceEndpoint \<Rightarrow> int \<Rightarrow> payload \<Rightarrow> K1sInferenceEndpointStatus" where
  "inference_synced x now result =
     (let phase = firstNonEmpty [strMap result ''phase'', strMap result ''status'', ''Applied''] in
      (inference_observed x)
        \<lparr>ins_LastSyncTime := Some now,
         ins_CellName := (case inf_CellSet (inf_Spec x) of None \<Rightarrow> Name (inf_Meta x) | Some _ \<Rightarrow> []),
         ins_CellSetName := (case inf_CellSet (inf_Spec x) of None \<Rightarrow> [] | Some _ \<Rightarrow> Name (inf_Meta x)),
         ins_Phase := phase,
         ins_Ready := EqualFold phase ''ready'',
         ins_APIEndpoint := strMap result ''api_endpoint'',
         ins_ActiveExecutor := strMap result ''active_executor''\<rparr>)"

definition inference_report ::
  "env \<Rightarrow> K1sInferenceEndpoint \<Rightarrow> Client \<Rightarrow> K1sCluster \<Rightarrow> bool \<Rightarrow> InferenceStatus option \<Rightarrow>
     payload \<times> go_error option \<Rightarrow> outcome io" where
  "inference_report E x api cluster shouldApply observed0 a = do {
     now \<leftarrow> Now E;
     status \<leftarrow> set_inference_condition E x CondAccepted ConditionTrue ReasonReady
       ''K1sInferenceEndpoint accepted by operator'' (inference_synced x now (fst a));
     status \<leftarrow> (case snd a of
         Some applyErr \<Rightarrow>
           set_inference_condition E x CondApplied ConditionFalse ReasonUnsupported
             (''k1s inference CRUD API is not available or rejected the request: '' @ Error E applyErr)
             (status\<lparr>ins_Ready := False, ins_Phase := ''Unsupported'',
                ins_LastError := Error E applyErr\<rparr>)
       | None \<Rightarrow> do {
           status \<leftarrow> set_inference_condition E x CondApplied ConditionTrue ReasonApplied
             (if shouldApply then ''inference manifest applied to k1s''
              else ''inference manifest already applied to k1s'') (status\<lparr>ins_LastError := []\<rparr>);
           inference_observe E x api observed0 status
         });
     status \<leftarrow> set_inference_condition E x CondReady (conditionStatus (ins_Ready status))
       (reasonForBool (ins_Ready status)) (readyMessage (ins_Ready status)) status;
     err \<leftarrow> patch_inference_status E x status;
     State_Monad.return
       (requeue_after (pollInterval (cl_PollIntervalSeconds (cluster_Spec cluster))), err)
   }"

definition inference_look ::
  "env \<Rightarrow> K1sInferenceEndpoint \<Rightarrow> Client \<Rightarrow> bytes \<Rightarrow> (bool \<times> InferenceStatus option) io" where
  "inference_look E x api manifest =
     (if lastAppliedHash (OInference x) \<noteq> hashBytes manifest then State_Monad.return (True, None)
      else do {
        r \<leftarrow> inferenceStatusForEndpoint E api x;
        State_Monad.return
          (IsNotFound (snd r), case snd r of None \<Rightarrow> Some (fst r) | Some _ \<Rightarrow> None)
      })"

definition inference_resync ::
  "env \<Rightarrow> K1sInferenceEndpoint \<Rightarrow> Client \<Rightarrow> K1sCluster \<Rightarrow> bytes \<Rightarrow> outcome io" where
  "inference_resync E x api cluster manifest = do {
     look \<leftarrow> inference_look E x api manifest;
     done \<leftarrow> apply_manifest E (OInference x) api manifest (fst look);
     case snd done of
       Some patchErr \<Rightarrow> State_Monad.return (no_result, Some patchErr)
     | None \<Rightarrow> inference_report E x api cluster (fst look) (snd look) (fst done)
   }"

definition inference_sync ::
  "env \<Rightarrow> K1sInferenceEndpoint \<Rightarrow> Client \<Rightarrow> K1sCluster \<Rightarrow> outcome io" where
  "inference_sync E x api cluster =
     (case buildInferenceManifest E x of
        Inl e \<Rightarrow> inference_reject E x e
      | Inr manifest \<Rightarrow> inference_resync E x api cluster manifest)"

definition reconcile_inference :: "env \<Rightarrow> K1sInferenceEndpoint \<Rightarrow> outcome io" where
  "reconcile_inference E x = do {
     w \<leftarrow> writeClient E (Namespace (inf_Meta x)) (inf_ClusterRef (inf_Spec x));
     case w of
       Inl e \<Rightarrow> inference_no_client E x e
     | Inr (api, cluster) \<Rightarrow>
         if DeletionTimestamp (inf_Meta x) \<noteq> None then
           (if containsString (Finalizers (inf_Meta x)) capabilityFinalizer then
              (if inf_DeletePolicy (inf_Spec x) \<noteq> K1sDeletePolicyOrphan then do {
                 failure \<leftarrow> inference_delete_remote E x api;
                 case failure of
                   Some e \<Rightarrow> inference_delete_failed E x e
                 | None \<Rightarrow> remove_finalizer E (OInference x)
               }
               else remove_finalizer E (OInference x))
            else State_Monad.return (no_result, None))
         else if \<not> containsString (Finalizers (inf_Meta x)) capabilityFinalizer
         then add_finalizer E (OInference x)
         else inference_sync E x api cluster
   }"

definition K1sInferenceEndpoint_Reconcile :: "env \<Rightarrow> namespaced_name \<Rightarrow> outcome io" where
  "K1sInferenceEndpoint_Reconcile E req = do {
     found \<leftarrow> kube_Get E CachedClient KindInferenceEndpoint req;
     case found of
       Inl e \<Rightarrow> State_Monad.return (no_result, if kube_IsNotFound e then None else Some e)
     | Inr (OInference x) \<Rightarrow> reconcile_inference E x
     | Inr _ \<Rightarrow> State_Monad.return (no_result, None)
   }"

section \<open>Each step\<close>

definition inference_cond :: "K1sInferenceEndpointStatus \<Rightarrow> string \<Rightarrow> condition_status option" where
  "inference_cond s = cond_of (ins_Conditions s)"

lemma applyObservedInferenceStatus_simps [simp]:
  "ins_Ready (applyObservedInferenceStatus s observed) = is_Ready observed"
  "ins_ObservedGeneration (applyObservedInferenceStatus s observed) = ins_ObservedGeneration s"
  "inference_cond (applyObservedInferenceStatus s observed) t = inference_cond s t"
  by (simp_all add: applyObservedInferenceStatus_def inference_cond_def Let_def)

lemma inference_cond_update [simp]:
  "inference_cond (s\<lparr>ins_Ready := b\<rparr>) t = inference_cond s t"
  "inference_cond (s\<lparr>ins_Phase := p\<rparr>) t = inference_cond s t"
  "inference_cond (s\<lparr>ins_LastError := e\<rparr>) t = inference_cond s t"
  by (simp_all add: inference_cond_def)

lemma inference_synced_simps [simp]:
  "ins_ObservedGeneration (inference_synced x now result) = Generation (inf_Meta x)"
  by (simp add: inference_synced_def inference_observed_def Let_def)

lemma put_inference_status_same [simp]: "same_object (put_inference_status s x) x"
  by (cases x) (simp_all add: same_object_def ObjectKeyFromObject_def)

interpretation inference_says: reporter "OInference x" "Generation (inf_Meta x)" ins_Conditions
    "\<lambda>cs s. s\<lparr>ins_Conditions := cs\<rparr>" put_inference_status "\<lambda>E. set_inference_condition E x"
    "\<lambda>E. patch_inference_status E x"
  for x
  by unfold_locales (simp_all add: set_inference_condition_def patch_inference_status_def)

lemmas inference_condition_step = inference_says.step [folded inference_cond_def]
lemmas inference_condition_last = inference_says.last_step [folded inference_cond_def]
lemmas inference_one_decision = inference_says.one_decision [where f = id, simplified]

lemma inference_stop_specs:
  assumes "lawful E"
  shows "behaves (inference_no_client E x e) (\<lambda>new _. \<forall>z\<in>set new. reports (OInference x) z)"
    and "behaves (inference_reject E x e) (\<lambda>new _. \<forall>z\<in>set new. reports (OInference x) z)"
    and "behaves (inference_delete_failed E x e)
      (\<lambda>new r. (\<forall>z\<in>set new. reports (OInference x) z) \<and> snd r \<noteq> None)"
  unfolding inference_no_client_def inference_reject_def inference_delete_failed_def
  by (rule behaves_mono [OF inference_one_decision [OF assms]]; auto)+

text \<open>The deletion of an endpoint is a POST to this endpoint.\<close>

definition inference_delete_endpoint :: "K1sInferenceEndpoint \<Rightarrow> string" where
  "inference_delete_endpoint x = ''/inference/delete/'' @
     (case inf_CellSet (inf_Spec x) of None \<Rightarrow> ''cells'' | Some _ \<Rightarrow> ''cellsets'') @ ''/'' @
     PathEscape (Name (inf_Meta x)) @
     (if Namespace (inf_Meta x) \<noteq> [] then ''?namespace='' @ QueryEscape (Namespace (inf_Meta x)) else [])"

lemma inference_delete_remote_spec:
  "behaves (inference_delete_remote E x api)
     (\<lambda>new r. (\<forall>z\<in>set new. client_traffic api z) \<and>
        (r = None \<longrightarrow> confirmed api (inference_delete_endpoint x) new))"
proof -
  have "behaves (case inf_CellSet (inf_Spec x) of
         Some _ \<Rightarrow> DeleteInferenceCellSet E api (Namespace (inf_Meta x)) (Name (inf_Meta x))
       | None \<Rightarrow> DeleteInferenceCell E api (Namespace (inf_Meta x)) (Name (inf_Meta x)))
     (\<lambda>new r. (\<forall>z\<in>set new. client_traffic api z) \<and>
        (snd r = None \<or> IsNotFound (snd r) \<longrightarrow> confirmed api (inference_delete_endpoint x) new))"
    unfolding DeleteInferenceCellSet_def DeleteInferenceCell_def deleteInference_def
    by (rule behaves_case_option; rule behaves_mono [OF delete_call_spec])
      (auto simp: inference_delete_endpoint_def)
  then show ?thesis
    unfolding inference_delete_remote_def
    by (rule behaves_bind, intro behaves_return) (auto split: if_splits)
qed

text \<open>What a report says: Ready agrees with the flag, a ready endpoint is an applied one, and what
  could not be applied is reported as unsupported.\<close>

definition inference_status_ok ::
  "K1sInferenceEndpoint \<Rightarrow> bool \<Rightarrow> K1sInferenceEndpointStatus \<Rightarrow> bool" where
  "inference_status_ok x applied s \<longleftrightarrow>
     ins_ObservedGeneration s = Generation (inf_Meta x) \<and>
     inference_cond s CondAccepted = Some ConditionTrue \<and>
     inference_cond s CondApplied = Some (conditionStatus applied) \<and>
     inference_cond s CondReady = Some (conditionStatus (ins_Ready s)) \<and>
     (ins_Ready s \<longrightarrow> applied) \<and> (\<not> applied \<longrightarrow> ins_Phase s = ''Unsupported'')"

lemma inferenceStatusForEndpoint_spec:
  "behaves (inferenceStatusForEndpoint E api x)
     (\<lambda>new r. ((\<forall>z\<in>set new. client_traffic api z) \<and> outcome_seen new (snd r)) \<and>
        (\<forall>z\<in>set new. requests ''GET'' z))"
  unfolding inferenceStatusForEndpoint_def InferenceCellSetStatus_def InferenceCellStatus_def
  by (rule behaves_case_option;
      rule behaves_conj [OF inference_status.contract emits_behaves [OF inferenceStatus_requests]])

lemma inference_observe_spec:
  assumes "lawful E"
  shows "behaves (inference_observe E x api o0 s)
    (\<lambda>new s'. (\<forall>z\<in>set new. looks (OInference x) api z) \<and> observes new \<and>
       (\<forall>t. t \<noteq> CondReady \<longrightarrow> inference_cond s' t = inference_cond s t) \<and>
       ins_ObservedGeneration s' = ins_ObservedGeneration s \<and>
       (ins_Ready s' \<longrightarrow> o0 \<noteq> None \<or> good_seen new))"
proof -
  have read: "behaves (case o0 of Some o0 \<Rightarrow> State_Monad.return (o0, None)
      | None \<Rightarrow> inferenceStatusForEndpoint E api x)
      (\<lambda>new r. (\<forall>z\<in>set new. client_traffic api z) \<and> (\<forall>z\<in>set new. requests ''GET'' z) \<and>
         (snd r = None \<longrightarrow> o0 \<noteq> None \<or> good_seen new))"
    by (rule behaves_case_option [OF behaves_mono [OF inferenceStatusForEndpoint_spec]])
      (auto intro: behaves_return simp: outcome_seen_def success_seen_good)
  show ?thesis
    unfolding inference_observe_def
    by (rule behaves_bind [OF read], rule behaves_case_option,
        rule behaves_return, goal_cases ok bad, use traffic_looks in \<open>auto simp: traffic_observes\<close>,
        rule inference_condition_last [OF assms])
      (auto intro: traffic_looks reports_looks only_clock_reports only_clock_observes
        simp: traffic_observes)
qed

lemma inference_report_spec:
  assumes "lawful E"
  shows "behaves (inference_report E x api cluster sh o0 a)
    (\<lambda>new _. (\<forall>z\<in>set new. looks (OInference x) api z) \<and>
       (\<forall>z\<in>set new. writes_status put_inference_status
          (\<lambda>s. inference_status_ok x (snd a = None) s \<and>
             (ins_Ready s \<longrightarrow> o0 \<noteq> None \<or> good_seen new)) z))"
proof -
  have decide: "behaves (case snd a of
         Some applyErr \<Rightarrow>
           set_inference_condition E x CondApplied ConditionFalse ReasonUnsupported
             (''k1s inference CRUD API is not available or rejected the request: '' @ Error E applyErr)
             (s\<lparr>ins_Ready := False, ins_Phase := ''Unsupported'', ins_LastError := Error E applyErr\<rparr>)
       | None \<Rightarrow> do {
           status \<leftarrow> set_inference_condition E x CondApplied ConditionTrue ReasonApplied msg
             (s\<lparr>ins_LastError := []\<rparr>);
           inference_observe E x api o0 status
         })
      (\<lambda>new s'. (\<forall>z\<in>set new. looks (OInference x) api z) \<and> observes new \<and>
         inference_cond s' CondAccepted = inference_cond s CondAccepted \<and>
         inference_cond s' CondApplied = Some (conditionStatus (snd a = None)) \<and>
         ins_ObservedGeneration s' = ins_ObservedGeneration s \<and>
         (snd a \<noteq> None \<longrightarrow> ins_Phase s' = ''Unsupported'') \<and>
         (ins_Ready s' \<longrightarrow> snd a = None \<and> (o0 \<noteq> None \<or> good_seen new)))" for s msg
  proof (rule behaves_case_option, goal_cases)
    case 1
    then show ?case
      by (intro inference_condition_step [OF assms] behaves_mono [OF inference_observe_spec [OF assms]])
        (auto intro: reports_looks only_clock_reports only_clock_observes)
  next
    case (2 e)
    then show ?case
      by (intro inference_condition_last [OF assms])
        (auto intro: reports_looks only_clock_reports only_clock_observes)
  qed
  show ?thesis
    unfolding inference_report_def
  proof (rule behaves_bind [OF Now_spec], rule inference_condition_step [OF assms],
      rule behaves_bind [OF decide], rule inference_condition_step [OF assms],
      rule inference_says.patch_step [OF assms], rule behaves_return, goal_cases)
    case (1 n1 now n2 s2 n3 s3 n4 s4 n5 err)
    have "inference_cond s2 CondAccepted = Some ConditionTrue" "ins_Ready s4 = ins_Ready s3"
      "ins_Phase s4 = ins_Phase s3" "ins_ObservedGeneration s4 = Generation (inf_Meta x)"
      "inference_cond s4 = (inference_cond s3)(CondReady \<mapsto> conditionStatus (ins_Ready s3))"
      using 1 by auto
    then have s4: "inference_status_ok x (snd a = None) s4"
      "ins_Ready s4 \<longrightarrow> o0 \<noteq> None \<or> good_seen n3"
      using 1(3) by (auto simp: inference_status_ok_def)
    have "only_clock (n1 @ n2 @ n4)" using 1 by simp
    then have before: "observes (n1 @ n2 @ n3 @ n4)"
        "\<forall>z\<in>set (n1 @ n2 @ n3 @ n4). looks (OInference x) api z"
      using 1(3) only_clock_observes [of n1] only_clock_observes [of n2] only_clock_observes [of n4]
        clock_looks [of "n1 @ n2 @ n4"] by auto
    have good: "good_seen n3 \<Longrightarrow> good_seen (n1 @ n2 @ n3 @ n4 @ n5)" by simp
    let ?P = "\<lambda>s. inference_status_ok x (snd a = None) s \<and>
      (ins_Ready s \<longrightarrow> o0 \<noteq> None \<or> good_seen (n1 @ n2 @ n3 @ n4 @ n5))"
    have after: "\<forall>z\<in>set n5. looks (OInference x) api z \<and> writes_status put_inference_status ?P z"
      using 1(5) s4 good
      by (auto intro!: patch_writes_status intro: reports_looks patch_status_reports)
    have "\<forall>z\<in>set (n1 @ n2 @ n3 @ n4). writes_status put_inference_status ?P z"
      using before(1) by (auto intro: observes_writes_status)
    with before(2) after show ?case by auto
  qed
qed

lemma inference_look_spec:
  "behaves (inference_look E x api raw)
     (\<lambda>new r. (\<forall>z\<in>set new. looks (OInference x) api z) \<and> observes new \<and>
        (snd r \<noteq> None \<longrightarrow> good_seen new) \<and>
        (fst r \<longrightarrow> lastAppliedHash (OInference x) \<noteq> hashBytes raw \<or>
           (\<exists>z\<in>set new. answered ((=) 404) z)))"
  unfolding inference_look_def
proof (rule behaves_if, goal_cases)
  case 1
  then show ?case by (auto intro: behaves_return)
next
  case 2
  show ?case
  proof (rule behaves_bind [OF inferenceStatusForEndpoint_spec], rule behaves_return, goal_cases)
    case (1 n1 r)
    then show ?case
      by (auto intro: traffic_looks success_seen_good
          simp: traffic_observes outcome_seen_def IsNotFound_def code_seen_def split: option.splits)
  qed
qed

interpretation inference_resync: resync E "OInference x" api raw "inference_look E x api raw"
    "inference_report E x api cluster" "inference_resync E x api cluster raw" put_inference_status
    "inference_status_ok x" ins_Ready
  for E x api raw cluster
  by (unfold_locales, rule inference_resync_def, rule inference_look_spec, rule inference_report_spec)

definition inference_sync_ok :: "env \<Rightarrow> K1sInferenceEndpoint \<Rightarrow> Client \<Rightarrow> event list \<Rightarrow> bool" where
  "inference_sync_ok E x api new \<longleftrightarrow>
     (case buildInferenceManifest E x of
        Inr manifest \<Rightarrow> resync_ok E (OInference x) api manifest put_inference_status
          (inference_status_ok x) ins_Ready new
      | Inl _ \<Rightarrow> \<forall>z\<in>set new. reports (OInference x) z)"

lemma inference_sync_spec:
  assumes "lawful E"
  shows "behaves (inference_sync E x api cluster) (\<lambda>new _. inference_sync_ok E x api new)"
  unfolding inference_sync_def
  by (rule behaves_case_sum, rule behaves_mono [OF inference_stop_specs(2) [OF assms]],
      simp add: inference_sync_ok_def, rule behaves_mono [OF inference_resync.sync_spec [OF assms]],
      simp add: inference_sync_ok_def)

lemma inference_sync_applies:
  "inference_sync_ok E x api new \<Longrightarrow> z \<in> set new \<Longrightarrow> applies (OInference x) api z"
  by (auto simp: inference_sync_ok_def resync_ok_def intro: reports_applies split: sum.splits)

lemma inference_sync_accepted:
  assumes "inference_sync_ok E x api new" and "z \<in> set new" and "\<not> reports (OInference x) z"
  obtains manifest where "buildInferenceManifest E x = Inr manifest"
    and "resync_ok E (OInference x) api manifest put_inference_status (inference_status_ok x) ins_Ready new"
  using assms by (auto simp: inference_sync_ok_def split: sum.splits)

interpretation inference: capability E "OInference x" "inf_ClusterRef (inf_Spec x)"
    "inf_DeletePolicy (inf_Spec x) = K1sDeletePolicyOrphan" "reconcile_inference E x"
    "inference_no_client E x" "inference_delete_remote E x" "inference_delete_failed E x"
    "inference_sync E x" "\<lambda>api. confirmed api (inference_delete_endpoint x)"
  for E x
proof unfold_locales
  show "lawful E \<Longrightarrow> behaves (inference_sync E x api cluster)
      (\<lambda>new _. \<forall>z\<in>set new. applies (OInference x) api z)" for api cluster
    by (rule behaves_mono [OF inference_sync_spec]) (auto intro: inference_sync_applies)
  show "reconcile_inference E x = do {
        w \<leftarrow> writeClient E (Namespace (meta_of (OInference x))) (inf_ClusterRef (inf_Spec x));
        case w of
          Inl e \<Rightarrow> inference_no_client E x e
        | Inr (api, cluster) \<Rightarrow>
            if being_deleted (OInference x) then
              (if \<not> has_finalizer (OInference x) then State_Monad.return (no_result, None)
               else if inf_DeletePolicy (inf_Spec x) = K1sDeletePolicyOrphan
               then remove_finalizer E (OInference x)
               else do {
                 failure \<leftarrow> inference_delete_remote E x api;
                 case failure of
                   Some e \<Rightarrow> inference_delete_failed E x e
                 | None \<Rightarrow> remove_finalizer E (OInference x)
               })
            else if \<not> has_finalizer (OInference x) then add_finalizer E (OInference x)
            else inference_sync E x api cluster
      }"
    unfolding reconcile_inference_def
    by (auto simp: being_deleted_def has_finalizer_def fun_eq_iff intro!: arg_cong [where f = "State_Monad.bind _"]
        split: sum.splits)
qed (rule inference_stop_specs inference_delete_remote_spec; assumption?)+

section \<open>Properties\<close>

text \<open>
  C8: the clean-up of an inference endpoint is safe. A reconciliation writes to no Kubernetes object
  but the endpoint; it sends nothing to the k1s cluster unless the endpoint it read carries the
  clean-up finalizer; and it takes the finalizer off only while the endpoint is being deleted and,
  unless its policy is Orphan, after the controller confirmed, with a 2xx or a 404, the deletion of
  the cell (or set of cells) with the endpoint's name in its namespace.
\<close>

theorem inference_cleanup_safe:
  assumes "lawful E" and "run_state (reconcile_inference E x) h = (r, h @ new)" and "e \<in> set new"
  shows "writes_to (OInference x) e \<and>
    (is_http e \<longrightarrow> capabilityFinalizer \<in> set (Finalizers (inf_Meta x))) \<and>
    (removes_finalizer e \<longrightarrow> DeletionTimestamp (inf_Meta x) \<noteq> None \<and>
       (inf_DeletePolicy (inf_Spec x) = ''Orphan'' \<or>
        (\<exists>api before del fin. new = before @ del @ fin \<and> e \<in> set fin \<and>
           confirmed api (inference_delete_endpoint x) del)))"
  using inference.reconcile_safe [OF assms]
  by (auto simp: has_finalizer_def containsString_def being_deleted_def)

text \<open>
  C9: the last-applied hash of an inference endpoint is written only as the hash of the manifest
  built from its spec, and only when a POST of this manifest was answered with success in the same
  run; and the manifest is posted only when the recorded hash is another one, or an answer of the
  same run was a 404.
\<close>

theorem inference_hash_means_applied:
  assumes "lawful E" and "run_state (inference_sync E x api cluster) h = (r, h @ new)"
    and "e \<in> set new" and "posts e \<or> (\<exists>cur y res. e = EPatch cur y res)"
  shows "\<exists>manifest. buildInferenceManifest E x = Inr manifest \<and>
    (posts e \<longrightarrow> lastAppliedHash (OInference x) \<noteq> hashBytes manifest \<or>
       (\<exists>z\<in>set new. answered ((=) 404) z)) \<and>
    (\<forall>cur y res. e = EPatch cur y res \<longrightarrow>
       y = update_meta (annotate lastAppliedHashAnnotation (hashBytes manifest)) cur \<and>
       (\<exists>q a. EHTTP q a \<in> set new \<and> answered success_code (EHTTP q a) \<and> hq_Method q = ''POST'' \<and>
          hq_Body q = Some (Marshal (e_formatFloat E)
            (payload_any (fst (Unmarshal_map manifest None))))))"
proof -
  have ok: "inference_sync_ok E x api new"
    by (rule behaves_run [OF inference_sync_spec [OF assms(1)] assms(2)])
  have "\<not> reports (OInference x) e"
    using assms(4) by (auto simp: posts_def reports_def split: event.splits)
  then obtain manifest where m: "buildInferenceManifest E x = Inr manifest" and ok':
      "resync_ok E (OInference x) api manifest put_inference_status (inference_status_ok x) ins_Ready new"
    by (rule inference_sync_accepted [OF ok assms(3)])
  show ?thesis
    using m inference_resync.resync_okD(3) [OF ok' assms(3)] assms(3)
    by (intro exI [of _ manifest] conjI allI impI)
      (simp_all add: inference_resync.hash_means_applied [OF ok'])
qed

text \<open>
  C10: what is reported of an inference endpoint with a model is consistent and observed: the status
  written carries this generation, its Ready condition says what the flag says, a ready endpoint is
  reported as applied and its readiness was read from a 2xx answer of this run, and one that could
  not be applied is in phase Unsupported.
\<close>

theorem inference_report_is_earned:
  assumes "lawful E" and "run_state (inference_sync E x api cluster) h = (r, h @ new)"
    and "mdl_ModelID (inf_Model (inf_Spec x)) \<noteq> []"
    and "EStatusPatch cur y res \<in> set new"
  shows "\<exists>s. y = put_inference_status s cur \<and>
    ins_ObservedGeneration s = Generation (inf_Meta x) \<and>
    inference_cond s ''Accepted'' = Some ConditionTrue \<and>
    inference_cond s ''Ready'' = Some (conditionStatus (ins_Ready s)) \<and>
    (ins_Ready s \<longrightarrow> inference_cond s ''Applied'' = Some ConditionTrue \<and>
       (\<exists>z\<in>set new. answered success_code z)) \<and>
    (inference_cond s ''Applied'' = Some ConditionFalse \<longrightarrow> ins_Phase s = ''Unsupported'')"
proof -
  have "inference_sync_ok E x api new"
    by (rule behaves_run [OF inference_sync_spec [OF assms(1)] assms(2)])
  with assms(3) obtain manifest where
      "resync_ok E (OInference x) api manifest put_inference_status (inference_status_ok x) ins_Ready new"
    by (auto simp: inference_sync_ok_def buildInferenceManifest_def)
  from inference_resync.resync_okD(4) [OF this assms(4)] show ?thesis
    by (auto simp: writes_status_def inference_status_ok_def good_seen_def)
qed

section \<open>Examples\<close>

definition example_endpoint :: "string list \<Rightarrow> int option \<Rightarrow> K1sInferenceEndpoint" where
  "example_endpoint finalizers deletion =
     \<lparr>inf_Meta = \<lparr>Name = ''llm'', Namespace = ''team'', Generation = 2, Finalizers = finalizers,
        Annotations = None, Labels = Map.empty, DeletionTimestamp = deletion, OwnerReferences = []\<rparr>,
      inf_Spec = \<lparr>inf_ClusterRef = example_ref,
        inf_Model = \<lparr>mdl_ModelID = ''m'', mdl_LocalPath = []\<rparr>,
        inf_Parallelism = \<lparr>par_TP = 0, par_PP = 2\<rparr>,
        inf_Executor = \<lparr>exe_Type = [], exe_FallbackMode = ''strict'', exe_RayImage = [], exe_MPImage = [],
          exe_LauncherImage = [], exe_DType = [], exe_RuntimeClassName = []\<rparr>,
        inf_Fabric = \<lparr>fab_Mode = [], fab_PolicyMode = [], fab_TTLSeconds = 0\<rparr>,
        inf_Members = Some [\<lparr>mem_SiteID = ''a'', mem_NodeID = [], mem_GPUCount = 4\<rparr>],
        inf_CellSet = None, inf_DeletePolicy = ''Delete''\<rparr>,
      inf_Status = \<lparr>ins_ObservedGeneration = 0, ins_Ready = False, ins_Phase = [], ins_CellName = [],
        ins_CellSetName = [], ins_APIEndpoint = [], ins_ActiveExecutor = [], ins_LastError = [],
        ins_LastSyncTime = None, ins_Conditions = []\<rparr>\<rparr>"

abbreviation deleted_endpoint :: K1sInferenceEndpoint where
  "deleted_endpoint \<equiv> example_endpoint [capabilityFinalizer] (Some 5)"

abbreviation new_endpoint :: K1sInferenceEndpoint where
  "new_endpoint \<equiv> example_endpoint [capabilityFinalizer] None"

lemma delete_endpoint_example:
  "inference_delete_endpoint deleted_endpoint = ''/inference/delete/cells/llm?namespace=team''"
  by code_simp

lemma inference_delete_url_example:
  "\<exists>v. url_Parse (client_url example_client (inference_delete_endpoint deleted_endpoint)) = Inr v"
  by (rule exI [of _ "sample_url ''http://k1s:80/inference/delete/cells/llm?namespace=team''"]) code_simp

text \<open>The deletion of that endpoint: the cell is deleted in the k1s cluster, and the finalizer comes
  off.\<close>

lemma run_inference_delete_example:
  "run_state (reconcile_inference (example_world (OInference deleted_endpoint)) deleted_endpoint) [] =
     ((no_result, None), [] @ (example_reads @
       [EHTTP (request_for example_client ''POST''
          (client_url example_client (inference_delete_endpoint deleted_endpoint)) (Some ''{}''))
          (Inr sample_leader),
        EGet CachedClient KindInferenceEndpoint (ObjectKeyFromObject (OInference deleted_endpoint))
          (Inr (OInference deleted_endpoint)),
        EPatch (OInference deleted_endpoint)
          (update_meta (\<lambda>m. m\<lparr>Finalizers := []\<rparr>) (OInference deleted_endpoint)) None]))"
proof -
  let ?E = "example_world (OInference deleted_endpoint)"
  obtain v where v: "url_Parse (client_url example_client (inference_delete_endpoint deleted_endpoint)) = Inr v"
    using inference_delete_url_example by blast
  have body: "Marshal f (payload_any (Some [])) = ''{}''" for f
    by (simp add: payload_any_def)
  have meta: "DeletionTimestamp (inf_Meta deleted_endpoint) = Some 5"
      "Finalizers (inf_Meta deleted_endpoint) = [capabilityFinalizer]"
      "inf_DeletePolicy (inf_Spec deleted_endpoint) = ''Delete''"
      "inf_ClusterRef (inf_Spec deleted_endpoint) = example_ref"
      "inf_CellSet (inf_Spec deleted_endpoint) = None"
      "Namespace (inf_Meta deleted_endpoint) = ''team''"
    by (simp_all add: example_endpoint_def)
  have del: "run_state (inference_delete_remote ?E deleted_endpoint example_client) h =
      (None, h @ [EHTTP (request_for example_client ''POST''
          (client_url example_client (inference_delete_endpoint deleted_endpoint)) (Some ''{}''))
          (Inr sample_leader)])" for h
    using run_call_example [OF v]
    by (simp add: inference_delete_remote_def DeleteInferenceCell_def deleteInference_def postJSON_def
        body meta inference_delete_endpoint_def)
  show ?thesis
    by (simp add: reconcile_inference_def run_writeClient_example meta containsString_def
        del remove_finalizer_def run_patchFinalizers_example)
qed

theorem inference_cleanup_safe_witness:
  "\<exists>e api before del fin. removes_finalizer e \<and>
     trace_of (reconcile_inference (example_world (OInference deleted_endpoint)) deleted_endpoint) [] =
       before @ del @ fin \<and>
     e \<in> set fin \<and> confirmed api ''/inference/delete/cells/llm?namespace=team'' del"
proof -
  let ?e = "EPatch (OInference deleted_endpoint)
    (update_meta (\<lambda>m. m\<lparr>Finalizers := []\<rparr>) (OInference deleted_endpoint)) None"
  let ?m = "reconcile_inference (example_world (OInference deleted_endpoint)) deleted_endpoint"
  obtain r new where run: "run_state ?m [] = (r, [] @ new)" and mem: "?e \<in> set new"
    using run_inference_delete_example by simp
  have rm: "removes_finalizer ?e"
    by (simp add: removes_finalizer_def has_finalizer_def containsString_def example_endpoint_def)
  have "inf_DeletePolicy (inf_Spec deleted_endpoint) \<noteq> ''Orphan''"
    by (simp add: example_endpoint_def)
  then obtain api before del fin where "new = before @ del @ fin" "?e \<in> set fin"
      "confirmed api ''/inference/delete/cells/llm?namespace=team'' del"
    using inference_cleanup_safe [OF _ run mem] rm delete_endpoint_example by auto
  then show ?thesis
    using run rm by (metis append_Nil snd_conv)
qed

definition inference_example_manifest :: "env \<Rightarrow> bytes" where
  "inference_example_manifest E = Marshal (e_formatFloat E) (inference_payload new_endpoint)"

lemma inference_manifest_decodes: "snd (Unmarshal_map (inference_example_manifest E) None) = None"
proof -
  have "snd (Unmarshal_map (Marshal f (inference_payload new_endpoint)) None) = None" for f
    by code_simp
  then show ?thesis by (simp add: inference_example_manifest_def)
qed

text \<open>The first application of that endpoint.\<close>

lemma inference_sync_example:
  obtains r new cur y where
    "run_state (inference_sync (example_world (OInference new_endpoint)) new_endpoint example_client
       example_cluster) [] = (r, [] @ new)"
    and "example_hash_patch (OInference new_endpoint)
       (inference_example_manifest (example_world (OInference new_endpoint))) \<in> set new"
    and "EStatusPatch cur y None \<in> set new"
proof -
  let ?E = "example_world (OInference new_endpoint)"
  let ?raw = "inference_example_manifest ?E"
  let ?h = "example_applied (OInference new_endpoint) ?raw"
  let ?rep = "inference_report ?E new_endpoint example_client example_cluster True None (None, None)"
  have "\<exists>X cur y r. run_state ?rep ?h = (r, X @ [EStatusPatch cur y None])"
    by (simp add: inference_report_def patch_inference_status_def run_patchStatus_example)
  then obtain mid cur y r where rep: "run_state ?rep ?h = (r, ?h @ mid @ [EStatusPatch cur y None])"
    using run_ends_with_patch [OF inference_report_spec [of ?E]]
    by (metis example_applied_simps(1,2) example_world_lawful)
  have hash: "lastAppliedHash (OInference new_endpoint) = []"
    by (simp add: lastAppliedHash_def example_endpoint_def)
  have built: "buildInferenceManifest ?E new_endpoint = Inr ?raw"
    by (simp add: buildInferenceManifest_def inference_example_manifest_def) (simp add: example_endpoint_def)
  have "run_state (inference_sync ?E new_endpoint example_client example_cluster) [] =
      (r, [] @ (?h @ mid @ [EStatusPatch cur y None]))"
    using rep by (simp add: inference_sync_def inference_resync_def built hash inference_look_def
        hash_not_empty [symmetric] run_apply_manifest_example inference_manifest_decodes)
  then show thesis by (rule that [of r _ cur y]) simp_all
qed

theorem inference_hash_means_applied_witness:
  "\<exists>E r new e manifest. run_state (inference_sync E new_endpoint example_client example_cluster) [] =
     (r, new) \<and> e \<in> set new \<and> buildInferenceManifest E new_endpoint = Inr manifest"
proof (rule inference_sync_example)
  fix r new cur y
  let ?E = "example_world (OInference new_endpoint)"
  let ?p = "example_hash_patch (OInference new_endpoint) (inference_example_manifest ?E)"
  assume run: "run_state (inference_sync ?E new_endpoint example_client example_cluster) [] = (r, [] @ new)"
    and p: "?p \<in> set new"
  have "posts ?p \<or> (\<exists>cur y res. ?p = EPatch cur y res)" by (simp add: example_hash_patch_def)
  from inference_hash_means_applied [OF _ run p this] run p show ?thesis by fastforce
qed

theorem inference_report_is_earned_witness:
  "\<exists>E r new cur y res s. run_state (inference_sync E new_endpoint example_client example_cluster) [] =
     (r, new) \<and> EStatusPatch cur y res \<in> set new \<and> y = put_inference_status s cur \<and>
     ins_ObservedGeneration s = 2"
proof (rule inference_sync_example)
  fix r new cur y
  let ?E = "example_world (OInference new_endpoint)"
  assume run: "run_state (inference_sync ?E new_endpoint example_client example_cluster) [] = (r, [] @ new)"
    and st: "EStatusPatch cur y None \<in> set new"
  have "mdl_ModelID (inf_Model (inf_Spec new_endpoint)) \<noteq> []" "Generation (inf_Meta new_endpoint) = 2"
    by (simp_all add: example_endpoint_def)
  with inference_report_is_earned [OF _ run _ st] run st show ?thesis by fastforce
qed

end
