(* ===== verification/ManagedResources.thy ===== *)
theory ManagedResources
  imports Capability
begin

text \<open>
  The resources that a K1sResourceSet manages in the k1s cluster
  (src/internal/controller/capability_controller.go): which kinds it may apply, what a manifest
  refers to, and the deletion of what it no longer wants.
\<close>

section \<open>The code\<close>

definition DefaultResourceSetAllowedKinds :: "string list" where
  "DefaultResourceSetAllowedKinds = [''Deployment'', ''InferenceCell'', ''InferenceCellSet'']"

text \<open>\<open>kinds\<close> is the field \<open>AllowedKinds\<close> of the reconciler.\<close>

definition allowedKindsFor :: "string list \<Rightarrow> K1sResourceSet \<Rightarrow> go_error + string set" where
  "allowedKindsFor kinds x =
     (let cap0 = normalizeKindList kinds;
          cap = (if cap0 = [] then normalizeKindList DefaultResourceSetAllowedKinds else cap0);
          capSet = kindSet cap;
          requested = normalizeKindList (rs_AllowedKinds (rs_Spec x))
      in case find (\<lambda>k. k \<notin> capSet) requested of
           Some kind \<Rightarrow> Inl (TextErr (''kind '' @ Quote kind @
             '' is outside the operator ResourceSet allowed-kind cap''))
         | None \<Rightarrow> if requested = [] then Inr capSet else Inr (kindSet requested))"

definition managedResourceFromManifest :: "bytes \<Rightarrow> go_error + K1sManagedResourceStatus" where
  "managedResourceFromManifest raw =
     (case Unmarshal_head raw of
        (_, Some e) \<Rightarrow> Inl (JSONErr ''manifest'' e raw)
      | (head, None) \<Rightarrow>
          if mh_kind head = [] then Inl (TextErr ''manifest kind is required'')
          else if mh_name head = [] then Inl (TextErr ''manifest metadata.name is required'')
          else Inr \<lparr>mr_Kind = mh_kind head,
            mr_Namespace = (if mh_namespace head = [] then ''default'' else mh_namespace head),
            mr_Name = mh_name head, mr_Hash = hashBytes raw\<rparr>)"

definition managedResourceKey :: "K1sManagedResourceStatus \<Rightarrow> string" where
  "managedResourceKey m = mr_Kind m @ ''/'' @ mr_Namespace m @ ''/'' @ mr_Name m"

definition deleteManagedResource ::
  "env \<Rightarrow> Client \<Rightarrow> K1sManagedResourceStatus \<Rightarrow> go_error option io" where
  "deleteManagedResource E api m =
     (if mr_Kind m = ''Deployment'' \<or> mr_Kind m = ''InferenceCell'' \<or> mr_Kind m = ''InferenceCellSet''
      then do {
        r \<leftarrow> (if mr_Kind m = ''Deployment''
              then DeleteApp E api (resourceDeleteName (mr_Namespace m) (mr_Name m)) True
              else if mr_Kind m = ''InferenceCell''
              then DeleteInferenceCell E api (mr_Namespace m) (mr_Name m)
              else DeleteInferenceCellSet E api (mr_Namespace m) (mr_Name m));
        State_Monad.return (if IsNotFound (snd r) then None else snd r)
      }
      else State_Monad.return (Some (TextErr (''kind '' @ Quote (mr_Kind m) @
        '' cannot be deleted by K1sResourceSet''))))"

fun deleteManagedResources ::
  "env \<Rightarrow> Client \<Rightarrow> K1sManagedResourceStatus list \<Rightarrow> go_error option io" where
  "deleteManagedResources E api [] = State_Monad.return None"
| "deleteManagedResources E api (m # ms) = do {
     err \<leftarrow> deleteManagedResource E api m;
     case err of
       Some e \<Rightarrow> State_Monad.return (Some e)
     | None \<Rightarrow> deleteManagedResources E api ms
   }"

text \<open>The loop of \<open>pruneManagedResources\<close> over what was managed so far.\<close>

fun prune_from ::
  "env \<Rightarrow> Client \<Rightarrow> string set \<Rightarrow> K1sManagedResourceStatus list \<Rightarrow> go_error option io" where
  "prune_from E api desiredKeys [] = State_Monad.return None"
| "prune_from E api desiredKeys (m # ms) =
     (if managedResourceKey m \<in> desiredKeys then prune_from E api desiredKeys ms
      else do {
        err \<leftarrow> deleteManagedResource E api m;
        case err of
          Some e \<Rightarrow> State_Monad.return (Some e)
        | None \<Rightarrow> prune_from E api desiredKeys ms
      })"

definition pruneManagedResources ::
  "env \<Rightarrow> Client \<Rightarrow> K1sManagedResourceStatus list \<Rightarrow> K1sManagedResourceStatus list \<Rightarrow> go_error option io" where
  "pruneManagedResources E api previous desired =
     prune_from E api (managedResourceKey ` set desired) previous"

text \<open>The first loop of the reconciler: the manifests read so far, what they refer to, and why it
  stopped.\<close>

fun scan_manifests ::
  "string set \<Rightarrow> bytes list \<Rightarrow> bytes list \<times> K1sManagedResourceStatus list \<times> go_error option" where
  "scan_manifests allowed [] = ([], [], None)"
| "scan_manifests allowed (raw # rest) =
     (case managedResourceFromManifest raw of
        Inl e \<Rightarrow> ([raw], [], Some e)
      | Inr ref \<Rightarrow>
          if mr_Kind ref \<notin> allowed
          then ([raw], [], Some (TextErr (''kind '' @ Quote (mr_Kind ref) @
            '' is not allowed by this K1sResourceSet'')))
          else (case scan_manifests allowed rest of
              (raws, desired, err) \<Rightarrow> (raw # raws, ref # desired, err)))"

text \<open>The second loop: how many manifests are applied, and why it stopped.\<close>

fun apply_manifests ::
  "env \<Rightarrow> Client \<Rightarrow> bool \<Rightarrow> bytes list \<Rightarrow> i32 \<Rightarrow> (i32 \<times> go_error option) io" where
  "apply_manifests E api shouldApply [] applied = State_Monad.return (applied, None)"
| "apply_manifests E api shouldApply (raw # rest) applied =
     (if shouldApply then do {
        a \<leftarrow> Apply E api raw;
        case snd a of
          Some e \<Rightarrow> State_Monad.return (applied, Some e)
        | None \<Rightarrow> apply_manifests E api shouldApply rest (applied + 1)
      }
      else apply_manifests E api shouldApply rest (applied + 1))"

section \<open>The policy\<close>

text \<open>A manifest names a resource of one of the kinds.\<close>

definition manifest_of_kind :: "string set \<Rightarrow> bytes \<Rightarrow> bool" where
  "manifest_of_kind kinds raw \<longleftrightarrow>
     (\<exists>ref. managedResourceFromManifest raw = Inr ref \<and> mr_Kind ref \<in> kinds)"

lemma scan_manifests_accepts:
  assumes "scan_manifests allowed ms = (raws, desired, None)"
  shows "raws = ms \<and> map managedResourceFromManifest ms = map Inr desired \<and>
    (\<forall>raw\<in>set ms. manifest_of_kind allowed raw)"
  using assms
  by (induction ms arbitrary: raws desired)
    (auto simp: manifest_of_kind_def split: sum.splits if_splits prod.splits)

lemma scan_manifests_rejects:
  assumes "scan_manifests allowed ms = (raws, desired, Some e)"
  shows "\<exists>raw\<in>set ms. \<not> manifest_of_kind allowed raw"
  using assms
  by (induction ms arbitrary: raws desired)
    (auto simp: manifest_of_kind_def split: sum.splits if_splits prod.splits)

text \<open>The kinds that the operator was started with, or the default.\<close>

definition operator_kinds :: "string list \<Rightarrow> string set" where
  "operator_kinds kinds =
     (if \<forall>k\<in>set kinds. TrimSpace k = [] then set DefaultResourceSetAllowedKinds
      else {k. k \<noteq> [] \<and> k \<in> TrimSpace ` set kinds})"

lemma default_kinds: "normalizeKindList DefaultResourceSetAllowedKinds = DefaultResourceSetAllowedKinds"
  by code_simp

lemma normalizeKindList_Nil: "normalizeKindList kinds = [] \<longleftrightarrow> (\<forall>k\<in>set kinds. TrimSpace k = [])"
proof -
  have "normalizeKindList kinds = [] \<longleftrightarrow> set (normalizeKindList kinds) = {}" by simp
  then show ?thesis by (auto simp only: set_normalizeKindList)
qed

lemma cap_kinds:
  "kindSet (if normalizeKindList kinds = [] then normalizeKindList DefaultResourceSetAllowedKinds
     else normalizeKindList kinds) = operator_kinds kinds"
  by (simp add: kindSet_def operator_kinds_def normalizeKindList_Nil set_normalizeKindList default_kinds)
    auto

lemma allowedKindsFor_Inr:
  assumes "allowedKindsFor kinds x = Inr allowed"
  shows "allowed \<subseteq> operator_kinds kinds"
    and "normalizeKindList (rs_AllowedKinds (rs_Spec x)) \<noteq> [] \<Longrightarrow>
      allowed = set (normalizeKindList (rs_AllowedKinds (rs_Spec x)))"
  using assms cap_kinds [of kinds]
  by (auto simp: allowedKindsFor_def Let_def kindSet_def find_None_iff
      split: option.splits if_splits)

section \<open>What is sent\<close>

text \<open>An exchange of a POST to an endpoint of the configured address, or of an address that a node
  advertised.\<close>

definition call_request :: "Client \<Rightarrow> string \<Rightarrow> bytes option \<Rightarrow> event \<Rightarrow> bool" where
  "call_request c endpoint b e \<longleftrightarrow> client_event c ''POST'' b e \<and>
     (\<forall>q a. e = EHTTP q a \<longrightarrow> hq_URL q = client_url c endpoint \<or>
        (\<exists>addr base. url_Parse addr = Inr base \<and> hq_URL q = buildURL base endpoint))"

lemma call_ok_request: "call_ok c ''POST'' ep b new r \<Longrightarrow> e \<in> set new \<Longrightarrow> call_request c ep b e"
  by (fastforce simp: call_ok_def call_request_def leader_of_def)

lemma postJSON_request:
  "behaves (postJSON E c ep p out)
     (\<lambda>new r. (\<forall>e\<in>set new. call_request c ep (Some (Marshal (e_formatFloat E) (payload_any p))) e) \<and>
        (snd r = None \<or> IsNotFound (snd r) \<longrightarrow> confirmed c ep new))"
  unfolding postJSON_def
  by (rule behaves_mono [OF doJSONWithLeaderRetry_spec]) (auto dest: call_ok_request call_confirmed)

lemma call_request_traffic: "call_request c ep b e \<Longrightarrow> client_traffic c e"
  by (auto simp: call_request_def intro: client_event_traffic)

text \<open>Where a resource is deleted.\<close>

definition managed_endpoint :: "K1sManagedResourceStatus \<Rightarrow> string option" where
  "managed_endpoint m =
     (let query = (if mr_Namespace m \<noteq> [] then ''?namespace='' @ QueryEscape (mr_Namespace m) else []) in
      if mr_Kind m = ''Deployment'' then
        Some (''/delete/'' @ PathEscape (resourceDeleteName (mr_Namespace m) (mr_Name m)) @ ''?purge=1'')
      else if mr_Kind m = ''InferenceCell'' then
        Some (''/inference/delete/cells/'' @ PathEscape (mr_Name m) @ query)
      else if mr_Kind m = ''InferenceCellSet'' then
        Some (''/inference/delete/cellsets/'' @ PathEscape (mr_Name m) @ query)
      else None)"

definition delete_request :: "Client \<Rightarrow> K1sManagedResourceStatus list \<Rightarrow> event \<Rightarrow> bool" where
  "delete_request c ms e \<longleftrightarrow>
     (\<exists>m\<in>set ms. \<exists>ep. managed_endpoint m = Some ep \<and> call_request c ep (Some ''{}'') e)"

definition apply_request :: "env \<Rightarrow> Client \<Rightarrow> bytes list \<Rightarrow> event \<Rightarrow> bool" where
  "apply_request E c raws e \<longleftrightarrow> (\<exists>raw\<in>set raws. call_request c ''/apply''
     (Some (Marshal (e_formatFloat E) (payload_any (fst (Unmarshal_map raw None))))) e)"

lemma request_traffic:
  "delete_request c ms e \<Longrightarrow> client_traffic c e" "apply_request E c raws e \<Longrightarrow> client_traffic c e"
  by (auto simp: delete_request_def apply_request_def intro: call_request_traffic)

lemma request_mono:
  "delete_request c ms e \<Longrightarrow> set ms \<subseteq> set ms' \<Longrightarrow> delete_request c ms' e"
  "apply_request E c raws e \<Longrightarrow> set raws \<subseteq> set raws' \<Longrightarrow> apply_request E c raws' e"
  by (auto simp: delete_request_def apply_request_def)

text \<open>Every resource of the list can be deleted, and its deletion was confirmed in a part of the
  exchanges.\<close>

definition managed_gone :: "Client \<Rightarrow> K1sManagedResourceStatus list \<Rightarrow> event list \<Rightarrow> bool" where
  "managed_gone c ms new \<longleftrightarrow> (\<forall>m\<in>set ms. \<exists>ep before del after. managed_endpoint m = Some ep \<and>
     new = before @ del @ after \<and> confirmed c ep del)"

lemma managed_gone_append:
  "managed_gone c ms xs \<Longrightarrow> managed_gone c ms (xs @ ys)"
  "managed_gone c ms ys \<Longrightarrow> managed_gone c ms (xs @ ys)"
  unfolding managed_gone_def by (metis append.assoc)+

lemma Marshal_empty: "Marshal f (payload_any (Some [])) = ''{}''"
  by (simp add: payload_any_def)

lemma delete_call_request:
  "behaves (DeleteApp E c app True)
     (\<lambda>new r. (\<forall>e\<in>set new. call_request c (''/delete/'' @ PathEscape app @ ''?purge=1'') (Some ''{}'') e) \<and>
        (snd r = None \<or> IsNotFound (snd r) \<longrightarrow>
           confirmed c (''/delete/'' @ PathEscape app @ ''?purge=1'') new))"
  "behaves (deleteInference E c coll ns name)
     (\<lambda>new r. (\<forall>e\<in>set new. call_request c (''/inference/delete/'' @ coll @ ''/'' @ PathEscape name @
          (if ns \<noteq> [] then ''?namespace='' @ QueryEscape ns else [])) (Some ''{}'') e) \<and>
        (snd r = None \<or> IsNotFound (snd r) \<longrightarrow> confirmed c (''/inference/delete/'' @ coll @ ''/'' @
          PathEscape name @ (if ns \<noteq> [] then ''?namespace='' @ QueryEscape ns else [])) new))"
  unfolding DeleteApp_def deleteInference_def
  by (rule behaves_mono [OF postJSON_request], simp add: Marshal_empty)+

lemma deleteManagedResource_spec:
  "behaves (deleteManagedResource E api m)
     (\<lambda>new r. (\<forall>e\<in>set new. delete_request api [m] e) \<and> (r = None \<longrightarrow> managed_gone api [m] new))"
proof -
  have gone: "managed_gone api [m] new" if "managed_endpoint m = Some ep" "confirmed api ep new" for ep new
  proof -
    have "new = [] @ new @ []" by simp
    with that show ?thesis unfolding managed_gone_def by (simp only: list.set ball_simps) blast
  qed
  let ?gone = "\<lambda>ep. \<lambda>new r. (\<forall>e\<in>set new. call_request api ep (Some ''{}'') e) \<and>
    (snd r = None \<or> IsNotFound (snd r) \<longrightarrow> confirmed api ep new)"
  have call: "behaves (do { r \<leftarrow> call; State_Monad.return (if IsNotFound (snd r) then None else snd r) })
      (\<lambda>new r. (\<forall>e\<in>set new. delete_request api [m] e) \<and> (r = None \<longrightarrow> managed_gone api [m] new))"
    if "behaves call (?gone ep)" and "managed_endpoint m = Some ep"
    for call :: "(payload \<times> go_error option) io" and ep
    by (rule behaves_bind [OF that(1)], rule behaves_return)
      (use that(2) in \<open>auto simp: delete_request_def intro!: gone split: if_splits\<close>)
  consider "mr_Kind m = ''Deployment''" | "mr_Kind m = ''InferenceCell''" | "mr_Kind m = ''InferenceCellSet''"
    | "mr_Kind m \<notin> {''Deployment'', ''InferenceCell'', ''InferenceCellSet''}" by blast
  then show ?thesis
  proof cases
    case 1
    show ?thesis
      unfolding deleteManagedResource_def by (simp add: 1)
        (rule call [OF delete_call_request(1)], simp add: managed_endpoint_def 1)
  next
    case 2
    show ?thesis
      unfolding deleteManagedResource_def by (simp add: 2 DeleteInferenceCell_def)
        (rule call [OF delete_call_request(2)], simp add: managed_endpoint_def 2)
  next
    case 3
    show ?thesis
      unfolding deleteManagedResource_def by (simp add: 3 DeleteInferenceCellSet_def)
        (rule call [OF delete_call_request(2)], simp add: managed_endpoint_def 3)
  next
    case 4
    then show ?thesis
      unfolding deleteManagedResource_def by (simp add: behaves_return)
  qed
qed

lemma deleteManagedResources_spec:
  "behaves (deleteManagedResources E api ms)
     (\<lambda>new r. (\<forall>e\<in>set new. delete_request api ms e) \<and> (r = None \<longrightarrow> managed_gone api ms new))"
proof (induction ms)
  case Nil
  then show ?case by (simp add: behaves_return managed_gone_def)
next
  case (Cons m ms)
  have both: "managed_gone api (m # ms) (n1 @ n2)" if "managed_gone api [m] n1" "managed_gone api ms n2" for n1 n2
    using managed_gone_append(1) [OF that(1)] managed_gone_append(2) [OF that(2)]
    by (auto simp: managed_gone_def)
  have sub: "delete_request api (m # ms) e" if "delete_request api [m] e \<or> delete_request api ms e" for e
    using that by (auto elim: request_mono)
  show ?case
    unfolding deleteManagedResources.simps
  proof (rule behaves_bind [OF deleteManagedResource_spec], rule behaves_case_option, goal_cases)
    case (1 n1 err)
    then show ?case by (intro behaves_mono [OF Cons.IH]) (auto intro: both sub)
  next
    case (2 n1 err e)
    then show ?case by (intro behaves_return) (auto intro: sub)
  qed
qed

lemma prune_from_eq:
  "prune_from E api keys ms = deleteManagedResources E api (filter (\<lambda>m. managedResourceKey m \<notin> keys) ms)"
  by (induction ms) simp_all

text \<open>What pruning deletes: the resources managed so far whose key is not that of a desired one.\<close>

definition unwanted ::
  "K1sManagedResourceStatus list \<Rightarrow> K1sManagedResourceStatus list \<Rightarrow> K1sManagedResourceStatus list" where
  "unwanted previous desired =
     filter (\<lambda>m. managedResourceKey m \<notin> managedResourceKey ` set desired) previous"

lemma pruneManagedResources_spec:
  "behaves (pruneManagedResources E api previous desired)
     (\<lambda>new r. (\<forall>e\<in>set new. delete_request api (unwanted previous desired) e) \<and>
        (r = None \<longrightarrow> managed_gone api (unwanted previous desired) new))"
  unfolding pruneManagedResources_def prune_from_eq unwanted_def by (rule deleteManagedResources_spec)

section \<open>Applying the manifests\<close>

lemma Apply_request:
  "behaves (Apply E api raw)
     (\<lambda>new r. (\<forall>e\<in>set new. apply_request E api [raw] e) \<and>
        (snd r = None \<longrightarrow> (\<exists>z\<in>set new. applied_manifest E api raw z)))"
proof -
  have "behaves (Apply E api raw) (\<lambda>new r. \<forall>e\<in>set new. apply_request E api [raw] e)"
    unfolding Apply_def
    by (auto split: prod.splits option.splits intro!: behaves_return behaves_mono [OF postJSON_request]
        simp: apply_request_def)
  from behaves_conj [OF this Apply_spec] show ?thesis
    by (rule behaves_mono) (auto intro: last_in_set)
qed

text \<open>An error-free run has counted every manifest and, when they are to be applied, seen each of them
  accepted.\<close>

lemma apply_manifests_spec:
  "behaves (apply_manifests E api sh raws k)
     (\<lambda>new r. (\<forall>e\<in>set new. sh \<and> apply_request E api raws e) \<and>
        (snd r = None \<longrightarrow> fst r = k + of_nat (length raws) \<and>
           (sh \<longrightarrow> (\<forall>raw\<in>set raws. \<exists>z\<in>set new. applied_manifest E api raw z))))"
proof (induction raws arbitrary: k)
  case Nil
  then show ?case by (simp add: behaves_return)
next
  case (Cons raw raws)
  note rest = Cons.IH [of "k + 1"]
  have sub: "apply_request E api (raw # raws) e"
    if "apply_request E api [raw] e \<or> apply_request E api raws e" for e
    using that by (auto elim: request_mono)
  show ?case
    unfolding apply_manifests.simps
  proof (rule behaves_if, goal_cases)
    case 1
    show ?case
    proof (rule behaves_bind [OF Apply_request], rule behaves_case_option, goal_cases)
      case (1 n1 a)
      then show ?case
        by (intro behaves_mono [OF rest]) (use \<open>sh\<close> in \<open>auto intro: sub simp: ac_simps\<close>)
    next
      case (2 n1 a e)
      then show ?case by (intro behaves_return) (use \<open>sh\<close> in \<open>auto intro: sub\<close>)
    qed
  next
    case 2
    then show ?case by (intro behaves_mono [OF rest]) (auto simp: ac_simps)
  qed
qed

end
