(* ===== verification/ResourceSet.thy ===== *)
theory ResourceSet
  imports ManagedResources Reporting Resync
begin

text \<open>
  src/internal/controller/capability_controller.go: the reconciler of K1sResourceSet. It checks the
  kinds of a list of manifests against the operator's policy, deletes what it managed before and
  no longer wants, applies the manifests when the hash of the list changed, and records what it
  manages.
\<close>

section \<open>The code\<close>

definition set_rset_condition ::
  "env \<Rightarrow> K1sResourceSet \<Rightarrow> string \<Rightarrow> condition_status \<Rightarrow> string \<Rightarrow> string \<Rightarrow>
     K1sResourceSetStatus \<Rightarrow> K1sResourceSetStatus io"
where
  "set_rset_condition E x t st reason msg status = do {
     cs \<leftarrow> setCondition E (rss_Conditions status) t st reason msg (Generation (rs_Meta x));
     State_Monad.return (status\<lparr>rss_Conditions := cs\<rparr>)
   }"

fun put_rset_status :: "K1sResourceSetStatus \<Rightarrow> kobject \<Rightarrow> kobject" where
  "put_rset_status status (OResourceSet x) = OResourceSet (x\<lparr>rs_Status := status\<rparr>)"
| "put_rset_status status x = x"

definition patch_rset_status ::
  "env \<Rightarrow> K1sResourceSet \<Rightarrow> K1sResourceSetStatus \<Rightarrow> go_error option io" where
  "patch_rset_status E x status =
     patchStatus E (OResourceSet x) (\<lambda>cur. State_Monad.return (put_rset_status status cur))"

text \<open>\<open>set.Status\<close> after \<open>set.Status.ObservedGeneration = set.Generation\<close>.\<close>

definition rset_observed :: "K1sResourceSet \<Rightarrow> K1sResourceSetStatus" where
  "rset_observed x = (rs_Status x)\<lparr>rss_ObservedGeneration := Generation (rs_Meta x)\<rparr>"

definition rset_no_client :: "env \<Rightarrow> K1sResourceSet \<Rightarrow> go_error \<Rightarrow> outcome io" where
  "rset_no_client E x e = do {
     status \<leftarrow> set_rset_condition E x CondCredentialsValid ConditionFalse ReasonMissing (Error E e)
       (rset_observed x);
     err \<leftarrow> patch_rset_status E x status;
     State_Monad.return (no_result, err)
   }"

definition rset_delete_remote :: "env \<Rightarrow> K1sResourceSet \<Rightarrow> Client \<Rightarrow> go_error option io" where
  "rset_delete_remote E x api = deleteManagedResources E api (rss_ManagedResources (rs_Status x))"

definition rset_delete_failed :: "env \<Rightarrow> K1sResourceSet \<Rightarrow> go_error \<Rightarrow> outcome io" where
  "rset_delete_failed E x e = do {
     status \<leftarrow> set_rset_condition E x CondApplied ConditionFalse ReasonUnavailable
       (''failed to delete managed k1s resources: '' @ Error E e) (rset_observed x);
     _ \<leftarrow> patch_rset_status E x status;
     State_Monad.return (no_result, Some e)
   }"

text \<open>The policy of the set is outside that of the operator.\<close>

definition rset_denied :: "env \<Rightarrow> K1sResourceSet \<Rightarrow> go_error \<Rightarrow> outcome io" where
  "rset_denied E x policyErr = do {
     now \<leftarrow> Now E;
     status \<leftarrow> set_rset_condition E x CondPolicyAllowed ConditionFalse ReasonDenied (Error E policyErr)
       ((rset_observed x)\<lparr>rss_LastSyncTime := Some now, rss_Ready := False, rss_Applied := 0\<rparr>);
     status \<leftarrow> set_rset_condition E x CondApplied ConditionFalse ReasonDenied (Error E policyErr) status;
     status \<leftarrow> set_rset_condition E x CondReady ConditionFalse ReasonDenied ''resource is not ready'' status;
     err \<leftarrow> patch_rset_status E x status;
     State_Monad.return (no_result, err)
   }"

text \<open>The two loops: how many manifests are applied, and the first error.\<close>

definition rset_work ::
  "env \<Rightarrow> K1sResourceSet \<Rightarrow> Client \<Rightarrow> K1sManagedResourceStatus list \<Rightarrow> bool \<Rightarrow> go_error option \<Rightarrow>
     (i32 \<times> go_error option) io" where
  "rset_work E x api desired shouldApply scanErr = do {
     firstErr \<leftarrow> (if scanErr = None \<and> rs_Prune (rs_Spec x)
       then pruneManagedResources E api (rss_ManagedResources (rs_Status x)) desired
       else State_Monad.return scanErr);
     case firstErr of
       Some e \<Rightarrow> State_Monad.return (0, Some e)
     | None \<Rightarrow> apply_manifests E api shouldApply (rs_Manifests (rs_Spec x)) 0
   }"

text \<open>The status before its conditions are decided.\<close>

definition rset_synced ::
  "K1sResourceSet \<Rightarrow> int \<Rightarrow> K1sManagedResourceStatus list \<Rightarrow> i32 \<Rightarrow> go_error option \<Rightarrow> K1sResourceSetStatus" where
  "rset_synced x now desired applied firstErr = (rset_observed x)
     \<lparr>rss_LastSyncTime := Some now,
      rss_Applied := applied,
      rss_Ready := (firstErr = None \<and> applied = of_nat (length (rs_Manifests (rs_Spec x)))),
      rss_ManagedResources :=
        (if firstErr = None then desired else rss_ManagedResources (rs_Status x))\<rparr>"

definition rset_report ::
  "env \<Rightarrow> K1sResourceSet \<Rightarrow> K1sCluster \<Rightarrow> K1sManagedResourceStatus list \<Rightarrow> bool \<Rightarrow>
     i32 \<times> go_error option \<Rightarrow> outcome io" where
  "rset_report E x cluster desired shouldApply done = do {
     now \<leftarrow> Now E;
     let status = rset_synced x now desired (fst done) (snd done);
     status \<leftarrow> (case snd done of
         Some firstErr \<Rightarrow> do {
           status \<leftarrow> set_rset_condition E x CondPolicyAllowed ConditionFalse ReasonDenied
             (Error E firstErr) status;
           set_rset_condition E x CondApplied ConditionFalse ReasonUnavailable (Error E firstErr) status
         }
       | None \<Rightarrow> do {
           status \<leftarrow> set_rset_condition E x CondPolicyAllowed ConditionTrue ReasonReady
             ''all manifest kinds are allowed'' status;
           set_rset_condition E x CondApplied ConditionTrue ReasonApplied
             (if shouldApply then ''resource set applied to k1s''
              else ''resource set already applied to k1s'') status
         });
     status \<leftarrow> set_rset_condition E x CondReady (conditionStatus (rss_Ready status))
       (reasonForBool (rss_Ready status)) (readyMessage (rss_Ready status)) status;
     err \<leftarrow> patch_rset_status E x status;
     State_Monad.return
       (requeue_after (pollInterval (cl_PollIntervalSeconds (cluster_Spec cluster))), err)
   }"

definition rset_apply ::
  "env \<Rightarrow> K1sResourceSet \<Rightarrow> Client \<Rightarrow> K1sCluster \<Rightarrow> string set \<Rightarrow> outcome io" where
  "rset_apply E x api cluster allowed =
     (case scan_manifests allowed (rs_Manifests (rs_Spec x)) of
        (rawManifests, desired, scanErr) \<Rightarrow>
          let manifestHash = hashManifestSet rawManifests;
              shouldApply = (scanErr = None \<and> lastAppliedHash (OResourceSet x) \<noteq> manifestHash)
          in do {
            done \<leftarrow> rset_work E x api desired shouldApply scanErr;
            patchErr \<leftarrow> (if snd done = None \<and> shouldApply
              then patchLastAppliedHash E (OResourceSet x) manifestHash
              else State_Monad.return None);
            case patchErr of
              Some e \<Rightarrow> State_Monad.return (no_result, Some e)
            | None \<Rightarrow> rset_report E x cluster desired shouldApply done
          })"

definition rset_sync ::
  "env \<Rightarrow> string list \<Rightarrow> K1sResourceSet \<Rightarrow> Client \<Rightarrow> K1sCluster \<Rightarrow> outcome io" where
  "rset_sync E kinds x api cluster =
     (case allowedKindsFor kinds x of
        Inl policyErr \<Rightarrow> rset_denied E x policyErr
      | Inr allowed \<Rightarrow> rset_apply E x api cluster allowed)"

definition reconcile_rset :: "env \<Rightarrow> string list \<Rightarrow> K1sResourceSet \<Rightarrow> outcome io" where
  "reconcile_rset E kinds x = do {
     w \<leftarrow> writeClient E (Namespace (rs_Meta x)) (rs_ClusterRef (rs_Spec x));
     case w of
       Inl e \<Rightarrow> rset_no_client E x e
     | Inr (api, cluster) \<Rightarrow>
         if DeletionTimestamp (rs_Meta x) \<noteq> None then
           (if containsString (Finalizers (rs_Meta x)) capabilityFinalizer then
              (if rs_DeletePolicy (rs_Spec x) \<noteq> K1sDeletePolicyOrphan then do {
                 failure \<leftarrow> rset_delete_remote E x api;
                 case failure of
                   Some e \<Rightarrow> rset_delete_failed E x e
                 | None \<Rightarrow> remove_finalizer E (OResourceSet x)
               }
               else remove_finalizer E (OResourceSet x))
            else State_Monad.return (no_result, None))
         else if \<not> containsString (Finalizers (rs_Meta x)) capabilityFinalizer
         then add_finalizer E (OResourceSet x)
         else rset_sync E kinds x api cluster
   }"

definition K1sResourceSet_Reconcile :: "env \<Rightarrow> string list \<Rightarrow> namespaced_name \<Rightarrow> outcome io" where
  "K1sResourceSet_Reconcile E kinds req = do {
     found \<leftarrow> kube_Get E CachedClient KindResourceSet req;
     case found of
       Inl e \<Rightarrow> State_Monad.return (no_result, if kube_IsNotFound e then None else Some e)
     | Inr (OResourceSet x) \<Rightarrow> reconcile_rset E kinds x
     | Inr _ \<Rightarrow> State_Monad.return (no_result, None)
   }"

section \<open>Each step\<close>

definition rset_cond :: "K1sResourceSetStatus \<Rightarrow> string \<Rightarrow> condition_status option" where
  "rset_cond s = cond_of (rss_Conditions s)"

lemma put_rset_status_same [simp]: "same_object (put_rset_status s x) x"
  by (cases x) (simp_all add: same_object_def ObjectKeyFromObject_def)

interpretation rset_says: reporter "OResourceSet x" "Generation (rs_Meta x)" rss_Conditions
    "\<lambda>cs s. s\<lparr>rss_Conditions := cs\<rparr>" put_rset_status "\<lambda>E. set_rset_condition E x"
    "\<lambda>E. patch_rset_status E x"
  for x
  by unfold_locales (simp_all add: set_rset_condition_def patch_rset_status_def)

lemmas rset_condition_step = rset_says.step [folded rset_cond_def]
lemmas rset_condition_last = rset_says.last_step [folded rset_cond_def]
lemmas rset_one_decision = rset_says.one_decision [where f = id, simplified]

lemma rset_stop_specs:
  assumes "lawful E"
  shows "behaves (rset_no_client E x e) (\<lambda>new _. \<forall>z\<in>set new. reports (OResourceSet x) z)"
    and "behaves (rset_delete_failed E x e)
      (\<lambda>new r. (\<forall>z\<in>set new. reports (OResourceSet x) z) \<and> snd r \<noteq> None)"
  unfolding rset_no_client_def rset_delete_failed_def
  by (rule behaves_mono [OF rset_one_decision [OF assms]]; auto)+

lemma rset_delete_remote_spec:
  "behaves (rset_delete_remote E x api)
     (\<lambda>new r. (\<forall>z\<in>set new. client_traffic api z) \<and>
        (r = None \<longrightarrow> managed_gone api (rss_ManagedResources (rs_Status x)) new))"
  unfolding rset_delete_remote_def
  by (rule behaves_mono [OF deleteManagedResources_spec]) (auto intro: request_traffic)

text \<open>What is written of a set whose policy is denied, or whose reconciliation failed: it manages
  what it managed, and is not ready.\<close>

definition rset_status_bad :: "K1sResourceSet \<Rightarrow> K1sResourceSetStatus \<Rightarrow> bool" where
  "rset_status_bad x s \<longleftrightarrow>
     rss_ObservedGeneration s = Generation (rs_Meta x) \<and> \<not> rss_Ready s \<and>
     rss_ManagedResources s = rss_ManagedResources (rs_Status x) \<and>
     rset_cond s CondPolicyAllowed = Some ConditionFalse \<and>
     rset_cond s CondApplied = Some ConditionFalse \<and>
     rset_cond s CondReady = Some ConditionFalse"

text \<open>And of one that is in the wanted state: it manages exactly what its manifests name.\<close>

definition rset_status_good :: "K1sResourceSet \<Rightarrow> K1sResourceSetStatus \<Rightarrow> bool" where
  "rset_status_good x s \<longleftrightarrow>
     rss_ObservedGeneration s = Generation (rs_Meta x) \<and> rss_Ready s \<and>
     rss_Applied s = of_nat (length (rs_Manifests (rs_Spec x))) \<and>
     map Inr (rss_ManagedResources s) = map managedResourceFromManifest (rs_Manifests (rs_Spec x)) \<and>
     rset_cond s CondPolicyAllowed = Some ConditionTrue \<and>
     rset_cond s CondApplied = Some ConditionTrue \<and>
     rset_cond s CondReady = Some ConditionTrue"

lemma rset_denied_spec:
  assumes "lawful E"
  shows "behaves (rset_denied E x e)
    (\<lambda>new _. (\<forall>z\<in>set new. reports (OResourceSet x) z) \<and>
       (\<forall>z\<in>set new. writes_status put_rset_status (rset_status_bad x) z))"
  unfolding rset_denied_def
proof (rule behaves_bind [OF Now_spec], rule rset_condition_step [OF assms],
    rule rset_condition_step [OF assms], rule rset_condition_step [OF assms],
    rule rset_says.patch_step [OF assms], rule behaves_return, goal_cases)
  case (1 n1 now n2 s2 n3 s3 n4 s4 n5 err)
  then have "rset_status_bad x s4"
    by (auto simp: rset_status_bad_def rset_observed_def)
  moreover have "only_clock (n1 @ n2 @ n3 @ n4)" using 1 by simp
  ultimately show ?case
    using 1(5) only_clock_observes [of "n1 @ n2 @ n3 @ n4"]
    by (auto intro: only_clock_reports patch_status_reports patch_writes_status observes_writes_status)
qed

lemma rset_report_spec:
  assumes "lawful E" and "map Inr desired = map managedResourceFromManifest (rs_Manifests (rs_Spec x)) \<or> snd d \<noteq> None"
    and "snd d = None \<Longrightarrow> fst d = of_nat (length (rs_Manifests (rs_Spec x)))"
  shows "behaves (rset_report E x cluster desired sh d)
    (\<lambda>new _. (\<forall>z\<in>set new. reports (OResourceSet x) z) \<and>
       (\<forall>z\<in>set new. writes_status put_rset_status
          (if snd d = None then rset_status_good x else rset_status_bad x) z))"
proof -
  have decide: "behaves (case snd d of
         Some firstErr \<Rightarrow> do {
           status \<leftarrow> set_rset_condition E x CondPolicyAllowed ConditionFalse ReasonDenied
             (Error E firstErr) s;
           set_rset_condition E x CondApplied ConditionFalse ReasonUnavailable (Error E firstErr) status
         }
       | None \<Rightarrow> do {
           status \<leftarrow> set_rset_condition E x CondPolicyAllowed ConditionTrue ReasonReady
             ''all manifest kinds are allowed'' s;
           set_rset_condition E x CondApplied ConditionTrue ReasonApplied msg status
         })
      (\<lambda>new s'. only_clock new \<and> (\<exists>cs. s' = s\<lparr>rss_Conditions := cs\<rparr>) \<and>
         rset_cond s' = (rset_cond s)(CondPolicyAllowed \<mapsto> conditionStatus (snd d = None),
           CondApplied \<mapsto> conditionStatus (snd d = None)))" for s msg
    by (rule behaves_case_option;
        rule rset_condition_step [OF assms(1)], rule rset_condition_last [OF assms(1)]) auto
  show ?thesis
    unfolding rset_report_def Let_def
  proof (rule behaves_bind [OF Now_spec], rule behaves_bind [OF decide], rule rset_condition_step [OF assms(1)],
      rule rset_says.patch_step [OF assms(1)], rule behaves_return, goal_cases)
    case (1 n1 now n2 s2 n3 s3 n4 err)
    have "(if snd d = None then rset_status_good x else rset_status_bad x) s3"
      using 1 assms(2,3)
      by (auto simp: rset_status_bad_def rset_status_good_def rset_synced_def rset_observed_def)
    moreover have "only_clock (n1 @ n2 @ n3)" using 1 by simp
    ultimately show ?case
      using 1(4) only_clock_observes [of "n1 @ n2 @ n3"]
      by (auto intro: only_clock_reports patch_status_reports patch_writes_status observes_writes_status)
  qed
qed

text \<open>The work: deletions of what is unwanted, then applications of the manifests.\<close>

lemma rset_work_spec:
  "behaves (rset_work E x api desired sh scanErr)
    (\<lambda>new r. \<exists>pruned posted. new = pruned @ posted \<and>
       (\<forall>e\<in>set pruned. scanErr = None \<and> rs_Prune (rs_Spec x) \<and>
          delete_request api (unwanted (rss_ManagedResources (rs_Status x)) desired) e) \<and>
       (\<forall>e\<in>set posted. scanErr = None \<and> sh \<and> apply_request E api (rs_Manifests (rs_Spec x)) e) \<and>
       (snd r = None \<longrightarrow> scanErr = None \<and> fst r = of_nat (length (rs_Manifests (rs_Spec x))) \<and>
          (sh \<longrightarrow> (\<forall>raw\<in>set (rs_Manifests (rs_Spec x)).
             \<exists>z\<in>set posted. applied_manifest E api raw z))))"
proof -
  let ?prune = "if scanErr = None \<and> rs_Prune (rs_Spec x)
    then pruneManagedResources E api (rss_ManagedResources (rs_Status x)) desired
    else State_Monad.return scanErr"
  have prune: "behaves ?prune (\<lambda>new r. (\<forall>e\<in>set new. scanErr = None \<and> rs_Prune (rs_Spec x) \<and>
      delete_request api (unwanted (rss_ManagedResources (rs_Status x)) desired) e) \<and>
      (r = None \<longrightarrow> scanErr = None))"
    by (rule behaves_if, rule behaves_mono [OF pruneManagedResources_spec]) (auto intro: behaves_return)
  show ?thesis
    unfolding rset_work_def
  proof (rule behaves_bind [OF prune], rule behaves_case_option, goal_cases)
    case (1 n1 err)
    then have n1: "scanErr = None" "\<forall>e\<in>set n1. scanErr = None \<and> rs_Prune (rs_Spec x) \<and>
      delete_request api (unwanted (rss_ManagedResources (rs_Status x)) desired) e" by auto
    show ?case
    proof (rule behaves_mono [OF apply_manifests_spec], goal_cases)
      case (1 n2 r)
      then show ?case
        by (intro exI [of _ n1] exI [of _ n2]) (use n1 in simp)
    qed
  next
    case (2 n1 err e)
    then show ?case
      by (intro behaves_return exI [of _ n1] exI [of _ "[]"]) simp
  qed
qed

section \<open>A whole synchronisation\<close>

text \<open>The policy of the operator and of the set admits every manifest.\<close>

definition rset_accepted :: "string list \<Rightarrow> K1sResourceSet \<Rightarrow> bool" where
  "rset_accepted kinds x \<longleftrightarrow>
     (\<exists>allowed. allowedKindsFor kinds x = Inr allowed \<and>
        (\<forall>raw\<in>set (rs_Manifests (rs_Spec x)). manifest_of_kind allowed raw))"

definition rset_wants :: "K1sResourceSet \<Rightarrow> K1sManagedResourceStatus list \<Rightarrow> bool" where
  "rset_wants x desired \<longleftrightarrow>
     map managedResourceFromManifest (rs_Manifests (rs_Spec x)) = map Inr desired"

text \<open>The exchanges after the work: the hash is written only when every manifest was accepted
  (\<open>posted\<close>), and a status that says the set is in the wanted state only when every manifest was
  accepted or the hash was there already.\<close>

definition rset_closes :: "env \<Rightarrow> K1sResourceSet \<Rightarrow> Client \<Rightarrow> event list \<Rightarrow> event \<Rightarrow> bool" where
  "rset_closes E x api posted e \<longleftrightarrow>
     (let obj = OResourceSet x; ms = rs_Manifests (rs_Spec x);
          all_accepted = (\<forall>raw\<in>set ms. \<exists>z\<in>set posted. applied_manifest E api raw z) in
      applies obj api e \<and> \<not> is_http e \<and>
      (case e of
         EPatch cur y _ \<Rightarrow> all_accepted \<and>
           y = update_meta (annotate lastAppliedHashAnnotation (hashManifestSet ms)) cur
       | EStatusPatch cur y _ \<Rightarrow> \<exists>s. y = put_rset_status s cur \<and>
           (rset_status_bad x s \<or>
            rset_status_good x s \<and> (lastAppliedHash obj = hashManifestSet ms \<or> all_accepted))
       | _ \<Rightarrow> True))"

definition rset_sync_ok ::
  "env \<Rightarrow> string list \<Rightarrow> K1sResourceSet \<Rightarrow> Client \<Rightarrow> event list \<Rightarrow> bool" where
  "rset_sync_ok E kinds x api new \<longleftrightarrow>
     (\<exists>pruned posted rest. new = pruned @ posted @ rest \<and>
        (\<forall>e\<in>set pruned. rset_accepted kinds x \<and> rs_Prune (rs_Spec x) \<and>
           (\<exists>desired. rset_wants x desired \<and>
              delete_request api (unwanted (rss_ManagedResources (rs_Status x)) desired) e)) \<and>
        (\<forall>e\<in>set posted. rset_accepted kinds x \<and>
           lastAppliedHash (OResourceSet x) \<noteq> hashManifestSet (rs_Manifests (rs_Spec x)) \<and>
           apply_request E api (rs_Manifests (rs_Spec x)) e) \<and>
        (\<forall>e\<in>set rest. rset_closes E x api posted e))"

lemma report_closes:
  assumes "reports (OResourceSet x) e" and "writes_status put_rset_status P e"
    and "\<And>s. P s \<Longrightarrow> rset_status_bad x s \<or> rset_status_good x s \<and>
      (lastAppliedHash (OResourceSet x) = hashManifestSet (rs_Manifests (rs_Spec x)) \<or>
       (\<forall>raw\<in>set (rs_Manifests (rs_Spec x)). \<exists>z\<in>set posted. applied_manifest E api raw z))"
  shows "rset_closes E x api posted e"
  using assms
  by (fastforce simp: rset_closes_def Let_def reports_def applies_def writes_status_def split: event.splits)

lemma hash_closes:
  assumes "object_patch.patch_event (OResourceSet x) (\<lambda>cur y. y = update_meta
      (annotate lastAppliedHashAnnotation (hashManifestSet (rs_Manifests (rs_Spec x)))) cur) e"
    and "\<forall>raw\<in>set (rs_Manifests (rs_Spec x)). \<exists>z\<in>set posted. applied_manifest E api raw z"
  shows "rset_closes E x api posted e"
  using assms patch_hash_applies [OF assms(1), of api]
  by (auto simp: rset_closes_def Let_def object_patch_event split: event.splits)

lemma rset_apply_spec:
  assumes "lawful E" and "allowedKindsFor kinds x = Inr allowed"
  shows "behaves (rset_apply E x api cluster allowed) (\<lambda>new _. rset_sync_ok E kinds x api new)"
proof -
  let ?ms = "rs_Manifests (rs_Spec x)"
  obtain raws desired scanErr where scan: "scan_manifests allowed ?ms = (raws, desired, scanErr)"
    by (metis prod_cases3)
  let ?sh = "scanErr = None \<and> lastAppliedHash (OResourceSet x) \<noteq> hashManifestSet raws"
  have ok: "raws = ?ms \<and> rset_wants x desired \<and> rset_accepted kinds x" if "scanErr = None"
    using scan_manifests_accepts [of allowed ?ms raws desired] scan that assms(2)
    by (auto simp: rset_wants_def rset_accepted_def)
  show ?thesis
    unfolding rset_apply_def scan prod.case Let_def
  proof (rule behaves_bind [OF rset_work_spec], goal_cases)
    case (1 n1 d)
    then obtain pruned posted where n1: "n1 = pruned @ posted"
      and pruned: "\<forall>e\<in>set pruned. scanErr = None \<and> rs_Prune (rs_Spec x) \<and>
          delete_request api (unwanted (rss_ManagedResources (rs_Status x)) desired) e"
      and posted: "\<forall>e\<in>set posted. scanErr = None \<and> ?sh \<and> apply_request E api ?ms e"
      and work: "snd d = None \<longrightarrow> scanErr = None \<and> fst d = of_nat (length ?ms) \<and>
        (?sh \<longrightarrow> (\<forall>raw\<in>set ?ms. \<exists>z\<in>set posted. applied_manifest E api raw z))"
      by (elim exE conjE) (rule that; assumption)
    have fine: "rset_sync_ok E kinds x api (n1 @ rest)"
      if "\<forall>e\<in>set rest. rset_closes E x api posted e" for rest
      unfolding rset_sync_ok_def n1
      by (intro exI [of _ pruned] exI [of _ posted] exI [of _ rest])
        (use pruned posted ok that in auto)
    have hash: "behaves (if snd d = None \<and> ?sh
        then patchLastAppliedHash E (OResourceSet x) (hashManifestSet raws) else State_Monad.return None)
        (\<lambda>new _. \<forall>e\<in>set new. rset_closes E x api posted e)"
      by (rule behaves_if, rule behaves_mono [OF patchLastAppliedHash_spec [OF assms(1)]])
        (use work ok in \<open>auto intro: hash_closes behaves_return\<close>)
    have wants: "map Inr desired = map managedResourceFromManifest ?ms \<or> snd d \<noteq> None"
      using work ok by (auto simp: rset_wants_def)
    have counted: "fst d = of_nat (length ?ms)" if "snd d = None"
      using work that by blast
    have report: "behaves (rset_report E x cluster desired ?sh d)
        (\<lambda>new _. \<forall>e\<in>set new. rset_closes E x api posted e)"
    proof (rule behaves_mono [OF rset_report_spec [OF assms(1) wants counted]], assumption, intro ballI,
        goal_cases)
      case (1 n r e)
      then show ?case
        using work ok
        by (intro report_closes [of x e "if snd d = None then rset_status_good x else rset_status_bad x"])
          (auto split: if_splits)
    qed
    show ?case
    proof (rule behaves_bind [OF hash], rule behaves_case_option, goal_cases)
      case (1 n2 p)
      then show ?case by (intro behaves_mono [OF report] fine) auto
    next
      case (2 n2 p e)
      then show ?case by (intro behaves_return fine) simp
    qed
  qed
qed

lemma rset_sync_spec:
  assumes "lawful E"
  shows "behaves (rset_sync E kinds x api cluster) (\<lambda>new _. rset_sync_ok E kinds x api new)"
  unfolding rset_sync_def
proof (rule behaves_case_sum, goal_cases)
  case (1 e)
  have "rset_sync_ok E kinds x api new" if "\<forall>z\<in>set new. rset_closes E x api [] z" for new
    unfolding rset_sync_ok_def
    by (intro exI [of _ "[]"] exI [of _ new]) (use that in simp)
  then show ?case
    by (intro behaves_mono [OF rset_denied_spec [OF assms]])
      (auto intro!: report_closes [where P = "rset_status_bad x"])
next
  case (2 allowed)
  then show ?case by (rule rset_apply_spec [OF assms])
qed

lemma rset_sync_applies:
  assumes "rset_sync_ok E kinds x api new" and "e \<in> set new"
  shows "applies (OResourceSet x) api e"
proof -
  obtain pruned posted rest where new: "new = pruned @ posted @ rest"
    and "\<forall>e\<in>set pruned. \<exists>ms. delete_request api ms e"
    and "\<forall>e\<in>set posted. apply_request E api (rs_Manifests (rs_Spec x)) e"
    and "\<forall>e\<in>set rest. rset_closes E x api posted e"
    using assms(1) unfolding rset_sync_ok_def by metis
  moreover have "applies (OResourceSet x) api z" if "rset_closes E x api posted z" for z
    using that by (simp add: rset_closes_def Let_def)
  ultimately show ?thesis
    using assms(2) by (auto intro: traffic_applies request_traffic)
      (metis traffic_applies request_traffic(1))
qed

text \<open>An exchange that is not with the k1s cluster is one of those after the work.\<close>

lemma rset_sync_closing:
  assumes "rset_sync_ok E kinds x api new" and "e \<in> set new" and "\<not> client_traffic api e"
  obtains posted where "set posted \<subseteq> set new" and "rset_closes E x api posted e"
proof -
  obtain pruned posted rest where new: "new = pruned @ posted @ rest"
    and "\<forall>e\<in>set pruned. \<exists>ms. delete_request api ms e"
    and "\<forall>e\<in>set posted. apply_request E api (rs_Manifests (rs_Spec x)) e"
    and "\<forall>e\<in>set rest. rset_closes E x api posted e"
    using assms(1) unfolding rset_sync_ok_def by metis
  moreover from this(2,3) have "e \<notin> set pruned" "e \<notin> set posted"
    using assms(3) request_traffic by metis+
  ultimately show thesis using assms(2) that [of posted] by auto
qed

lemma no_client_traffic_patch [simp]:
  "\<not> client_traffic c (EPatch x y res)" "\<not> client_traffic c (EStatusPatch x y res)"
  by (simp_all add: client_traffic_def)

interpretation rset: capability E "OResourceSet x" "rs_ClusterRef (rs_Spec x)"
    "rs_DeletePolicy (rs_Spec x) = K1sDeletePolicyOrphan" "reconcile_rset E kinds x"
    "rset_no_client E x" "rset_delete_remote E x" "rset_delete_failed E x"
    "rset_sync E kinds x" "\<lambda>api. managed_gone api (rss_ManagedResources (rs_Status x))"
  for E kinds x
proof unfold_locales
  show "lawful E \<Longrightarrow> behaves (rset_sync E kinds x api cluster)
      (\<lambda>new _. \<forall>z\<in>set new. applies (OResourceSet x) api z)" for api cluster
    by (rule behaves_mono [OF rset_sync_spec]) (auto intro: rset_sync_applies)
  show "reconcile_rset E kinds x = do {
        w \<leftarrow> writeClient E (Namespace (meta_of (OResourceSet x))) (rs_ClusterRef (rs_Spec x));
        case w of
          Inl e \<Rightarrow> rset_no_client E x e
        | Inr (api, cluster) \<Rightarrow>
            if being_deleted (OResourceSet x) then
              (if \<not> has_finalizer (OResourceSet x) then State_Monad.return (no_result, None)
               else if rs_DeletePolicy (rs_Spec x) = K1sDeletePolicyOrphan
               then remove_finalizer E (OResourceSet x)
               else do {
                 failure \<leftarrow> rset_delete_remote E x api;
                 case failure of
                   Some e \<Rightarrow> rset_delete_failed E x e
                 | None \<Rightarrow> remove_finalizer E (OResourceSet x)
               })
            else if \<not> has_finalizer (OResourceSet x) then add_finalizer E (OResourceSet x)
            else rset_sync E kinds x api cluster
      }"
    unfolding reconcile_rset_def
    by (auto simp: being_deleted_def has_finalizer_def fun_eq_iff intro!: arg_cong [where f = "State_Monad.bind _"]
        split: sum.splits)
qed (rule rset_stop_specs rset_delete_remote_spec; assumption?)+

section \<open>Properties\<close>

text \<open>
  C11: the clean-up of a resource set is safe. A reconciliation writes to no Kubernetes object but the
  set; it sends nothing to the k1s cluster unless the set it read carries the clean-up finalizer;
  and it takes the finalizer off only while the set is being deleted and, unless its policy is
  Orphan, after the controller confirmed, with a 2xx or a 404, the deletion of every resource that
  the status of the set lists as managed.
\<close>

theorem rset_cleanup_safe:
  assumes "lawful E" and "run_state (reconcile_rset E kinds x) h = (r, h @ new)" and "e \<in> set new"
  shows "writes_to (OResourceSet x) e \<and>
    (is_http e \<longrightarrow> capabilityFinalizer \<in> set (Finalizers (rs_Meta x))) \<and>
    (removes_finalizer e \<longrightarrow> DeletionTimestamp (rs_Meta x) \<noteq> None \<and>
       (rs_DeletePolicy (rs_Spec x) = ''Orphan'' \<or>
        (\<exists>api before del fin. new = before @ del @ fin \<and> e \<in> set fin \<and>
           managed_gone api (rss_ManagedResources (rs_Status x)) del)))"
  using rset.reconcile_safe [OF assms]
  by (auto simp: has_finalizer_def containsString_def being_deleted_def)

text \<open>
  A managed resource of a kind that the operator cannot delete keeps the set from ever being cleaned
  up: no reconciliation takes the finalizer off.
\<close>

theorem rset_stuck_by_kind:
  assumes "lawful E" and "run_state (reconcile_rset E kinds x) h = (r, h @ new)" and "e \<in> set new"
    and "rs_DeletePolicy (rs_Spec x) \<noteq> ''Orphan''"
    and "m \<in> set (rss_ManagedResources (rs_Status x))"
    and "mr_Kind m \<notin> {''Deployment'', ''InferenceCell'', ''InferenceCellSet''}"
  shows "\<not> removes_finalizer e"
proof
  assume "removes_finalizer e"
  then have "managed_endpoint m \<noteq> None"
    using rset.reconcile_safe(4) [OF assms(1-3)] assms(4,5) by (auto simp: managed_gone_def)
  with assms(6) show False by (simp add: managed_endpoint_def Let_def)
qed

text \<open>
  C12: the requests of a resource set are within the policy and in order. First come the deletions,
  only under \<open>prune\<close>, of resources that the status lists as managed and no manifest names any
  more; then the applications of the manifests, only when the recorded hash is not that of the
  list; and nothing is requested at all unless every manifest names a resource of a kind that the
  operator allows, and the set too when it restricts the kinds.
\<close>

theorem rset_requests_in_order:
  assumes "lawful E" and "run_state (rset_sync E kinds x api cluster) h = (r, h @ new)"
  shows "\<exists>pruned posted rest. new = pruned @ posted @ rest \<and>
    (\<forall>e\<in>set pruned. rs_Prune (rs_Spec x) \<and>
       (\<exists>desired. map managedResourceFromManifest (rs_Manifests (rs_Spec x)) = map Inr desired \<and>
          delete_request api (filter (\<lambda>m. managedResourceKey m \<notin> managedResourceKey ` set desired)
            (rss_ManagedResources (rs_Status x))) e)) \<and>
    (\<forall>e\<in>set posted. lastAppliedHash (OResourceSet x) \<noteq> hashManifestSet (rs_Manifests (rs_Spec x)) \<and>
       apply_request E api (rs_Manifests (rs_Spec x)) e) \<and>
    (\<forall>e\<in>set rest. \<not> is_http e) \<and>
    (pruned @ posted \<noteq> [] \<longrightarrow> (\<forall>raw\<in>set (rs_Manifests (rs_Spec x)).
       \<exists>ref. managedResourceFromManifest raw = Inr ref \<and> mr_Kind ref \<in> operator_kinds kinds \<and>
         (normalizeKindList (rs_AllowedKinds (rs_Spec x)) \<noteq> [] \<longrightarrow>
            mr_Kind ref \<in> set (normalizeKindList (rs_AllowedKinds (rs_Spec x))))))"
proof -
  have "rset_sync_ok E kinds x api new"
    by (rule behaves_run [OF rset_sync_spec [OF assms(1)] assms(2)])
  then obtain pruned posted rest where new: "new = pruned @ posted @ rest"
    and pruned: "\<forall>e\<in>set pruned. rset_accepted kinds x \<and> rs_Prune (rs_Spec x) \<and>
      (\<exists>desired. rset_wants x desired \<and>
         delete_request api (unwanted (rss_ManagedResources (rs_Status x)) desired) e)"
    and posted: "\<forall>e\<in>set posted. rset_accepted kinds x \<and>
      lastAppliedHash (OResourceSet x) \<noteq> hashManifestSet (rs_Manifests (rs_Spec x)) \<and>
      apply_request E api (rs_Manifests (rs_Spec x)) e"
    and rest: "\<forall>e\<in>set rest. rset_closes E x api posted e"
    unfolding rset_sync_ok_def by (elim exE conjE) (rule that; assumption)
  have policy: "\<exists>ref. managedResourceFromManifest raw = Inr ref \<and> mr_Kind ref \<in> operator_kinds kinds \<and>
      (normalizeKindList (rs_AllowedKinds (rs_Spec x)) \<noteq> [] \<longrightarrow>
         mr_Kind ref \<in> set (normalizeKindList (rs_AllowedKinds (rs_Spec x))))"
    if "rset_accepted kinds x" "raw \<in> set (rs_Manifests (rs_Spec x))" for raw
    using that allowedKindsFor_Inr [of kinds x]
    unfolding rset_accepted_def manifest_of_kind_def by (metis subsetD)
  have acc: "rset_accepted kinds x" if "pruned @ posted \<noteq> []"
    using that pruned posted by (metis append_is_Nil_conv last_in_set)
  have quiet: "\<forall>e\<in>set rest. \<not> is_http e"
    using rest by (simp add: rset_closes_def Let_def)
  show ?thesis
    using pruned posted quiet policy acc unfolding rset_wants_def unwanted_def
    by (intro exI [of _ pruned] exI [of _ posted] exI [of _ rest] conjI new) simp_all
qed

text \<open>
  C13: the hash recorded for a resource set is written only as the hash of its list of manifests, and
  only when each of them was posted and answered with success in the same run.
\<close>

theorem rset_hash_means_all_applied:
  assumes "lawful E" and "run_state (rset_sync E kinds x api cluster) h = (r, h @ new)"
    and "EPatch cur y res \<in> set new"
  shows "y = update_meta (annotate lastAppliedHashAnnotation
      (hashManifestSet (rs_Manifests (rs_Spec x)))) cur \<and>
    (\<forall>raw\<in>set (rs_Manifests (rs_Spec x)). \<exists>z\<in>set new. applied_manifest E api raw z)"
proof -
  have "rset_sync_ok E kinds x api new"
    by (rule behaves_run [OF rset_sync_spec [OF assms(1)] assms(2)])
  then obtain posted where "set posted \<subseteq> set new" "rset_closes E x api posted (EPatch cur y res)"
    by (rule rset_sync_closing [OF _ assms(3)]) simp
  then show ?thesis by (auto simp: rset_closes_def Let_def) blast
qed

text \<open>
  C14: what is reported of a resource set whose policy fits the operator's is all or nothing: either
  the set is Ready, it manages exactly what its manifests name, all of them count as applied, and
  each was accepted in this run unless the recorded hash was that of the list already; or it is not
  Ready, PolicyAllowed and Applied are False, and what it manages is what it managed before.
\<close>

theorem rset_report_all_or_nothing:
  assumes "lawful E" and "run_state (rset_sync E kinds x api cluster) h = (r, h @ new)"
    and "EStatusPatch cur y res \<in> set new"
  shows "\<exists>s. y = put_rset_status s cur \<and> rss_ObservedGeneration s = Generation (rs_Meta x) \<and>
    rset_cond s ''Ready'' = Some (conditionStatus (rss_Ready s)) \<and>
    rset_cond s ''Applied'' = Some (conditionStatus (rss_Ready s)) \<and>
    rset_cond s ''PolicyAllowed'' = Some (conditionStatus (rss_Ready s)) \<and>
    (if rss_Ready s
     then map Inr (rss_ManagedResources s) = map managedResourceFromManifest (rs_Manifests (rs_Spec x)) \<and>
       rss_Applied s = of_nat (length (rs_Manifests (rs_Spec x))) \<and>
       (lastAppliedHash (OResourceSet x) = hashManifestSet (rs_Manifests (rs_Spec x)) \<or>
        (\<forall>raw\<in>set (rs_Manifests (rs_Spec x)). \<exists>z\<in>set new. applied_manifest E api raw z))
     else rss_ManagedResources s = rss_ManagedResources (rs_Status x))"
proof -
  have "rset_sync_ok E kinds x api new"
    by (rule behaves_run [OF rset_sync_spec [OF assms(1)] assms(2)])
  then obtain posted where "set posted \<subseteq> set new" and "rset_closes E x api posted (EStatusPatch cur y res)"
    by (rule rset_sync_closing [OF _ assms(3)]) simp
  then show ?thesis
    by (auto simp: rset_closes_def Let_def rset_status_good_def rset_status_bad_def) blast+
qed

section \<open>Examples\<close>

text \<open>A set with the example manifest that manages a Deployment \<open>old\<close> so far.\<close>

definition old_resource :: K1sManagedResourceStatus where
  "old_resource = \<lparr>mr_Kind = ''Deployment'', mr_Namespace = ''default'', mr_Name = ''old'', mr_Hash = []\<rparr>"

definition example_rset :: "string list \<Rightarrow> int option \<Rightarrow> K1sResourceSet" where
  "example_rset finalizers deletion =
     \<lparr>rs_Meta = \<lparr>Name = ''set'', Namespace = ''team'', Generation = 4, Finalizers = finalizers,
        Annotations = None, Labels = Map.empty, DeletionTimestamp = deletion, OwnerReferences = []\<rparr>,
      rs_Spec = \<lparr>rs_ClusterRef = example_ref, rs_Manifests = [example_manifest], rs_AllowedKinds = [],
        rs_Prune = True, rs_DeletePolicy = ''Delete''\<rparr>,
      rs_Status = \<lparr>rss_ObservedGeneration = 0, rss_Applied = 0, rss_Ready = False,
        rss_ManagedResources = [old_resource], rss_LastSyncTime = None, rss_Conditions = []\<rparr>\<rparr>"

abbreviation deleted_rset :: K1sResourceSet where
  "deleted_rset \<equiv> example_rset [capabilityFinalizer] (Some 5)"

abbreviation new_rset :: K1sResourceSet where
  "new_rset \<equiv> example_rset [capabilityFinalizer] None"

lemma example_rset_simps:
  "DeletionTimestamp (rs_Meta (example_rset f d)) = d" "Finalizers (rs_Meta (example_rset f d)) = f"
  "Generation (rs_Meta (example_rset f d)) = 4"
  "rs_ClusterRef (rs_Spec (example_rset f d)) = example_ref"
  "rs_Manifests (rs_Spec (example_rset f d)) = [example_manifest]"
  "rs_AllowedKinds (rs_Spec (example_rset f d)) = []" "rs_Prune (rs_Spec (example_rset f d))"
  "rs_DeletePolicy (rs_Spec (example_rset f d)) = ''Delete''"
  "rss_ManagedResources (rs_Status (example_rset f d)) = [old_resource]"
  "lastAppliedHash (OResourceSet (example_rset f d)) = []"
  by (simp_all add: example_rset_def lastAppliedHash_def)

definition old_deletion :: event where
  "old_deletion = EHTTP (request_for example_client ''POST''
     (client_url example_client ''/delete/old?purge=1'') (Some ''{}'')) (Inr sample_leader)"

lemma run_delete_old:
  "run_state (deleteManagedResource (example_world x) example_client old_resource) h =
     (None, h @ [old_deletion])"
proof -
  have v: "url_Parse (client_url example_client ''/delete/old?purge=1'') =
      Inr (sample_url ''http://k1s:80/delete/old?purge=1'')"
    by code_simp
  have name: "resourceDeleteName ''default'' ''old'' = ''old''" "PathEscape ''old'' = ''old''"
    by code_simp+
  show ?thesis
    using run_call_example [OF v]
    by (simp add: old_resource_def deleteManagedResource_def name DeleteApp_def postJSON_def Marshal_empty
        old_deletion_def IsNotFound_def)
qed

lemma run_rset_delete_example:
  "run_state (reconcile_rset (example_world (OResourceSet deleted_rset)) kinds deleted_rset) [] =
     ((no_result, None), [] @ (example_reads @ [old_deletion,
        EGet CachedClient KindResourceSet (ObjectKeyFromObject (OResourceSet deleted_rset))
          (Inr (OResourceSet deleted_rset)),
        EPatch (OResourceSet deleted_rset)
          (update_meta (\<lambda>m. m\<lparr>Finalizers := []\<rparr>) (OResourceSet deleted_rset)) None]))"
  by (simp add: reconcile_rset_def example_rset_simps run_writeClient_example containsString_def
      rset_delete_remote_def run_delete_old remove_finalizer_def run_patchFinalizers_example)

theorem rset_cleanup_safe_witness:
  "\<exists>e api before del fin. removes_finalizer e \<and>
     trace_of (reconcile_rset (example_world (OResourceSet deleted_rset)) [] deleted_rset) [] =
       before @ del @ fin \<and> e \<in> set fin \<and> managed_gone api [old_resource] del"
proof -
  let ?e = "EPatch (OResourceSet deleted_rset)
    (update_meta (\<lambda>m. m\<lparr>Finalizers := []\<rparr>) (OResourceSet deleted_rset)) None"
  let ?m = "reconcile_rset (example_world (OResourceSet deleted_rset)) [] deleted_rset"
  obtain r new where run: "run_state ?m [] = (r, [] @ new)" and mem: "?e \<in> set new"
    using run_rset_delete_example by simp
  have rm: "removes_finalizer ?e"
    by (simp add: removes_finalizer_def has_finalizer_def containsString_def example_rset_def)
  obtain api before del fin where "new = before @ del @ fin" "?e \<in> set fin"
      "managed_gone api [old_resource] del"
    using rset_cleanup_safe [OF _ run mem] rm by (auto simp: example_rset_simps)
  then show ?thesis
    using run rm by (metis append_Nil snd_conv)
qed

text \<open>The first synchronisation of that set: \<open>old\<close> is deleted, the manifest is applied, the hash is
  recorded.\<close>

lemma managed_example:
  "managedResourceFromManifest example_manifest = Inr \<lparr>mr_Kind = ''Deployment'',
     mr_Namespace = ''default'', mr_Name = ''w'', mr_Hash = hashBytes example_manifest\<rparr>"
proof -
  have "Unmarshal_head example_manifest =
      (\<lparr>mh_kind = ''Deployment'', mh_name = ''w'', mh_namespace = [], mh_bad = False\<rparr>, None)"
    by code_simp
  then show ?thesis by (simp add: managedResourceFromManifest_def)
qed

lemma allowed_example:
  "allowedKindsFor [] (example_rset f d) = Inr {''Deployment'', ''InferenceCell'', ''InferenceCellSet''}"
proof -
  have "normalizeKindList [] = []" by (simp add: normalizeKindList_def)
  then show ?thesis
    by (simp add: allowedKindsFor_def default_kinds example_rset_simps kindSet_def)
      (simp add: DefaultResourceSetAllowedKinds_def)
qed

lemma run_prune_example:
  assumes "mr_Name m = ''w''"
  shows "run_state (pruneManagedResources (example_world x) example_client [old_resource] [m]) h =
    (None, h @ [old_deletion])"
proof -
  have "last (managedResourceKey m) = CHR ''w''" "last (managedResourceKey old_resource) = CHR ''d''"
    using assms by (simp_all add: managedResourceKey_def old_resource_def)
  then have "managedResourceKey old_resource \<noteq> managedResourceKey m" by auto
  then show ?thesis
    using run_delete_old by (simp add: pruneManagedResources_def prune_from_eq)
qed

lemma hash_set_not_empty: "hashManifestSet ms \<noteq> []"
proof
  assume "hashManifestSet ms = []"
  then have "length (hashManifestSet ms) = 0" by simp
  then show False by (simp add: hashManifestSet_def length_hex_EncodeToString)
qed

definition example_set_hash :: event where
  "example_set_hash = EPatch (OResourceSet new_rset)
     (update_meta (annotate lastAppliedHashAnnotation (hashManifestSet [example_manifest]))
        (OResourceSet new_rset)) None"

lemma rset_sync_example:
  obtains r new cur y where
    "run_state (rset_sync (example_world (OResourceSet new_rset)) [] new_rset example_client
       example_cluster) [] = (r, [] @ new)"
    and "old_deletion \<in> set new" and "example_set_hash \<in> set new" and "EStatusPatch cur y None \<in> set new"
proof -
  let ?E = "example_world (OResourceSet new_rset)"
  let ?ref = "\<lparr>mr_Kind = ''Deployment'', mr_Namespace = ''default'', mr_Name = ''w'',
    mr_Hash = hashBytes example_manifest\<rparr>"
  let ?h = "[old_deletion, example_apply example_manifest,
    EGet CachedClient KindResourceSet (ObjectKeyFromObject (OResourceSet new_rset))
      (Inr (OResourceSet new_rset)), example_set_hash]"
  let ?rep = "rset_report ?E new_rset example_cluster [?ref] True (1, None)"
  have "\<exists>X cur y r. run_state ?rep ?h = (r, X @ [EStatusPatch cur y None])"
    by (simp add: rset_report_def Let_def patch_rset_status_def run_patchStatus_example)
  then obtain X cur y r where X: "run_state ?rep ?h = (r, X @ [EStatusPatch cur y None])" by blast
  have spec: "behaves ?rep (\<lambda>new _. (\<forall>z\<in>set new. reports (OResourceSet new_rset) z) \<and>
      (\<forall>z\<in>set new. writes_status put_rset_status (rset_status_good new_rset) z))"
    using rset_report_spec [of ?E "[?ref]" new_rset "(1, None)" example_cluster True]
    by (simp add: example_rset_simps managed_example)
  have "last ?h \<noteq> EStatusPatch cur y None" for cur y
    by (simp add: example_set_hash_def)
  then obtain mid where rep: "run_state ?rep ?h = (r, ?h @ mid @ [EStatusPatch cur y None])"
    using run_ends_with_patch [OF spec X] by blast
  have "run_state (rset_sync ?E [] new_rset example_client example_cluster) [] =
      (r, [] @ (?h @ mid @ [EStatusPatch cur y None]))"
    using rep
    by (simp add: rset_sync_def allowed_example rset_apply_def example_rset_simps managed_example
        rset_work_def run_prune_example run_Apply_example example_manifest_simps
        hash_set_not_empty [symmetric] run_patchLastAppliedHash_example example_set_hash_def)
  then show thesis by (rule that [of r _ cur y]) simp_all
qed

theorem rset_requests_in_order_witness:
  "\<exists>E new pruned posted rest. trace_of (rset_sync E [] new_rset example_client example_cluster) [] = new \<and>
     new = pruned @ posted @ rest \<and> (\<forall>e\<in>set rest. \<not> is_http e) \<and> old_deletion \<in> set (pruned @ posted)"
proof (rule rset_sync_example)
  fix r new cur y
  let ?E = "example_world (OResourceSet new_rset)"
  assume run: "run_state (rset_sync ?E [] new_rset example_client example_cluster) [] = (r, [] @ new)"
    and old: "old_deletion \<in> set new"
  obtain pruned posted rest where new: "new = pruned @ posted @ rest" and quiet: "\<forall>e\<in>set rest. \<not> is_http e"
    using rset_requests_in_order [OF _ run] by auto
  have "old_deletion \<notin> set rest"
    using quiet by (auto simp: old_deletion_def)
  with old new have "old_deletion \<in> set (pruned @ posted)" by simp
  with run new quiet show ?thesis by (metis append_Nil snd_conv)
qed

theorem rset_hash_means_all_applied_witness:
  "\<exists>E new z. trace_of (rset_sync E [] new_rset example_client example_cluster) [] = new \<and>
     example_set_hash \<in> set new \<and> z \<in> set new \<and> applied_manifest E example_client example_manifest z"
proof (rule rset_sync_example)
  fix r new cur y
  let ?E = "example_world (OResourceSet new_rset)"
  assume run: "run_state (rset_sync ?E [] new_rset example_client example_cluster) [] = (r, [] @ new)"
    and p: "example_set_hash \<in> set new"
  have "\<exists>z\<in>set new. applied_manifest ?E example_client example_manifest z"
    using rset_hash_means_all_applied [OF _ run p [unfolded example_set_hash_def]]
    by (simp add: example_rset_simps)
  with run p show ?thesis by (metis append_Nil snd_conv)
qed

theorem rset_report_all_or_nothing_witness:
  "\<exists>E new cur y s. trace_of (rset_sync E [] new_rset example_client example_cluster) [] = new \<and>
     EStatusPatch cur y None \<in> set new \<and> y = put_rset_status s cur \<and> rss_ObservedGeneration s = 4"
proof (rule rset_sync_example)
  fix r new cur y
  let ?E = "example_world (OResourceSet new_rset)"
  assume run: "run_state (rset_sync ?E [] new_rset example_client example_cluster) [] = (r, [] @ new)"
    and st: "EStatusPatch cur y None \<in> set new"
  obtain s where "y = put_rset_status s cur" "rss_ObservedGeneration s = 4"
    using rset_report_all_or_nothing [OF _ run st] by (auto simp: example_rset_simps)
  with run st show ?thesis by (metis append_Nil snd_conv)
qed

end
