(* ===== verification/TrafficProbe.thy ===== *)
theory TrafficProbe
  imports Common
begin

text \<open>
  src/internal/controller/traffic_probe.go: the probe of an exposure's Service. A dial (with the
  close that follows it) and a GET are one exchange each; the status code is all that is read.
\<close>

section \<open>The code\<close>

text \<open>\<open>strconv.Atoi\<close>'s error.\<close>

definition atoi_error :: "string \<Rightarrow> num_error \<Rightarrow> go_error" where
  "atoi_error s e = TextErr (''strconv.Atoi: parsing '' @ Quote s @ '': '' @
     (case e of ErrSyntax \<Rightarrow> ''invalid syntax'' | ErrRange \<Rightarrow> ''value out of range''))"

definition expectedStatusRange :: "string \<Rightarrow> go_error + int \<times> int" where
  "expectedStatusRange raw =
     (if raw = [] then Inr (200, 399)
      else (case Cut raw (CHR ''-'') of
          (lo, rest) \<Rightarrow>
            (case Atoi lo of
               (_, Some e) \<Rightarrow> Inl (atoi_error lo e)
             | (minStatus, None) \<Rightarrow>
                 (case (case rest of
                     None \<Rightarrow> (minStatus, None)
                   | Some hi \<Rightarrow> (case Atoi hi of (n, e) \<Rightarrow> (n, map_option (atoi_error hi) e))) of
                    (_, Some e) \<Rightarrow> Inl e
                  | (maxStatus, None) \<Rightarrow>
                      if minStatus > maxStatus then
                        Inl (TextErr (''expectedStatus lower bound '' @ FormatInt minStatus @
                          '' is greater than upper bound '' @ FormatInt maxStatus))
                      else Inr (minStatus, maxStatus)))))"

definition JoinHostPort :: "string \<Rightarrow> string \<Rightarrow> string" where
  "JoinHostPort host port =
     (if Contains host (CHR '':'') then ''['' @ host @ '']:'' @ port else host @ '':'' @ port)"

definition probe_address :: "K1sExposure \<Rightarrow> string" where
  "probe_address x =
     (let spec = exp_TrafficProbe (exposure_Spec x);
          port = defaultI32 (tp_Port spec) (exposureServicePort x);
          host = exposureServiceName x @ ''.'' @ Namespace (exposure_Meta x) @ ''.svc''
      in JoinHostPort host (FormatInt (sint port)))"

definition probe_url :: "K1sExposure \<Rightarrow> string" where
  "probe_url x =
     (let spec = exp_TrafficProbe (exposure_Spec x);
          scheme = (if tp_Scheme spec = [] then K1sTrafficProbeSchemeHTTP else tp_Scheme spec);
          pth = (if tp_Path spec = [] then exposurePath x else tp_Path spec)
      in ToLower scheme @ ''://'' @ probe_address x @ pth)"

definition probe_verdict :: "string \<Rightarrow> int \<Rightarrow> go_error option" where
  "probe_verdict expected code =
     (case expectedStatusRange expected of
        Inl e \<Rightarrow> Some e
      | Inr (minStatus, maxStatus) \<Rightarrow>
          if code < minStatus \<or> code > maxStatus
          then Some (TextErr (''traffic probe returned HTTP '' @ FormatInt code)) else None)"

definition defaultTrafficProbe :: "env \<Rightarrow> K1sExposure \<Rightarrow> go_error option io" where
  "defaultTrafficProbe E x =
     (let spec = exp_TrafficProbe (exposure_Spec x);
          timeout = seconds (defaultI32 (tp_TimeoutSeconds spec) 3);
          probeType = (if tp_Type spec = [] then K1sTrafficProbeTypeHTTP else tp_Type spec)
      in if probeType = K1sTrafficProbeTypeTCP then probe_dial E (probe_address x) timeout
         else (case url_Parse (probe_url x) of
             Inl e \<Rightarrow> State_Monad.return (Some (TextErr e))
           | Inr _ \<Rightarrow> do {
               answer \<leftarrow> probe_get E (probe_url x) timeout;
               State_Monad.return
                 (case answer of
                    Inl e \<Rightarrow> Some e
                  | Inr code \<Rightarrow> probe_verdict (tp_ExpectedStatus spec) code)
             }))"

lemmas probe_defs [go_defs] = atoi_error_def expectedStatusRange_def JoinHostPort_def
  probe_address_def probe_url_def probe_verdict_def

section \<open>Lemmas\<close>

text \<open>The exchange of a probe, and when it counts as a success.\<close>

definition probe_succeeded :: "K1sExposure \<Rightarrow> event \<Rightarrow> bool" where
  "probe_succeeded x e =
     (case e of
        EProbeDial a _ None \<Rightarrow> a = probe_address x
      | EProbeGet u _ (Inr code) \<Rightarrow> u = probe_url x \<and>
          probe_verdict (tp_ExpectedStatus (exp_TrafficProbe (exposure_Spec x))) code = None
      | _ \<Rightarrow> False)"

definition is_probe :: "event \<Rightarrow> bool" where
  "is_probe e = (case e of EProbeDial _ _ _ \<Rightarrow> True | EProbeGet _ _ _ \<Rightarrow> True | _ \<Rightarrow> False)"

lemma defaultTrafficProbe_spec:
  "behaves (defaultTrafficProbe E x)
     (\<lambda>new r. length new \<le> 1 \<and> (\<forall>e\<in>set new. is_probe e) \<and>
        (r = None) = list_ex (probe_succeeded x) new)"
  unfolding defaultTrafficProbe_def Let_def
  by (auto simp: is_probe_def probe_succeeded_def split: sum.splits option.splits
      intro!: behaves_rules behaves_return exchange_steps behaves_mono [OF probe_dial_spec])

lemma dec_digits_ne_minus:
  "0 \<le> n \<Longrightarrow> c \<in> set (map digit_char (dec_digits n)) \<Longrightarrow> c \<noteq> CHR ''-''"
  using dec_digits_range digit_char_not_sign by fastforce

lemma FormatInt_no_dash: "0 \<le> n \<Longrightarrow> CHR ''-'' \<notin> set (FormatInt n) \<and> FormatInt n \<noteq> []"
  using dec_digits_ne_minus [of n] by (auto simp: FormatInt_def)

section \<open>Properties\<close>

text \<open>
  The expected status reads as documented: empty is 200 to 399, "a" is a alone, "a-b" is the
  range from a to b, and a range that is upside down is an error.
\<close>

lemma expectedStatusRange_correct:
  assumes "0 \<le> a" and "a < 2 ^ 63" and "0 \<le> b" and "b < 2 ^ 63"
  shows "expectedStatusRange [] = Inr (200, 399) \<and>
    expectedStatusRange (FormatInt a) = Inr (a, a) \<and>
    (a \<le> b \<longrightarrow> expectedStatusRange (FormatInt a @ ''-'' @ FormatInt b) = Inr (a, b)) \<and>
    (b < a \<longrightarrow> (\<exists>e. expectedStatusRange (FormatInt a @ ''-'' @ FormatInt b) = Inl e))"
  using assms Atoi_FormatInt [of a] Atoi_FormatInt [of b] FormatInt_no_dash [of a]
  by (simp add: expectedStatusRange_def Cut_no_sep Cut_append_sep)

lemma expectedStatusRange_correct_example:
  "expectedStatusRange ''200-204'' = Inr (200, 204)"
proof -
  have "FormatInt 200 = ''200''" and "FormatInt 204 = ''204''" by code_simp+
  then show ?thesis using expectedStatusRange_correct [of 200 204] by simp
qed

text \<open>
  The probe makes at most one exchange with the network, and reports success exactly when the
  TCP connection was made, or the HTTP answer's status lies in the expected range.
\<close>

lemma defaultTrafficProbe_correct:
  "behaves (defaultTrafficProbe E x)
     (\<lambda>new r. case new of
        [] \<Rightarrow> r \<noteq> None
      | [EProbeDial address _ failure] \<Rightarrow>
          tp_Type (exp_TrafficProbe (exposure_Spec x)) = ''TCP'' \<and> address = probe_address x \<and>
          r = failure
      | [EProbeGet u _ answer] \<Rightarrow>
          tp_Type (exp_TrafficProbe (exposure_Spec x)) \<noteq> ''TCP'' \<and> u = probe_url x \<and>
          (r = None) = (\<exists>code lo hi. answer = Inr code \<and> lo \<le> code \<and> code \<le> hi \<and>
             expectedStatusRange (tp_ExpectedStatus (exp_TrafficProbe (exposure_Spec x))) = Inr (lo, hi))
      | _ \<Rightarrow> False)"
  unfolding defaultTrafficProbe_def Let_def
  by (auto simp: probe_verdict_def split: sum.splits option.splits if_splits
      intro!: behaves_rules behaves_return exchange_steps behaves_mono [OF probe_dial_spec])

end
