(* ===== verification/Exposure.thy ===== *)
theory Exposure
  imports TrafficProbe Proxy Reporting
begin

text \<open>
  src/internal/controller/exposure_controller.go: the reconciler of K1sExposure. It reads the app's
  status from the k1s controller and the proxy's endpoints, makes the Service, EndpointSlice,
  Ingress and K1sAppMirror of the exposure, probes the traffic, and reports. \<open>exposure.Status\<close> is
  the record that the steps hand on.
\<close>

section \<open>Conditions and the status\<close>

definition set_exposure_condition ::
  "env \<Rightarrow> K1sExposure \<Rightarrow> string \<Rightarrow> condition_status \<Rightarrow> string \<Rightarrow> string \<Rightarrow>
     K1sExposureStatus \<Rightarrow> K1sExposureStatus io"
where
  "set_exposure_condition E x t st reason msg status = do {
     cs \<leftarrow> setCondition E (exs_Conditions status) t st reason msg (Generation (exposure_Meta x));
     State_Monad.return (status\<lparr>exs_Conditions := cs\<rparr>)
   }"

fun put_exposure_status :: "K1sExposureStatus \<Rightarrow> kobject \<Rightarrow> kobject" where
  "put_exposure_status status (OExposure x) = OExposure (x\<lparr>exposure_Status := status\<rparr>)"
| "put_exposure_status status x = x"

definition patch_exposure_status ::
  "env \<Rightarrow> K1sExposure \<Rightarrow> K1sExposureStatus \<Rightarrow> go_error option io" where
  "patch_exposure_status E x status =
     patchStatus E (OExposure x) (\<lambda>cur. State_Monad.return (put_exposure_status status cur))"

definition exposure_observed :: "K1sExposure \<Rightarrow> K1sExposureStatus" where
  "exposure_observed x = (exposure_Status x)\<lparr>exs_ObservedGeneration := Generation (exposure_Meta x)\<rparr>"

definition appMessage :: "env \<Rightarrow> bool \<Rightarrow> go_error option \<Rightarrow> string" where
  "appMessage E found err =
     (if found then ''k1s app status was read''
      else case err of None \<Rightarrow> ''k1s app was not found'' | Some e \<Rightarrow> Error E e)"

text \<open>The cluster or its credentials are not there: two conditions, and no schedule.\<close>

definition exposure_unavailable :: "env \<Rightarrow> K1sExposure \<Rightarrow> string \<Rightarrow> go_error \<Rightarrow> outcome io" where
  "exposure_unavailable E x msg e = do {
     status \<leftarrow> set_exposure_condition E x CondClusterReady ConditionFalse ReasonMissing (Error E e)
       (exposure_observed x);
     status \<leftarrow> set_exposure_condition E x CondReady ConditionFalse ReasonUnavailable msg status;
     err \<leftarrow> patch_exposure_status E x status;
     State_Monad.return (no_result, err)
   }"

definition exposure_no_client :: "env \<Rightarrow> K1sExposure \<Rightarrow> go_error \<Rightarrow> outcome io" where
  "exposure_no_client E x e = do {
     status \<leftarrow> set_exposure_condition E x CondClusterReady ConditionFalse ReasonInvalid (Error E e)
       (exposure_observed x);
     err \<leftarrow> patch_exposure_status E x status;
     State_Monad.return (no_result, err)
   }"

section \<open>The generated objects\<close>

text \<open>The mutate function of a \<open>CreateOrUpdate\<close>: take ownership, then set fields.\<close>

definition owned :: "env \<Rightarrow> K1sExposure \<Rightarrow> (kobject \<Rightarrow> kobject) \<Rightarrow> kobject \<Rightarrow> go_error + kobject" where
  "owned E x f current =
     (case e_setControllerReference E (OExposure x) current of Inl e \<Rightarrow> Inl e | Inr y \<Rightarrow> Inr (f y))"

fun set_service :: "Service \<Rightarrow> kobject \<Rightarrow> kobject" where
  "set_service wanted (OService s) = OService (s
     \<lparr>svc_Meta := (svc_Meta s)\<lparr>Labels := Labels (svc_Meta wanted)\<rparr>,
      svc_Type := svc_Type wanted, svc_Selector := None, svc_Ports := svc_Ports wanted\<rparr>)"
| "set_service wanted y = y"

fun set_slice :: "EndpointSlice \<Rightarrow> kobject \<Rightarrow> kobject" where
  "set_slice wanted (OEndpointSlice s) = OEndpointSlice (s
     \<lparr>eps_Meta := (eps_Meta s)\<lparr>Labels := Labels (eps_Meta wanted)\<rparr>,
      eps_AddressType := eps_AddressType wanted, eps_Ports := eps_Ports wanted,
      eps_Endpoints := eps_Endpoints wanted\<rparr>)"
| "set_slice wanted y = y"

fun set_ingress :: "Ingress \<Rightarrow> kobject \<Rightarrow> kobject" where
  "set_ingress wanted (OIngress s) = OIngress (s
     \<lparr>igr_Meta := (igr_Meta s)\<lparr>Labels := Labels (igr_Meta wanted),
        Annotations := Annotations (igr_Meta wanted)\<rparr>,
      igr_Spec := igr_Spec wanted\<rparr>)"
| "set_ingress wanted y = y"

fun set_mirror :: "K1sExposure \<Rightarrow> kobject \<Rightarrow> kobject" where
  "set_mirror x (OAppMirror m) = OAppMirror (m
     \<lparr>mirror_Spec := \<lparr>mir_ClusterRef = exp_ClusterRef (exposure_Spec x),
        mir_AppRef = exp_AppRef (exposure_Spec x),
        mir_ExposureRef = Some \<lparr>ref_Name = Name (exposure_Meta x), ref_Namespace = []\<rparr>\<rparr>\<rparr>)"
| "set_mirror x y = y"

text \<open>The objects handed to \<open>CreateOrUpdate\<close> and \<open>Delete\<close>: a name and a namespace.\<close>

definition bare_service :: "string \<Rightarrow> string \<Rightarrow> Service" where
  "bare_service name namespace = \<lparr>svc_Meta = built_meta name namespace Map.empty, svc_Type = [],
     svc_Selector = None, svc_Ports = []\<rparr>"

definition bare_slice :: "string \<Rightarrow> string \<Rightarrow> EndpointSlice" where
  "bare_slice name namespace = \<lparr>eps_Meta = built_meta name namespace Map.empty, eps_AddressType = [],
     eps_Ports = [], eps_Endpoints = []\<rparr>"

definition bare_ingress :: "string \<Rightarrow> string \<Rightarrow> Ingress" where
  "bare_ingress name namespace = \<lparr>igr_Meta = built_meta name namespace Map.empty,
     igr_Spec = \<lparr>igs_ClassName = None, igs_Rules = [], igs_TLS = []\<rparr>\<rparr>"

definition bare_mirror :: "string \<Rightarrow> string \<Rightarrow> K1sAppMirror" where
  "bare_mirror name namespace =
     \<lparr>mirror_Meta = built_meta name namespace Map.empty,
      mirror_Spec = \<lparr>mir_ClusterRef = \<lparr>ref_Name = [], ref_Namespace = []\<rparr>,
        mir_AppRef = \<lparr>ar_Name = [], ar_Namespace = []\<rparr>, mir_ExposureRef = None\<rparr>,
      mirror_Status = \<lparr>mis_ObservedGeneration = 0, mis_Ready = False,
        mis_Replicas = \<lparr>rep_Desired = 0, rep_Ready = 0, rep_Live = 0\<rparr>, mis_Image = [], mis_Revision = [],
        mis_ObservedHost = [], mis_Placements = [], mis_LastSyncTime = None, mis_Conditions = []\<rparr>\<rparr>"

definition reconcileService :: "env \<Rightarrow> K1sCluster \<Rightarrow> K1sExposure \<Rightarrow> go_error option io" where
  "reconcileService E cluster x = do {
     let wanted = BuildExposureService cluster x;
     r \<leftarrow> e_createOrUpdate E
       (OService (bare_service (Name (svc_Meta wanted)) (Namespace (svc_Meta wanted))))
       (owned E x (set_service wanted));
     State_Monad.return (fst r)
   }"

definition reconcileEndpointSlice ::
  "env \<Rightarrow> K1sCluster \<Rightarrow> K1sExposure \<Rightarrow> ProxyEndpoint list \<Rightarrow> go_error option io" where
  "reconcileEndpointSlice E cluster x endpoints = do {
     let wanted = BuildExposureEndpointSlice cluster x endpoints;
     r \<leftarrow> e_createOrUpdate E
       (OEndpointSlice (bare_slice (Name (eps_Meta wanted)) (Namespace (eps_Meta wanted))))
       (owned E x (set_slice wanted));
     State_Monad.return (fst r)
   }"

definition reconcileIngress :: "env \<Rightarrow> K1sCluster \<Rightarrow> K1sExposure \<Rightarrow> go_error option io" where
  "reconcileIngress E cluster x =
     (case BuildExposureIngress cluster x of
        Inl e \<Rightarrow> State_Monad.return (Some e)
      | Inr None \<Rightarrow> do {
          err \<leftarrow> kube_Delete E
            (OIngress (bare_ingress (exposureIngressName x) (Namespace (exposure_Meta x))));
          State_Monad.return
            (case err of Some e \<Rightarrow> if kube_IsNotFound e then None else Some e | None \<Rightarrow> None)
        }
      | Inr (Some wanted) \<Rightarrow> do {
          r \<leftarrow> e_createOrUpdate E
            (OIngress (bare_ingress (Name (igr_Meta wanted)) (Namespace (igr_Meta wanted))))
            (owned E x (set_ingress wanted));
          State_Monad.return (fst r)
        })"

definition mirror_placement :: "Placement \<Rightarrow> K1sPlacementStatus" where
  "mirror_placement p = \<lparr>plc_Node = pl_Node p, plc_Site = [], plc_Ready = pl_Ready p\<rparr>"

definition mirrorStatusFromApp ::
  "env \<Rightarrow> K1sAppMirror \<Rightarrow> AppStatus \<Rightarrow> bool \<Rightarrow> K1sAppMirrorStatus io" where
  "mirrorStatusFromApp E mirror app appFound = do {
     now \<leftarrow> Now E;
     let status =
       \<lparr>mis_ObservedGeneration = Generation (mirror_Meta mirror),
        mis_Ready = (appFound \<and> as_Ready app),
        mis_Replicas = \<lparr>rep_Desired = as_DesiredReplicas app, rep_Ready = as_ReadyReplicas app,
          rep_Live = as_LiveReplicas app\<rparr>,
        mis_Image = as_Image app,
        mis_Revision = as_Revision app,
        mis_ObservedHost = as_IngressHost app,
        mis_Placements = map mirror_placement (as_Placements app),
        mis_LastSyncTime = Some now,
        mis_Conditions = []\<rparr>;
     cs \<leftarrow> setCondition E (mis_Conditions status) CondReady (conditionStatus (mis_Ready status))
       (reasonForBool (mis_Ready status)) (readyMessage (mis_Ready status))
       (Generation (mirror_Meta mirror));
     State_Monad.return (status\<lparr>mis_Conditions := cs\<rparr>)
   }"

definition mirror_mutate :: "env \<Rightarrow> AppStatus \<Rightarrow> bool \<Rightarrow> kobject \<Rightarrow> kobject io" where
  "mirror_mutate E app appFound cur =
     (case cur of
        OAppMirror m \<Rightarrow> do {
          status \<leftarrow> mirrorStatusFromApp E m app appFound;
          State_Monad.return (OAppMirror (m\<lparr>mirror_Status := status\<rparr>))
        }
      | _ \<Rightarrow> State_Monad.return cur)"

definition reconcileMirror :: "env \<Rightarrow> K1sExposure \<Rightarrow> AppStatus \<Rightarrow> bool \<Rightarrow> go_error option io" where
  "reconcileMirror E x app appFound = do {
     r \<leftarrow> e_createOrUpdate E
       (OAppMirror (bare_mirror (Name (exposure_Meta x)) (Namespace (exposure_Meta x))))
       (owned E x (set_mirror x));
     case fst r of
       Some e \<Rightarrow> State_Monad.return (Some e)
     | None \<Rightarrow> patchStatus E (snd r) (mirror_mutate E app appFound)
   }"

section \<open>The reconciler\<close>

text \<open>What the probe says, and the condition that follows from it. \<open>probe\<close> is the field
  \<open>TrafficProbe\<close> of the reconciler.\<close>

definition exposure_traffic ::
  "env \<Rightarrow> (K1sExposure \<Rightarrow> go_error option io) option \<Rightarrow> K1sExposure \<Rightarrow> K1sExposureStatus \<Rightarrow>
     (bool \<times> K1sExposureStatus) io" where
  "exposure_traffic E probe x status =
     (if probe_EnabledOrDefault (exp_TrafficProbe (exposure_Spec x)) then do {
        err \<leftarrow> (case probe of None \<Rightarrow> defaultTrafficProbe E x | Some p \<Rightarrow> p x);
        case err of
          Some e \<Rightarrow> do {
            status \<leftarrow> set_exposure_condition E x CondTrafficReady ConditionFalse ReasonUnavailable
              (Error E e) status;
            State_Monad.return (False, status)
          }
        | None \<Rightarrow> do {
            status \<leftarrow> set_exposure_condition E x CondTrafficReady ConditionTrue ReasonReady
              ''traffic probe succeeded'' status;
            State_Monad.return (True, status)
          }
      }
      else do {
        status \<leftarrow> set_exposure_condition E x CondTrafficReady ConditionUnknown ReasonPending
          ''traffic probe disabled'' status;
        State_Monad.return (True, status)
      })"

text \<open>The status after the generated objects were reconciled, before its last conditions.\<close>

definition exposure_synced ::
  "K1sExposure \<Rightarrow> int \<Rightarrow> bool \<Rightarrow> ProxyEndpoint list \<Rightarrow> K1sExposureStatus \<Rightarrow> K1sExposureStatus" where
  "exposure_synced x now appReady trafficEndpoints status = status
     \<lparr>exs_ObservedGeneration := Generation (exposure_Meta x),
      exs_AppReady := appReady,
      exs_ServiceName := exposureServiceName x,
      exs_EndpointSliceName := exposureEndpointSliceName x,
      exs_IngressName := (if ingress_EnabledOrDefault (exp_Ingress (exposure_Spec x))
        then exposureIngressName x else []),
      exs_ProxyEndpointCount := of_nat (length trafficEndpoints),
      exs_LastAppSyncTime := Some now\<rparr>"

definition exposure_report ::
  "env \<Rightarrow> (K1sExposure \<Rightarrow> go_error option io) option \<Rightarrow> K1sExposure \<Rightarrow> K1sCluster \<Rightarrow> bool \<Rightarrow> bool \<Rightarrow>
     bool \<Rightarrow> ProxyEndpoint list \<Rightarrow> K1sExposureStatus \<Rightarrow> outcome io" where
  "exposure_report E probe x cluster appFound appReady proxyReady trafficEndpoints status = do {
     now \<leftarrow> Now E;
     status \<leftarrow> set_exposure_condition E x CondResourcesApplied ConditionTrue ReasonApplied
       ''generated resources reconciled'' (exposure_synced x now appReady trafficEndpoints status);
     status \<leftarrow> set_exposure_condition E x CondClusterReady ConditionTrue ReasonReady
       ''referenced cluster loaded'' status;
     traffic \<leftarrow> exposure_traffic E probe x status;
     let ready = (appFound \<and> appReady \<and> proxyReady \<and> fst traffic);
     status \<leftarrow> set_exposure_condition E x CondReady (conditionStatus ready) (reasonForBool ready)
       (readyMessage ready) (snd traffic);
     err \<leftarrow> patch_exposure_status E x status;
     State_Monad.return
       (requeue_after (pollInterval (cl_PollIntervalSeconds (cluster_Spec cluster))), err)
   }"

text \<open>The Ingress: an error is reported, and does not stop the pass.\<close>

definition exposure_ingress ::
  "env \<Rightarrow> K1sExposure \<Rightarrow> K1sCluster \<Rightarrow> K1sExposureStatus \<Rightarrow> K1sExposureStatus io" where
  "exposure_ingress E x cluster status = do {
     err \<leftarrow> reconcileIngress E cluster x;
     case err of
       Some e \<Rightarrow> set_exposure_condition E x CondIngressReady ConditionFalse ReasonInvalid (Error E e) status
     | None \<Rightarrow> set_exposure_condition E x CondIngressReady ConditionTrue ReasonApplied
         ''ingress reconciled'' status
   }"

text \<open>The steps that write, for one set of endpoints; an error ends the pass.\<close>

definition exposure_writing ::
  "env \<Rightarrow> (K1sExposure \<Rightarrow> go_error option io) option \<Rightarrow> K1sExposure \<Rightarrow> K1sCluster \<Rightarrow> AppStatus \<Rightarrow> bool \<Rightarrow>
     bool \<Rightarrow> ProxyEndpoint list \<Rightarrow> K1sExposureStatus \<Rightarrow> outcome io" where
  "exposure_writing E probe x cluster app found proxy eps status = do {
     err \<leftarrow> reconcileService E cluster x;
     case err of
       Some e \<Rightarrow> State_Monad.return (no_result, Some e)
     | None \<Rightarrow> do {
         err \<leftarrow> reconcileEndpointSlice E cluster x eps;
         case err of
           Some e \<Rightarrow> State_Monad.return (no_result, Some e)
         | None \<Rightarrow> do {
             status \<leftarrow> exposure_ingress E x cluster status;
             err \<leftarrow> reconcileMirror E x app found;
             case err of
               Some e \<Rightarrow> do {
                 _ \<leftarrow> log_message ''unable to reconcile app mirror'';
                 State_Monad.return (no_result, Some e)
               }
             | None \<Rightarrow> exposure_report E probe x cluster found (as_Ready app) proxy eps status
           }
       }
   }"

definition exposure_sync ::
  "env \<Rightarrow> reader option \<Rightarrow> (K1sExposure \<Rightarrow> go_error option io) option \<Rightarrow> K1sExposure \<Rightarrow> K1sCluster \<Rightarrow>
     Client \<Rightarrow> outcome io" where
  "exposure_sync E Reader probe x cluster api = do {
     app \<leftarrow> api_AppStatus E api (NamespaceOrDefault (exp_AppRef (exposure_Spec x)))
       (ar_Name (exp_AppRef (exposure_Spec x)));
     let appFound = (snd app = None);
     let appReady = as_Ready (fst app);
     status \<leftarrow> set_exposure_condition E x CondAppFound (conditionStatus appFound)
       (reasonForBool appFound) (appMessage E appFound (snd app)) (exposure_Status x);
     status \<leftarrow> set_exposure_condition E x CondAppReady (conditionStatus appReady)
       (reasonForBool appReady) (appReadyMessage appReady) status;
     let reader = (case Reader of None \<Rightarrow> CachedClient | Some r \<Rightarrow> r);
     proxy \<leftarrow> discoverProxyEndpoints E reader cluster;
     let proxyReady = (snd proxy = None \<and> 0 < length (fst proxy));
     let trafficEndpoints = (if appFound then fst proxy else []);
     status \<leftarrow> set_exposure_condition E x CondProxyEndpointsReady (conditionStatus proxyReady)
       (reasonForBool proxyReady) (proxyMessage (length (fst proxy))) status;
     exposure_writing E probe x cluster (fst app) appFound proxyReady trafficEndpoints status
   }"

definition reconcile_exposure ::
  "env \<Rightarrow> reader option \<Rightarrow> (K1sExposure \<Rightarrow> go_error option io) option \<Rightarrow> K1sExposure \<Rightarrow> outcome io" where
  "reconcile_exposure E Reader probe x = do {
     found \<leftarrow> kube_Get E CachedClient KindCluster
       \<lparr>nn_Namespace = NamespaceOr (exp_ClusterRef (exposure_Spec x)) (Namespace (exposure_Meta x)),
        nn_Name = ref_Name (exp_ClusterRef (exposure_Spec x))\<rparr>;
     case found of
       Inl e \<Rightarrow> exposure_unavailable E x ''referenced cluster is not ready'' e
     | Inr (OCluster cluster) \<Rightarrow> do {
         creds \<leftarrow> loadCredentials E (Namespace (cluster_Meta cluster))
           (cl_AuthSecretRef (cluster_Spec cluster));
         case snd creds of
           Some e \<Rightarrow> exposure_unavailable E x ''cluster credentials are not available'' e
         | None \<Rightarrow>
             (case NewClient E (ep_URL (cl_Controller (cluster_Spec cluster)))
                 [WithBearerToken (readToken (fst creds)), WithCABundle (caBundle (fst creds))] of
                Inl e \<Rightarrow> exposure_no_client E x e
              | Inr api \<Rightarrow> exposure_sync E Reader probe x cluster api)
       }
     | Inr _ \<Rightarrow> State_Monad.return (no_result, None)
   }"

definition K1sExposure_Reconcile ::
  "env \<Rightarrow> reader option \<Rightarrow> (K1sExposure \<Rightarrow> go_error option io) option \<Rightarrow> namespaced_name \<Rightarrow> outcome io"
where
  "K1sExposure_Reconcile E Reader probe req = do {
     found \<leftarrow> kube_Get E CachedClient KindExposure req;
     case found of
       Inl e \<Rightarrow> State_Monad.return (no_result, if kube_IsNotFound e then None else Some e)
     | Inr (OExposure x) \<Rightarrow> reconcile_exposure E Reader probe x
     | Inr _ \<Rightarrow> State_Monad.return (no_result, None)
   }"

end
