(* ===== verification/ExposureSpec.thy ===== *)
theory ExposureSpec
  imports Exposure
begin

text \<open>
  What a reconciliation of a K1sExposure does: which objects it writes and what it writes into them,
  on what it rests what it reports, and what its success means.
\<close>

section \<open>The generated objects\<close>

text \<open>An object as this operator generates it for the exposure, with proxy endpoints \<open>eps\<close>. Fields of
  the metadata that the operator does not set (annotations other than an Ingress's, finalizers,
  owners besides its own) are those of the object found.\<close>

definition generated_service :: "K1sCluster \<Rightarrow> K1sExposure \<Rightarrow> Service \<Rightarrow> bool" where
  "generated_service cluster x s \<longleftrightarrow>
     Name (svc_Meta s) = exposureServiceName x \<and> Namespace (svc_Meta s) = Namespace (exposure_Meta x) \<and>
     Labels (svc_Meta s) = managedLabels (Name (cluster_Meta cluster)) x \<and>
     svc_Type s = ''ClusterIP'' \<and> svc_Selector s = None \<and>
     svc_Ports s = svc_Ports (BuildExposureService cluster x)"

definition generated_slice ::
  "K1sCluster \<Rightarrow> K1sExposure \<Rightarrow> ProxyEndpoint list \<Rightarrow> EndpointSlice \<Rightarrow> bool" where
  "generated_slice cluster x eps s \<longleftrightarrow>
     Name (eps_Meta s) = exposureEndpointSliceName x \<and>
     Namespace (eps_Meta s) = Namespace (exposure_Meta x) \<and>
     Labels (eps_Meta s) = (managedLabels (Name (cluster_Meta cluster)) x)
       (LabelServiceName \<mapsto> exposureServiceName x) \<and>
     eps_AddressType s = ''IPv4'' \<and>
     eps_Ports s = eps_Ports (BuildExposureEndpointSlice cluster x eps) \<and>
     eps_Endpoints s = map endpoint_of (filter (\<lambda>p. pe_Addresses p \<noteq> []) eps)"

definition generated_ingress :: "K1sCluster \<Rightarrow> K1sExposure \<Rightarrow> Ingress \<Rightarrow> bool" where
  "generated_ingress cluster x s \<longleftrightarrow>
     (\<exists>wanted. BuildExposureIngress cluster x = Inr (Some wanted) \<and>
        Name (igr_Meta s) = exposureIngressName x \<and>
        Namespace (igr_Meta s) = Namespace (exposure_Meta x) \<and>
        Labels (igr_Meta s) = managedLabels (Name (cluster_Meta cluster)) x \<and>
        Annotations (igr_Meta s) = Some (ing_Annotations (exp_Ingress (exposure_Spec x))) \<and>
        igr_Spec s = igr_Spec wanted)"

definition generated_mirror :: "K1sExposure \<Rightarrow> K1sAppMirror \<Rightarrow> bool" where
  "generated_mirror x m \<longleftrightarrow>
     Name (mirror_Meta m) = Name (exposure_Meta x) \<and>
     Namespace (mirror_Meta m) = Namespace (exposure_Meta x) \<and>
     mir_ClusterRef (mirror_Spec m) = exp_ClusterRef (exposure_Spec x) \<and>
     mir_AppRef (mirror_Spec m) = exp_AppRef (exposure_Spec x)"

fun generated :: "K1sCluster \<Rightarrow> K1sExposure \<Rightarrow> ProxyEndpoint list \<Rightarrow> kobject \<Rightarrow> bool" where
  "generated cluster x eps (OService s) = generated_service cluster x s"
| "generated cluster x eps (OEndpointSlice s) = generated_slice cluster x eps s"
| "generated cluster x eps (OIngress s) = generated_ingress cluster x s"
| "generated cluster x eps (OAppMirror m) = generated_mirror x m"
| "generated cluster x eps _ = False"

lemmas generated_defs = generated_service_def generated_slice_def generated_ingress_def
  generated_mirror_def

text \<open>The four objects, by kind, namespace and name.\<close>

definition service_of :: "K1sExposure \<Rightarrow> kobject" where
  "service_of x = OService (bare_service (exposureServiceName x) (Namespace (exposure_Meta x)))"

definition slice_of :: "K1sExposure \<Rightarrow> kobject" where
  "slice_of x = OEndpointSlice (bare_slice (exposureEndpointSliceName x) (Namespace (exposure_Meta x)))"

definition ingress_of :: "K1sExposure \<Rightarrow> kobject" where
  "ingress_of x = OIngress (bare_ingress (exposureIngressName x) (Namespace (exposure_Meta x)))"

definition mirror_of :: "K1sExposure \<Rightarrow> kobject" where
  "mirror_of x = OAppMirror (bare_mirror (Name (exposure_Meta x)) (Namespace (exposure_Meta x)))"

lemmas object_of_defs = service_of_def slice_of_def ingress_of_def mirror_of_def

text \<open>The exchanges show an object as generated in the API.\<close>

definition applied ::
  "K1sCluster \<Rightarrow> K1sExposure \<Rightarrow> ProxyEndpoint list \<Rightarrow> kobject \<Rightarrow> event list \<Rightarrow> bool" where
  "applied cluster x eps obj new \<longleftrightarrow> (\<exists>y. same_object y obj \<and> generated cluster x eps y \<and> stored y new)"

definition all_applied :: "K1sCluster \<Rightarrow> K1sExposure \<Rightarrow> ProxyEndpoint list \<Rightarrow> event list \<Rightarrow> bool" where
  "all_applied cluster x eps new \<longleftrightarrow> applied cluster x eps (service_of x) new \<and>
     applied cluster x eps (slice_of x) new \<and> applied cluster x eps (mirror_of x) new"

text \<open>The Ingress is as generated, or was deleted because it is disabled.\<close>

definition ingress_settled :: "K1sCluster \<Rightarrow> K1sExposure \<Rightarrow> event list \<Rightarrow> bool" where
  "ingress_settled cluster x new \<longleftrightarrow>
     (if ingress_EnabledOrDefault (exp_Ingress (exposure_Spec x)) then applied cluster x [] (ingress_of x) new
      else \<exists>err. EDelete (ingress_of x) err \<in> set new \<and> (\<forall>e. err = Some e \<longrightarrow> kube_IsNotFound e))"

lemma applied_append [intro]:
  "applied cluster x eps obj xs \<Longrightarrow> applied cluster x eps obj (xs @ ys)"
  "applied cluster x eps obj ys \<Longrightarrow> applied cluster x eps obj (xs @ ys)"
  by (auto simp: applied_def)

lemma ingress_settled_append [intro]:
  "ingress_settled cluster x xs \<Longrightarrow> ingress_settled cluster x (xs @ ys)"
  "ingress_settled cluster x ys \<Longrightarrow> ingress_settled cluster x (xs @ ys)"
  by (auto simp: ingress_settled_def split: if_splits)

text \<open>A change of the Kubernetes API that a reconciliation of \<open>x\<close> may make.\<close>

definition exposure_write :: "K1sCluster \<Rightarrow> K1sExposure \<Rightarrow> ProxyEndpoint list \<Rightarrow> event \<Rightarrow> bool" where
  "exposure_write cluster x eps e \<longleftrightarrow> (case e of
     ECreate y _ \<Rightarrow> generated cluster x eps y
   | EUpdate cur y _ \<Rightarrow> same_object y cur \<and> generated cluster x eps y
   | EDelete y _ \<Rightarrow> y = ingress_of x \<and> \<not> ingress_EnabledOrDefault (exp_Ingress (exposure_Spec x))
   | EStatusPatch cur y _ \<Rightarrow> same_object y cur \<and>
       (same_object cur (OExposure x) \<or> same_object cur (mirror_of x))
   | EPatch _ _ _ \<Rightarrow> False
   | _ \<Rightarrow> True)"

lemma observes_write: "observes new \<Longrightarrow> e \<in> set new \<Longrightarrow> exposure_write cluster x eps e"
  by (auto simp: observes_def exposure_write_def split: event.splits)

lemma owned_Inr:
  assumes "lawful E" and "owned E x f cur = Inr y"
  obtains refs where "y = f (update_meta (\<lambda>m. m\<lparr>OwnerReferences := refs\<rparr>) cur)"
  using assms lawfulD(4) [OF assms(1)]
  by (auto simp: owned_def sets_owner_def split: sum.splits)

lemma set_same_object [simp]:
  "same_object (set_service ws y) z = same_object y z"
  "same_object (set_slice we y) z = same_object y z"
  "same_object (set_ingress wi y) z = same_object y z"
  "same_object (set_mirror x y) z = same_object y z"
  by (cases y; simp add: same_object_def ObjectKeyFromObject_def)+

lemma same_object_owner [simp]:
  "same_object (update_meta (\<lambda>m. m\<lparr>OwnerReferences := refs\<rparr>) y) z = same_object y z"
  by (simp add: same_object_def ObjectKeyFromObject_def)

text \<open>Every status patch of the exposure itself writes a status that satisfies \<open>P\<close>.\<close>

definition exposure_reported :: "K1sExposure \<Rightarrow> (K1sExposureStatus \<Rightarrow> bool) \<Rightarrow> event \<Rightarrow> bool" where
  "exposure_reported x P e \<longleftrightarrow> (case e of
     EStatusPatch cur y _ \<Rightarrow> same_object cur (OExposure x) \<longrightarrow> (\<exists>s. y = put_exposure_status s cur \<and> P s)
   | _ \<Rightarrow> True)"

text \<open>Exchanges of the steps that write: changes of the exposure's objects, no request.\<close>

definition writes_only :: "K1sCluster \<Rightarrow> K1sExposure \<Rightarrow> ProxyEndpoint list \<Rightarrow> event list \<Rightarrow> bool" where
  "writes_only cluster x eps new \<longleftrightarrow> (\<forall>e\<in>set new. exposure_write cluster x eps e \<and> \<not> is_http e)"

lemma writes_only_simps [simp]:
  "writes_only cluster x eps []"
  "writes_only cluster x eps (xs @ ys) \<longleftrightarrow> writes_only cluster x eps xs \<and> writes_only cluster x eps ys"
  by (auto simp: writes_only_def)

lemma clock_writes_only: "only_clock new \<Longrightarrow> writes_only cluster x eps new"
  by (auto simp: writes_only_def only_clock_def exposure_write_def split: event.splits)

text \<open>A run of steps before the report: no status patch of the exposure.\<close>

definition no_report :: "K1sExposure \<Rightarrow> event list \<Rightarrow> bool" where
  "no_report x new \<longleftrightarrow> (\<forall>e\<in>set new. \<forall>P. exposure_reported x P e)"

lemma no_report_simps [simp]:
  "no_report x []" "no_report x (xs @ ys) \<longleftrightarrow> no_report x xs \<and> no_report x ys"
  by (auto simp: no_report_def)

lemma clock_no_report: "only_clock new \<Longrightarrow> no_report x new"
  by (auto simp: no_report_def only_clock_def exposure_reported_def split: event.splits)

text \<open>One \<open>CreateOrUpdate\<close>: when the setter keeps the object and makes of it what is generated, its
  exchanges are writes of the exposure.\<close>

lemma upsert_spec:
  assumes "lawful E"
    and same: "\<And>y. same_object (f y) y"
    and gen: "\<And>y. same_object y obj \<Longrightarrow> generated cluster x eps (f y)"
  shows "behaves (e_createOrUpdate E obj (owned E x f))
    (\<lambda>new r. writes_only cluster x eps new \<and> no_report x new \<and> same_object (snd r) obj \<and>
       (fst r = None \<longrightarrow> applied cluster x eps obj new))"
proof -
  have keeps: "same_object y z \<and> (same_object z obj \<longrightarrow> generated cluster x eps y)"
    if made: "owned E x f z = Inr y" for y z
  proof -
    obtain refs where y: "y = f (update_meta (\<lambda>m. m\<lparr>OwnerReferences := refs\<rparr>) z)"
      by (rule owned_Inr [OF assms(1) made])
    show ?thesis
      using same [of "update_meta (\<lambda>m. m\<lparr>OwnerReferences := refs\<rparr>) z"]
        gen [of "update_meta (\<lambda>m. m\<lparr>OwnerReferences := refs\<rparr>) z"]
      by (auto simp: y intro: same_object_trans)
  qed
  have "behaves (e_createOrUpdate E obj (owned E x f))
      (\<lambda>new r. (\<forall>e\<in>set new. upsert_event obj (owned E x f) e) \<and> same_object (snd r) obj \<and>
        (fst r = None \<longrightarrow> upserted obj (owned E x f) new))"
    using lawfulD(3) [OF assms(1)] keeps by (simp add: creates_or_updates_def)
  moreover have "exposure_write cluster x eps e \<and> \<not> is_http e \<and> exposure_reported x P e"
    if "upsert_event obj (owned E x f) e" for e P
    using that keeps same_object_refl
    by (cases e) (fastforce simp: upsert_event_def exposure_write_def exposure_reported_def)+
  moreover have "applied cluster x eps obj new" if "upserted obj (owned E x f) new" for new
    using that keeps same_object_trans by (fastforce simp: upserted_def applied_def)
  ultimately show ?thesis
    by (auto simp: writes_only_def no_report_def elim: behaves_mono)
qed

lemma same_object_built:
  "same_object (OService s) (OService (bare_service n ns)) \<longleftrightarrow> Name (svc_Meta s) = n \<and> Namespace (svc_Meta s) = ns"
  "same_object (OEndpointSlice s') (OEndpointSlice (bare_slice n ns)) \<longleftrightarrow>
     Name (eps_Meta s') = n \<and> Namespace (eps_Meta s') = ns"
  "same_object (OIngress i) (OIngress (bare_ingress n ns)) \<longleftrightarrow>
     Name (igr_Meta i) = n \<and> Namespace (igr_Meta i) = ns"
  "same_object (OAppMirror m) (OAppMirror (bare_mirror n ns)) \<longleftrightarrow>
     Name (mirror_Meta m) = n \<and> Namespace (mirror_Meta m) = ns"
  by (auto simp: same_object_def ObjectKeyFromObject_def bare_service_def bare_slice_def
      bare_ingress_def bare_mirror_def built_meta_def)

text \<open>An object of the same kind as a bare one.\<close>

lemma same_object_kind:
  "same_object y (OService b1) \<Longrightarrow> \<exists>s. y = OService s"
  "same_object y (OEndpointSlice b2) \<Longrightarrow> \<exists>s. y = OEndpointSlice s"
  "same_object y (OIngress b3) \<Longrightarrow> \<exists>s. y = OIngress s"
  "same_object y (OAppMirror b4) \<Longrightarrow> \<exists>s. y = OAppMirror s"
  by (cases y; simp add: same_object_def)+

section \<open>Each step\<close>

lemma generated_set:
  "same_object y (service_of x) \<Longrightarrow>
     generated cluster x eps (set_service (BuildExposureService cluster x) y)"
  "same_object y (slice_of x) \<Longrightarrow>
     generated cluster x eps (set_slice (BuildExposureEndpointSlice cluster x eps) y)"
  "same_object y (ingress_of x) \<Longrightarrow> BuildExposureIngress cluster x = Inr (Some wanted) \<Longrightarrow>
     generated cluster x eps (set_ingress wanted y)"
  "same_object y (mirror_of x) \<Longrightarrow> generated cluster x eps (set_mirror x y)"
  using same_object_kind
  by (fastforce simp: same_object_built generated_defs BuildExposureService_def built_meta_def Let_def
      BuildExposureEndpointSlice_def BuildExposureIngress_def object_of_defs
      split: if_splits)+

lemma reconcileService_spec:
  assumes "lawful E"
  shows "behaves (reconcileService E cluster x)
    (\<lambda>new r. writes_only cluster x eps new \<and> no_report x new \<and> (r = None \<longrightarrow> applied cluster x eps (service_of x) new))"
proof -
  have meta: "svc_Meta (BuildExposureService cluster x) = built_meta (exposureServiceName x)
      (Namespace (exposure_Meta x)) (managedLabels (Name (cluster_Meta cluster)) x)"
    by (simp add: BuildExposureService_def Let_def)
  show ?thesis
    unfolding reconcileService_def Let_def
    by (rule behaves_bind [OF upsert_spec [OF assms _ generated_set(1)]])
      (auto simp: meta built_meta_def writes_only_def service_of_def intro!: behaves_return)
qed

lemma reconcileEndpointSlice_spec:
  assumes "lawful E"
  shows "behaves (reconcileEndpointSlice E cluster x eps)
    (\<lambda>new r. writes_only cluster x eps new \<and> no_report x new \<and> (r = None \<longrightarrow> applied cluster x eps (slice_of x) new))"
proof -
  have meta: "Name (eps_Meta (BuildExposureEndpointSlice cluster x eps)) = exposureEndpointSliceName x"
      "Namespace (eps_Meta (BuildExposureEndpointSlice cluster x eps)) = Namespace (exposure_Meta x)"
    by (simp_all add: BuildExposureEndpointSlice_def Let_def built_meta_def)
  show ?thesis
    unfolding reconcileEndpointSlice_def Let_def
    by (rule behaves_bind [OF upsert_spec [OF assms _ generated_set(2)]])
      (auto simp: meta writes_only_def slice_of_def intro!: behaves_return)
qed

lemma reconcileIngress_spec:
  assumes "lawful E"
  shows "behaves (reconcileIngress E cluster x)
    (\<lambda>new r. writes_only cluster x eps new \<and> no_report x new \<and> (r = None \<longrightarrow> ingress_settled cluster x new))"
proof (cases "BuildExposureIngress cluster x")
  case (Inl e)
  then show ?thesis by (auto simp: reconcileIngress_def intro: behaves_return)
next
  case (Inr wanted)
  show ?thesis
  proof (cases wanted)
    case None
    then have "\<not> ingress_EnabledOrDefault (exp_Ingress (exposure_Spec x))"
      using Inr by (auto simp: BuildExposureIngress_def Let_def split: if_splits)
    with Inr None show ?thesis
      by (auto simp: reconcileIngress_def writes_only_def exposure_write_def ingress_of_def no_report_def
            exposure_reported_def ingress_settled_def
          intro!: exchange_steps behaves_return split: option.splits if_splits)
  next
    case (Some w)
    then have w: "Name (igr_Meta w) = exposureIngressName x" "Namespace (igr_Meta w) = Namespace (exposure_Meta x)"
      and on: "ingress_EnabledOrDefault (exp_Ingress (exposure_Spec x))"
      using Inr by (auto simp: BuildExposureIngress_def Let_def built_meta_def split: if_splits)
    have any: "applied cluster x eps (ingress_of x) new \<Longrightarrow> ingress_settled cluster x new" for new
      using on same_object_kind(3) by (fastforce simp: ingress_settled_def applied_def ingress_of_def)
    show ?thesis
      unfolding reconcileIngress_def Inr Some sum.case option.case w
      by (rule behaves_bind [OF upsert_spec [OF assms _ generated_set(3), where cluster = cluster and eps = eps]])
        (use Inr Some any in \<open>auto simp: ingress_of_def intro!: behaves_return\<close>)
  qed
qed

text \<open>The status of the mirror is patched through a change that reads the clock twice.\<close>

lemma mirror_mutate_spec:
  assumes "lawful E"
  shows "behaves (mirror_mutate E app found cur) (\<lambda>new y. only_clock new \<and> same_object y cur)"
  unfolding mirror_mutate_def mirrorStatusFromApp_def Let_def
  by (auto simp: same_object_def ObjectKeyFromObject_def split: kobject.splits
      intro!: behaves_return behaves_bind [OF Now_spec] setCondition_step [OF assms])

lemma reconcileMirror_spec:
  assumes "lawful E"
  shows "behaves (reconcileMirror E x app found)
    (\<lambda>new r. writes_only cluster x eps new \<and> no_report x new \<and> (r = None \<longrightarrow> applied cluster x eps (mirror_of x) new))"
proof -
  have patch: "writes_only cluster x eps new \<and> no_report x new"
    if "same_object obj (mirror_of x)"
      and "\<forall>e\<in>set new. status_patch.patch_event obj (\<lambda>cur y. same_object y cur) e" for obj new
  proof -
    have "\<not> same_object cur (OExposure x)" if "same_object cur (mirror_of x)" for cur
      using that by (simp add: same_object_def mirror_of_def)
    then have "exposure_write cluster x eps e \<and> \<not> is_http e \<and> exposure_reported x P e"
      if "e \<in> set new" for e P
      using same_object_trans [OF _ \<open>same_object obj (mirror_of x)\<close>] that
        \<open>\<forall>e\<in>set new. status_patch.patch_event obj (\<lambda>cur y. same_object y cur) e\<close>
      by (cases e) (force simp: status_patch_event exposure_write_def exposure_reported_def)+
    then show ?thesis by (simp add: writes_only_def no_report_def)
  qed
  show ?thesis
    unfolding reconcileMirror_def mirror_of_def [symmetric]
  proof (rule behaves_bind [OF upsert_spec [OF assms _ generated_set(4) [of _ x cluster eps]]], simp, assumption,
      rule behaves_case_option, goal_cases)
    case (1 n1 r)
    then have n1: "writes_only cluster x eps n1" "no_report x n1" "applied cluster x eps (mirror_of x) n1" and obj: "same_object (snd r) (mirror_of x)"
      by auto
    show ?case
      by (rule behaves_mono [OF patchStatus_spec [OF assms mirror_mutate_spec [OF assms]]])
        (use n1 patch [OF obj] in auto)
  next
    case (2 n1 r e)
    then show ?case by (intro behaves_return) simp
  qed
qed

text \<open>An injected probe only probes.\<close>

definition quiet_probe :: "(K1sExposure \<Rightarrow> go_error option io) option \<Rightarrow> K1sExposure \<Rightarrow> bool" where
  "quiet_probe probe x \<longleftrightarrow> (case probe of None \<Rightarrow> True | Some p \<Rightarrow> emits is_probe (p x))"

lemma probe_writes_only:
  assumes "\<forall>e\<in>set new. is_now e \<or> is_probe e"
  shows "writes_only cluster x eps new"
  unfolding writes_only_def
proof
  fix e
  assume "e \<in> set new"
  with assms have "is_now e \<or> is_probe e" by blast
  then show "exposure_write cluster x eps e \<and> \<not> is_http e"
    by (cases e) (auto simp: is_probe_def exposure_write_def)
qed

definition exposure_cond :: "K1sExposureStatus \<Rightarrow> string \<Rightarrow> condition_status option" where
  "exposure_cond s = cond_of (exs_Conditions s)"

lemma put_exposure_status_same [simp]: "same_object (put_exposure_status s x) x"
  by (cases x) (simp_all add: same_object_def ObjectKeyFromObject_def)

interpretation exposure_says: reporter "OExposure x" "Generation (exposure_Meta x)" exs_Conditions
    "\<lambda>cs s. s\<lparr>exs_Conditions := cs\<rparr>" put_exposure_status "\<lambda>E. set_exposure_condition E x"
    "\<lambda>E. patch_exposure_status E x"
  for x
  by unfold_locales (simp_all add: set_exposure_condition_def patch_exposure_status_def)

lemmas exposure_condition_step = exposure_says.step [folded exposure_cond_def]
lemmas exposure_condition_last = exposure_says.last_step [folded exposure_cond_def]

definition probing :: "K1sExposure \<Rightarrow> bool" where
  "probing x = probe_EnabledOrDefault (exp_TrafficProbe (exposure_Spec x))"

definition traffic_condition :: "K1sExposure \<Rightarrow> bool \<Rightarrow> condition_status" where
  "traffic_condition x ok = (if probing x then conditionStatus ok else ConditionUnknown)"

lemma exposure_traffic_spec:
  assumes "lawful E" and "quiet_probe probe x"
  shows "behaves (exposure_traffic E probe x s)
    (\<lambda>new r. (\<forall>e\<in>set new. is_now e \<or> is_probe e) \<and> (\<exists>cs. snd r = s\<lparr>exs_Conditions := cs\<rparr>) \<and>
       exposure_cond (snd r) = (exposure_cond s)(CondTrafficReady \<mapsto> traffic_condition x (fst r)) \<and>
       (\<not> probing x \<longrightarrow> fst r) \<and>
       (probe = None \<and> probing x \<and> fst r \<longrightarrow> (\<exists>e\<in>set new. probe_succeeded x e)))"
proof -
  have probed: "behaves (case probe of None \<Rightarrow> defaultTrafficProbe E x | Some p \<Rightarrow> p x)
      (\<lambda>new r. (\<forall>e\<in>set new. is_probe e) \<and>
         (probe = None \<and> r = None \<longrightarrow> (\<exists>e\<in>set new. probe_succeeded x e)))"
  proof (rule behaves_case_option, goal_cases)
    case 1
    show ?case
      by (rule behaves_mono [OF defaultTrafficProbe_spec]) (auto simp: list_ex_iff)
  next
    case (2 p)
    with assms(2) show ?case
      by (auto simp: quiet_probe_def dest!: emits_behaves elim: behaves_mono)
  qed
  show ?thesis
    unfolding exposure_traffic_def
  proof (rule behaves_if, goal_cases)
    case 1
    show ?case
    proof (rule behaves_bind [OF probed], rule behaves_case_option, goal_cases)
      case (1 n1 err)
      then show ?case
        using \<open>probe_EnabledOrDefault (exp_TrafficProbe (exposure_Spec x))\<close>
        by (intro exposure_condition_step [OF assms(1)] behaves_return)
          (auto simp: traffic_condition_def probing_def only_clock_def)
    next
      case (2 n1 err e)
      then show ?case
        using \<open>probe_EnabledOrDefault (exp_TrafficProbe (exposure_Spec x))\<close>
        by (intro exposure_condition_step [OF assms(1)] behaves_return)
          (auto simp: traffic_condition_def probing_def only_clock_def)
    qed
  next
    case 2
    then show ?case
      by (intro exposure_condition_step [OF assms(1)] behaves_return)
        (auto simp: traffic_condition_def probing_def only_clock_def)
  qed
qed

section \<open>What is reported\<close>

text \<open>\<open>found\<close>: the app's status was read; \<open>proxy\<close>: the proxy has endpoints; \<open>eps\<close>: the endpoints that
  receive traffic; \<open>traffic\<close>: the probe succeeded or is disabled.\<close>

definition exposure_status_says ::
  "K1sExposure \<Rightarrow> bool \<Rightarrow> bool \<Rightarrow> ProxyEndpoint list \<Rightarrow> bool \<Rightarrow> K1sExposureStatus \<Rightarrow> bool" where
  "exposure_status_says x found proxy eps traffic s \<longleftrightarrow> (\<not> probing x \<longrightarrow> traffic) \<and>
     exs_ObservedGeneration s = Generation (exposure_Meta x) \<and>
     exs_ServiceName s = exposureServiceName x \<and>
     exs_EndpointSliceName s = exposureEndpointSliceName x \<and>
     exs_ProxyEndpointCount s = of_nat (length eps) \<and>
     exposure_cond s CondAppFound = Some (conditionStatus found) \<and>
     exposure_cond s CondAppReady = Some (conditionStatus (exs_AppReady s)) \<and>
     exposure_cond s CondProxyEndpointsReady = Some (conditionStatus proxy) \<and>
     exposure_cond s CondResourcesApplied = Some ConditionTrue \<and>
     exposure_cond s CondClusterReady = Some ConditionTrue \<and>
     exposure_cond s CondTrafficReady = Some (traffic_condition x traffic) \<and>
     exposure_cond s CondReady =
       Some (conditionStatus (found \<and> exs_AppReady s \<and> proxy \<and> traffic))"

definition last_accepted :: "K1sExposure \<Rightarrow> event list \<Rightarrow> bool" where
  "last_accepted x new \<longleftrightarrow> new \<noteq> [] \<and>
     (\<exists>cur y. last new = EStatusPatch cur y None \<and> same_object cur (OExposure x))"

lemma last_accepted_append: "last_accepted x ys \<Longrightarrow> last_accepted x (xs @ ys)"
  by (auto simp: last_accepted_def)

text \<open>What a patch of the exposure's status comes to.\<close>

lemma patch_exposure_reported:
  "status_patch.patch_event (OExposure x) (\<lambda>cur y. y = put_exposure_status s cur) e \<Longrightarrow> P s \<Longrightarrow>
     exposure_reported x P e"
  by (auto simp: status_patch_event exposure_reported_def split: event.splits)

lemma patch_exposure_writes:
  assumes "\<forall>e\<in>set new. status_patch.patch_event (OExposure x) (\<lambda>cur y. y = put_exposure_status s cur) e"
  shows "writes_only cluster x eps new"
  unfolding writes_only_def
proof
  fix e
  assume "e \<in> set new"
  with assms have "status_patch.patch_event (OExposure x) (\<lambda>cur y. y = put_exposure_status s cur) e" by blast
  then show "exposure_write cluster x eps e \<and> \<not> is_http e"
    by (cases e) (auto simp: status_patch_event exposure_write_def)
qed

lemma patch_exposure_accepted:
  assumes "\<forall>e\<in>set new. status_patch.patch_event (OExposure x) M e" and "status_patch.patch_outcome new None"
  shows "last_accepted x new"
proof -
  obtain cur y where l: "last new = EStatusPatch cur y None" and "new \<noteq> []"
    using assms(2) by (auto simp: status_patch.patch_outcome_def)
  then have "status_patch.patch_event (OExposure x) M (EStatusPatch cur y None)"
    using assms(1) last_in_set by metis
  with l \<open>new \<noteq> []\<close> show ?thesis by (auto simp: last_accepted_def status_patch_event)
qed

text \<open>\<open>new\<close> shows what the report rests on: \<open>d\<close> tells whether the default probe is the one in use,
  \<open>ing\<close> is the condition of the Ingress.\<close>

definition report_says ::
  "bool \<Rightarrow> condition_status option \<Rightarrow> K1sExposure \<Rightarrow> bool \<Rightarrow> bool \<Rightarrow> bool \<Rightarrow> ProxyEndpoint list \<Rightarrow> event list \<Rightarrow>
     K1sExposureStatus \<Rightarrow> bool" where
  "report_says d ing x found ready proxy eps new s \<longleftrightarrow>
     exs_AppReady s = ready \<and> exposure_cond s CondIngressReady = ing \<and>
     (\<exists>traffic. exposure_status_says x found proxy eps traffic s \<and>
        (d \<and> probing x \<and> traffic \<longrightarrow> (\<exists>z\<in>set new. probe_succeeded x z)))"

lemma report_says_extends:
  "report_says d ing x found ready proxy eps xs s \<Longrightarrow> set xs \<subseteq> set ys \<Longrightarrow>
     report_says d ing x found ready proxy eps ys s"
  unfolding report_says_def by blast

lemma exposure_report_spec:
  assumes "lawful E" and "quiet_probe probe x"
    and "exposure_cond s CondAppFound = Some (conditionStatus found)"
    and "exposure_cond s CondAppReady = Some (conditionStatus ready)"
    and "exposure_cond s CondProxyEndpointsReady = Some (conditionStatus proxy)"
  shows "behaves (exposure_report E probe x cluster found ready proxy eps s)
    (\<lambda>new r. writes_only cluster x eps' new \<and>
       (snd r = None \<longrightarrow> last_accepted x new) \<and>
       fst r = requeue_after (pollInterval (cl_PollIntervalSeconds (cluster_Spec cluster))) \<and>
       (\<forall>e\<in>set new. exposure_reported x
          (report_says (probe = None) (exposure_cond s CondIngressReady) x found ready proxy eps new) e))"
  unfolding exposure_report_def Let_def
proof (rule behaves_bind [OF Now_spec], rule exposure_condition_step [OF assms(1)],
    rule exposure_condition_step [OF assms(1)], rule behaves_bind [OF exposure_traffic_spec [OF assms(1,2)]],
    rule exposure_condition_step [OF assms(1)], rule exposure_says.patch_step [OF assms(1)],
    rule behaves_return, goal_cases)
  case (1 n1 now n2 s2 n3 s3 n4 tr n5 s5 n6 err)
  have quiet: "\<forall>e\<in>set (n1 @ n2 @ n3 @ n4 @ n5). is_now e \<or> is_probe e"
    using 1 by (auto simp: only_clock_def)
  have cond: "exposure_cond s5 = (exposure_cond s)(CondResourcesApplied \<mapsto> ConditionTrue,
      CondClusterReady \<mapsto> ConditionTrue, CondTrafficReady \<mapsto> traffic_condition x (fst tr),
      CondReady \<mapsto> conditionStatus (found \<and> ready \<and> proxy \<and> fst tr))"
    using 1 by (auto simp: exposure_synced_def exposure_cond_def)
  have "exs_ObservedGeneration s5 = Generation (exposure_Meta x)" "exs_AppReady s5 = ready"
      "exs_ServiceName s5 = exposureServiceName x" "exs_EndpointSliceName s5 = exposureEndpointSliceName x"
      "exs_ProxyEndpointCount s5 = of_nat (length eps)"
    using 1 by (auto simp: exposure_synced_def)
  moreover have "\<not> probing x \<longrightarrow> fst tr"
    using 1 by blast
  ultimately have says: "exs_AppReady s5 = ready" "exposure_cond s5 CondIngressReady = exposure_cond s CondIngressReady"
      "exposure_status_says x found proxy eps (fst tr) s5"
    using assms(3-5) by (simp_all add: exposure_status_says_def cond)
  have probed: "probe = None \<and> probing x \<and> fst tr \<longrightarrow> (\<exists>z\<in>set n4. probe_succeeded x z)"
    using 1 by blast
  let ?P = "report_says (probe = None) (exposure_cond s CondIngressReady) x found ready proxy eps
      (n1 @ n2 @ n3 @ n4 @ n5 @ n6)"
  have says': "?P s5"
    unfolding report_says_def using says probed by (intro conjI exI [of _ "fst tr"]) auto
  have before: "exposure_reported x P e" if "is_now e \<or> is_probe e" for P e
    using that by (cases e) (auto simp: exposure_reported_def is_probe_def)
  have all: "exposure_reported x ?P e" if "e \<in> set (n1 @ n2 @ n3 @ n4 @ n5 @ n6)" for e
  proof (cases "e \<in> set n6")
    case True
    show ?thesis
      by (rule patch_exposure_reported [of x s5]) (use 1(6) True says' in \<open>blast+\<close>)
  next
    case False
    with that quiet show ?thesis by (intro before) auto
  qed
  have "writes_only cluster x eps' n6" "err = None \<longrightarrow> last_accepted x n6"
    using 1(6) patch_exposure_writes patch_exposure_accepted by blast+
  then have ends: "writes_only cluster x eps' (n1 @ n2 @ n3 @ n4 @ n5 @ n6)"
      "err = None \<longrightarrow> last_accepted x (n1 @ n2 @ n3 @ n4 @ n5 @ n6)"
    using probe_writes_only [OF quiet] last_accepted_append [of x n6 "n1 @ n2 @ n3 @ n4 @ n5"]
    by simp_all
  show ?case
    unfolding fst_conv snd_conv append_Nil2 using ends all by (intro conjI ballI) (assumption | rule refl)+
qed

section \<open>A whole synchronisation\<close>

text \<open>Its exchanges: what it reads (of the k1s controller, the proxy, the clock), then what it writes.
  \<open>eps\<close> are the endpoints it puts into the slice; what it reports, and its success, rest on the
  objects it has applied.\<close>

definition exposure_reads :: "Client \<Rightarrow> event list \<Rightarrow> bool" where
  "exposure_reads api read \<longleftrightarrow>
     (\<forall>e\<in>set read. client_traffic api e \<and> requests ''GET'' e \<or> proxy_event e \<or> is_now e)"

text \<open>What a report may say after the writes \<open>rest\<close>.\<close>

definition exposure_earned ::
  "bool \<Rightarrow> K1sExposure \<Rightarrow> K1sCluster \<Rightarrow> bool \<Rightarrow> bool \<Rightarrow> bool \<Rightarrow> ProxyEndpoint list \<Rightarrow> event list \<Rightarrow>
     K1sExposureStatus \<Rightarrow> bool" where
  "exposure_earned d x cluster found ready proxy eps rest s \<longleftrightarrow>
     all_applied cluster x eps rest \<and>
     (\<exists>ingress. report_says d (Some (conditionStatus ingress)) x found ready proxy eps rest s \<and>
        (ingress \<longrightarrow> ingress_settled cluster x rest))"

definition exposure_writing_ok ::
  "bool \<Rightarrow> K1sExposure \<Rightarrow> K1sCluster \<Rightarrow> bool \<Rightarrow> bool \<Rightarrow> bool \<Rightarrow> ProxyEndpoint list \<Rightarrow>
     event list \<Rightarrow> outcome \<Rightarrow> bool" where
  "exposure_writing_ok d x cluster found ready proxy eps rest r \<longleftrightarrow>
     writes_only cluster x eps rest \<and>
     (\<forall>e\<in>set rest. exposure_reported x (exposure_earned d x cluster found ready proxy eps rest) e) \<and>
     (snd r = None \<longrightarrow> all_applied cluster x eps rest \<and> last_accepted x rest \<and>
        fst r = requeue_after (pollInterval (cl_PollIntervalSeconds (cluster_Spec cluster))))"

definition exposure_sync_ok ::
  "bool \<Rightarrow> K1sExposure \<Rightarrow> K1sCluster \<Rightarrow> Client \<Rightarrow> event list \<Rightarrow> outcome \<Rightarrow> bool" where
  "exposure_sync_ok d x cluster api new r \<longleftrightarrow>
     (\<exists>read rest found ready proxy eps. new = read @ rest \<and> exposure_reads api read \<and>
        (\<forall>p\<in>set eps. pe_Ready p) \<and> (eps \<noteq> [] \<longrightarrow> found) \<and> (found \<longrightarrow> good_seen read) \<and>
        (found \<and> proxy \<longrightarrow> eps \<noteq> []) \<and> exposure_writing_ok d x cluster found ready proxy eps rest r)"

lemma exposure_reads_simps [simp]:
  "exposure_reads api []"
  "exposure_reads api (xs @ ys) \<longleftrightarrow> exposure_reads api xs \<and> exposure_reads api ys"
  by (auto simp: exposure_reads_def)

lemma clock_exposure_reads: "only_clock new \<Longrightarrow> exposure_reads api new"
  by (simp add: exposure_reads_def only_clock_def)

lemma exposure_ingress_spec:
  assumes "lawful E"
  shows "behaves (exposure_ingress E x cluster s)
    (\<lambda>new s'. writes_only cluster x eps new \<and> no_report x new \<and>
       (\<exists>ok. exposure_cond s' = (exposure_cond s)(CondIngressReady \<mapsto> conditionStatus ok) \<and>
          (ok \<longrightarrow> ingress_settled cluster x new)))"
  unfolding exposure_ingress_def
proof (rule behaves_bind [OF reconcileIngress_spec [OF assms, where eps = eps]], rule behaves_case_option, goal_cases)
  case (1 n1 r)
  then show ?case
    by (intro exposure_condition_last [OF assms])
      (auto intro!: clock_writes_only clock_no_report exI [of _ True])
next
  case (2 n1 r e)
  then show ?case
    by (intro exposure_condition_last [OF assms])
      (auto intro!: clock_writes_only clock_no_report exI [of _ False])
qed

lemma exposure_writing_fails:
  "writes_only cluster x eps rest \<Longrightarrow> no_report x rest \<Longrightarrow> snd r \<noteq> None \<Longrightarrow>
     exposure_writing_ok d x cluster found ready proxy eps rest r"
  by (auto simp: exposure_writing_ok_def no_report_def)

lemma exposure_reported_mono:
  "exposure_reported x P e \<Longrightarrow> (\<And>s. P s \<Longrightarrow> Q s) \<Longrightarrow> exposure_reported x Q e"
  by (auto simp: exposure_reported_def split: event.splits)

lemma log_fine [simp]: "writes_only cluster x eps [ELog m]" "no_report x [ELog m]"
  by (simp_all add: writes_only_def exposure_write_def no_report_def exposure_reported_def)

lemma exposure_writing_spec:
  assumes "lawful E" and "quiet_probe probe x"
    and "exposure_cond s CondAppFound = Some (conditionStatus found)"
    and "exposure_cond s CondAppReady = Some (conditionStatus (as_Ready app))"
    and "exposure_cond s CondProxyEndpointsReady = Some (conditionStatus proxy)"
  shows "behaves (exposure_writing E probe x cluster app found proxy eps s)
    (exposure_writing_ok (probe = None) x cluster found (as_Ready app) proxy eps)"
  unfolding exposure_writing_def
proof (rule behaves_bind [OF reconcileService_spec [OF assms(1), where eps = eps]], rule behaves_case_option, goal_cases)
  case (1 n1 r1)
  note svc = 1
  show ?case
  proof (rule behaves_bind [OF reconcileEndpointSlice_spec [OF assms(1)]], rule behaves_case_option, goal_cases)
    case (1 n2 r2)
    note slice = 1
    show ?case
    proof (rule behaves_bind [OF exposure_ingress_spec [OF assms(1), where eps = eps]],
        rule behaves_bind [OF reconcileMirror_spec [OF assms(1), where cluster = cluster and eps = eps]],
        rule behaves_case_option, goal_cases)
      case (1 n3 s3 n4 r4)
      note mirror = 1
      then obtain ingress where s3: "exposure_cond s3 = (exposure_cond s)(CondIngressReady \<mapsto> conditionStatus ingress)"
        and settled: "ingress \<longrightarrow> ingress_settled cluster x n3" by blast
      have cond: "exposure_cond s3 CondAppFound = Some (conditionStatus found)"
        "exposure_cond s3 CondAppReady = Some (conditionStatus (as_Ready app))"
        "exposure_cond s3 CondProxyEndpointsReady = Some (conditionStatus proxy)"
        "exposure_cond s3 CondIngressReady = Some (conditionStatus ingress)"
        using assms(3-5) by (simp_all add: s3)
      show ?case
      proof (rule behaves_mono [OF exposure_report_spec [OF assms(1,2) cond(1-3), where eps' = eps]], goal_cases)
        case (1 n5 r5)
        let ?rest = "n1 @ n2 @ n3 @ n4 @ n5"
        have applied: "all_applied cluster x eps ?rest"
          using svc slice mirror unfolding all_applied_def by blast
        have earned: "exposure_earned (probe = None) x cluster found (as_Ready app) proxy eps ?rest s'"
          if "report_says (probe = None) (exposure_cond s3 CondIngressReady) x found (as_Ready app) proxy eps n5 s'" for s'
          unfolding exposure_earned_def
          using applied settled report_says_extends [OF that [unfolded cond(4)], of ?rest]
          by (intro conjI exI [of _ ingress]) auto
        show ?case
          unfolding exposure_writing_ok_def
        proof (intro conjI ballI impI)
          fix e
          assume e: "e \<in> set ?rest"
          show "exposure_reported x (exposure_earned (probe = None) x cluster found (as_Ready app) proxy eps ?rest) e"
          proof (cases "e \<in> set n5")
            case True
            with 1 show ?thesis by (blast intro: exposure_reported_mono earned)
          next
            case False
            with e svc slice mirror show ?thesis by (auto simp: no_report_def)
          qed
        next
          show "writes_only cluster x eps ?rest" using svc slice mirror 1 by simp
        next
          show "fst r5 = requeue_after (pollInterval (cl_PollIntervalSeconds (cluster_Spec cluster)))"
            using 1 by simp
        next
          assume "snd r5 = None"
          with 1 show "last_accepted x ?rest"
            using last_accepted_append [of x n5 "n1 @ n2 @ n3 @ n4"] by simp
        qed (rule applied)
      qed
    next
      case (2 n3 s3 n4 r4 e)
      then show ?case
        using svc slice by (intro exchange_steps behaves_return exposure_writing_fails) simp_all
    qed
  next
    case (2 n2 r2 e)
    then show ?case using svc by (intro behaves_return exposure_writing_fails) simp_all
  qed
next
  case (2 n1 r1 e)
  then show ?case by (intro behaves_return exposure_writing_fails) simp_all
qed

lemma app_status_read:
  "behaves (api_AppStatus E api ns name)
     (\<lambda>new r. exposure_reads api new \<and> (snd r = None \<longrightarrow> good_seen new))"
  by (rule behaves_mono [OF behaves_conj [OF app_status.contract emits_behaves [OF api_AppStatus_requests]]])
    (auto simp: exposure_reads_def outcome_seen_def success_seen_good)

lemma proxy_reads: "\<forall>e\<in>set new. proxy_event e \<Longrightarrow> exposure_reads api new"
  by (simp add: exposure_reads_def)

lemma exposure_sync_spec:
  assumes "lawful E" and "quiet_probe probe x"
  shows "behaves (exposure_sync E Reader probe x cluster api)
    (exposure_sync_ok (probe = None) x cluster api)"
  unfolding exposure_sync_def Let_def
proof (rule behaves_bind [OF app_status_read], rule exposure_condition_step [OF assms(1)],
    rule exposure_condition_step [OF assms(1)], rule behaves_bind [OF discoverProxyEndpoints_spec],
    rule exposure_condition_step [OF assms(1)], goal_cases)
  case (1 n1 app n2 s2 n3 s3 n4 proxy n5 s5)
  let ?found = "snd app = None" and ?proxy = "snd proxy = None \<and> 0 < length (fst proxy)"
  let ?eps = "if ?found then fst proxy else []"
  have cond: "exposure_cond s5 CondAppFound = Some (conditionStatus ?found)"
    "exposure_cond s5 CondAppReady = Some (conditionStatus (as_Ready (fst app)))"
    "exposure_cond s5 CondProxyEndpointsReady = Some (conditionStatus ?proxy)"
    using 1 by auto
  have reads: "exposure_reads api (n1 @ n2 @ n3 @ n4 @ n5)"
    using 1 by (simp add: clock_exposure_reads proxy_reads)
  have eps: "\<forall>p\<in>set ?eps. pe_Ready p" "?found \<longrightarrow> good_seen (n1 @ n2 @ n3 @ n4 @ n5)"
    using 1 by simp_all
  show ?case
  proof (rule behaves_mono [OF exposure_writing_spec [OF assms cond, of cluster ?eps]], goal_cases)
    case (1 rest r)
    then show ?case
      unfolding exposure_sync_ok_def
      using reads eps
      by (intro exI [of _ "n1 @ n2 @ n3 @ n4 @ n5"] exI [of _ rest] exI [of _ ?found]
          exI [of _ "as_Ready (fst app)"] exI [of _ ?proxy] exI [of _ ?eps] conjI) simp_all
  qed
qed

section \<open>Without a cluster\<close>

text \<open>The cluster or its credentials could not be read, or its address is not usable: the exposure's
  status is patched, with \<open>ClusterReady\<close> False, and nothing else is done.\<close>

definition only_unavailable :: "K1sExposure \<Rightarrow> event list \<Rightarrow> bool" where
  "only_unavailable x new \<longleftrightarrow> (\<forall>e\<in>set new. \<not> is_http e \<and>
     (is_kube_write e \<longrightarrow> (\<exists>cur s res. e = EStatusPatch cur (put_exposure_status s cur) res \<and>
        same_object cur (OExposure x) \<and> exs_ObservedGeneration s = Generation (exposure_Meta x) \<and>
        exposure_cond s CondClusterReady = Some ConditionFalse)))"

lemma only_unavailable_simps [simp]:
  "only_unavailable x []"
  "only_unavailable x (xs @ ys) \<longleftrightarrow> only_unavailable x xs \<and> only_unavailable x ys"
  by (auto simp: only_unavailable_def)

lemma clock_only_unavailable: "only_clock new \<Longrightarrow> only_unavailable x new"
  by (force simp: only_unavailable_def only_clock_def elim: is_now.elims)

lemma patch_only_unavailable:
  assumes "\<forall>e\<in>set new. status_patch.patch_event (OExposure x) (\<lambda>cur y. y = put_exposure_status s cur) e"
    and "exs_ObservedGeneration s = Generation (exposure_Meta x)"
    and "exposure_cond s CondClusterReady = Some ConditionFalse"
  shows "only_unavailable x new"
  unfolding only_unavailable_def
proof
  fix e
  assume "e \<in> set new"
  with assms(1) have "status_patch.patch_event (OExposure x) (\<lambda>cur y. y = put_exposure_status s cur) e" by blast
  with assms(2,3) show "\<not> is_http e \<and> (is_kube_write e \<longrightarrow> (\<exists>cur s res. e = EStatusPatch cur (put_exposure_status s cur) res \<and>
      same_object cur (OExposure x) \<and> exs_ObservedGeneration s = Generation (exposure_Meta x) \<and>
      exposure_cond s CondClusterReady = Some ConditionFalse))"
    by (cases e) (auto simp: status_patch_event)
qed

lemma exposure_unavailable_spec:
  assumes "lawful E"
  shows "behaves (exposure_unavailable E x msg e)
      (\<lambda>new r. only_unavailable x new \<and> fst r = no_result \<and> (snd r = None \<longrightarrow> last_accepted x new))"
    and "behaves (exposure_no_client E x e)
      (\<lambda>new r. only_unavailable x new \<and> fst r = no_result \<and> (snd r = None \<longrightarrow> last_accepted x new))"
proof -
  have generation: "exs_ObservedGeneration (exposure_observed x) = Generation (exposure_Meta x)"
    by (simp add: exposure_observed_def)
  have report: "only_unavailable x (n @ m) \<and> (r = None \<longrightarrow> last_accepted x (n @ m))"
    if "only_clock n" and "\<forall>e\<in>set m. status_patch.patch_event (OExposure x) (\<lambda>cur y. y = put_exposure_status s cur) e"
      and "status_patch.patch_outcome m r"
      and "exs_ObservedGeneration s = Generation (exposure_Meta x)"
      and "exposure_cond s CondClusterReady = Some ConditionFalse" for n m s r
    using that clock_only_unavailable patch_only_unavailable patch_exposure_accepted
      last_accepted_append by auto
  show "behaves (exposure_unavailable E x msg e)
      (\<lambda>new r. only_unavailable x new \<and> fst r = no_result \<and> (snd r = None \<longrightarrow> last_accepted x new))"
    unfolding exposure_unavailable_def
  proof (rule exposure_condition_step [OF assms], rule exposure_condition_step [OF assms],
      rule exposure_says.patch_step [OF assms], rule behaves_return, goal_cases)
    case (1 n1 s1 n2 s2 n3 err)
    then have "only_clock (n1 @ n2)" by (auto simp: only_clock_def)
    with 1 report [of "n1 @ n2" n3 s2 err] generation show ?case by auto
  qed
  show "behaves (exposure_no_client E x e)
      (\<lambda>new r. only_unavailable x new \<and> fst r = no_result \<and> (snd r = None \<longrightarrow> last_accepted x new))"
    unfolding exposure_no_client_def
  proof (rule exposure_condition_step [OF assms], rule exposure_says.patch_step [OF assms],
      rule behaves_return, goal_cases)
    case (1 n1 s1 n2 err)
    with report [of n1 n2 s1 err] generation show ?case
      by auto
  qed
qed

end
