(* ===== verification/ExposureReport.thy ===== *)
theory ExposureReport
  imports ExposureSpec
begin

text \<open>
  The properties of the K1sExposure reconciler (src/internal/controller/exposure_controller.go), and
  a run of it: an exposure of a ready app behind one external proxy address, in a world without any
  of the generated objects.
\<close>

section \<open>Properties\<close>

text \<open>
  C15: what a synchronisation of an exposure reports about itself. Every status it writes carries the
  generation and the names of the generated objects, and is written only when the Service, the
  EndpointSlice and the mirror are in the API as generated. IngressReady is True only when the
  Ingress is as generated, or deleted when it is disabled; AppFound only after a 2xx answer of the
  k1s controller; TrafficReady, with the default probe, only after a probe that succeeded. Ready is
  True exactly when AppFound, AppReady and ProxyEndpointsReady are True and TrafficReady is not
  False, and then the EndpointSlice sends traffic somewhere, to ready endpoints only.
\<close>

theorem exposure_ready_is_earned:
  assumes "lawful E" and "quiet_probe probe x"
    and run: "run_state (exposure_sync E Reader probe x cluster api) h = (r, h @ new)"
    and e: "EStatusPatch cur y res \<in> set new" and "same_object cur (OExposure x)"
  shows "\<exists>s eps. y = put_exposure_status s cur \<and>
    exs_ObservedGeneration s = Generation (exposure_Meta x) \<and>
    exs_ServiceName s = exposureServiceName x \<and> exs_EndpointSliceName s = exposureEndpointSliceName x \<and>
    exs_ProxyEndpointCount s = of_nat (length eps) \<and> all_applied cluster x eps new \<and>
    (exposure_cond s CondIngressReady = Some ConditionTrue \<longrightarrow> ingress_settled cluster x new) \<and>
    (exposure_cond s CondAppFound = Some ConditionTrue \<longrightarrow> good_seen new) \<and>
    (exposure_cond s CondTrafficReady = Some ConditionTrue \<and> probe = None \<longrightarrow>
       (\<exists>z\<in>set new. probe_succeeded x z)) \<and>
    (exposure_cond s CondReady = Some ConditionTrue \<longleftrightarrow>
       exposure_cond s CondAppFound = Some ConditionTrue \<and>
       exposure_cond s CondAppReady = Some ConditionTrue \<and>
       exposure_cond s CondProxyEndpointsReady = Some ConditionTrue \<and>
       exposure_cond s CondTrafficReady \<noteq> Some ConditionFalse) \<and>
    (exposure_cond s CondReady = Some ConditionTrue \<longrightarrow> eps \<noteq> []) \<and> (\<forall>p\<in>set eps. pe_Ready p)"
proof -
  have ok: "exposure_sync_ok (probe = None) x cluster api new r"
    using behaves_run [OF exposure_sync_spec [OF assms(1,2)] run] by simp
  then obtain read rest found ready proxy eps where new: "new = read @ rest"
    and read: "exposure_reads api read"
    and eps: "\<forall>p\<in>set eps. pe_Ready p" "found \<longrightarrow> good_seen read" "found \<and> proxy \<longrightarrow> eps \<noteq> []"
    and rest: "exposure_writing_ok (probe = None) x cluster found ready proxy eps rest r"
    unfolding exposure_sync_ok_def by blast
  have "EStatusPatch cur y res \<notin> set read"
    using read by (auto simp: exposure_reads_def proxy_event_def client_traffic_def requests_def)
  with e new have "EStatusPatch cur y res \<in> set rest" by simp
  with rest have "exposure_reported x (exposure_earned (probe = None) x cluster found ready proxy eps rest)
      (EStatusPatch cur y res)"
    unfolding exposure_writing_ok_def by blast
  with assms(5) obtain s where s: "y = put_exposure_status s cur"
      "exposure_earned (probe = None) x cluster found ready proxy eps rest s"
    by (auto simp: exposure_reported_def)
  then obtain ingress traffic where says: "exposure_status_says x found proxy eps traffic s"
      "exs_AppReady s = ready" "exposure_cond s CondIngressReady = Some (conditionStatus ingress)"
      "ingress \<longrightarrow> ingress_settled cluster x rest" "all_applied cluster x eps rest"
      "probe = None \<and> probing x \<and> traffic \<longrightarrow> (\<exists>z\<in>set rest. probe_succeeded x z)"
    unfolding exposure_earned_def report_says_def by blast
  have all: "all_applied cluster x eps new"
    using says(5) by (auto simp: new all_applied_def)
  have settled: "ingress \<longrightarrow> ingress_settled cluster x new"
    using says(4) by (auto simp: new)
  show ?thesis
    using s(1) says(1-3,6) all settled eps
    by (intro exI [of _ s] exI [of _ eps])
      (auto simp: exposure_status_says_def new traffic_condition_def split: if_splits)
qed

text \<open>
  C16: what a synchronisation of an exposure changes. The Service, EndpointSlice, Ingress and mirror
  that it creates or writes over are those of the exposure, with the content generated for it; an
  object is only written over one of the same kind, namespace and name; only the Ingress is ever
  deleted, and only when the exposure disables it; only the statuses of the exposure and of its
  mirror are patched. The k1s controller is only read, with the client's own credentials. All the
  endpoints written are ready ones, and there are none unless the app's status was read with a 2xx
  answer.
\<close>

theorem exposure_writes_confined:
  assumes "lawful E" and "quiet_probe probe x"
    and run: "run_state (exposure_sync E Reader probe x cluster api) h = (r, h @ new)"
  shows "\<exists>eps. (\<forall>p\<in>set eps. pe_Ready p) \<and> (eps \<noteq> [] \<longrightarrow> good_seen new) \<and>
    (\<forall>e\<in>set new. exposure_write cluster x eps e \<and>
       (is_http e \<longrightarrow> client_traffic api e \<and> requests ''GET'' e))"
proof -
  have "exposure_sync_ok (probe = None) x cluster api new r"
    using behaves_run [OF exposure_sync_spec [OF assms(1,2)] run] by simp
  then obtain read rest found ready proxy eps where new: "new = read @ rest"
    and read: "exposure_reads api read"
    and eps: "\<forall>p\<in>set eps. pe_Ready p" "found \<longrightarrow> good_seen read" "eps \<noteq> [] \<longrightarrow> found"
    and rest: "writes_only cluster x eps rest"
    unfolding exposure_sync_ok_def exposure_writing_ok_def by blast
  have "exposure_write cluster x eps e \<and> (is_http e \<longrightarrow> client_traffic api e \<and> requests ''GET'' e)"
    if "e \<in> set read" for e
    using read that
    by (cases e) (force simp: exposure_reads_def proxy_event_def client_traffic_def exposure_write_def)+
  with rest have "\<forall>e\<in>set new. exposure_write cluster x eps e \<and>
      (is_http e \<longrightarrow> client_traffic api e \<and> requests ''GET'' e)"
    by (auto simp: new writes_only_def)
  with eps show ?thesis by (intro exI [of _ eps]) (auto simp: new)
qed

text \<open>The status that was accepted last reports the Ingress: as ready only if it is settled, and else as not
  ready.\<close>

definition ingress_reported :: "K1sCluster \<Rightarrow> K1sExposure \<Rightarrow> event list \<Rightarrow> bool" where
  "ingress_reported cluster x new \<longleftrightarrow> (\<exists>cur s. last new = EStatusPatch cur (put_exposure_status s cur) None \<and>
     (exposure_cond s CondIngressReady = Some ConditionTrue \<and> ingress_settled cluster x new \<or>
      exposure_cond s CondIngressReady = Some ConditionFalse))"

lemma ingress_reported_after:
  "ingress_reported cluster x new \<Longrightarrow> new \<noteq> [] \<Longrightarrow> ingress_reported cluster x (before @ new)"
  unfolding ingress_reported_def by auto

lemma accepted_reports_ingress:
  assumes "exposure_writing_ok d x cluster found ready proxy eps rest r" and "last_accepted x rest"
  shows "ingress_reported cluster x rest"
proof -
  obtain cur y where last: "last rest = EStatusPatch cur y None" "same_object cur (OExposure x)" "rest \<noteq> []"
    using assms(2) by (auto simp: last_accepted_def)
  then have "EStatusPatch cur y None \<in> set rest"
    by (metis last_in_set)
  with assms(1) have "exposure_reported x (exposure_earned d x cluster found ready proxy eps rest)
      (EStatusPatch cur y None)"
    unfolding exposure_writing_ok_def by blast
  with last(2) obtain s where "y = put_exposure_status s cur" "exposure_earned d x cluster found ready proxy eps rest s"
    by (auto simp: exposure_reported_def)
  moreover from this(2) obtain ingress where "exposure_cond s CondIngressReady = Some (conditionStatus ingress)"
      "ingress \<longrightarrow> ingress_settled cluster x rest"
    unfolding exposure_earned_def report_says_def by blast
  ultimately show ?thesis
    using last(1) unfolding ingress_reported_def by (cases ingress) (auto simp: conditionStatus_def)
qed

text \<open>What a reconciliation that returns no error has done.\<close>

definition exposure_done :: "K1sExposure \<Rightarrow> event list \<Rightarrow> outcome \<Rightarrow> bool" where
  "exposure_done x new r \<longleftrightarrow> (snd r = None \<longrightarrow> last_accepted x new \<and>
     (fst r = no_result \<and> only_unavailable x new \<or>
      (\<exists>key cluster eps. EGet CachedClient KindCluster key (Inr (OCluster cluster)) \<in> set new \<and>
         all_applied cluster x eps new \<and> ingress_reported cluster x new \<and>
         fst r = requeue_after (pollInterval (cl_PollIntervalSeconds (cluster_Spec cluster))))))"

lemma all_applied_after: "all_applied cluster x eps new \<Longrightarrow> all_applied cluster x eps (before @ new)"
  by (auto simp: all_applied_def)

lemma exposure_done_after:
  assumes "exposure_done x new r" and "only_unavailable x before"
  shows "exposure_done x (before @ new) r"
  unfolding exposure_done_def
proof
  assume "snd r = None"
  with assms(1) have last: "last_accepted x new"
    and works: "fst r = no_result \<and> only_unavailable x new \<or>
      (\<exists>key cluster eps. EGet CachedClient KindCluster key (Inr (OCluster cluster)) \<in> set new \<and>
         all_applied cluster x eps new \<and> ingress_reported cluster x new \<and>
         fst r = requeue_after (pollInterval (cl_PollIntervalSeconds (cluster_Spec cluster))))"
    unfolding exposure_done_def by blast+
  then have "new \<noteq> []" by (simp add: last_accepted_def)
  note after = ingress_reported_after [OF _ this, of _ x before] all_applied_after [of _ x _ new before]
  show "last_accepted x (before @ new) \<and>
    (fst r = no_result \<and> only_unavailable x (before @ new) \<or>
      (\<exists>key cluster eps. EGet CachedClient KindCluster key (Inr (OCluster cluster)) \<in> set (before @ new) \<and>
         all_applied cluster x eps (before @ new) \<and> ingress_reported cluster x (before @ new) \<and>
         fst r = requeue_after (pollInterval (cl_PollIntervalSeconds (cluster_Spec cluster)))))"
    using last_accepted_append [OF last, of before] works assms(2) after
    unfolding only_unavailable_simps set_append by (elim disjE) blast+
qed

lemma unavailable_done:
  assumes "behaves m (\<lambda>new r. only_unavailable x new \<and> fst r = no_result \<and> (snd r = None \<longrightarrow> last_accepted x new))"
    and "only_unavailable x before"
  shows "behaves m (\<lambda>new. exposure_done x (before @ new))"
  by (rule behaves_mono [OF assms(1)])
    (use assms(2) last_accepted_append [of x _ before] in \<open>auto simp: exposure_done_def\<close>)

lemma exposure_sync_done:
  assumes "lawful E" and "quiet_probe probe x"
    and "EGet CachedClient KindCluster key (Inr (OCluster cluster)) \<in> set before"
  shows "behaves (exposure_sync E Reader probe x cluster api) (\<lambda>new. exposure_done x (before @ new))"
proof (rule behaves_mono [OF exposure_sync_spec [OF assms(1,2)]], goal_cases)
  case (1 new r)
  then obtain read rest found ready proxy eps where new: "new = read @ rest"
    and ok: "exposure_writing_ok (probe = None) x cluster found ready proxy eps rest r"
    unfolding exposure_sync_ok_def by blast
  then have "all_applied cluster x eps rest \<and> last_accepted x rest \<and>
      fst r = requeue_after (pollInterval (cl_PollIntervalSeconds (cluster_Spec cluster)))"
    if "snd r = None"
    using that by (simp add: exposure_writing_ok_def)
  moreover have "all_applied cluster x eps rest \<Longrightarrow> all_applied cluster x eps (before @ new)"
    using all_applied_after [of cluster x eps rest "before @ read"] by (simp add: new)
  moreover have "last_accepted x rest \<Longrightarrow> ingress_reported cluster x (before @ new)"
    using accepted_reports_ingress [OF ok] ingress_reported_after [of cluster x rest "before @ read"]
    by (simp add: new last_accepted_def)
  moreover have "last_accepted x rest \<Longrightarrow> last_accepted x (before @ new)"
    using last_accepted_append [of x rest "before @ read"] by (simp add: new)
  moreover have "EGet CachedClient KindCluster key (Inr (OCluster cluster)) \<in> set (before @ new)"
    using assms(3) by simp
  ultimately show ?case unfolding exposure_done_def by blast
qed

lemma reconcile_exposure_done:
  assumes "lawful E" and "quiet_probe probe x"
  shows "behaves (reconcile_exposure E Reader probe x) (exposure_done x)"
  unfolding reconcile_exposure_def
proof (rule behaves_bind [OF kube_Get_spec], goal_cases)
  case (1 n1 found)
  then have read: "only_unavailable x n1" by (simp add: only_unavailable_def)
  note unavailable = exposure_unavailable_spec [OF assms(1), THEN unavailable_done]
  show ?case
  proof (cases found)
    case (Inl e)
    show ?thesis unfolding Inl sum.case by (rule unavailable(1) [OF read])
  next
    case (Inr y)
    with 1 have "kind_of y = KindCluster" by simp
    then obtain cluster where y: "y = OCluster cluster" by (cases y) simp_all
    show ?thesis
      unfolding Inr y sum.case kobject.case
    proof (rule behaves_bind [OF loadCredentials_spec], goal_cases)
      case (1 n2 creds)
      then have before: "only_unavailable x (n1 @ n2)"
        using read by (auto simp: only_unavailable_def dest!: credentials_ok_reads)
      obtain key where "EGet CachedClient KindCluster key (Inr (OCluster cluster)) \<in> set (n1 @ n2)"
        using \<open>n1 = _ \<and> _\<close> by (auto simp: Inr y)
      note client = exposure_sync_done [OF assms this]
      show ?case
        unfolding append_assoc [symmetric]
        using unavailable [OF before] client
        by (auto split: option.splits sum.splits simp del: append_assoc)
    qed
  qed
qed

text \<open>
  C17: a reconciliation of a K1sExposure that returns no error found no such exposure, or had the
  exposure's status accepted by the API as its last exchange. In the latter case, either the cluster,
  its credentials or its address were not usable, and then nothing but the exposure's status was
  written, with ClusterReady False, no request was sent and no further call is scheduled; or the
  cluster was read, the Service, EndpointSlice and mirror are in the API as generated, and the
  reconciler asks to be called again after the cluster's poll interval. A failure of the Ingress is no
  error of the reconciliation: the status that was accepted says IngressReady False then, and True
  only if the Ingress is in the API as generated, or deleted when it is disabled.
\<close>

theorem exposure_success_is_applied:
  assumes "lawful E" and "\<And>x. quiet_probe probe x"
    and run: "run_state (K1sExposure_Reconcile E Reader probe req) h = ((res, None), h @ new)"
  shows "(\<exists>e. new = [EGet CachedClient KindExposure req (Inl e)] \<and> kube_IsNotFound e \<and> res = no_result) \<or>
    (\<exists>x. EGet CachedClient KindExposure req (Inr (OExposure x)) \<in> set new \<and> last_accepted x new \<and>
      (res = no_result \<and> only_unavailable x new \<or>
       (\<exists>key cluster eps. EGet CachedClient KindCluster key (Inr (OCluster cluster)) \<in> set new \<and>
          all_applied cluster x eps new \<and> ingress_reported cluster x new \<and>
          res = requeue_after (pollInterval (cl_PollIntervalSeconds (cluster_Spec cluster))))))"
proof -
  have "behaves (K1sExposure_Reconcile E Reader probe req) (\<lambda>new r. snd r = None \<longrightarrow>
      (\<exists>e. new = [EGet CachedClient KindExposure req (Inl e)] \<and> kube_IsNotFound e \<and> fst r = no_result) \<or>
      (\<exists>x. EGet CachedClient KindExposure req (Inr (OExposure x)) \<in> set new \<and> exposure_done x new r))"
    unfolding K1sExposure_Reconcile_def
  proof (rule behaves_bind [OF kube_Get_spec], goal_cases)
    case (1 n1 found)
    show ?case
    proof (cases found)
      case (Inl e)
      with 1 show ?thesis by (auto intro!: behaves_return)
    next
      case (Inr y)
      with 1 have "kind_of y = KindExposure" by simp
      then obtain x where y: "y = OExposure x" by (cases y) simp_all
      have "exposure_done x (n1 @ new) r" if "exposure_done x new r" for new r
        by (rule exposure_done_after [OF that]) (use 1 in \<open>simp add: Inr y only_unavailable_def\<close>)
      note after = this
      show ?thesis
        unfolding Inr y sum.case kobject.case
        by (rule behaves_mono [OF reconcile_exposure_done [OF assms(1,2)]])
          (use 1 after in \<open>auto simp: Inr y\<close>)
    qed
  qed
  from behaves_run [OF this run] show ?thesis
    by (auto simp: exposure_done_def)
qed

section \<open>An example\<close>

definition proxied_cluster :: K1sCluster where
  "proxied_cluster = example_cluster\<lparr>cluster_Spec := (cluster_Spec example_cluster)\<lparr>cl_Proxy := sample_external\<rparr>\<rparr>"

definition example_exposure :: K1sExposure where
  "example_exposure =
     \<lparr>exposure_Meta = \<lparr>Name = ''web'', Namespace = ''team'', Generation = 2, Finalizers = [],
        Annotations = None, Labels = Map.empty, DeletionTimestamp = None, OwnerReferences = []\<rparr>,
      exposure_Spec = \<lparr>exp_ClusterRef = example_ref, exp_AppRef = \<lparr>ar_Name = ''web'', ar_Namespace = []\<rparr>,
        exp_Host = ''web.example'', exp_Path = [], exp_Service = \<lparr>esv_Name = [], esv_Port = 0\<rparr>,
        exp_Ingress = \<lparr>ing_Enabled = None, ing_Name = [], ing_ClassName = None, ing_TLSSecretName = [],
          ing_Annotations = Map.empty\<rparr>,
        exp_TrafficProbe = \<lparr>tp_Enabled = None, tp_Type = [], tp_Scheme = [], tp_Path = [], tp_Port = 0,
          tp_TimeoutSeconds = 0, tp_ExpectedStatus = []\<rparr>\<rparr>,
      exposure_Status = \<lparr>exs_ObservedGeneration = 0, exs_AppReady = False, exs_ServiceName = [],
        exs_EndpointSliceName = [], exs_IngressName = [], exs_ProxyEndpointCount = 0,
        exs_LastAppSyncTime = None, exs_Conditions = []\<rparr>\<rparr>"

text \<open>The k1s controller's answer: one replica is wanted and one is ready.\<close>

definition ready_app_answer :: http_response where
  "ready_app_answer = \<lparr>hr_StatusCode = 200,
     hr_Body = ''{'' @ json_string_field ''desired_replicas'' ''1'' @ '','' @
       json_string_field ''ready_replicas'' ''1'' @ ''}''\<rparr>"

definition exposure_world :: env where
  "exposure_world = sample_env
     \<lparr>e_get := \<lambda>_ _ k key.
        if k = KindCluster then Inr (OCluster proxied_cluster)
        else if k = KindSecret then Inr (OSecret example_secret)
        else if k = KindExposure then Inr (OExposure example_exposure)
        else if k = KindAppMirror then Inr (mirror_of example_exposure)
        else Inl not_found_error,
      e_http := \<lambda>_ _. Inr ready_app_answer\<rparr>"

definition exposure_client :: Client where
  "exposure_client = example_client\<lparr>cli_token := []\<rparr>"

lemma exposure_world_simps [simp]:
  "lawful exposure_world" "e_http exposure_world = (\<lambda>_ _. Inr ready_app_answer)"
  "e_now exposure_world = (\<lambda>_. 0)" "e_statusPatch exposure_world = (\<lambda>_ _ _. None)"
  "e_setStatusCondition exposure_world = ref_SetStatusCondition"
  "e_retryOnConflict exposure_world = ref_retry 4"
  "e_setControllerReference exposure_world = ref_setControllerReference"
  "e_get exposure_world h rd KindExposure key = Inr (OExposure example_exposure)"
  "e_get exposure_world h rd KindAppMirror key = Inr (mirror_of example_exposure)"
  "e_get exposure_world h rd KindCluster key = Inr (OCluster proxied_cluster)"
  by (simp_all add: exposure_world_def)

lemma app_status_url:
  "\<exists>v. url_Parse (client_url exposure_client (app_status_endpoint ''web'')) = Inr v"
  by (rule exI [of _ "sample_url ''http://k1s:80/status/web?details=1''"]) code_simp

lemma ready_app_decoded:
  "\<exists>p. read_response m pth ready_app_answer None = (p, None) \<and>
     ParseAppStatus exposure_world p = empty_AppStatus\<lparr>as_Ready := True, as_DesiredReplicas := 1, as_ReadyReplicas := 1\<rparr>"
proof -
  let ?p = "Some [(''desired_replicas'', GStr ''1''), (''ready_replicas'', GStr ''1'')]"
  have "Unmarshal_map (hr_Body ready_app_answer) None = (?p, None)" "hr_Body ready_app_answer \<noteq> []"
    by code_simp+
  moreover have "take body_limit (hr_Body ready_app_answer) = hr_Body ready_app_answer"
    by (rule take_body_limit) (simp add: ready_app_answer_def json_string_field_def)
  moreover have "ParseAppStatus exposure_world ?p =
      empty_AppStatus\<lparr>as_Ready := True, as_DesiredReplicas := 1, as_ReadyReplicas := 1\<rparr>"
  proof -
    have get: "payload_get ?p ''desired_replicas'' = GStr ''1''" "payload_get ?p ''ready_replicas'' = GStr ''1''"
        "\<forall>k\<in>{''app_name'', ''name'', ''namespace'', ''live_replicas'', ''revision'', ''revision_status'',
           ''image'', ''ingress_host'', ''ingress_path'', ''pods''}. payload_get ?p k = GNil"
      by (simp_all add: payload_get_def)
    have "Atoi ''1'' = (1, None)" by code_simp
    with get show ?thesis
      by (simp add: ParseAppStatus_def empty_AppStatus_def Let_def i32_of_def str_def placements_of_def)
  qed
  ultimately show ?thesis
    by (simp add: read_response_def Let_def ready_app_answer_def)
qed

lemma run_app_status:
  obtains e where "\<And>h. run_state (api_AppStatus exposure_world exposure_client ''default'' ''web'') h =
    ((empty_AppStatus\<lparr>as_Ready := True, as_DesiredReplicas := 1, as_ReadyReplicas := 1\<rparr>, None), h @ [e])"
proof -
  obtain v where v: "url_Parse (client_url exposure_client (app_status_endpoint ''web'')) = Inr v"
    using app_status_url by blast
  obtain p where p: "read_response ''GET'' (u_Path v) ready_app_answer None = (p, None)"
      "ParseAppStatus exposure_world p =
         empty_AppStatus\<lparr>as_Ready := True, as_DesiredReplicas := 1, as_ReadyReplicas := 1\<rparr>"
    using ready_app_decoded by blast
  have "app_ref ''default'' ''web'' = ''web''" by (simp add: app_ref_def)
  with p show thesis
    by (intro that) (simp add: api_AppStatus_def getJSON_def doJSONWithLeaderRetry_def Let_def
        run_doJSONRequest [OF v])
qed

definition example_endpoints :: "ProxyEndpoint list" where
  "example_endpoints = [address_endpoint ''10.0.0.1'']"

lemma run_discover:
  "run_state (discoverProxyEndpoints exposure_world rd proxied_cluster) h = ((example_endpoints, None), h)"
proof -
  have "filter ParseIP_ok [''10.0.0.1'', ''x''] = [''10.0.0.1'']" by code_simp
  then show ?thesis
    by (simp add: discoverProxyEndpoints_def proxied_cluster_def sample_external_def example_endpoints_def)
qed

lemma run_exposure_patch:
  "run_state (patch_exposure_status exposure_world example_exposure s) h =
    (None, h @ [EGet CachedClient KindExposure (ObjectKeyFromObject (OExposure example_exposure))
         (Inr (OExposure example_exposure)),
       EStatusPatch (OExposure example_exposure) (put_exposure_status s (OExposure example_exposure)) None])"
  by (simp add: patch_exposure_status_def patchStatus_def Let_def ref_retry_4_None kube_Get_def
      status_Patch_def)

text \<open>One decision, and one object made.\<close>

lemma run_condition:
  "\<exists>cs e. run_state (set_exposure_condition exposure_world example_exposure t st reason msg s) h =
     (s\<lparr>exs_Conditions := cs\<rparr>, h @ [e]) \<and>
     exposure_cond (s\<lparr>exs_Conditions := cs\<rparr>) t = Some st"
  by (auto simp: set_exposure_condition_def setCondition_def Now_def exposure_cond_def cond_of_def
      cond_map_ref view_condition_def)

lemma run_upsert:
  assumes "Namespace (meta_of obj) = ''team''" and "OwnerReferences (meta_of obj) = []"
  shows "run_state (e_createOrUpdate exposure_world obj (owned exposure_world example_exposure f)) h =
    (let y = f (update_meta (\<lambda>m. m\<lparr>OwnerReferences := [''web'']\<rparr>) obj)
     in ((None, y), h @ [EGet CachedClient (kind_of obj) (ObjectKeyFromObject obj) (Inl not_found_error),
          ECreate y None]))"
proof -
  have "e_createOrUpdate exposure_world = ref_createOrUpdate (\<lambda>_ _ _ _. Inl not_found_error)"
    by (simp add: exposure_world_def) (simp add: sample_env_def)
  with assms show ?thesis
    by (simp add: ref_createOrUpdate_def owned_def ref_setControllerReference_def example_exposure_def Let_def)
qed

lemma example_exposure_simps:
  "exposure_Meta example_exposure = \<lparr>Name = ''web'', Namespace = ''team'', Generation = 2, Finalizers = [],
     Annotations = None, Labels = Map.empty, DeletionTimestamp = None, OwnerReferences = []\<rparr>"
  "exp_Host (exposure_Spec example_exposure) \<noteq> []" "\<not> probing example_exposure"
  "\<not> probe_EnabledOrDefault (exp_TrafficProbe (exposure_Spec example_exposure))"
  "ing_Enabled (exp_Ingress (exposure_Spec example_exposure)) = None"
  "exp_ClusterRef (exposure_Spec example_exposure) = example_ref"
  "exp_AppRef (exposure_Spec example_exposure) = \<lparr>ar_Name = ''web'', ar_Namespace = []\<rparr>"
  by (simp_all add: example_exposure_def probing_def probe_EnabledOrDefault_def)

lemmas run_object_simps = run_upsert Let_def built_meta_def example_exposure_simps bare_service_def
  bare_slice_def bare_ingress_def bare_mirror_def

lemma run_objects:
  "\<exists>new. run_state (reconcileService exposure_world c example_exposure) h = (None, h @ new)"
  "\<exists>new. run_state (reconcileEndpointSlice exposure_world c example_exposure eps) h = (None, h @ new)"
  "\<exists>new. run_state (reconcileIngress exposure_world c example_exposure) h = (None, h @ new)"
  by (simp_all add: reconcileService_def BuildExposureService_def reconcileEndpointSlice_def
      BuildExposureEndpointSlice_def reconcileIngress_def BuildExposureIngress_def
      ingress_EnabledOrDefault_def run_object_simps)

lemma run_mirror:
  "\<exists>new. run_state (reconcileMirror exposure_world example_exposure app found) h = (None, h @ new)"
proof -
  have "\<exists>y new. run_state (mirror_mutate exposure_world app found z) h = (y, h @ new)" for h z
    by (auto simp: mirror_mutate_def mirrorStatusFromApp_def Now_def setCondition_def Let_def
        split: kobject.splits)
  then have patch: "\<exists>new. run_state (patchStatus exposure_world obj (mirror_mutate exposure_world app found)) h = (None, h @ new)"
    if "kind_of obj = KindAppMirror" and "ObjectKeyFromObject obj = ObjectKeyFromObject (mirror_of example_exposure)"
    for obj h
  proof -
    let ?get = "EGet CachedClient KindAppMirror (ObjectKeyFromObject obj) (Inr (mirror_of example_exposure))"
    obtain y new where "run_state (mirror_mutate exposure_world app found (mirror_of example_exposure)) (h @ [?get]) =
        (y, (h @ [?get]) @ new)"
      using \<open>\<And>z h. \<exists>y new. run_state (mirror_mutate exposure_world app found z) h = (y, h @ new)\<close> by blast
    moreover have "kind_of (mirror_of example_exposure) = KindAppMirror" by (simp add: mirror_of_def)
    ultimately show ?thesis
      using that by (simp add: patchStatus_def Let_def kube_Get_def status_Patch_def ref_retry_4_None)
  qed
  let ?bare = "OAppMirror (bare_mirror ''web'' ''team'')"
  define made where "made = set_mirror example_exposure (update_meta (\<lambda>m. m\<lparr>OwnerReferences := [''web'']\<rparr>) ?bare)"
  have "kind_of made = KindAppMirror" "ObjectKeyFromObject made = ObjectKeyFromObject (mirror_of example_exposure)"
    by (simp_all add: made_def ObjectKeyFromObject_def mirror_of_def bare_mirror_def built_meta_def
        example_exposure_simps)
  note same = this
  obtain n1 where up: "run_state (e_createOrUpdate exposure_world ?bare
      (owned exposure_world example_exposure (set_mirror example_exposure))) h = ((None, made), h @ n1)"
    by (simp add: run_upsert bare_mirror_def built_meta_def Let_def made_def)
  obtain n2 where "run_state (patchStatus exposure_world made (mirror_mutate exposure_world app found)) (h @ n1) =
      (None, (h @ n1) @ n2)"
    using patch [OF same] by blast
  with up show ?thesis by (simp add: reconcileMirror_def example_exposure_simps)
qed

lemma run_NewClient:
  "NewClient exposure_world ''http://k1s:80'' [WithBearerToken [], WithCABundle []] = Inr exposure_client"
proof -
  have "url_Parse (TrimSpace ''http://k1s:80'') = Inr (sample_url ''http://k1s:80'') \<and>
      u_Scheme (sample_url ''http://k1s:80'') \<noteq> [] \<and> u_Host (sample_url ''http://k1s:80'') \<noteq> []"
      "TrimSpace [] = []"
    by code_simp+
  then show ?thesis
    by (simp add: exposure_client_def example_client_def NewClient_def WithBearerToken_def WithCABundle_def Let_def)
qed

text \<open>The whole synchronisation: the app is found and ready, the proxy has an address, and the exposure
  is reported ready.\<close>

lemma fine: "(\<And>h. \<exists>new. run_state m h = (r, h @ new)) \<Longrightarrow> behaves m (\<lambda>_ r'. r' = r)"
  by (rule behavesI) (metis fst_conv snd_conv)

lemmas fine_objects = run_objects [THEN fine] run_mirror [THEN fine]

lemma fine_condition:
  "behaves (set_exposure_condition exposure_world example_exposure t st reason msg s)
     (\<lambda>_ s'. exposure_cond s' t = Some st)"
  by (rule exposure_condition_last) simp_all

text \<open>The run ends with a status of the exposure in which it is ready.\<close>

definition ends_ready :: "event list \<Rightarrow> outcome \<Rightarrow> bool" where
  "ends_ready new r \<longleftrightarrow> snd r = None \<and> new \<noteq> [] \<and>
     (\<exists>s. exposure_cond s CondReady = Some ConditionTrue \<and> last new =
        EStatusPatch (OExposure example_exposure) (put_exposure_status s (OExposure example_exposure)) None)"

lemma ends_ready_after: "ends_ready new r \<Longrightarrow> ends_ready (before @ new) r"
  by (auto simp: ends_ready_def)

lemma report_ready:
  "behaves (exposure_report exposure_world None example_exposure c True True True eps s) ends_ready"
proof -
  have traffic: "behaves (exposure_traffic exposure_world None example_exposure s) (\<lambda>_ r. fst r)" for s
    by (simp add: exposure_traffic_def example_exposure_simps)
      (rule behaves_bind [OF fine_condition], simp add: behaves_return)
  have patch: "behaves (patch_exposure_status exposure_world example_exposure s) (\<lambda>new r. r = None \<and>
      new \<noteq> [] \<and> last new = EStatusPatch (OExposure example_exposure)
        (put_exposure_status s (OExposure example_exposure)) None)" for s
    by (rule behavesI) (simp add: run_exposure_patch)
  show ?thesis
    unfolding exposure_report_def Let_def
    by (rule behaves_bind [OF Now_spec], rule behaves_bind [OF fine_condition], rule behaves_bind [OF fine_condition],
        rule behaves_bind [OF traffic], rule behaves_bind [OF fine_condition], rule behaves_bind [OF patch],
        rule behaves_return) (auto simp: ends_ready_def)
qed

lemma writing_ready:
  assumes "as_Ready app"
  shows "behaves (exposure_writing exposure_world None example_exposure c app True True eps s) ends_ready"
proof -
  have ingress: "behaves (exposure_ingress exposure_world example_exposure c s) (\<lambda>_ _. True)" for s
    by (rule behaves_mono [OF exposure_ingress_spec [where eps = "[]"]]) simp_all
  have report: "behaves (exposure_report exposure_world None example_exposure c True True True eps s)
      (\<lambda>new. ends_ready (before @ new))" for s before
    by (rule behaves_mono [OF report_ready]) (rule ends_ready_after)
  show ?thesis
    unfolding exposure_writing_def
    by (rule behaves_bind [OF fine_objects(1)], simp, rule behaves_bind [OF fine_objects(2)], simp,
        rule behaves_bind [OF ingress], rule behaves_bind [OF fine_objects(4)])
      (use report [where before = "_ @ _ @ _ @ _"] assms in simp)
qed

text \<open>What the writing steps lead to, the whole synchronisation leads to, if it lasts.\<close>

lemma sync_leads:
  assumes "\<And>c a eps s. as_Ready a \<Longrightarrow>
      behaves (exposure_writing exposure_world None example_exposure c a True True eps s) G"
    and "\<And>before new r. G new r \<Longrightarrow> G (before @ new) r"
  shows "behaves (exposure_sync exposure_world (Some APIReader) None example_exposure proxied_cluster exposure_client) G"
proof -
  have app: "behaves (api_AppStatus exposure_world exposure_client ''default'' ''web'')
      (\<lambda>_ r. snd r = None \<and> as_Ready (fst r))"
    by (rule run_app_status) (auto intro!: behavesI)
  have proxy: "behaves (discoverProxyEndpoints exposure_world rd proxied_cluster) (\<lambda>_ r. r = (example_endpoints, None))" for rd
    by (rule fine) (simp add: run_discover)
  have writing: "behaves (exposure_writing exposure_world None example_exposure c a True True eps s)
      (\<lambda>new. G (before @ new))" if "as_Ready a" for c a eps s before
    by (rule behaves_mono [OF assms(1) [OF that]]) (rule assms(2))
  show ?thesis
    unfolding exposure_sync_def Let_def NamespaceOrDefault_def example_exposure_simps
    by (simp, rule behaves_bind [OF app], rule behaves_bind [OF fine_condition],
        rule behaves_bind [OF fine_condition], rule behaves_bind [OF proxy],
        rule behaves_bind [OF fine_condition])
      (use writing [where before = "_ @ _ @ _ @ _ @ _"] in \<open>simp add: example_endpoints_def\<close>)
qed

lemma sync_ready:
  "behaves (exposure_sync exposure_world (Some APIReader) None example_exposure proxied_cluster exposure_client) ends_ready"
  by (rule sync_leads) (auto intro: writing_ready ends_ready_after)

theorem exposure_ready_is_earned_witness:
  "\<exists>new s. trace_of (exposure_sync exposure_world (Some APIReader) None example_exposure proxied_cluster exposure_client) [] = new \<and>
     EStatusPatch (OExposure example_exposure) (put_exposure_status s (OExposure example_exposure)) None \<in> set new \<and>
     exposure_cond s CondReady = Some ConditionTrue \<and> good_seen new \<and> exs_ObservedGeneration s = 2"
proof -
  let ?m = "exposure_sync exposure_world (Some APIReader) None example_exposure proxied_cluster exposure_client"
  obtain r new where run: "run_state ?m [] = (r, [] @ new)" and "ends_ready new r"
    using behavesE [OF sync_ready, of "[]"] by (metis prod.collapse)
  then obtain s where e: "EStatusPatch (OExposure example_exposure)
      (put_exposure_status s (OExposure example_exposure)) None \<in> set new"
    and ready: "exposure_cond s CondReady = Some ConditionTrue"
    unfolding ends_ready_def by (metis last_in_set)
  have "\<exists>s'. put_exposure_status s (OExposure example_exposure) = put_exposure_status s' (OExposure example_exposure) \<and>
      exs_ObservedGeneration s' = 2 \<and> (exposure_cond s' CondReady = Some ConditionTrue \<longrightarrow> good_seen new)"
    using exposure_ready_is_earned [OF _ _ run e]
    by (auto simp: quiet_probe_def example_exposure_simps)
  moreover have "s' = s" if "put_exposure_status s (OExposure x) = put_exposure_status s' (OExposure x)" for s' x
    using that by (cases x) simp
  ultimately have "good_seen new" "exs_ObservedGeneration s = 2"
    using ready by metis+
  with run e ready show ?thesis by (metis append_Nil snd_conv)
qed

theorem exposure_writes_confined_witness:
  "\<exists>new eps. trace_of (exposure_sync exposure_world (Some APIReader) None example_exposure proxied_cluster exposure_client) [] = new \<and>
     new \<noteq> [] \<and> exposure_write proxied_cluster example_exposure eps (last new)"
proof -
  let ?m = "exposure_sync exposure_world (Some APIReader) None example_exposure proxied_cluster exposure_client"
  obtain r new where run: "run_state ?m [] = (r, [] @ new)" and "ends_ready new r"
    using behavesE [OF sync_ready, of "[]"] by (metis prod.collapse)
  then have "new \<noteq> []" by (simp add: ends_ready_def)
  have "quiet_probe None example_exposure" by (simp add: quiet_probe_def)
  from exposure_writes_confined [OF exposure_world_simps(1) this run]
  obtain eps where "exposure_write proxied_cluster example_exposure eps (last new)"
    using last_in_set [OF \<open>new \<noteq> []\<close>] by blast
  with run \<open>new \<noteq> []\<close> show ?thesis by (metis append_Nil snd_conv)
qed

text \<open>The whole reconciliation of that exposure.\<close>

lemma reconcile_leads:
  assumes "\<And>c a eps s. as_Ready a \<Longrightarrow>
      behaves (exposure_writing exposure_world None example_exposure c a True True eps s) G"
    and "\<And>before new r. G new r \<Longrightarrow> G (before @ new) r"
  shows "behaves (reconcile_exposure exposure_world (Some APIReader) None example_exposure) G"
proof -
  have cluster: "behaves (kube_Get exposure_world CachedClient KindCluster \<lparr>nn_Namespace = ''k1s'', nn_Name = ''c''\<rparr>)
      (\<lambda>_ r. r = Inr (OCluster proxied_cluster))"
    by (rule fine) (simp add: kube_Get_def ObjectKeyFromObject_def proxied_cluster_def example_cluster_def)
  have sync: "behaves (exposure_sync exposure_world (Some APIReader) None example_exposure proxied_cluster exposure_client)
      (\<lambda>new. G (before @ new))" for before
    by (rule behaves_mono [OF sync_leads [OF assms]], assumption, assumption) (rule assms(2))
  have creds: "behaves (loadCredentials exposure_world ''k1s'' (cl_AuthSecretRef (cluster_Spec proxied_cluster)))
      (\<lambda>_ r. r = (\<lparr>readToken = [], writeToken = ''t'', caBundle = []\<rparr>, None))"
    by (rule fine) (simp add: loadCredentials_def kube_Get_def proxied_cluster_def example_cluster_def
        exposure_world_def example_secret_def auth_NamespaceOr_def ObjectKeyFromObject_def auth_defs Let_def)
  have meta: "Namespace (cluster_Meta proxied_cluster) = ''k1s''"
      "ep_URL (cl_Controller (cluster_Spec proxied_cluster)) = ''http://k1s:80''"
    by (simp_all add: proxied_cluster_def example_cluster_def)
  show ?thesis
    unfolding reconcile_exposure_def
    by (simp add: example_exposure_simps NamespaceOr_def example_ref_def, rule behaves_bind [OF cluster],
        simp add: meta, rule behaves_bind [OF creds])
      (use sync [where before = "_ @ _"] in \<open>simp add: run_NewClient meta\<close>)
qed

lemma reconcile_ready:
  "behaves (K1sExposure_Reconcile exposure_world (Some APIReader) None (ObjectKeyFromObject (OExposure example_exposure))) ends_ready"
proof -
  have get: "behaves (kube_Get exposure_world CachedClient KindExposure (ObjectKeyFromObject (OExposure example_exposure)))
      (\<lambda>_ r. r = Inr (OExposure example_exposure))"
    by (rule fine) (simp add: kube_Get_def)
  have rest: "behaves (reconcile_exposure exposure_world (Some APIReader) None example_exposure)
      (\<lambda>new. ends_ready (before @ new))" for before
    by (rule behaves_mono [OF reconcile_leads [where G = ends_ready]])
      (auto intro: writing_ready ends_ready_after)
  show ?thesis
    unfolding K1sExposure_Reconcile_def by (rule behaves_bind [OF get]) (simp add: rest)
qed

theorem exposure_success_is_applied_witness:
  "\<exists>new x. trace_of (K1sExposure_Reconcile exposure_world (Some APIReader) None
      (ObjectKeyFromObject (OExposure example_exposure))) [] = new \<and>
     EGet CachedClient KindExposure (ObjectKeyFromObject (OExposure example_exposure)) (Inr (OExposure x)) \<in> set new \<and>
     last_accepted x new"
proof -
  let ?m = "K1sExposure_Reconcile exposure_world (Some APIReader) None (ObjectKeyFromObject (OExposure example_exposure))"
  obtain r new where run: "run_state ?m [] = (r, [] @ new)" and ready: "ends_ready new r"
    using behavesE [OF reconcile_ready, of "[]"] by (metis prod.collapse)
  then have "r = (fst r, None)" by (simp add: ends_ready_def prod_eq_iff)
  with run have "run_state ?m [] = ((fst r, None), [] @ new)" by simp
  from exposure_success_is_applied [OF _ _ this] ready
  have "\<exists>x. EGet CachedClient KindExposure (ObjectKeyFromObject (OExposure example_exposure)) (Inr (OExposure x)) \<in> set new \<and>
      last_accepted x new"
    by (auto simp: quiet_probe_def ends_ready_def)
  with run show ?thesis by (metis append_Nil snd_conv)
qed

end
