(* ===== verification/Manager.thy ===== *)
theory Manager
  imports ManagedResources
begin

text \<open>
  src/cmd/manager/main.go: how the entry point reads its lists of namespaces and kinds. The sequence
  of its calls is in \<open>Startup\<close>.
\<close>

fun csv_loop :: "string list \<Rightarrow> string list \<Rightarrow> string list" where
  "csv_loop seen [] = []"
| "csv_loop seen (v # vs) =
     (let value = TrimSpace v in
      if value = [] then csv_loop seen vs
      else if value \<in> set seen then csv_loop seen vs
      else value # csv_loop (value # seen) vs)"

definition csvValues :: "string \<Rightarrow> string list" where
  "csvValues raw = csv_loop [] (Split raw (CHR '',''))"

definition watchNamespaces :: "string \<Rightarrow> string list" where
  "watchNamespaces raw = csvValues raw"

text \<open>The namespaces the manager's cache is limited to; \<open>None\<close> is no limit. \<open>raw\<close> is the environment
  variable \<open>WATCH_NAMESPACE\<close>.\<close>

definition cache_namespaces :: "string \<Rightarrow> string set option" where
  "cache_namespaces raw =
     (let namespaces = watchNamespaces raw in if 0 < length namespaces then Some (set namespaces) else None)"

text \<open>The default of the flag \<open>resourceset-allowed-kinds\<close>.\<close>

definition default_resourceset_allowed_kinds :: string where
  "default_resourceset_allowed_kinds = join_with '','' DefaultResourceSetAllowedKinds"

lemma csv_loop_normalize: "csv_loop seen vs = normalize_from seen vs"
  by (induction vs arbitrary: seen) (auto simp: Let_def)

lemma watchNamespaces_eq: "watchNamespaces raw = normalizeKindList (Split raw (CHR '',''))"
  by (simp add: watchNamespaces_def csvValues_def csv_loop_normalize normalizeKindList_def)

lemma cache_namespaces_eq:
  "cache_namespaces raw =
     (if list_all (\<lambda>v. TrimSpace v = []) (Split raw (CHR '','')) then None
      else Some (TrimSpace ` set (Split raw (CHR '','')) - {[]}))"
proof -
  have names: "set (watchNamespaces raw) = TrimSpace ` set (Split raw (CHR '','')) - {[]}"
    by (auto simp: watchNamespaces_eq set_normalizeKindList)
  then have "watchNamespaces raw = [] \<longleftrightarrow> list_all (\<lambda>v. TrimSpace v = []) (Split raw (CHR '',''))"
    by (auto simp: list_all_iff simp flip: set_empty)
  with names show ?thesis by (simp add: cache_namespaces_def Let_def)
qed

text \<open>
  The two places that read a comma-separated list agree: the flag's kinds go through
  \<open>csvValues\<close> and then through the reconciler's \<open>normalizeKindList\<close>, which is the same function of
  the parts; no value that is watched or allowed is empty or repeated; the manager is limited to
  the namespaces named, and not limited at all exactly when every part is blank; and the flag's
  default reads back as the default kinds.
\<close>

lemma csvValues_correct:
  "csvValues raw = normalizeKindList (Split raw (CHR '','')) \<and>
   distinct (watchNamespaces raw) \<and> [] \<notin> set (watchNamespaces raw) \<and>
   cache_namespaces raw =
     (if list_all (\<lambda>v. TrimSpace v = []) (Split raw (CHR '','')) then None
      else Some (TrimSpace ` set (Split raw (CHR '','')) - {[]})) \<and>
   csvValues default_resourceset_allowed_kinds = DefaultResourceSetAllowedKinds"
proof -
  have "csvValues default_resourceset_allowed_kinds = DefaultResourceSetAllowedKinds" by code_simp
  then show ?thesis
    by (auto simp: watchNamespaces_def csvValues_def csv_loop_normalize normalizeKindList_def
        normalize_from_eq cache_namespaces_eq)
qed

section \<open>The kinds a resource set may manage\<close>

text \<open>The policy of docs/installation.md and docs/security-rbac.md, over sets: the list in the
  resource can only narrow the cap of the operator.\<close>

definition narrowed :: "string set \<Rightarrow> string set \<Rightarrow> string set option" where
  "narrowed cap requested =
     (if requested = {} then Some cap else if requested \<subseteq> cap then Some requested else None)"

definition named_values :: "string list \<Rightarrow> string set" where
  "named_values vs = TrimSpace ` set vs - {[]}"

definition operator_cap :: "string \<Rightarrow> string set" where
  "operator_cap raw =
     (let named = named_values (Split raw (CHR '',''))
      in if named = {} then set DefaultResourceSetAllowedKinds else named)"

lemma set_normalize: "set (normalizeKindList vs) = named_values vs"
  by (auto simp: set_normalizeKindList named_values_def)

lemma csvValues_normal: "csvValues raw = normalizeKindList (Split raw (CHR '',''))"
  using watchNamespaces_eq by (simp add: watchNamespaces_def)

lemma operator_kinds_csvValues: "operator_kinds (csvValues raw) = operator_cap raw"
proof -
  have "named_values (csvValues raw) = named_values (Split raw (CHR '',''))"
    by (auto simp: csvValues_normal named_values_def [of "normalizeKindList _"] set_normalize)
      (auto simp: named_values_def TrimSpace_idem intro!: rev_image_eqI)
  moreover have "operator_kinds kinds =
      (if named_values kinds = {} then set DefaultResourceSetAllowedKinds else named_values kinds)" for kinds
    by (auto simp: operator_kinds_def named_values_def)
  ultimately show ?thesis by (simp add: operator_cap_def Let_def)
qed

text \<open>
  C31: the kinds that the reconciler of resource sets lets through, with the operator's flag read by
  \<open>csvValues\<close> in \<open>main\<close>, refine the documented policy: a resource set without kinds of its own may
  manage the kinds of the flag, or the default kinds when the flag names none; one with kinds may
  manage exactly those when the operator may manage all of them, and is refused otherwise. Neither
  list can widen the other.
\<close>

theorem allowedKinds_refines_policy:
  "(case allowedKindsFor (csvValues raw) x of Inr allowed \<Rightarrow> Some allowed | Inl _ \<Rightarrow> None) =
     narrowed (operator_cap raw) (named_values (rs_AllowedKinds (rs_Spec x)))"
proof -
  let ?requested = "normalizeKindList (rs_AllowedKinds (rs_Spec x))"
  have "?requested = [] \<longleftrightarrow> named_values (rs_AllowedKinds (rs_Spec x)) = {}"
    by (simp flip: set_normalize)
  then show ?thesis
    using cap_kinds [of "csvValues raw"] set_normalize [of "rs_AllowedKinds (rs_Spec x)"]
    by (auto simp: allowedKindsFor_def Let_def narrowed_def operator_kinds_csvValues kindSet_def
        find_None_iff find_Some_iff split: option.splits)
qed

end
