(* ===== verification/Operator.thy ===== *)
theory Operator
  imports Rbac Cluster App Inference ResourceSet ExposureReport Manager
begin

text \<open>
  The whole operator: src/cmd/manager/main.go hands every request of a work queue to the reconciler
  of its kind, and the five reconcilers run side by side. \<open>operates\<close> is every interleaving of any
  number of reconciliations, each in an environment of its own (so the answers a reconciliation gets
  may depend in any way on what the others do).
\<close>

section \<open>The code\<close>

datatype work =
    WorkCluster namespaced_name
  | WorkExposure namespaced_name
  | WorkApp namespaced_name
  | WorkInference namespaced_name
  | WorkResourceSet namespaced_name

text \<open>The reconcilers as \<open>main\<close> makes them; \<open>resourceSetAllowedKinds\<close> is the flag.\<close>

fun manager_reconcile :: "env \<Rightarrow> string \<Rightarrow> work \<Rightarrow> outcome io" where
  "manager_reconcile E resourceSetAllowedKinds (WorkCluster req) = K1sCluster_Reconcile E (Some APIReader) req"
| "manager_reconcile E resourceSetAllowedKinds (WorkExposure req) =
     K1sExposure_Reconcile E (Some APIReader) None req"
| "manager_reconcile E resourceSetAllowedKinds (WorkApp req) = K1sApp_Reconcile E req"
| "manager_reconcile E resourceSetAllowedKinds (WorkInference req) = K1sInferenceEndpoint_Reconcile E req"
| "manager_reconcile E resourceSetAllowedKinds (WorkResourceSet req) =
     K1sResourceSet_Reconcile E (csvValues resourceSetAllowedKinds) req"

text \<open>The object that a piece of work is about.\<close>

fun work_key :: "work \<Rightarrow> namespaced_name" where
  "work_key (WorkCluster req) = req"
| "work_key (WorkExposure req) = req"
| "work_key (WorkApp req) = req"
| "work_key (WorkInference req) = req"
| "work_key (WorkResourceSet req) = req"

text \<open>\<open>ns\<close> is the namespace that the manager watches, so the namespace of every object in its queues.\<close>

inductive operates :: "string \<Rightarrow> string \<Rightarrow> event list \<Rightarrow> bool" for ns flag :: string where
  idle: "operates ns flag []"
| works: "operates ns flag h \<Longrightarrow> lawful E \<Longrightarrow> nn_Namespace (work_key work) = ns \<Longrightarrow>
    trace_of (manager_reconcile E flag work) g = g @ new \<Longrightarrow> h' \<in> shuffles h new \<Longrightarrow> operates ns flag h'"

section \<open>What an exchange of the operator is\<close>

text \<open>Only the status differs.\<close>

fun only_status :: "kobject \<Rightarrow> kobject \<Rightarrow> bool" where
  "only_status (OCluster x) y \<longleftrightarrow> (\<exists>s. y = OCluster (x\<lparr>cluster_Status := s\<rparr>))"
| "only_status (OExposure x) y \<longleftrightarrow> (\<exists>s. y = OExposure (x\<lparr>exposure_Status := s\<rparr>))"
| "only_status (OAppMirror x) y \<longleftrightarrow> (\<exists>s. y = OAppMirror (x\<lparr>mirror_Status := s\<rparr>))"
| "only_status (OApp x) y \<longleftrightarrow> (\<exists>s. y = OApp (x\<lparr>app_Status := s\<rparr>))"
| "only_status (OInference x) y \<longleftrightarrow> (\<exists>s. y = OInference (x\<lparr>inf_Status := s\<rparr>))"
| "only_status (OResourceSet x) y \<longleftrightarrow> (\<exists>s. y = OResourceSet (x\<lparr>rs_Status := s\<rparr>))"
| "only_status _ y \<longleftrightarrow> False"

text \<open>Only the finalizers or the annotations differ.\<close>

definition only_bookkeeping :: "kobject \<Rightarrow> kobject \<Rightarrow> bool" where
  "only_bookkeeping x y \<longleftrightarrow>
     (\<exists>fs. y = update_meta (\<lambda>m. m\<lparr>Finalizers := fs\<rparr>) x) \<or>
     (\<exists>ann. y = update_meta (\<lambda>m. m\<lparr>Annotations := ann\<rparr>) x)"

definition capability_kinds :: "object_kind list" where
  "capability_kinds = [KindApp, KindInferenceEndpoint, KindResourceSet]"

text \<open>\<open>ns\<close> is the namespace of the object that is reconciled: everything that is written lies in it.\<close>

definition operator_event :: "string \<Rightarrow> event \<Rightarrow> bool" where
  "operator_event ns e \<longleftrightarrow> (case e of
     EGet rd k _ _ \<Rightarrow> (k = KindConfigMap \<longleftrightarrow> rd = APIReader)
   | EListSlices rd _ _ _ \<Rightarrow> rd = APIReader
   | EStatusPatch cur y _ \<Rightarrow> only_status cur y \<and> namespace_of cur = ns
   | EPatch cur y _ \<Rightarrow> kind_of cur \<in> set capability_kinds \<and> only_bookkeeping cur y \<and> namespace_of cur = ns
   | ECreate y _ \<Rightarrow> kind_of y \<in> set generated_kinds \<and> namespace_of y = ns
   | EUpdate cur y _ \<Rightarrow> kind_of y \<in> set generated_kinds \<and> same_object y cur \<and> namespace_of y = ns
   | EDelete y _ \<Rightarrow> kind_of y = KindIngress \<and> namespace_of y = ns
   | _ \<Rightarrow> True)"

lemma operator_event_simps [simp]:
  "operator_event ns (EHTTP q a)" "operator_event ns (ESleep d w)" "operator_event ns (ENow n)"
  "operator_event ns (ELookupHost dn l)"
  "operator_event ns (EProbeDial ad t v)" "operator_event ns (EProbeGet u t w')" "operator_event ns (ELog m)"
  "operator_event ns (EListSlices rd ns' svc r) \<longleftrightarrow> rd = APIReader"
  "operator_event ns (EGet rd k key x) \<longleftrightarrow> (k = KindConfigMap \<longleftrightarrow> rd = APIReader)"
  "operator_event ns (EStatusPatch cur y o1) \<longleftrightarrow> only_status cur y \<and> namespace_of cur = ns"
  "operator_event ns (EPatch cur y o2) \<longleftrightarrow> kind_of cur \<in> set capability_kinds \<and> only_bookkeeping cur y \<and> namespace_of cur = ns"
  "operator_event ns (ECreate y o3) \<longleftrightarrow> kind_of y \<in> set generated_kinds \<and> namespace_of y = ns"
  "operator_event ns (EUpdate cur y o4) \<longleftrightarrow> kind_of y \<in> set generated_kinds \<and> same_object y cur \<and> namespace_of y = ns"
  "operator_event ns (EDelete y o5) \<longleftrightarrow> kind_of y = KindIngress \<and> namespace_of y = ns"
  by (simp_all add: operator_event_def)

text \<open>A read outside the namespace that the operator is installed in: of the bootstrap ConfigMap, or of
  the EndpointSlices of the proxy, with the API reader.\<close>

fun foreign_read :: "event \<Rightarrow> bool" where
  "foreign_read (EGet rd k key _) \<longleftrightarrow> rd = APIReader \<and> k = KindConfigMap \<and> nn_Namespace key \<noteq> install_namespace"
| "foreign_read (EListSlices rd ns _ _) \<longleftrightarrow> rd = APIReader \<and> ns \<noteq> install_namespace"
| "foreign_read _ \<longleftrightarrow> False"

text \<open>An exchange of that form needs nothing that the two roles do not grant, but for what is read of
  Secrets, and in other namespaces.\<close>

lemma operator_event_permitted:
  assumes "operator_event ns e"
  shows "permitted rbac_markers (Some ws) e"
    and "ns = install_namespace \<Longrightarrow> permitted manager_role (Some {ns}) e \<or>
      (\<exists>key a. e = EGet CachedClient KindSecret key a) \<or> foreign_read e"
proof -
  have own: "kind_of cur \<in> set own_kinds" if "only_status cur y" for cur y
    using that by (cases cur) (simp_all add: own_kinds_def)
  have cap: "k \<in> set own_kinds" if "k \<in> set capability_kinds" for k
    using that by (auto simp: own_kinds_def capability_kinds_def)
  have ingress: "KindIngress \<in> set generated_kinds"
    by (simp add: generated_kinds_def)
  show "permitted rbac_markers (Some ws) e"
    using assms own cap ingress
    by (cases e) (auto simp: permitted_def read_permitted_def grants_read grants_write simp del: resource_of.simps
        split: reader.splits)
  have slices: "grants manager_role install_namespace (resource_of KindEndpointSlice) ''list''"
    by (rule grants_read(3)) (simp_all add: read_kinds_def)
  show "ns = install_namespace \<Longrightarrow> permitted manager_role (Some {ns}) e \<or>
      (\<exists>key a. e = EGet CachedClient KindSecret key a) \<or> foreign_read e"
    using assms own cap ingress slices
    by (cases e) (auto simp: permitted_def read_permitted_def grants_read grants_write read_kinds_def
        simp del: resource_of.simps split: reader.splits)
qed

section \<open>The steps of the reconcilers\<close>

named_theorems operator_steps \<open>what the steps of the reconcilers exchange\<close>

lemma emits_kobject [operator_steps]:
  assumes "\<And>x. emits P (f1 x)" "\<And>x. emits P (f2 x)" "\<And>x. emits P (f3 x)" "\<And>x. emits P (f4 x)"
    "\<And>x. emits P (f5 x)" "\<And>x. emits P (f6 x)" "\<And>x. emits P (f7 x)" "\<And>x. emits P (f8 x)"
    "\<And>x. emits P (f9 x)" "\<And>x. emits P (f10 x)" "\<And>x. emits P (f11 x)"
  shows "emits P (case_kobject f1 f2 f3 f4 f5 f6 f7 f8 f9 f10 f11 y)"
  using assms by (cases y) simp_all

lemma client_traffic_operator: "client_traffic c e \<Longrightarrow> operator_event ns e"
  by (cases e) (simp_all add: client_traffic_def)

lemmas operator_calls [operator_steps] =
  status.traffic [THEN emits_mono, OF client_traffic_operator]
  get.traffic [THEN emits_mono, OF client_traffic_operator]
  app_status.traffic [THEN emits_mono, OF client_traffic_operator]
  nodes.traffic [THEN emits_mono, OF client_traffic_operator]
  delete_app.traffic [THEN emits_mono, OF client_traffic_operator]
  inference_status.traffic [THEN emits_mono, OF client_traffic_operator]
  delete_inference.traffic [THEN emits_mono, OF client_traffic_operator]
  apply_manifest.traffic [THEN emits_mono, OF client_traffic_operator]

lemma operator_exchanges [operator_steps]:
  "emits (operator_event ns) (Now E)"
  "emits (operator_event ns) (log_message msg)"
  "(k = KindConfigMap \<longleftrightarrow> rd = APIReader) \<Longrightarrow> emits (operator_event ns) (kube_Get E rd k key)"
  "kind_of y = KindIngress \<Longrightarrow> namespace_of y = ns \<Longrightarrow> emits (operator_event ns) (kube_Delete E y)"
  by (rule emitsI [OF Now_spec], simp, rule emitsI [OF log_message_spec], simp,
      rule emitsI [OF kube_Get_spec], force, rule emitsI [OF kube_Delete_spec], simp)

lemma operator_reads [operator_steps]:
  "emits (operator_event ns) (loadCredentials E owner ref)"
  "emits (operator_event ns) (discoverProxyEndpoints E APIReader cluster)"
  "emits (operator_event ns) (defaultTrafficProbe E x)"
proof -
  show "emits (operator_event ns) (loadCredentials E owner ref)"
    by (rule emitsI [OF loadCredentials_spec])
      (auto simp: credentials_ok_def secret_get_def split: option.splits)
  show "emits (operator_event ns) (discoverProxyEndpoints E APIReader cluster)"
    unfolding emits_def discoverProxyEndpoints_def Let_def
    by (auto split: sum.splits intro!: behaves_rules behaves_return exchange_steps)
  show "emits (operator_event ns) (defaultTrafficProbe E x)"
    by (rule emitsI [OF defaultTrafficProbe_spec])
      (auto simp: is_probe_def operator_event_def split: event.splits)
qed

lemma patched_operator:
  assumes "object_patch.patch_event obj M e" and "kind_of obj \<in> set capability_kinds" and "namespace_of obj = ns"
    and "\<And>cur y. M cur y \<Longrightarrow> only_bookkeeping cur y"
  shows "operator_event ns e"
  using assms by (cases e) (auto simp: object_patch_event same_object_def ObjectKeyFromObject_def capability_kinds_def)

lemma status_patched_operator:
  assumes "status_patch.patch_event obj M e" and "kind_of obj \<noteq> KindConfigMap" and "namespace_of obj = ns"
    and "\<And>cur y. same_object cur obj \<Longrightarrow> M cur y \<Longrightarrow> only_status cur y"
  shows "operator_event ns e"
  using assms by (cases e) (auto simp: status_patch_event same_object_def ObjectKeyFromObject_def)

lemma operator_patches [operator_steps]:
  assumes "lawful E" and "kind_of obj \<in> set capability_kinds" and "namespace_of obj = ns"
  shows "emits (operator_event ns) (patchFinalizers E obj fs)"
    and "emits (operator_event ns) (patchLastAppliedHash E obj hash)"
proof -
  show "emits (operator_event ns) (patchFinalizers E obj fs)"
    by (rule emitsI [OF patchFinalizers_spec [OF assms(1)]])
      (auto intro!: patched_operator [OF _ assms(2,3)] simp: only_bookkeeping_def)
  have "\<exists>ann. update_meta (annotate k v) x = update_meta (\<lambda>m. m\<lparr>Annotations := ann\<rparr>) x" for k v x
    by (rule exI [of _ "Annotations (annotate k v (meta_of x))"]) (cases x; simp add: annotate_def)
  then show "emits (operator_event ns) (patchLastAppliedHash E obj hash)"
    by (intro emitsI [OF patchLastAppliedHash_spec [OF assms(1)]])
      (auto intro!: patched_operator [OF _ assms(2,3)] simp: only_bookkeeping_def)
qed

text \<open>A status patch whose change is a change of the status.\<close>

lemma status_only_patch:
  assumes "lawful E" and "kind_of obj \<noteq> KindConfigMap" and "namespace_of obj = ns"
    and "\<And>cur. same_object cur obj \<Longrightarrow> behaves (mutate cur) (\<lambda>new y. only_clock new \<and> only_status cur y)"
  shows "emits (operator_event ns) (patchStatus E obj mutate)"
  by (rule emitsI [OF patchStatus_spec [OF assms(1,4)]])
    (auto intro: status_patched_operator [OF _ assms(2,3)])

lemma only_status_puts:
  "same_object cur (OApp a) \<Longrightarrow> only_status cur (put_app_status s1 cur)"
  "same_object cur (OInference i) \<Longrightarrow> only_status cur (put_inference_status s2 cur)"
  "same_object cur (OResourceSet r) \<Longrightarrow> only_status cur (put_rset_status s3 cur)"
  "same_object cur (OCluster c) \<Longrightarrow> only_status cur (put_cluster_status s4 cur)"
  "same_object cur (OExposure x) \<Longrightarrow> only_status cur (put_exposure_status s5 cur)"
  by (cases cur; auto simp: same_object_def)+

lemma operator_status_patches [operator_steps]:
  assumes "lawful E"
  shows "Namespace (app_Meta a) = ns \<Longrightarrow> emits (operator_event ns) (patch_app_status E a s1)"
    and "Namespace (inf_Meta i) = ns \<Longrightarrow> emits (operator_event ns) (patch_inference_status E i s2)"
    and "Namespace (rs_Meta r) = ns \<Longrightarrow> emits (operator_event ns) (patch_rset_status E r s3)"
    and "Namespace (exposure_Meta x) = ns \<Longrightarrow> emits (operator_event ns) (patch_exposure_status E x s5)"
    and "Namespace (cluster_Meta c) = ns \<Longrightarrow>
      emits (operator_event ns) (patchStatus E (OCluster c) (\<lambda>cur. State_Monad.return (put_cluster_status s4 cur)))"
  unfolding patch_app_status_def patch_inference_status_def patch_rset_status_def patch_exposure_status_def
  by (rule status_only_patch [OF assms]; auto intro!: behaves_return only_status_puts)+

section \<open>The reconcilers\<close>

lemmas set_condition_defs = set_cluster_condition_def set_app_condition_def set_inference_condition_def
  set_rset_condition_def set_exposure_condition_def setCondition_def

lemma operator_conditions [operator_steps]:
  "emits (operator_event ns) (set_cluster_condition E c t st reason msg s1)"
  "emits (operator_event ns) (set_app_condition E a t st reason msg s2)"
  "emits (operator_event ns) (set_inference_condition E i t st reason msg s3)"
  "emits (operator_event ns) (set_rset_condition E r t st reason msg s4)"
  "emits (operator_event ns) (set_exposure_condition E x t st reason msg s5)"
  unfolding set_condition_defs by (intro emits_rules operator_steps)+

lemma operator_health [operator_steps]: "emits (operator_event ns) (Health E c)"
  unfolding Health_def by (intro emits_rules operator_steps)

text \<open>The object is in the namespace of its request.\<close>

lemma operator_got:
  assumes "k \<noteq> KindConfigMap" and "\<And>e. emits (operator_event ns) (f (Inl e))"
    and "\<And>y. kind_of y = k \<Longrightarrow> namespace_of y = nn_Namespace req \<Longrightarrow> emits (operator_event ns) (f (Inr y))"
  shows "emits (operator_event ns) (State_Monad.bind (kube_Get E CachedClient k req) f)"
proof (rule emits_bind_spec [OF kube_Get_spec], goal_cases)
  case (2 n1 r)
  then show ?case
    using assms(2,3) by (cases r) (auto simp: ObjectKeyFromObject_def)
qed (use assms(1) in auto)

lemma operator_cluster:
  assumes "lawful E" and "nn_Namespace req = ns"
  shows "emits (operator_event ns) (K1sCluster_Reconcile E (Some APIReader) req)"
proof -
  have own: "emits (operator_event (Namespace (cluster_Meta c))) (reconcile_cluster E (Some APIReader) c)" for c
    unfolding reconcile_cluster_def gather_cluster_status_def credentials_status_def
      bootstrap_status_def controller_status_def proxy_status_def apishim_status_def ready_status_def Let_def option.case
    by (intro emits_rules operator_steps assms refl) simp_all
  show ?thesis
    unfolding K1sCluster_Reconcile_def
    by (rule operator_got) (auto simp: own assms(2) split: kobject.split)
qed

lemmas operator_capability_defs = writeClient_def add_finalizer_def remove_finalizer_def

lemma operator_app:
  assumes "lawful E" and "nn_Namespace req = ns"
  shows "emits (operator_event ns) (K1sApp_Reconcile E req)"
proof -
  have own: "emits (operator_event (Namespace (app_Meta a))) (reconcile_app E a)" for a
    unfolding reconcile_app_def operator_capability_defs app_no_client_def
      app_delete_remote_def app_delete_failed_def app_sync_def app_reject_empty_def app_reject_kind_def
      app_resync_def app_look_def apply_manifest_def app_report_def app_observe_def Let_def
    by (intro emits_rules operator_steps assms refl) (simp_all add: capability_kinds_def)
  show ?thesis
    unfolding K1sApp_Reconcile_def
    by (rule operator_got) (auto simp: own assms(2) split: kobject.split)
qed

lemma operator_inference:
  assumes "lawful E" and "nn_Namespace req = ns"
  shows "emits (operator_event ns) (K1sInferenceEndpoint_Reconcile E req)"
proof -
  have own: "emits (operator_event (Namespace (inf_Meta i))) (reconcile_inference E i)" for i
    unfolding reconcile_inference_def operator_capability_defs
      inference_no_client_def inference_delete_remote_def inference_delete_failed_def inference_sync_def
      inference_reject_def inference_resync_def inference_look_def apply_manifest_def inference_report_def
      inference_observe_def inferenceStatusForEndpoint_def InferenceCellStatus_def InferenceCellSetStatus_def
      DeleteInferenceCell_def DeleteInferenceCellSet_def Let_def
    by (intro emits_rules operator_steps assms refl) (simp_all add: capability_kinds_def)
  show ?thesis
    unfolding K1sInferenceEndpoint_Reconcile_def
    by (rule operator_got) (auto simp: own assms(2) split: kobject.split)
qed

lemma operator_delete_managed [operator_steps]:
  "emits (operator_event ns) (deleteManagedResource E api m)"
  unfolding deleteManagedResource_def DeleteInferenceCell_def DeleteInferenceCellSet_def
  by (intro emits_rules operator_steps)

lemma operator_loops [operator_steps]:
  "emits (operator_event ns) (deleteManagedResources E api ms)"
  "emits (operator_event ns) (prune_from E api desiredKeys ms)"
  "emits (operator_event ns) (apply_manifests E api shouldApply raws n)"
proof -
  show "emits (operator_event ns) (deleteManagedResources E api ms)"
    by (induction ms) (auto intro!: emits_rules operator_steps)
  show "emits (operator_event ns) (prune_from E api desiredKeys ms)"
    by (induction ms) (auto intro!: emits_rules operator_steps)
  show "emits (operator_event ns) (apply_manifests E api shouldApply raws n)"
    by (induction raws arbitrary: n) (auto intro!: emits_rules operator_steps)
qed

lemma operator_rset:
  assumes "lawful E" and "nn_Namespace req = ns"
  shows "emits (operator_event ns) (K1sResourceSet_Reconcile E kinds req)"
proof -
  have own: "emits (operator_event (Namespace (rs_Meta r))) (reconcile_rset E kinds r)" for r
    unfolding reconcile_rset_def operator_capability_defs rset_no_client_def
      rset_delete_remote_def rset_delete_failed_def rset_sync_def rset_denied_def rset_apply_def
      rset_work_def pruneManagedResources_def rset_report_def Let_def
    by (intro emits_rules operator_steps assms refl) (simp_all add: capability_kinds_def)
  show ?thesis
    unfolding K1sResourceSet_Reconcile_def
    by (rule operator_got) (auto simp: own assms(2) split: kobject.split)
qed

lemma owned_same_object:
  assumes "lawful E" and "\<And>y. same_object (f y) y" and "owned E x f z = Inr y"
  shows "same_object y z"
proof -
  obtain refs where "y = f (update_meta (\<lambda>m. m\<lparr>OwnerReferences := refs\<rparr>) z)"
    by (rule owned_Inr [OF assms(1,3)])
  with assms(2) [of "update_meta (\<lambda>m. m\<lparr>OwnerReferences := refs\<rparr>) z"] show ?thesis
    by (auto intro: same_object_trans)
qed

lemma owned_upsert:
  assumes "lawful E" and "\<And>y. same_object (f y) y"
  shows "behaves (e_createOrUpdate E obj (owned E x f))
    (\<lambda>new r. (\<forall>e\<in>set new. upsert_event obj (owned E x f) e) \<and> same_object (snd r) obj)"
proof -
  have "behaves (e_createOrUpdate E obj (owned E x f))
      (\<lambda>new r. (\<forall>e\<in>set new. upsert_event obj (owned E x f) e) \<and> same_object (snd r) obj \<and>
        (fst r = None \<longrightarrow> upserted obj (owned E x f) new))"
    using lawfulD(3) [OF assms(1)] owned_same_object [OF assms] by (simp add: creates_or_updates_def)
  then show ?thesis by (rule behaves_mono) blast
qed

lemma operator_upsert:
  assumes "lawful E" and same: "\<And>y. same_object (f y) y" and "kind_of obj \<in> set generated_kinds"
    and "namespace_of obj = ns"
  shows "behaves (e_createOrUpdate E obj (owned E x f))
    (\<lambda>new r. (\<forall>e\<in>set new. operator_event ns e) \<and> same_object (snd r) obj)"
proof -
  have "operator_event ns e" if "upsert_event obj (owned E x f) e" for e
  proof (cases e)
    case (EGet rd k key r)
    with that assms(3) show ?thesis by (auto simp: generated_kinds_def)
  qed (use that owned_same_object [OF assms(1) same] assms(3,4) in
      \<open>auto simp: upsert_event_def same_object_def ObjectKeyFromObject_def\<close>)
  then show ?thesis by (intro behaves_mono [OF owned_upsert [OF assms(1) same]]) auto
qed

lemma operator_upsert_emits:
  "lawful E \<Longrightarrow> (\<And>y. same_object (f y) y) \<Longrightarrow> kind_of obj \<in> set generated_kinds \<Longrightarrow>
     namespace_of obj = ns \<Longrightarrow> emits (operator_event ns) (e_createOrUpdate E obj (owned E x f))"
  by (rule emitsI [OF operator_upsert]) auto

lemma operator_mirror_status:
  assumes "lawful E" and "kind_of obj = KindAppMirror" and "namespace_of obj = ns"
  shows "emits (operator_event ns) (patchStatus E obj (mirror_mutate E app found))"
proof (rule status_only_patch [OF assms(1)])
  fix cur
  assume "same_object cur obj"
  with assms(2) obtain m where cur: "cur = OAppMirror m" by (cases cur) (auto simp: same_object_def)
  show "behaves (mirror_mutate E app found cur) (\<lambda>new y. only_clock new \<and> only_status cur y)"
    unfolding cur mirror_mutate_def mirrorStatusFromApp_def Let_def
    by (auto intro!: behaves_return behaves_bind [OF Now_spec] setCondition_step [OF assms(1)])
qed (use assms(2,3) in simp_all)

lemma operator_objects [operator_steps]:
  assumes "lawful E" and ns: "Namespace (exposure_Meta x) = ns"
  shows "emits (operator_event ns) (reconcileService E c x)"
    and "emits (operator_event ns) (reconcileEndpointSlice E c x eps)"
    and "emits (operator_event ns) (reconcileIngress E c x)"
    and "emits (operator_event ns) (reconcileMirror E x app found)"
proof -
  note upsert = operator_upsert_emits [OF assms(1)]
  have built: "Namespace (svc_Meta (BuildExposureService c x)) = ns"
      "Namespace (eps_Meta (BuildExposureEndpointSlice c x eps)) = ns"
    by (simp_all add: BuildExposureService_def BuildExposureEndpointSlice_def built_meta_def Let_def ns)
  have ingress: "Namespace (igr_Meta w) = ns" if "BuildExposureIngress c x = Inr (Some w)" for w
    using that by (auto simp: BuildExposureIngress_def built_meta_def Let_def ns split: if_splits)
  show "emits (operator_event ns) (reconcileService E c x)"
    and "emits (operator_event ns) (reconcileEndpointSlice E c x eps)"
    and "emits (operator_event ns) (reconcileIngress E c x)"
    unfolding reconcileService_def reconcileEndpointSlice_def reconcileIngress_def Let_def
    by (intro emits_rules operator_steps upsert;
        simp add: generated_kinds_def bare_service_def bare_slice_def bare_ingress_def built_meta_def built ingress ns)+
  show "emits (operator_event ns) (reconcileMirror E x app found)"
    unfolding reconcileMirror_def
  proof (rule emits_bind_spec [OF operator_upsert [OF assms(1)]])
    fix n1 :: "event list" and r :: "go_error option \<times> kobject"
    let ?bare = "OAppMirror (bare_mirror (Name (exposure_Meta x)) (Namespace (exposure_Meta x)))"
    assume "(\<forall>e\<in>set n1. operator_event ns e) \<and> same_object (snd r) ?bare"
    then have "kind_of (snd r) = KindAppMirror" "namespace_of (snd r) = ns"
      by (simp_all add: same_object_def ObjectKeyFromObject_def bare_mirror_def built_meta_def ns)
    then show "emits (operator_event ns) (case fst r of
        None \<Rightarrow> patchStatus E (snd r) (mirror_mutate E app found) | Some e \<Rightarrow> State_Monad.return (Some e))"
      by (intro emits_rules operator_mirror_status [OF assms(1)])
  qed (simp_all add: generated_kinds_def bare_mirror_def built_meta_def ns)
qed

lemma operator_exposure:
  assumes "lawful E" and "nn_Namespace req = ns"
  shows "emits (operator_event ns) (K1sExposure_Reconcile E (Some APIReader) None req)"
proof -
  have own: "emits (operator_event (Namespace (exposure_Meta x))) (reconcile_exposure E (Some APIReader) None x)" for x
    unfolding reconcile_exposure_def exposure_unavailable_def exposure_no_client_def
      exposure_sync_def exposure_writing_def exposure_ingress_def exposure_report_def exposure_traffic_def Let_def option.case
    by (intro emits_rules operator_steps assms refl) simp_all
  show ?thesis
    unfolding K1sExposure_Reconcile_def
    by (rule operator_got) (auto simp: own assms(2) split: kobject.split)
qed

lemma manager_reconcile_operator:
  assumes "lawful E" and "nn_Namespace (work_key work) = ns"
  shows "emits (operator_event ns) (manager_reconcile E flag work)"
  using assms by (cases work) (simp_all add: operator_cluster operator_exposure operator_app operator_inference
      operator_rset)

lemma operates_event: "operates ns flag h \<Longrightarrow> e \<in> set h \<Longrightarrow> operator_event ns e"
proof (induction arbitrary: e rule: operates.induct)
  case (works h E work g new h')
  then have "set h' = set h \<union> set new" by (simp add: set_shuffles)
  with works emits_new_event [OF manager_reconcile_operator] show ?case by blast
qed simp

section \<open>Property\<close>

lemma watches_install: "cache_namespaces install_namespace = Some {install_namespace}"
  by code_simp

text \<open>
  C20: what the operator of the default installation asks of the Kubernetes API, whatever its
  reconcilers do side by side on objects of the namespace it is installed in (its \<open>WATCH_NAMESPACE\<close>), and
  whatever is answered. Everything it asks is covered by the RBAC markers of the code, taken without a
  namespace. The installed role, which grants in that namespace only, covers everything but: the reads
  of Secrets through the cached client (which has to list and watch them, where the role grants get);
  and the reads of the bootstrap ConfigMap or of the proxy's EndpointSlices in another namespace, when a
  cluster refers to one (docs/security-rbac.md asks for a role of its own there). All writes stay in
  the namespace. The specification of a cluster, exposure, app, inference endpoint or resource set is
  never written: a status patch changes only the status of the object read, a patch changes only the
  finalizers or the annotations of an app, inference endpoint or resource set; only generated objects,
  that is Services, EndpointSlices, Ingresses and mirrors, are created or written over (with their
  specification), and only Ingresses deleted.
\<close>

theorem operator_confined:
  assumes "operates install_namespace flag h" and "e \<in> set h"
  shows "permitted rbac_markers (cache_namespaces install_namespace) e \<and>
    (permitted manager_role (cache_namespaces install_namespace) e \<or>
       (\<exists>key a. e = EGet CachedClient KindSecret key a) \<or> foreign_read e) \<and>
    (case e of
       EStatusPatch cur y _ \<Rightarrow> only_status cur y \<and> namespace_of cur = install_namespace
     | EPatch cur y _ \<Rightarrow> kind_of cur \<in> {KindApp, KindInferenceEndpoint, KindResourceSet} \<and> only_bookkeeping cur y \<and>
         namespace_of cur = install_namespace
     | ECreate y _ \<Rightarrow> kind_of y \<in> {KindService, KindEndpointSlice, KindIngress, KindAppMirror} \<and>
         namespace_of y = install_namespace
     | EUpdate cur y _ \<Rightarrow> kind_of y \<in> {KindService, KindEndpointSlice, KindIngress, KindAppMirror} \<and>
         same_object y cur \<and> namespace_of y = install_namespace
     | EDelete y _ \<Rightarrow> kind_of y = KindIngress \<and> namespace_of y = install_namespace
     | _ \<Rightarrow> True)"
  using operates_event [OF assms] operator_event_permitted [OF operates_event [OF assms]]
  by (auto simp: watches_install operator_event_def capability_kinds_def generated_kinds_def split: event.splits)

text \<open>An app of that namespace gets its finalizer.\<close>

definition installed_app :: K1sApp where
  "installed_app = (example_app [] None [])
     \<lparr>app_Meta := (app_Meta (example_app [] None []))\<lparr>Namespace := install_namespace\<rparr>\<rparr>"

lemma installed_app_pass:
  "trace_of (K1sApp_Reconcile (example_world (OApp installed_app)) (ObjectKeyFromObject (OApp installed_app))) [] =
     [] @ (EGet CachedClient KindApp (ObjectKeyFromObject (OApp installed_app)) (Inr (OApp installed_app)) #
       example_reads @ [EGet CachedClient KindApp (ObjectKeyFromObject (OApp installed_app)) (Inr (OApp installed_app)),
         EPatch (OApp installed_app)
           (update_meta (\<lambda>m. m\<lparr>Finalizers := [capabilityFinalizer]\<rparr>) (OApp installed_app)) None])"
proof -
  let ?x = "OApp installed_app"
  have meta: "DeletionTimestamp (app_Meta installed_app) = None" "Finalizers (app_Meta installed_app) = []"
      "app_ClusterRef (app_Spec installed_app) = example_ref"
    by (simp_all add: installed_app_def example_app_def)
  have "run_state (kube_Get (example_world ?x) CachedClient KindApp (ObjectKeyFromObject ?x)) [] =
      (Inr ?x, [EGet CachedClient KindApp (ObjectKeyFromObject ?x) (Inr ?x)])"
    by (simp add: kube_Get_def example_world_def)
  then show ?thesis
    by (simp add: K1sApp_Reconcile_def reconcile_app_def run_writeClient_example meta containsString_def
        add_finalizer_def run_patchFinalizers_example)
qed

theorem operator_confined_witness:
  "\<exists>h cur y. operates install_namespace [] h \<and> EPatch cur y None \<in> set h \<and> only_bookkeeping cur y \<and>
     permitted manager_role (cache_namespaces install_namespace) (EPatch cur y None)"
proof -
  let ?E = "example_world (OApp installed_app)" and ?w = "WorkApp (ObjectKeyFromObject (OApp installed_app))"
  obtain new where run: "trace_of (manager_reconcile ?E [] ?w) [] = [] @ new"
    and e: "EPatch (OApp installed_app)
      (update_meta (\<lambda>m. m\<lparr>Finalizers := [capabilityFinalizer]\<rparr>) (OApp installed_app)) None \<in> set new"
    by (rule that, unfold manager_reconcile.simps, rule installed_app_pass) simp
  have "nn_Namespace (work_key ?w) = install_namespace"
    by (simp add: ObjectKeyFromObject_def installed_app_def)
  from operates.works [OF operates.idle example_world_lawful this run]
  have "operates install_namespace [] new" by simp
  with operator_confined [OF this e] e show ?thesis by auto
qed

lemma cached_secret_denied:
  "\<not> permitted manager_role (cache_namespaces install_namespace) (EGet CachedClient KindSecret key a)"
  "permitted manager_role watched (EGet APIReader KindSecret \<lparr>nn_Namespace = install_namespace, nn_Name = n\<rparr> a)"
  using reads_granted(7)
  by (simp_all add: watches_install permitted_def read_permitted_def grants_read read_kinds_def del: resource_of.simps)

text \<open>The slices of a proxy in another namespace cannot be listed, whatever is watched.\<close>

lemma foreign_slices_denied:
  "ns \<noteq> install_namespace \<Longrightarrow> \<not> permitted manager_role watched (EListSlices APIReader ns svc a)"
  by (simp add: permitted_def read_permitted_def manager_role_elsewhere)

end
