(* ===== verification/Load.thy ===== *)
theory Load
  imports Operator
begin

text \<open>
  How much a reconciliation asks of the k1s cluster: every client call is bounded, and every
  reconciliation makes a bounded number of them.
\<close>

section \<open>Counting calls\<close>

text \<open>The exchanges with the k1s cluster: requests, and the pauses between them.\<close>

fun with_k1s :: "event \<Rightarrow> bool" where
  "with_k1s (EHTTP _ _) = True"
| "with_k1s (ESleep _ _) = True"
| "with_k1s _ = False"

text \<open>At most what \<open>k\<close> client calls exchange: 14 requests each, and 26 exchanges with the pauses.\<close>

definition calls :: "nat \<Rightarrow> event list \<Rightarrow> bool" where
  "calls k new \<longleftrightarrow> length (https new) \<le> 14 * k \<and> length (filter with_k1s new) \<le> 26 * k"

definition costs :: "'a io \<Rightarrow> nat \<Rightarrow> bool" where
  "costs m k \<longleftrightarrow> behaves m (\<lambda>new _. calls k new)"

named_theorems cost_rules \<open>the calls of a composed program\<close>

lemma calls_Nil [simp]: "calls k []"
  by (simp add: calls_def)

lemma calls_append: "calls a xs \<Longrightarrow> calls b ys \<Longrightarrow> calls (a + b) (xs @ ys)"
  by (simp add: calls_def)

lemma calls_mono: "calls a xs \<Longrightarrow> a \<le> b \<Longrightarrow> calls b xs"
  by (simp add: calls_def)

lemma costs_mono: "costs m a \<Longrightarrow> a \<le> b \<Longrightarrow> costs m b"
  by (auto simp: costs_def elim!: behaves_mono intro: calls_mono)

lemma costs_return [cost_rules]: "costs (State_Monad.return a) 0"
  by (simp add: costs_def behaves_return)

lemma costs_bind [cost_rules]:
  assumes "costs m a" and "\<And>r. costs (f r) b"
  shows "costs (State_Monad.bind m f) (a + b)"
  unfolding costs_def
  by (rule behaves_bind [OF assms(1) [unfolded costs_def]],
      rule behaves_mono [OF assms(2) [unfolded costs_def]], rule calls_append)

lemma costs_if [cost_rules]: "(c \<Longrightarrow> costs m a) \<Longrightarrow> (\<not> c \<Longrightarrow> costs n b) \<Longrightarrow> costs (if c then m else n) (max a b)"
  by (auto intro: costs_mono [of m a] costs_mono [of n b])

lemma costs_case_option [cost_rules]:
  "costs m a \<Longrightarrow> (\<And>y. costs (f y) b) \<Longrightarrow> costs (case x of None \<Rightarrow> m | Some y \<Rightarrow> f y) (max a b)"
  by (cases x) (auto intro: costs_mono [of m a] costs_mono [of "f _" b])

lemma costs_case_sum [cost_rules]:
  "(\<And>y. costs (f y) a) \<Longrightarrow> (\<And>y. costs (g y) b) \<Longrightarrow> costs (case x of Inl y \<Rightarrow> f y | Inr y \<Rightarrow> g y) (max a b)"
  by (cases x) (auto intro: costs_mono [of "f _" a] costs_mono [of "g _" b])

lemma costs_case_prod [cost_rules]: "(\<And>y z. costs (f y z) a) \<Longrightarrow> costs (case x of (y, z) \<Rightarrow> f y z) a"
  by (simp split: prod.splits)

lemma costs_kobject [cost_rules]:
  assumes "\<And>x. costs (f1 x) n1" "\<And>x. costs (f2 x) n2" "\<And>x. costs (f3 x) n3" "\<And>x. costs (f4 x) n4"
    "\<And>x. costs (f5 x) n5" "\<And>x. costs (f6 x) n6" "\<And>x. costs (f7 x) n7" "\<And>x. costs (f8 x) n8"
    "\<And>x. costs (f9 x) n9" "\<And>x. costs (f10 x) n10" "\<And>x. costs (f11 x) n11"
  shows "costs (case_kobject f1 f2 f3 f4 f5 f6 f7 f8 f9 f10 f11 y)
    (n1 + n2 + n3 + n4 + n5 + n6 + n7 + n8 + n9 + n10 + n11)"
  by (cases y) (auto intro: costs_mono [OF assms(1)] costs_mono [OF assms(2)] costs_mono [OF assms(3)]
      costs_mono [OF assms(4)] costs_mono [OF assms(5)] costs_mono [OF assms(6)] costs_mono [OF assms(7)]
      costs_mono [OF assms(8)] costs_mono [OF assms(9)] costs_mono [OF assms(10)] costs_mono [OF assms(11)])

section \<open>One client call\<close>

lemma with_k1s_https: "length (filter with_k1s new) \<le> length new"
  by simp

lemma costs_doJSON [cost_rules]: "costs (doJSONWithLeaderRetry E c m endpoint b out) 1"
  unfolding costs_def
  by (rule behaves_mono [OF doJSONWithLeaderRetry_spec])
    (auto simp: call_ok_def calls_def intro: order.trans [OF length_filter_le])

lemma costs_getJSON [cost_rules]: "costs (getJSON E c ep out) 1"
  and costs_postJSON [cost_rules]: "costs (postJSON E c ep p out) 1"
  unfolding getJSON_def postJSON_def by (rule costs_doJSON)+

lemma costs_calls [cost_rules]:
  "costs (Health E c) 2" "costs (Nodes E c) 1" "costs (Apply E c manifest) 1"
  "costs (DeleteApp E c app purge) 1" "costs (api_AppStatus E c ns name) 2"
  "costs (inferenceStatus E c coll ns name) 1" "costs (deleteInference E c coll ns name) 1"
proof -
  show "costs (Health E c) 2"
    unfolding Health_def by (rule costs_mono, (rule cost_rules)+, simp)
  show "costs (Nodes E c) 1"
    unfolding Nodes_def by (rule costs_mono, (rule cost_rules)+, simp)
  show "costs (Apply E c manifest) 1"
    unfolding Apply_def by (rule costs_mono, (rule cost_rules)+, simp)
  show "costs (api_AppStatus E c ns name) 2"
    unfolding api_AppStatus_def Let_def by (rule costs_mono, (rule cost_rules)+, simp)
  show "costs (inferenceStatus E c coll ns name) 1"
    unfolding inferenceStatus_def by (rule costs_mono, (rule cost_rules)+, simp)
qed (simp_all only: DeleteApp_def deleteInference_def costs_postJSON)

text \<open>What exchanges nothing with the k1s cluster costs nothing.\<close>

lemma costs_quiet:
  assumes "behaves m R" and "\<And>new a e. R new a \<Longrightarrow> e \<in> set new \<Longrightarrow> \<not> with_k1s e"
  shows "costs m 0"
proof -
  have "calls 0 new" if "\<And>e. e \<in> set new \<Longrightarrow> \<not> with_k1s e" for new
  proof -
    have "\<not> is_http e" if "\<not> with_k1s e" for e using that by (cases e) simp_all
    with that show ?thesis by (auto simp: calls_def https_def filter_empty_conv)
  qed
  with assms(2) show ?thesis unfolding costs_def by (intro behaves_mono [OF assms(1)]) blast
qed

lemma quiet_events:
  "status_patch.patch_event obj M e \<Longrightarrow> \<not> with_k1s e"
  "object_patch.patch_event obj M e \<Longrightarrow> \<not> with_k1s e"
  "upsert_event obj f e \<Longrightarrow> \<not> with_k1s e"
  "proxy_event e \<Longrightarrow> \<not> with_k1s e"
  "is_probe e \<Longrightarrow> \<not> with_k1s e"
  unfolding status_patch_event object_patch_event upsert_event_def proxy_event_def is_probe_def
  by (simp_all split: event.splits)

lemma costs_exchanges [cost_rules]:
  "costs (Now E) 0" "costs (log_message msg) 0" "costs (kube_Get E rd k key) 0" "costs (kube_Delete E y) 0"
  "costs (loadCredentials E ns ref) 0" "costs (discoverProxyEndpoints E rd cluster) 0"
  "costs (defaultTrafficProbe E x) 0"
  by (rule costs_quiet, rule Now_spec, force, rule costs_quiet, rule log_message_spec, force,
      rule costs_quiet, rule kube_Get_spec, force, rule costs_quiet, rule kube_Delete_spec, force,
      rule costs_quiet, rule loadCredentials_spec,
      force simp: credentials_ok_def secret_get_def split: option.splits,
      rule costs_quiet, rule discoverProxyEndpoints_spec, blast dest: quiet_events,
      rule costs_quiet, rule defaultTrafficProbe_spec, blast dest: quiet_events)

lemma costs_patchStatus:
  assumes "lawful E" and "\<And>cur. same_object cur obj \<Longrightarrow> behaves (mutate cur) (\<lambda>new y. only_clock new)"
  shows "costs (patchStatus E obj mutate) 0"
proof (rule costs_quiet [OF patchStatus_spec [OF assms(1), where M = "\<lambda>_ _. True"]])
  show "behaves (mutate cur) (\<lambda>new y. only_clock new \<and> True)" if "same_object cur obj" for cur
    using assms(2) [OF that] by simp
qed (blast dest: quiet_events)

lemma costs_patches [cost_rules]:
  assumes "lawful E"
  shows "costs (patchFinalizers E obj fs) 0" and "costs (patchLastAppliedHash E obj hash) 0"
    and "costs (patchStatus E obj (\<lambda>cur. State_Monad.return (f cur))) 0"
    and "costs (patch_app_status E a s1) 0" and "costs (patch_inference_status E i s2) 0"
    and "costs (patch_rset_status E r s3) 0" and "costs (patch_exposure_status E x s5) 0"
proof -
  show "costs (patchFinalizers E obj fs) 0"
    by (rule costs_quiet [OF patchFinalizers_spec [OF assms]]) (blast dest: quiet_events)
  show "costs (patchLastAppliedHash E obj hash) 0"
    by (rule costs_quiet [OF patchLastAppliedHash_spec [OF assms]]) (blast dest: quiet_events)
  have "costs (patchStatus E obj (\<lambda>cur. State_Monad.return (f cur))) 0" for obj f
    by (rule costs_patchStatus [OF assms]) (simp add: behaves_return)
  then show "costs (patchStatus E obj (\<lambda>cur. State_Monad.return (f cur))) 0"
    and "costs (patch_app_status E a s1) 0" and "costs (patch_inference_status E i s2) 0"
    and "costs (patch_rset_status E r s3) 0" and "costs (patch_exposure_status E x s5) 0"
    by (simp_all add: patch_app_status_def patch_inference_status_def patch_rset_status_def
        patch_exposure_status_def)
qed

lemma costs_conditions [cost_rules]:
  "costs (set_cluster_condition E c t st reason msg s1) 0"
  "costs (set_app_condition E a t st reason msg s2) 0"
  "costs (set_inference_condition E i t st reason msg s3) 0"
  "costs (set_rset_condition E r t st reason msg s4) 0"
  "costs (set_exposure_condition E x t st reason msg s5) 0"
  unfolding set_condition_defs by (rule costs_mono, (rule cost_rules)+, simp)+

lemma costs_objects [cost_rules]:
  assumes "lawful E"
  shows "costs (reconcileService E c x) 0" and "costs (reconcileEndpointSlice E c x eps) 0"
    and "costs (reconcileIngress E c x) 0" and "costs (reconcileMirror E x app found) 0"
proof -
  have upsert: "costs (e_createOrUpdate E obj (owned E x f)) 0" if "\<And>y. same_object (f y) y" for obj f
    by (rule costs_quiet [OF owned_upsert [OF assms that]]) (blast dest: quiet_events)
  note upsert = upsert [OF set_same_object(1) [THEN iffD2, OF same_object_refl]]
    upsert [OF set_same_object(2) [THEN iffD2, OF same_object_refl]]
    upsert [OF set_same_object(3) [THEN iffD2, OF same_object_refl]]
    upsert [OF set_same_object(4) [THEN iffD2, OF same_object_refl]]
  show "costs (reconcileService E c x) 0"
    unfolding reconcileService_def Let_def by (rule costs_mono, (rule cost_rules upsert)+, simp_all)
  show "costs (reconcileEndpointSlice E c x eps) 0"
    unfolding reconcileEndpointSlice_def Let_def by (rule costs_mono, (rule cost_rules upsert)+, simp_all)
  show "costs (reconcileIngress E c x) 0"
    unfolding reconcileIngress_def by (rule costs_mono, (rule cost_rules upsert)+, simp_all)
  have mutate: "behaves (mirror_mutate E app found cur) (\<lambda>new y. only_clock new)" for cur
    unfolding mirror_mutate_def mirrorStatusFromApp_def Let_def
    by (cases cur) (auto intro!: behaves_return behaves_bind [OF Now_spec] setCondition_step [OF assms])
  show "costs (reconcileMirror E x app found) 0"
    unfolding reconcileMirror_def
    by (rule costs_mono, (rule cost_rules upsert costs_patchStatus [OF assms mutate])+, simp_all)
qed

section \<open>The reconcilers\<close>

lemma cluster_calls:
  assumes "lawful E"
  shows "costs (K1sCluster_Reconcile E (Some APIReader) req) 3"
  unfolding K1sCluster_Reconcile_def reconcile_cluster_def gather_cluster_status_def credentials_status_def
    bootstrap_status_def controller_status_def proxy_status_def apishim_status_def ready_status_def Let_def
  by (rule costs_mono, (rule cost_rules assms)+) simp

lemma app_calls:
  assumes "lawful E"
  shows "costs (K1sApp_Reconcile E req) 5"
  unfolding K1sApp_Reconcile_def reconcile_app_def operator_capability_defs app_no_client_def
    app_delete_remote_def app_delete_failed_def app_sync_def app_reject_empty_def app_reject_kind_def
    app_resync_def app_look_def apply_manifest_def app_report_def app_observe_def Let_def
  by (rule costs_mono, (rule cost_rules assms)+) simp

lemma inference_calls:
  assumes "lawful E"
  shows "costs (K1sInferenceEndpoint_Reconcile E req) 3"
  unfolding K1sInferenceEndpoint_Reconcile_def reconcile_inference_def operator_capability_defs
    inference_no_client_def inference_delete_remote_def inference_delete_failed_def inference_sync_def
    inference_reject_def inference_resync_def inference_look_def apply_manifest_def inference_report_def
    inference_observe_def inferenceStatusForEndpoint_def InferenceCellStatus_def InferenceCellSetStatus_def
    DeleteInferenceCell_def DeleteInferenceCellSet_def Let_def
  by (rule costs_mono, (rule cost_rules assms)+) simp

lemma exposure_calls:
  assumes "lawful E"
  shows "costs (K1sExposure_Reconcile E (Some APIReader) None req) 2"
  unfolding K1sExposure_Reconcile_def reconcile_exposure_def exposure_unavailable_def exposure_no_client_def
    exposure_sync_def exposure_writing_def exposure_ingress_def exposure_report_def exposure_traffic_def Let_def
    option.case
  by (rule costs_mono, (rule cost_rules assms)+) simp

lemma costs_deletion [cost_rules]: "costs (deleteManagedResource E api m) 1"
  unfolding deleteManagedResource_def DeleteInferenceCell_def DeleteInferenceCellSet_def
  by (rule costs_mono, (rule cost_rules)+) simp

lemma costs_loops [cost_rules]:
  "costs (deleteManagedResources E api ms) (length ms)"
  "costs (prune_from E api desiredKeys ms) (length ms)"
  "costs (apply_manifests E api shouldApply raws n) (length raws)"
proof -
  show "costs (deleteManagedResources E api ms) (length ms)"
  proof (induction ms)
    case (Cons m ms)
    show ?case
      unfolding deleteManagedResources.simps
      by (rule costs_mono, (rule cost_rules Cons)+) simp
  qed (simp add: costs_return)
  show "costs (prune_from E api desiredKeys ms) (length ms)"
  proof (induction ms)
    case (Cons m ms)
    show ?case
      unfolding prune_from.simps by (rule costs_mono, (rule cost_rules Cons)+) simp
  qed (simp add: costs_return)
  show "costs (apply_manifests E api shouldApply raws n) (length raws)"
  proof (induction raws arbitrary: n)
    case (Cons m ms)
    show ?case
      unfolding apply_manifests.simps by (rule costs_mono, (rule cost_rules Cons)+) simp
  qed (simp add: costs_return)
qed

lemma rset_calls:
  assumes "lawful E"
  shows "costs (reconcile_rset E kinds x)
    (length (rss_ManagedResources (rs_Status x)) + length (rs_Manifests (rs_Spec x)))"
  unfolding reconcile_rset_def operator_capability_defs rset_no_client_def
    rset_delete_remote_def rset_delete_failed_def rset_sync_def rset_denied_def rset_apply_def
    rset_work_def pruneManagedResources_def rset_report_def Let_def
  by (rule costs_mono, (rule cost_rules assms)+) simp

section \<open>Property\<close>

text \<open>The client calls of a reconciliation: a number for each kind, and for a resource set one for
  every resource it manages and every manifest of the object that was read.\<close>

fun call_bound :: "work \<Rightarrow> event list \<Rightarrow> nat" where
  "call_bound (WorkCluster _) new = 3"
| "call_bound (WorkExposure _) new = 2"
| "call_bound (WorkApp _) new = 5"
| "call_bound (WorkInference _) new = 3"
| "call_bound (WorkResourceSet _) new =
     (case new of
        EGet _ _ _ (Inr (OResourceSet x)) # _ \<Rightarrow>
          length (rss_ManagedResources (rs_Status x)) + length (rs_Manifests (rs_Spec x))
      | _ \<Rightarrow> 0)"

lemma K1sResourceSet_calls:
  assumes "lawful E"
  shows "behaves (K1sResourceSet_Reconcile E kinds req)
    (\<lambda>new _. calls (call_bound (WorkResourceSet req) new) new)"
  unfolding K1sResourceSet_Reconcile_def
proof (rule exchange_steps(12), goal_cases)
  case (1 n1 r)
  then obtain rd k key where n1: "n1 = [EGet rd k key r]" by blast
  have step: "calls n (n1 @ new)" if "calls n new" for n new
    using that by (simp add: calls_def n1)
  show ?case
  proof (cases "\<exists>x. r = Inr (OResourceSet x)")
    case True
    then obtain x where "r = Inr (OResourceSet x)" ..
    then show ?thesis
      using rset_calls [OF assms, of kinds x] step by (auto simp: costs_def n1 elim!: behaves_mono)
  next
    case False
    then have "call_bound (WorkResourceSet req) (n1 @ new) = 0" for new
      by (auto simp: n1 split: sum.splits kobject.splits)
    then show ?thesis
      using False step [of 0 "[]"] by (auto intro!: behaves_return split: sum.splits kobject.splits)
  qed
qed

text \<open>
  C29: every reconciliation ends after a bounded number of calls of the k1s cluster, whatever it
  answers: three for a cluster, two for an exposure, five for an app, three for an inference
  endpoint, and for a resource set at most one for every resource it manages and every manifest;
  each call is at most 14 requests, 26 exchanges with the pauses between them.
\<close>

theorem reconcile_bounded:
  assumes "lawful E"
  shows "behaves (manager_reconcile E flag work)
    (\<lambda>new _. length (https new) \<le> 14 * call_bound work new \<and>
       length (filter with_k1s new) \<le> 26 * call_bound work new)"
proof -
  have "behaves (manager_reconcile E flag work) (\<lambda>new _. calls (call_bound work new) new)"
    using cluster_calls [OF assms] exposure_calls [OF assms] app_calls [OF assms]
      inference_calls [OF assms] K1sResourceSet_calls [OF assms]
    by (cases work) (simp_all add: costs_def)
  then show ?thesis by (simp add: calls_def)
qed

text \<open>The example set manages one resource and has one manifest.\<close>

lemma rset_reads_first:
  assumes "run_state (kube_Get E CachedClient KindResourceSet key) h = (Inr (OResourceSet x), h')"
  shows "trace_of (K1sResourceSet_Reconcile E kinds key) h = trace_of (reconcile_rset E kinds x) h'"
  by (simp add: K1sResourceSet_Reconcile_def assms)

lemma example_rset_read:
  "run_state (kube_Get (example_world (OResourceSet x)) CachedClient KindResourceSet
      (ObjectKeyFromObject (OResourceSet x))) h =
     (Inr (OResourceSet x),
      h @ [EGet CachedClient KindResourceSet (ObjectKeyFromObject (OResourceSet x)) (Inr (OResourceSet x))])"
  by (simp add: kube_Get_def example_world_def)

theorem reconcile_bounded_witness:
  "length (https (trace_of (manager_reconcile (example_world (OResourceSet new_rset)) []
      (WorkResourceSet (ObjectKeyFromObject (OResourceSet new_rset)))) [])) \<le> 28"
proof -
  let ?E = "example_world (OResourceSet new_rset)" and ?key = "ObjectKeyFromObject (OResourceSet new_rset)"
  let ?m = "manager_reconcile ?E [] (WorkResourceSet ?key)"
  let ?read = "EGet CachedClient KindResourceSet ?key (Inr (OResourceSet new_rset))"
  have "trace_of ?m [] = trace_of (reconcile_rset ?E (csvValues []) new_rset) ([] @ [?read])"
    unfolding manager_reconcile.simps by (rule rset_reads_first [OF example_rset_read])
  then obtain new where trace: "trace_of ?m [] = ?read # new"
    using behavesE [OF rset_calls [OF example_world_lawful, unfolded costs_def], where h = "[] @ [?read]"]
    by (metis append_Nil append_Cons)
  obtain new' where "trace_of ?m [] = [] @ new'" "length (https new') \<le> 14 * call_bound (WorkResourceSet ?key) new'"
    using behavesE [OF reconcile_bounded [OF example_world_lawful], where h = "[]"] by blast
  moreover from this(1) trace have "new' = ?read # new" by simp
  ultimately show ?thesis by (simp add: example_rset_simps)
qed

end
