(* ===== verification/SHA256_Vector.thy ===== *)
theory SHA256_Vector
  imports GoSHA256
begin

text \<open>
  A check of the digest model: its value on the standard's first example. It stands alone because
  its evaluation is the slowest step of the development.
\<close>

text \<open>The test vector of FIPS 180-4 for \<open>abc\<close>, evaluated in the kernel.\<close>

lemma sha256_vector_abc:
  "hex_EncodeToString (sha256 ''abc'') =
     ''ba7816bf8f01cfea414140de5dae2223b00361a396177a9cb410ff61f20015ad''"
  by code_simp

end
