(* ===== verification/GoJSON_Fuel.thy ===== *)
theory GoJSON_Fuel
  imports GoJSON
begin

text \<open>
  Reading a JSON text never fails for want of fuel: whatever is read with some fuel is read with as
  much fuel as the bytes it uses, and \<open>parse_json\<close> gives more than that.
\<close>

lemma length_skip_space: "length (skip_space s) \<le> length s"
  by (simp add: skip_space_def length_dropWhile_le)

lemma skip_space_Cons: "skip_space s = c # t \<Longrightarrow> length t < length s"
  using length_skip_space [of s] by simp

lemma scan_string_rest: "scan_string s = Some (p, r) \<Longrightarrow> length r < length s"
  by (induction s arbitrary: p r rule: scan_string.induct) (fastforce split: if_splits list.splits)+

lemma scan_digits_rest: "scan_digits s = Some (p, r) \<Longrightarrow> length r < length s"
  by (cases s) (auto simp: scan_digits_def Let_def length_dropWhile_le le_imp_less_Suc split: if_splits)

lemma scan_number_rest: "scan_number s = Some (p, r) \<Longrightarrow> length r < length s"
proof -
  have i: "scan_int s = Some (p, r) \<Longrightarrow> length r < length s" for s p r
    by (auto simp: scan_int_def split: list.splits if_splits dest: scan_digits_rest)
  have f: "scan_frac s = Some (p, r) \<Longrightarrow> length r \<le> length s" for s p r
    by (auto simp: scan_frac_def split: list.splits if_splits dest!: scan_digits_rest)
  have e: "scan_exp s = Some (p, r) \<Longrightarrow> length r \<le> length s" for s p r
    by (auto simp: scan_exp_def split: list.splits if_splits dest!: scan_digits_rest)
  assume "scan_number s = Some (p, r)"
  then show ?thesis
    by (auto simp: scan_number_def Let_def split: list.splits if_splits option.splits prod.splits
        dest!: i f e)
qed

text \<open>A text that is read uses up bytes, and as much fuel as the bytes it uses is enough.\<close>

definition reads_with :: "(nat \<Rightarrow> int \<Rightarrow> string \<Rightarrow> ('a \<times> string) option) \<Rightarrow> int \<Rightarrow> string \<Rightarrow> 'a \<times> string \<Rightarrow> bool" where
  "reads_with parse d s vr \<longleftrightarrow> length (snd vr) < length s \<and>
     (\<forall>m. length s - length (snd vr) \<le> m \<longrightarrow> parse m d s = Some vr)"

lemma parse_fuel:
  "parse_value n d s = Some vr \<Longrightarrow> reads_with parse_value d s vr"
  "parse_elems n d s = Some er \<Longrightarrow> reads_with parse_elems d s er"
  "parse_members n d s = Some mr \<Longrightarrow> reads_with parse_members d s mr"
proof (induction n d s and n d s and n d s arbitrary: vr and er and mr
    rule: parse_value_parse_elems_parse_members.induct)
  case (1 d s)
  then show ?case by simp
next
  case (2 n d s)
  then obtain c t where s: "skip_space s = c # t" by (auto split: list.splits)
  then have t: "length t < length s" by (rule skip_space_Cons)
  consider (obj) "c = CHR ''{''" | (arr) "c = CHR ''[''" | (str) "c = CHR 0x22"
    | (atom) "c \<notin> {CHR ''{'', CHR ''['', CHR 0x22}" by blast
  then show ?case
  proof cases
    case obj
    then obtain x u where x: "skip_space t = x # u" and d: "\<not> d \<ge> max_depth"
      using 2 s by (auto split: if_splits list.splits)
    have u: "length u < length t" using x by (rule skip_space_Cons)
    show ?thesis
    proof (cases "x = CHR ''}''")
      case True
      then have "parse_value m d s = Some vr" if "length s - length u \<le> m" for m
        using that 2 s x d obj t u by (cases m) auto
      with True show ?thesis using 2 s x d obj t u by (auto simp: reads_with_def)
    next
      case False
      then obtain ms r where ms: "parse_members n (d + 1) (x # u) = Some (ms, r)" "vr = (JObj ms, r)"
        using 2(3) s x d obj by auto
      then have rest: "reads_with parse_members (d + 1) (x # u) (ms, r)"
        using 2 s x d obj False by auto
      have "parse_value m d s = Some vr" if "length s - length r \<le> m" for m
        using that rest False ms s x d obj t u by (cases m) (auto simp: reads_with_def)
      then show ?thesis using rest ms t u by (auto simp: reads_with_def)
    qed
  next
    case arr
    then obtain x u where x: "skip_space t = x # u" and d: "\<not> d \<ge> max_depth"
      using 2 s by (auto split: if_splits list.splits)
    have u: "length u < length t" using x by (rule skip_space_Cons)
    show ?thesis
    proof (cases "x = CHR '']''")
      case True
      then have "parse_value m d s = Some vr" if "length s - length u \<le> m" for m
        using that 2 s x d arr t u by (cases m) auto
      with True show ?thesis using 2 s x d arr t u by (auto simp: reads_with_def)
    next
      case False
      then obtain es r where es: "parse_elems n (d + 1) (x # u) = Some (es, r)" "vr = (JArr es, r)"
        using 2(3) s x d arr by auto
      then have rest: "reads_with parse_elems (d + 1) (x # u) (es, r)"
        using 2 s x d arr False by auto
      have "parse_value m d s = Some vr" if "length s - length r \<le> m" for m
        using that rest False es s x d arr t u by (cases m) (auto simp: reads_with_def)
      then show ?thesis using rest es t u by (auto simp: reads_with_def)
    qed
  next
    case str
    then obtain p r where p: "scan_string t = Some (p, r)" "vr = (JStr (unquote (length p) p), r)"
      using 2(3) s by auto
    have r: "length r < length t" using p(1) by (rule scan_string_rest)
    have "parse_value m d s = Some vr" if "length s - length r \<le> m" for m
      using that p s str t r by (cases m) auto
    then show ?thesis using p t r by (auto simp: reads_with_def)
  next
    case atom
    have same: "parse_value (Suc m) d s = parse_value (Suc n) d s" for m
      using atom s by simp
    have r: "length (snd vr) < length s"
      using 2(3) atom s t scan_number_rest [of "c # t"]
      by (fastforce split: if_splits)
    have "parse_value m d s = Some vr" if "length s - length (snd vr) \<le> m" for m
      using that same 2(3) r by (cases m) auto
    then show ?thesis using r by (simp add: reads_with_def)
  qed
next
  case (3 d s)
  then show ?case by simp
next
  case (4 n d s)
  then obtain v r x u where v: "parse_value n d s = Some (v, r)" and r: "skip_space r = x # u"
    by (auto split: option.splits prod.splits list.splits)
  have rv: "reads_with parse_value d s (v, r)" using 4 v by blast
  then have len: "length r < length s" "length u < length r"
    using skip_space_Cons [OF r] by (auto simp: reads_with_def)
  show ?case
  proof (cases "x = CHR '',''")
    case True
    then obtain vs w where w: "parse_elems n d u = Some (vs, w)" "er = (v # vs, w)"
      using 4(3) v r by auto
    then have rest: "reads_with parse_elems d u (vs, w)" using 4 v r True by auto
    have "parse_elems m d s = Some er" if "length s - length w \<le> m" for m
      using that rv rest len w True r
      by (cases m) (auto simp: reads_with_def)
    then show ?thesis using rest len w by (auto simp: reads_with_def)
  next
    case False
    then have e: "x = CHR '']''" "er = ([v], u)" using 4(3) v r by (auto split: if_splits)
    have "parse_elems m d s = Some er" if "length s - length u \<le> m" for m
      using that rv len e r by (cases m) (auto simp: reads_with_def)
    then show ?thesis using len e by (auto simp: reads_with_def)
  qed
next
  case (5 d s)
  then show ?case by simp
next
  case (6 n d s)
  then obtain t p r u v w y z where s: "skip_space s = CHR 0x22 # t" and p: "scan_string t = Some (p, r)"
    and r: "skip_space r = CHR '':'' # u" and v: "parse_value n d u = Some (v, w)"
    and w: "skip_space w = y # z"
    by (auto split: option.splits prod.splits list.splits if_splits)
  have rv: "reads_with parse_value d u (v, w)" using 6 s p r v by auto
  then have len: "length t < length s" "length r < length t" "length u < length r" "length w < length u"
      "length z < length w"
    using skip_space_Cons [OF s] scan_string_rest [OF p] skip_space_Cons [OF r] skip_space_Cons [OF w]
    by (auto simp: reads_with_def)
  let ?m = "(unquote (length p) p, v)"
  show ?case
  proof (cases "y = CHR '',''")
    case True
    then obtain ms q where q: "parse_members n d z = Some (ms, q)" "mr = (?m # ms, q)"
      using 6(3) s p r v w by auto
    then have rest: "reads_with parse_members d z (ms, q)" using 6 s p r v w True by auto
    have "parse_members m d s = Some mr" if "length s - length q \<le> m" for m
      using that rv rest len q True s p r w by (cases m) (auto simp: reads_with_def)
    then show ?thesis using rest len q by (auto simp: reads_with_def)
  next
    case False
    then have e: "y = CHR ''}''" "mr = ([?m], z)" using 6(3) s p r v w by (auto split: if_splits)
    have "parse_members m d s = Some mr" if "length s - length z \<le> m" for m
      using that rv len e s p r w by (cases m) (auto simp: reads_with_def)
    then show ?thesis using len e by (auto simp: reads_with_def)
  qed
qed

lemma parse_value_enough:
  assumes "parse_value n d s = Some (v, r)" and "length s \<le> m"
  shows "parse_value m d s = Some (v, r)"
  using parse_fuel(1) [OF assms(1)] assms(2) by (auto simp: reads_with_def)

text \<open>A text is a JSON value when some fuel reads it.\<close>

definition reads_json :: "bytes \<Rightarrow> json \<Rightarrow> bool" where
  "reads_json raw v \<longleftrightarrow> (\<exists>n r. parse_value n 0 raw = Some (v, r) \<and> skip_space r = [])"

lemma parse_json_complete: "parse_json raw = Some v \<longleftrightarrow> reads_json raw v"
proof
  assume "reads_json raw v"
  then obtain n r where "parse_value n 0 raw = Some (v, r)" "skip_space r = []"
    by (auto simp: reads_json_def)
  moreover from this(1) have "parse_value (Suc (length raw)) 0 raw = Some (v, r)"
    by (rule parse_value_enough) simp
  ultimately show "parse_json raw = Some v" by (simp add: parse_json_def del: parse_value.simps)
qed (fastforce simp: parse_json_def reads_json_def simp del: parse_value.simps split: option.splits if_splits)

end
