(* ===== verification/GoJSON_Strings.thy ===== *)
theory GoJSON_Strings
  imports GoJSON_Fuel
begin

text \<open>
  A string that is rendered and read back is the same string, if it is UTF-8; and every string that
  is read from a JSON text is UTF-8.
\<close>

section \<open>UTF-8\<close>

text \<open>What the first bytes of a rune are, by its length.\<close>

definition rune1 :: "char \<Rightarrow> bool" where
  "rune1 a \<longleftrightarrow> in_range 0 127 a"

definition rune2 :: "char \<Rightarrow> char \<Rightarrow> bool" where
  "rune2 a b \<longleftrightarrow> in_range 194 223 a \<and> cont b"

definition rune3 :: "char \<Rightarrow> char \<Rightarrow> char \<Rightarrow> bool" where
  "rune3 a b c \<longleftrightarrow> (a = CHR 0xE0 \<and> in_range 160 191 b \<or> a = CHR 0xED \<and> in_range 128 159 b \<or>
     in_range 225 236 a \<and> cont b \<or> in_range 238 239 a \<and> cont b) \<and> cont c"

definition rune4 :: "char \<Rightarrow> char \<Rightarrow> char \<Rightarrow> char \<Rightarrow> bool" where
  "rune4 a b c d \<longleftrightarrow> (a = CHR 0xF0 \<and> in_range 144 191 b \<or> a = CHR 0xF4 \<and> in_range 128 143 b \<or>
     in_range 241 243 a \<and> cont b) \<and> cont c \<and> cont d"

lemma utf8_len_simps:
  "utf8_len [] = 0"
  "utf8_len [a] = (if rune1 a then 1 else 0)"
  "utf8_len [a, b] = (if rune1 a then 1 else if rune2 a b then 2 else 0)"
  "utf8_len [a, b, c] = (if rune1 a then 1 else if rune2 a b then 2 else if rune3 a b c then 3 else 0)"
  "utf8_len (a # b # c # d # s) =
     (if rune1 a then 1 else if rune2 a b then 2 else if rune3 a b c then 3
      else if rune4 a b c d then 4 else 0)"
  by (simp_all only: utf8_len_def list.case rune1_def rune2_def rune3_def rune4_def)

lemma utf8_len_cases:
  assumes "utf8_len s \<noteq> 0"
  obtains (1) a t where "s = a # t" "rune1 a"
    | (2) a b t where "s = a # b # t" "\<not> rune1 a" "rune2 a b"
    | (3) a b c t where "s = a # b # c # t" "\<not> rune1 a" "\<not> rune2 a b" "rune3 a b c"
    | (4) a b c d t where "s = a # b # c # d # t" "\<not> rune1 a" "\<not> rune2 a b" "\<not> rune3 a b c" "rune4 a b c d"
proof -
  consider "s = []" | a where "s = [a]" | a b where "s = [a, b]" | a b c where "s = [a, b, c]"
    | a b c d t where "s = a # b # c # d # t"
    by (metis list.exhaust)
  then show thesis
  proof cases
    case (2 a)
    with assms show thesis by (intro that(1) [of a]) (auto simp: utf8_len_simps split: if_splits)
  next
    case (3 a b)
    with assms show thesis
      using that(1) [of a] that(2) [of a b] by (cases "rune1 a") (auto simp: utf8_len_simps split: if_splits)
  next
    case (4 a b c)
    with assms show thesis
      using that(1) [of a] that(2) [of a b] that(3) [of a b c]
      by (cases "rune1 a"; cases "rune2 a b") (auto simp: utf8_len_simps split: if_splits)
  next
    case (5 a b c d)
    with assms show thesis
      using that(1) [of a] that(2) [of a b] that(3) [of a b c] that(4) [of a b c d]
      by (cases "rune1 a"; cases "rune2 a b"; cases "rune3 a b c") (auto simp: utf8_len_simps split: if_splits)
  qed (use assms in \<open>simp add: utf8_len_simps\<close>)
qed

lemma utf8_len_known:
  "rune1 a \<Longrightarrow> utf8_len (a # t) = 1"
  "\<not> rune1 a \<Longrightarrow> rune2 a b \<Longrightarrow> utf8_len (a # b # t) = 2"
  "\<not> rune1 a \<Longrightarrow> \<not> rune2 a b \<Longrightarrow> rune3 a b c \<Longrightarrow> utf8_len (a # b # c # t) = 3"
  "\<not> rune1 a \<Longrightarrow> \<not> rune2 a b \<Longrightarrow> \<not> rune3 a b c \<Longrightarrow> rune4 a b c d \<Longrightarrow> utf8_len (a # b # c # d # t) = 4"
  by (cases t; cases "tl t"; cases "tl (tl t)"; auto simp: utf8_len_simps neq_Nil_conv)+

text \<open>The bytes of one rune, and texts of runes.\<close>

definition rune_bytes :: "string \<Rightarrow> bool" where
  "rune_bytes b \<longleftrightarrow> b \<noteq> [] \<and> utf8_len b = length b"

inductive utf8 :: "string \<Rightarrow> bool" where
  utf8_Nil: "utf8 []"
| utf8_rune: "rune_bytes b \<Longrightarrow> utf8 s \<Longrightarrow> utf8 (b @ s)"

lemma rune_bytes_cases:
  assumes "rune_bytes b"
  obtains (1) a where "b = [a]" "rune1 a"
    | (2) a c where "b = [a, c]" "\<not> rune1 a" "rune2 a c"
    | (3) a c d where "b = [a, c, d]" "\<not> rune1 a" "\<not> rune2 a c" "rune3 a c d"
    | (4) a c d e where "b = [a, c, d, e]" "\<not> rune1 a" "\<not> rune2 a c" "\<not> rune3 a c d" "rune4 a c d e"
proof -
  have "utf8_len b \<noteq> 0" "utf8_len b = length b" using assms by (auto simp: rune_bytes_def)
  from this(1) show thesis
    by (cases rule: utf8_len_cases) (use \<open>utf8_len b = length b\<close> that in \<open>auto simp: utf8_len_known\<close>)
qed

lemma utf8_len_append: "rune_bytes b \<Longrightarrow> utf8_len (b @ s) = length b"
  by (erule rune_bytes_cases) (simp_all add: utf8_len_known)

lemma rune_bytes_take:
  assumes "utf8_len s \<noteq> 0"
  shows "rune_bytes (take (utf8_len s) s)"
  using assms by (cases rule: utf8_len_cases) (simp_all add: utf8_len_known rune_bytes_def)


section \<open>Literals\<close>

text \<open>A text is a literal of some bytes when the scanner passes over it and unquoting gives the
  bytes in one step, whatever follows.\<close>

definition is_literal :: "string \<Rightarrow> string \<Rightarrow> bool" where
  "is_literal e b \<longleftrightarrow> e \<noteq> [] \<and>
     (\<forall>t. scan_string (e @ t) = map_option (\<lambda>(p, r). (e @ p, r)) (scan_string t)) \<and>
     (\<forall>n t. unquote (Suc n) (e @ t) = b @ unquote n t)"

lemma high_plain:
  assumes "128 \<le> (of_char c :: int)"
  shows "scan_string (c # s) = map_option (\<lambda>(p, r). (c # p, r)) (scan_string s)"
    and "c \<noteq> CHR 0x5C"
  using assms by (auto simp: map_option_case split: option.splits)

lemma rune_high:
  "rune2 a b \<Longrightarrow> 128 \<le> (of_char a :: int) \<and> 128 \<le> (of_char b :: int)"
  "rune3 a b c \<Longrightarrow> 128 \<le> (of_char a :: int) \<and> 128 \<le> (of_char b :: int) \<and> 128 \<le> (of_char c :: int)"
  "rune4 a b c d \<Longrightarrow> 128 \<le> (of_char a :: int) \<and> 128 \<le> (of_char b :: int) \<and> 128 \<le> (of_char c :: int) \<and>
     128 \<le> (of_char d :: int)"
  by (auto simp: rune2_def rune3_def rune4_def in_range_def)

lemma option_map_twice: "map_option f (map_option g x) = map_option (\<lambda>y. f (g y)) x"
  by (simp add: option.map_comp comp_def)

lemma unquote_rune:
  assumes "rune_bytes b" and "hd b \<noteq> CHR 0x5C"
  shows "unquote (Suc n) (b @ t) = b @ unquote n t"
proof -
  obtain c b' where "b = c # b'" using assms by (cases b) (auto simp: rune_bytes_def)
  then show ?thesis
    using assms utf8_len_append [OF assms(1), of t] by simp
qed

lemma literal_multibyte:
  assumes "rune_bytes b" and "length b \<noteq> 1"
  shows "is_literal b b"
proof -
  have "scan_string (b @ t) = map_option (\<lambda>(p, r). (b @ p, r)) (scan_string t) \<and> hd b \<noteq> CHR 0x5C" for t
    using assms(1)
    by (cases rule: rune_bytes_cases)
      (use assms(2) in \<open>auto dest!: rune_high simp: high_plain option_map_twice case_prod_unfold
         simp del: scan_string.simps(2)\<close>)
  then show ?thesis
    using assms unquote_rune [OF assms(1)] by (auto simp: is_literal_def rune_bytes_def)
qed


lemma literal_u4:
  assumes "hex4 h1 h2 h3 h4 = Some r" and "\<not> (55296 \<le> r \<and> r \<le> 57343)"
  shows "is_literal (CHR 0x5C # ''u'' @ [h1, h2, h3, h4]) (encode_rune r)"
  using assms by (auto simp: is_literal_def next_u4_def)

lemma literal_simple:
  assumes "x \<in> set ''bfnrt/'' \<union> {CHR 0x22, CHR 0x5C}"
  shows "is_literal [CHR 0x5C, x] [simple_escape x]"
  using assms by (auto simp: is_literal_def)

lemma literal_plain:
  assumes "rune1 c" and "c \<notin> {CHR 0x22, CHR 0x5C}" and "\<not> (of_char c :: int) < 32"
  shows "is_literal [c] [c]"
  using assms utf8_len_known(1) [of c] by (auto simp: is_literal_def)

lemma json_hex_digit: "0 \<le> n \<Longrightarrow> n < 16 \<Longrightarrow> json_hex (hex_digit n) = Some n"
proof -
  assume "0 \<le> n" "n < 16"
  then show ?thesis by (auto simp: json_hex_def hex_digit_def of_char_of Let_def)
qed

lemma hex4_ascii:
  assumes "rune1 c"
  shows "hex4 CHR ''0'' CHR ''0'' (hex_digit (of_char c div 16)) (hex_digit (of_char c mod 16)) =
    Some (of_char c)"
proof -
  have "0 \<le> (of_char c :: int)" "(of_char c :: int) < 128" using assms by (auto simp: rune1_def in_range_def)
  then show ?thesis by (simp add: hex4_def json_hex_digit) (simp add: json_hex_def)
qed

lemma literal_escape:
  assumes "rune1 c"
  shows "is_literal (json_escape c) [c]"
proof -
  have u: "is_literal (CHR 0x5C # ''u00'' @ [hex_digit (of_char c div 16), hex_digit (of_char c mod 16)]) [c]"
    using literal_u4 [OF hex4_ascii [OF assms]] assms
    by (simp add: encode_rune_def rune1_def in_range_def)
  have s: "is_literal [CHR 0x5C, x] [simple_escape x]" if "x \<in> set ''bfnrt/'' \<union> {CHR 0x22, CHR 0x5C}" for x
    using that by (rule literal_simple)
  consider "c = CHR 0x22" | "c = CHR 0x5C" | "c = CHR 0x08" | "c = CHR 0x0C" | "c = CHR 0x0A"
    | "c = CHR 0x0D" | "c = CHR 0x09"
    | (other) "c \<notin> {CHR 0x22, CHR 0x5C, CHR 0x08, CHR 0x0C, CHR 0x0A, CHR 0x0D, CHR 0x09}" by blast
  then show ?thesis
  proof cases
    case other
    then have "json_escape c = (if (of_char c :: int) < 32 \<or> c \<in> set ''<>&'' then
        CHR 0x5C # ''u00'' @ [hex_digit (of_char c div 16), hex_digit (of_char c mod 16)] else [c])"
      by (simp add: json_escape_def)
    then show ?thesis
      using u literal_plain [OF assms] other by (simp del: append.simps split: if_splits)
  qed (use s [of "CHR 0x22"] s [of "CHR 0x5C"] s [of "CHR ''b''"] s [of "CHR ''f''"] s [of "CHR ''n''"]
      s [of "CHR ''r''"] s [of "CHR ''t''"] in \<open>simp_all add: json_escape_def simple_escape_def\<close>)
qed

text \<open>Every rune is rendered as a literal of it.\<close>

definition rune_literal :: "string \<Rightarrow> string" where
  "rune_literal b =
     (if length b = 1 then json_escape (hd b)
      else if b = [CHR 0xE2, CHR 0x80, CHR 0xA8] then CHR 0x5C # ''u2028''
      else if b = [CHR 0xE2, CHR 0x80, CHR 0xA9] then CHR 0x5C # ''u2029''
      else b)"

lemma line_separators:
  "encode_rune 8232 = [CHR 0xE2, CHR 0x80, CHR 0xA8]" "encode_rune 8233 = [CHR 0xE2, CHR 0x80, CHR 0xA9]"
  by code_simp+

lemma rune_literal_reads:
  assumes "rune_bytes b"
  shows "is_literal (rune_literal b) b"
proof -
  have sep: "is_literal (CHR 0x5C # ''u2028'') [CHR 0xE2, CHR 0x80, CHR 0xA8]"
    "is_literal (CHR 0x5C # ''u2029'') [CHR 0xE2, CHR 0x80, CHR 0xA9]"
    using literal_u4 [of "CHR ''2''" "CHR ''0''" "CHR ''2''" "CHR ''8''" 8232]
      literal_u4 [of "CHR ''2''" "CHR ''0''" "CHR ''2''" "CHR ''9''" 8233]
    by (simp_all add: hex4_def json_hex_def line_separators)
  show ?thesis
  proof (cases "length b = 1")
    case True
    with assms obtain c where "b = [c]" "rune1 c" by (auto elim: rune_bytes_cases)
    then show ?thesis using literal_escape by (simp add: rune_literal_def)
  next
    case False
    then show ?thesis using sep literal_multibyte [OF assms] by (auto simp: rune_literal_def)
  qed
qed

lemma json_string_body_rune:
  assumes "rune_bytes b"
  shows "json_string_body (Suc n) (b @ s) = rune_literal b @ json_string_body n s"
proof -
  obtain c b' where b: "b = c # b'" using assms by (cases b) (auto simp: rune_bytes_def)
  have t3: "take 3 (b @ s) = [x, y, z] \<longleftrightarrow> b = [x, y, z]"
    if "length b \<noteq> 1" "rune3 x y z" "\<not> rune1 x" "\<not> rune2 x y" for x y z
    using assms by (cases rule: rune_bytes_cases) (use that in \<open>auto simp: eval_nat_numeral\<close>)
  have "rune3 (CHR 0xE2) (CHR 0x80) (CHR 0xA8)" "rune3 (CHR 0xE2) (CHR 0x80) (CHR 0xA9)"
    "\<not> rune1 (CHR 0xE2)" "\<not> rune2 (CHR 0xE2) (CHR 0x80)"
    by code_simp+
  note t3s = t3 [OF _ this(1, 3, 4)] t3 [OF _ this(2, 3, 4)]
  have "length b \<noteq> 0" "utf8_len (c # b' @ s) = length b"
    using utf8_len_append [OF assms, of s] b by simp_all
  then show ?thesis
    using t3s by (simp add: b rune_literal_def Let_def)
qed

lemma json_string_body_Nil: "json_string_body n [] = []"
  by (cases n) simp_all

text \<open>So a string of runes comes back from its literal.\<close>

lemma json_string_body_reads:
  assumes "utf8 s" and "length s \<le> n"
  shows "scan_string (json_string_body n s @ CHR 0x22 # r) = Some (json_string_body n s, r) \<and>
    (\<forall>m. length (json_string_body n s) \<le> m \<longrightarrow> unquote m (json_string_body n s) = s)"
  using assms
proof (induction s arbitrary: n)
  case utf8_Nil
  have "unquote m [] = []" for m by (cases m) simp_all
  then show ?case by (simp add: json_string_body_Nil)
next
  case (utf8_rune b s)
  note lit = rune_literal_reads [OF utf8_rune.hyps(1)]
  then have len: "0 < length (rune_literal b)" by (simp add: is_literal_def)
  have "0 < length b" using utf8_rune.hyps(1) by (simp add: rune_bytes_def)
  then obtain k where n: "n = Suc k" "length s \<le> k"
    using utf8_rune.prems by (cases n) (simp_all del: length_greater_0_conv)
  note body = json_string_body_rune [OF utf8_rune.hyps(1), of k s] and IH = utf8_rune.IH [OF n(2)]
  have "unquote m (rune_literal b @ json_string_body k s) = b @ s"
    if m: "length (rune_literal b @ json_string_body k s) \<le> m" for m
  proof -
    obtain i where "m = Suc i" "length (json_string_body k s) \<le> i"
      using m len by (cases m) (simp_all del: length_greater_0_conv)
    then show ?thesis using lit IH by (simp add: is_literal_def)
  qed
  then show ?case using lit IH n(1) body by (simp add: is_literal_def)
qed

section \<open>What is read is UTF-8\<close>

text \<open>The bytes between the quotes, as the scanner hands them on.\<close>

definition escapable :: "char \<Rightarrow> bool" where
  "escapable x \<longleftrightarrow> x \<in> set ''bfnrt/'' \<union> {CHR 0x22, CHR 0x5C}"

inductive quoted :: "string \<Rightarrow> bool" where
  quoted_Nil: "quoted []"
| quoted_plain: "c \<noteq> CHR 0x22 \<Longrightarrow> c \<noteq> CHR 0x5C \<Longrightarrow> quoted p \<Longrightarrow> quoted (c # p)"
| quoted_escape: "escapable x \<Longrightarrow> quoted p \<Longrightarrow> quoted (CHR 0x5C # x # p)"
| quoted_u: "hex4 h1 h2 h3 h4 \<noteq> None \<Longrightarrow> quoted p \<Longrightarrow> quoted (CHR 0x5C # CHR ''u'' # h1 # h2 # h3 # h4 # p)"

inductive_simps quoted_Cons: "quoted (c # p)"

lemma scan_string_cases:
  assumes "scan_string (c # s) = Some (p, r)"
  obtains (quote) "c = CHR 0x22" "p = []" "r = s"
    | (plain) q where "c \<noteq> CHR 0x22" "c \<noteq> CHR 0x5C" "scan_string s = Some (q, r)" "p = c # q"
    | (esc) x t q where "c = CHR 0x5C" "s = x # t" "escapable x" "scan_string t = Some (q, r)" "p = c # x # q"
    | (u) h1 h2 h3 h4 t q where "c = CHR 0x5C" "s = CHR ''u'' # h1 # h2 # h3 # h4 # t"
        "hex4 h1 h2 h3 h4 \<noteq> None" "scan_string t = Some (q, r)" "p = c # CHR ''u'' # h1 # h2 # h3 # h4 # q"
proof -
  have step: "scan_string (c # s) =
     (if c = CHR 0x22 then Some ([], s)
      else if (of_char c :: int) < 32 then None
      else if c = CHR 0x5C then
        (case s of
           [] \<Rightarrow> None
         | x # t \<Rightarrow>
             if escapable x then map_option (\<lambda>(p, r). (c # x # p, r)) (scan_string t)
             else if x = CHR ''u'' then
               (case t of
                  h1 # h2 # h3 # h4 # u \<Rightarrow>
                    if hex4 h1 h2 h3 h4 = None then None
                    else map_option (\<lambda>(p, r). (c # x # h1 # h2 # h3 # h4 # p, r)) (scan_string u)
                | _ \<Rightarrow> None)
             else None)
      else map_option (\<lambda>(p, r). (c # p, r)) (scan_string s))"
    by (simp only: scan_string.simps escapable_def)
  show thesis
    using assms unfolding step
    by (auto simp del: scan_string.simps split: if_splits list.splits intro: quote plain esc u)
qed

lemma scan_string_quoted: "scan_string s = Some (p, r) \<Longrightarrow> quoted p"
proof (induction s arbitrary: p r rule: length_induct)
  case (1 s)
  then obtain c s' where s: "s = c # s'" by (cases s) auto
  have IH: "scan_string t = Some (q, r) \<Longrightarrow> length t < length s \<Longrightarrow> quoted q" for t q r
    using 1(1) by blast
  show ?case
    using 1(2) unfolding s
    by (cases rule: scan_string_cases)
      (auto intro!: quoted.intros intro: IH simp: s simp del: scan_string.simps)
qed

lemma of_char_of_int: "0 \<le> n \<Longrightarrow> n < 256 \<Longrightarrow> (of_char (char_of (n :: int)) :: int) = n"
  by (simp add: of_char_of)

lemma char_is:
  "c = CHR 0xE0 \<longleftrightarrow> (of_char c :: int) = 224" "c = CHR 0xED \<longleftrightarrow> (of_char c :: int) = 237"
  "c = CHR 0xF0 \<longleftrightarrow> (of_char c :: int) = 240" "c = CHR 0xF4 \<longleftrightarrow> (of_char c :: int) = 244"
  by (simp_all only: of_char_eq_iff [symmetric, where 'a = int], simp_all)

lemma rune_of_parts:
  fixes q m k j :: int
  shows "0 \<le> q \<Longrightarrow> q < 128 \<Longrightarrow> rune1 (char_of q)"
    and "2 \<le> q \<Longrightarrow> q < 32 \<Longrightarrow> 0 \<le> k \<Longrightarrow> k < 64 \<Longrightarrow> rune2 (char_of (192 + q)) (char_of (128 + k))"
    and "0 \<le> q \<Longrightarrow> q < 16 \<Longrightarrow> 0 \<le> m \<Longrightarrow> m < 64 \<Longrightarrow> 0 \<le> k \<Longrightarrow> k < 64 \<Longrightarrow> (q = 0 \<Longrightarrow> 32 \<le> m) \<Longrightarrow>
       (q = 13 \<Longrightarrow> m < 32) \<Longrightarrow> rune3 (char_of (224 + q)) (char_of (128 + m)) (char_of (128 + k))"
    and "0 \<le> q \<Longrightarrow> q < 5 \<Longrightarrow> 0 \<le> m \<Longrightarrow> m < 64 \<Longrightarrow> 0 \<le> k \<Longrightarrow> k < 64 \<Longrightarrow> 0 \<le> j \<Longrightarrow> j < 64 \<Longrightarrow>
       (q = 0 \<Longrightarrow> 16 \<le> m) \<Longrightarrow> (q = 4 \<Longrightarrow> m < 16) \<Longrightarrow>
       rune4 (char_of (240 + q)) (char_of (128 + m)) (char_of (128 + k)) (char_of (128 + j))"
  by (simp_all only: rune1_def rune2_def rune3_def rune4_def in_range_def char_is of_char_of_int) presburger+

lemma rune_parts_high:
  "rune2 a b \<Longrightarrow> \<not> rune1 a"
  "rune3 a b c \<Longrightarrow> \<not> rune1 a \<and> \<not> rune2 a b"
  "rune4 a b c d \<Longrightarrow> \<not> rune1 a \<and> \<not> rune2 a b \<and> \<not> rune3 a b c"
  by (auto simp: rune1_def rune2_def rune3_def rune4_def in_range_def)

lemma rune_bytes_intros:
  "rune1 a \<Longrightarrow> rune_bytes [a]"
  "rune2 a b \<Longrightarrow> rune_bytes [a, b]"
  "rune3 a b c \<Longrightarrow> rune_bytes [a, b, c]"
  "rune4 a b c d \<Longrightarrow> rune_bytes [a, b, c, d]"
  using rune_parts_high by (auto simp: rune_bytes_def utf8_len_known)

lemma rune_bytes_replacement: "rune_bytes replacement"
  by code_simp

lemma digits64:
  fixes r :: int
  shows "r = 64 * (r div 64) + r mod 64" "r div 64 = 64 * (r div 4096) + r div 64 mod 64"
    "r div 4096 = 64 * (r div 262144) + r div 4096 mod 64"
    "0 \<le> r mod 64" "r mod 64 < 64" "0 \<le> r div 64 mod 64" "r div 64 mod 64 < 64"
    "0 \<le> r div 4096 mod 64" "r div 4096 mod 64 < 64"
  using zdiv_zmult2_eq [of 64 r 64] zdiv_zmult2_eq [of 64 r 4096] by simp_all

lemma rune_bytes_encode_rune:
  assumes "0 \<le> r" and "r \<le> 1114111"
  shows "rune_bytes (encode_rune r)"
proof -
  consider (one) "r < 128" | (two) "128 \<le> r" "r < 2048" | (sur) "55296 \<le> r" "r \<le> 57343"
    | (three) "2048 \<le> r" "r < 65536" "r < 55296 \<or> 57343 < r"
    | (four) "65536 \<le> r" using assms by linarith
  moreover obtain k j m l q n where d: "r mod 64 = k" "r div 64 = j" "j mod 64 = m" "r div 4096 = q"
    "q mod 64 = n" "r div 262144 = l" by blast
  note f = digits64 [of r, unfolded d]
  ultimately show ?thesis
  proof cases
    case one
    then show ?thesis using assms by (simp add: encode_rune_def rune_bytes_intros rune_of_parts)
  next
    case two
    have "rune2 (char_of (192 + j)) (char_of (128 + k))"
      by (rule rune_of_parts) (use two f in linarith)+
    then show ?thesis using two by (auto simp: encode_rune_def rune_bytes_intros d)
  next
    case sur
    then show ?thesis by (simp add: encode_rune_def rune_bytes_replacement)
  next
    case three
    have "rune3 (char_of (224 + q)) (char_of (128 + m)) (char_of (128 + k))"
      by (rule rune_of_parts) (use three f in linarith)+
    then show ?thesis using three by (auto simp: encode_rune_def rune_bytes_intros d)
  next
    case four
    have "rune4 (char_of (240 + l)) (char_of (128 + n)) (char_of (128 + m)) (char_of (128 + k))"
      by (rule rune_of_parts) (use four assms f in linarith)+
    then show ?thesis using four assms by (auto simp: encode_rune_def rune_bytes_intros d)
  qed
qed

lemma hex4_bounds: "hex4 a b c d = Some r \<Longrightarrow> 0 \<le> r \<and> r < 65536"
proof -
  have h: "json_hex c = Some n \<Longrightarrow> 0 \<le> n \<and> n < 16" for c n
    by (auto simp: json_hex_def Let_def split: if_splits)
  assume "hex4 a b c d = Some r"
  then show ?thesis by (auto simp: hex4_def split: option.splits dest!: h)
qed

lemma quoted_high: "128 \<le> (of_char c :: int) \<Longrightarrow> quoted (c # p) \<longleftrightarrow> quoted p"
  by (auto simp: quoted_Cons)

lemma quoted_drop_rune:
  assumes "utf8_len (c # p) \<noteq> 0" and "quoted (c # p)" and "c \<noteq> CHR 0x5C"
  shows "quoted (drop (utf8_len (c # p)) (c # p))"
  using assms(1)
  by (cases rule: utf8_len_cases)
    (use assms(2, 3) in \<open>auto simp: utf8_len_known quoted_Cons [of c] quoted_high dest!: rune_high\<close>)

lemma escapable_ascii: "escapable x \<Longrightarrow> rune1 (simple_escape x) \<and> x \<noteq> CHR ''u''"
proof -
  have "list_all (\<lambda>x. rune1 (simple_escape x) \<and> x \<noteq> CHR ''u'') (''bfnrt/'' @ [CHR 0x22, CHR 0x5C])"
    by code_simp
  then show "escapable x \<Longrightarrow> ?thesis" by (simp add: escapable_def list_all_iff) blast
qed

lemma quoted_next_u4: "quoted q \<Longrightarrow> next_u4 q = Some r \<Longrightarrow> quoted (drop 6 q)"
proof (erule quoted.cases)
  fix x p assume "next_u4 q = Some r" "q = CHR 0x5C # x # p" "escapable x"
  then show ?thesis using escapable_ascii [of x] by (simp add: next_u4_def split: list.splits)
qed (auto simp: next_u4_def split: list.splits)

lemma surrogate_pair_bounds: "surrogate_pair r1 r2 = Some r \<Longrightarrow> 0 \<le> r \<and> r \<le> 1114111"
  by (auto simp: surrogate_pair_def split: if_splits)

lemma utf8_unquote:
  assumes "quoted p"
  shows "utf8 (unquote n p)"
  using assms
proof (induction n arbitrary: p)
  case 0
  then show ?case by (simp add: utf8_Nil)
next
  case (Suc n)
  have rep: "utf8 (replacement @ unquote n q)" if "quoted q" for q
    using that by (intro utf8_rune rune_bytes_replacement Suc.IH)
  have enc: "utf8 (encode_rune r @ unquote n q)" if "quoted q" "0 \<le> r" "r \<le> 1114111" for q r
    using that by (intro utf8_rune rune_bytes_encode_rune Suc.IH)
  from Suc.prems show ?case
  proof cases
    case quoted_Nil
    then show ?thesis by (simp add: utf8_Nil)
  next
    case (quoted_plain c q)
    have "utf8 (take l (c # q) @ unquote n (drop l (c # q)))" if "utf8_len (c # q) = l" "l \<noteq> 0" for l
      using that rune_bytes_take [of "c # q"] quoted_drop_rune [of c q] quoted_plain Suc
      by (intro utf8_rune Suc.IH) auto
    then show ?thesis using quoted_plain rep [of q] by (auto simp: Let_def)
  next
    case (quoted_escape x q)
    have "utf8 ([simple_escape x] @ unquote n q)"
      using quoted_escape escapable_ascii by (intro utf8_rune rune_bytes_intros Suc.IH) auto
    then show ?thesis using quoted_escape escapable_ascii by auto
  next
    case (quoted_u h1 h2 h3 h4 q)
    then obtain r where r: "hex4 h1 h2 h3 h4 = Some r" by blast
    have "unquote (Suc n) p =
        (if 55296 \<le> r \<and> r \<le> 57343 then
           (case next_u4 q of
              Some r2 \<Rightarrow>
                (case surrogate_pair r r2 of
                   Some rr \<Rightarrow> encode_rune rr @ unquote n (drop 6 q)
                 | None \<Rightarrow> replacement @ unquote n q)
            | None \<Rightarrow> replacement @ unquote n q)
         else encode_rune r @ unquote n q)"
      using quoted_u(1) r by (simp add: next_u4_def)
    moreover have "0 \<le> r" "r \<le> 1114111" using hex4_bounds [OF r] by auto
    ultimately show ?thesis
      using quoted_u(3) rep enc quoted_next_u4 [OF quoted_u(3)] surrogate_pair_bounds [of r]
      by (simp split: option.splits)
  qed
qed

end
