(* ===== verification/GoJSON_Roundtrip.thy ===== *)
theory GoJSON_Roundtrip
  imports GoJSON_Strings
begin

text \<open>
  A value that was decoded from a JSON text is rendered to a text that decodes to it again, with the
  keys of its maps in order.
\<close>

section \<open>Numbers and what follows them\<close>

text \<open>What can follow a value in a rendered text.\<close>

definition stop :: "string \<Rightarrow> bool" where
  "stop r \<longleftrightarrow> (case r of [] \<Rightarrow> True | c # _ \<Rightarrow> c \<in> set '',}]'')"

lemma stop_simps [simp]: "stop []" "stop (CHR '','' # r)" "stop (CHR ''}'' # r)" "stop (CHR '']'' # r)"
  by (simp_all add: stop_def)

lemma stop_Cons: "stop (c # r) \<Longrightarrow> c \<in> {CHR '','', CHR ''}'', CHR '']''}"
  by (simp add: stop_def)

lemma scan_digits_append:
  assumes "scan_digits s = Some (a, b)" and "stop r"
  shows "scan_digits (s @ r) = Some (a, b @ r)"
proof -
  have "takeWhile is_digit r = [] \<and> dropWhile is_digit r = r"
    using assms(2) by (cases r) (auto simp: go_defs dest!: stop_Cons)
  then show ?thesis
    using assms(1) by (cases "\<forall>c\<in>set s. is_digit c")
      (auto simp: scan_digits_def Let_def takeWhile_append dropWhile_append takeWhile_eq_all_conv [THEN iffD2]
        split: if_splits)
qed

lemma scan_number_append:
  assumes "scan_number s = Some (a, b)" and "stop r"
  shows "scan_number (s @ r) = Some (a, b @ r)"
proof -
  note d = scan_digits_append [OF _ assms(2)]
  have i: "scan_int s = Some (a, b) \<Longrightarrow> scan_int (s @ r) = Some (a, b @ r)" for s a b
    by (auto simp: scan_int_def split: list.splits if_splits dest: d)
  have f: "scan_frac s = Some (a, b) \<Longrightarrow> scan_frac (s @ r) = Some (a, b @ r)" for s a b
    using assms(2)
    by (cases s; cases r) (auto simp: scan_frac_def split: if_splits dest!: stop_Cons dest: d)
  have e: "scan_exp s = Some (a, b) \<Longrightarrow> scan_exp (s @ r) = Some (a, b @ r)" for s a b
    using assms(2)
    by (cases s; cases r) (auto simp: scan_exp_def split: if_splits list.splits dest!: stop_Cons dest: d)
  define sg where "sg = (case s of c # _ \<Rightarrow> if c = CHR ''-'' then [c] else [] | [] \<Rightarrow> [])"
  define t where "t = (case s of c # u \<Rightarrow> if c = CHR ''-'' then u else s | [] \<Rightarrow> [])"
  have number: "scan_number (s @ r') = (case scan_int (t @ r') of None \<Rightarrow> None
      | Some (i, u) \<Rightarrow> (case scan_frac u of None \<Rightarrow> None
          | Some (f, v) \<Rightarrow> (case scan_exp v of None \<Rightarrow> None | Some (e, w) \<Rightarrow> Some (sg @ i @ f @ e, w))))"
    if "s \<noteq> []" for r'
    using that unfolding sg_def t_def by (cases s) (auto simp: scan_number_def cong: option.case_cong)
  have "s \<noteq> []" using assms(1) by (auto simp: scan_number_def scan_int_def)
  then obtain i' u f' v e' where "scan_int t = Some (i', u)" "scan_frac u = Some (f', v)"
    "scan_exp v = Some (e', b)" "a = sg @ i' @ f' @ e'"
    using assms(1) number [of "[]"] by (auto split: option.splits)
  with \<open>s \<noteq> []\<close> show ?thesis by (simp add: number i f e)
qed

section \<open>Reading with enough fuel\<close>

definition reads :: "int \<Rightarrow> string \<Rightarrow> json \<Rightarrow> string \<Rightarrow> bool" where
  "reads d s v r \<longleftrightarrow> (\<exists>n. parse_value n d s = Some (v, r))"

lemma reads_fuel: "reads d s v r \<Longrightarrow> length s \<le> n \<Longrightarrow> parse_value n d s = Some (v, r)"
  by (auto simp: reads_def dest: parse_value_enough)

lemma parse_list_enough:
  "parse_elems n d s = Some (es, r) \<Longrightarrow> length s \<le> m \<Longrightarrow> parse_elems m d s = Some (es, r)"
  "parse_members n d s = Some (ms, r) \<Longrightarrow> length s \<le> m \<Longrightarrow> parse_members m d s = Some (ms, r)"
  using parse_fuel(2) [of n d s "(es, r)"] parse_fuel(3) [of n d s "(ms, r)"]
  by (auto simp: reads_with_def)

lemma skip_space_nonspace: "\<not> json_space c \<Longrightarrow> skip_space (c # t) = c # t"
  by (simp add: skip_space_def)

lemma skip_space_marks [simp]:
  "skip_space (CHR '','' # t) = CHR '','' # t" "skip_space (CHR '':'' # t) = CHR '':'' # t"
  "skip_space (CHR 0x22 # t) = CHR 0x22 # t" "skip_space (CHR ''{'' # t) = CHR ''{'' # t"
  "skip_space (CHR ''}'' # t) = CHR ''}'' # t" "skip_space (CHR ''['' # t) = CHR ''['' # t"
  "skip_space (CHR '']'' # t) = CHR '']'' # t" "skip_space (CHR ''n'' # t) = CHR ''n'' # t"
  "skip_space (CHR ''t'' # t) = CHR ''t'' # t" "skip_space (CHR ''f'' # t) = CHR ''f'' # t"
  by (simp_all add: skip_space_nonspace json_space_def)

lemma reads_words:
  "reads d (''null'' @ r) JNull r" "reads d (''true'' @ r) (JBool True) r"
  "reads d (''false'' @ r) (JBool False) r"
  by (rule reads_def [THEN iffD2], rule exI [of _ 1], simp add: HasPrefix_def)+

lemma json_string_reads:
  assumes "utf8 s"
  shows "\<exists>p. scan_string (json_string_body (length s) s @ CHR 0x22 # r) = Some (p, r) \<and>
    unquote (length p) p = s"
  using json_string_body_reads [OF assms, of "length s" r] by auto

lemma reads_string:
  assumes "utf8 s"
  shows "reads d (json_string s @ r) (JStr s) r"
proof -
  obtain p where "scan_string (json_string_body (length s) s @ CHR 0x22 # r) = Some (p, r)"
    "unquote (length p) p = s"
    using json_string_reads [OF assms] by blast
  then have "parse_value 1 d (json_string s @ r) = Some (JStr s, r)"
    by (simp add: json_string_def)
  then show ?thesis unfolding reads_def by blast
qed

lemma scan_number_head: "scan_number (c # t) = Some x \<Longrightarrow> is_digit c \<or> c = CHR ''-''"
  by (auto simp: scan_number_def scan_int_def scan_digits_def Let_def go_defs
      split: if_splits list.splits option.splits)

lemma reads_number:
  assumes "scan_number l = Some (l, [])" and "stop r"
  shows "reads d (l @ r) (JNum l) r"
proof -
  obtain c t where l: "l = c # t"
    using assms(1) by (cases l) (auto simp: scan_number_def scan_int_def)
  have c: "\<not> json_space c" "c \<notin> set ''{[tfn'' \<union> {CHR 0x22}"
    using scan_number_head [of c t] assms(1) l by (auto simp: json_space_def is_digit_def)
  have "scan_number (l @ r) = Some (l, r)" using scan_number_append [OF assms] by simp
  then have "parse_value 1 d (l @ r) = Some (JNum l, r)"
    using c by (simp add: l skip_space_nonspace HasPrefix_def)
  then show ?thesis unfolding reads_def by blast
qed

lemma reads_elems:
  assumes "vs \<noteq> []" and "\<And>v r. v \<in> set vs \<Longrightarrow> stop r \<Longrightarrow> reads d (M v @ r) (J v) r"
  shows "\<exists>n. parse_elems n d (join_with '','' (map M vs) @ '']'' @ r) = Some (map J vs, r)"
  using assms
proof (induction vs)
  case (Cons v vs)
  show ?case
  proof (cases vs)
    case Nil
    have "reads d (M v @ '']'' @ r) (J v) ('']'' @ r)" using Cons.prems by simp
    then obtain n where "parse_value n d (M v @ '']'' @ r) = Some (J v, '']'' @ r)"
      by (auto simp: reads_def)
    then have "parse_elems (Suc n) d (M v @ '']'' @ r) = Some ([J v], r)" by simp
    then show ?thesis using Nil by (auto simp del: parse_elems.simps)
  next
    case (Cons v' vs')
    let ?t = "join_with '','' (map M vs) @ '']'' @ r"
    obtain n where n: "parse_elems n d ?t = Some (map J vs, r)"
      using Cons.IH Cons.prems Cons by auto
    have "reads d (M v @ '','' @ ?t) (J v) ('','' @ ?t)" using Cons.prems by simp
    then have "parse_value (max n (length (M v @ '','' @ ?t))) d (M v @ '','' @ ?t) = Some (J v, '','' @ ?t)"
      by (rule reads_fuel) simp
    moreover have "parse_elems (max n (length (M v @ '','' @ ?t))) d ?t = Some (map J vs, r)"
      by (rule parse_list_enough(1) [OF n]) simp
    ultimately have "parse_elems (Suc (max n (length (M v @ '','' @ ?t)))) d (M v @ '','' @ ?t) =
        Some (map J (v # vs), r)" by simp
    then show ?thesis using Cons by (auto simp del: parse_elems.simps)
  qed
qed simp


lemma reads_members:
  assumes "ms \<noteq> []"
    and "\<And>k t j r. (k, t, j) \<in> set ms \<Longrightarrow> stop r \<Longrightarrow> utf8 k \<and> reads d (t @ r) j r"
  shows "\<exists>n. parse_members n d (join_with '','' (map (\<lambda>(k, t, j). json_string k @ '':'' @ t) ms) @ ''}'' @ r) =
    Some (map (\<lambda>(k, t, j). (k, j)) ms, r)"
  using assms
proof (induction ms)
  case (Cons m ms)
  obtain k t j where m: "m = (k, t, j)" by (cases m)
  have k: "utf8 k" using Cons.prems(2) [of k t j "[]"] m by simp
  have step: "\<exists>p. scan_string (json_string_body (length k) k @ CHR 0x22 # CHR '':'' # t @ q) =
      Some (p, CHR '':'' # t @ q) \<and> unquote (length p) p = k" for q
    by (rule json_string_reads [OF k])
  show ?case
  proof (cases ms)
    case Nil
    have "reads d (t @ ''}'' @ r) j (''}'' @ r)"
      using Cons.prems(2) [of k t j "''}'' @ r"] m by simp
    then obtain n where n: "parse_value n d (t @ ''}'' @ r) = Some (j, ''}'' @ r)" by (auto simp: reads_def)
    obtain p where "scan_string (json_string_body (length k) k @ CHR 0x22 # CHR '':'' # t @ ''}'' @ r) =
      Some (p, CHR '':'' # t @ ''}'' @ r)" "unquote (length p) p = k"
      using step by blast
    with n have "parse_members (Suc n) d (json_string k @ '':'' @ t @ ''}'' @ r) = Some ([(k, j)], r)"
      by (simp add: json_string_def)
    then show ?thesis using Nil m by (auto simp del: parse_members.simps)
  next
    case (Cons m' ms')
    let ?t = "join_with '','' (map (\<lambda>(k, t, j). json_string k @ '':'' @ t) ms) @ ''}'' @ r"
    have "\<exists>n. parse_members n d ?t = Some (map (\<lambda>(k, t, j). (k, j)) ms, r)"
      by (rule Cons.IH) (use Cons Cons.prems(2) in \<open>auto\<close>)
    then obtain n where n: "parse_members n d ?t = Some (map (\<lambda>(k, t, j). (k, j)) ms, r)" ..
    let ?n = "max n (length (t @ '','' @ ?t))"
    have "reads d (t @ '','' @ ?t) j ('','' @ ?t)"
      using Cons.prems(2) [of k t j "'','' @ ?t"] m by simp
    then have v: "parse_value ?n d (t @ '','' @ ?t) = Some (j, '','' @ ?t)"
      by (rule reads_fuel) simp
    have ms: "parse_members ?n d ?t = Some (map (\<lambda>(k, t, j). (k, j)) ms, r)"
      by (rule parse_list_enough(2) [OF n]) simp
    obtain p where "scan_string (json_string_body (length k) k @ CHR 0x22 # CHR '':'' # t @ '','' @ ?t) =
      Some (p, CHR '':'' # t @ '','' @ ?t)" "unquote (length p) p = k"
      using step by blast
    with v ms have "parse_members (Suc ?n) d (json_string k @ '':'' @ t @ '','' @ ?t) =
        Some (map (\<lambda>(k, t, j). (k, j)) (m # ms), r)" by (simp add: json_string_def m)
    then show ?thesis using Cons m by (auto simp del: parse_members.simps)
  qed
qed simp

section \<open>Decoded values\<close>

text \<open>What a decoded value looks like: text is UTF-8, the keys of a map are distinct, and it is not
  nested more deeply than the decoder allows.\<close>

fun decoded :: "int \<Rightarrow> goany \<Rightarrow> bool" where
  "decoded d (GStr s) \<longleftrightarrow> utf8 s"
| "decoded d (GSlice vs) \<longleftrightarrow> d < max_depth \<and> list_all (decoded (d + 1)) vs"
| "decoded d (GMap ms) \<longleftrightarrow> d < max_depth \<and> distinct (map fst ms) \<and>
     list_all (\<lambda>(k, v). utf8 k \<and> decoded (d + 1) v) ms"
| "decoded d v \<longleftrightarrow> v = GNil \<or> (\<exists>b. v = GBool b) \<or> (\<exists>f. v = GFloat f)"

text \<open>The same value with the keys of its maps in order, and the tree its text is read as.\<close>

fun canon :: "goany \<Rightarrow> goany" where
  "canon (GSlice vs) = GSlice (map canon vs)"
| "canon (GMap ms) = GMap (sort_key fst (map (\<lambda>(k, v). (k, canon v)) ms))"
| "canon v = v"

fun jsonify :: "(float64 \<Rightarrow> string) \<Rightarrow> goany \<Rightarrow> json" where
  "jsonify ff (GBool b) = JBool b"
| "jsonify ff (GFloat f) = JNum (ff f)"
| "jsonify ff (GStr s) = JStr s"
| "jsonify ff (GSlice vs) = JArr (map (jsonify ff) vs)"
| "jsonify ff (GMap ms) = JObj (sort_key fst (map (\<lambda>(k, v). (k, jsonify ff v)) ms))"
| "jsonify ff v = JNull"

text \<open>The numbers of a value; each is rendered as a literal that is read as the same number.\<close>

fun floats :: "goany \<Rightarrow> float64 list" where
  "floats (GFloat f) = [f]"
| "floats (GSlice vs) = concat (map floats vs)"
| "floats (GMap ms) = concat (map (\<lambda>(k, v). floats v) ms)"
| "floats v = []"

definition float_text :: "(float64 \<Rightarrow> string) \<Rightarrow> float64 \<Rightarrow> bool" where
  "float_text ff f \<longleftrightarrow> scan_number (ff f) = Some (ff f, []) \<and> ParseFloat (ff f) = Some f"

lemma insort_key_map: "insort_key f (g x) (map g xs) = map g (insort_key (\<lambda>y. f (g y)) x xs)"
  by (induction xs) auto

lemma sort_key_map: "sort_key f (map g xs) = map g (sort_key (\<lambda>x. f (g x)) xs)"
  by (induction xs) (simp_all add: insort_key_map)

lemma sort_members: "sort_key fst (map (\<lambda>(k, v). (k, h v)) ms) = map (\<lambda>(k, v). (k, h v)) (sort_key fst ms)"
  by (simp add: sort_key_map case_prod_unfold)

lemma list_all_sort: "list_all P (sort_key f xs) \<longleftrightarrow> list_all P xs"
  by (simp add: list_all_iff)

lemma fold_update_distinct:
  "distinct (map fst (acc @ ms)) \<Longrightarrow> fold (\<lambda>(k, v) m. AList.update k v m) ms acc = acc @ ms"
proof (induction ms arbitrary: acc)
  case (Cons kv ms)
  obtain k v where kv: "kv = (k, v)" by (cases kv)
  have "AList.update k v acc = acc @ [(k, v)]"
    using Cons.prems kv by (induction acc) auto
  then show ?case using Cons kv by (simp add: Cons.IH)
qed simp

lemma reads_array:
  assumes "d < max_depth" and "parse_elems n (d + 1) s = Some (vs, r)"
    and "skip_space s = s" and "s \<noteq> []" and "hd s \<noteq> CHR '']''"
  shows "reads d (''['' @ s) (JArr vs) r"
proof -
  obtain x u where "s = x # u" "x \<noteq> CHR '']''" using assms by (cases s) auto
  then have "parse_value (Suc n) d (''['' @ s) = Some (JArr vs, r)" using assms by simp
  then show ?thesis unfolding reads_def by blast
qed

lemma reads_object:
  assumes "d < max_depth" and "parse_members n (d + 1) s = Some (ms, r)" and "hd s = CHR 0x22" and "s \<noteq> []"
  shows "reads d (''{'' @ s) (JObj ms) r"
proof -
  obtain u where "s = CHR 0x22 # u" using assms by (cases s) auto
  then have "parse_value (Suc n) d (''{'' @ s) = Some (JObj ms, r)" using assms by simp
  then show ?thesis unfolding reads_def by blast
qed

lemma reads_empty:
  assumes "d < max_depth"
  shows "reads d (''[]'' @ r) (JArr []) r" "reads d (''{}'' @ r) (JObj []) r"
  using assms by (auto simp: reads_def intro!: exI [of _ 1])

lemma Marshal_head:
  assumes "decoded d v" and "\<forall>f\<in>set (floats v). float_text ff f"
  obtains c t where "Marshal ff v = c # t" "\<not> json_space c" "c \<noteq> CHR '']''"
proof (cases v)
  case (GFloat f)
  then have number: "scan_number (ff f) = Some (ff f, [])" using assms by (simp add: float_text_def)
  then obtain c t where "ff f = c # t" by (cases "ff f") (auto simp: scan_number_def scan_int_def)
  moreover have "\<not> json_space c" "c \<noteq> CHR '']''"
    using scan_number_head [of c t] number calculation by (auto simp: json_space_def is_digit_def)
  ultimately show ?thesis using that GFloat by simp
next
  case (GBool b)
  then show ?thesis using that by (cases b) (auto simp: json_space_def)
qed (use assms that in \<open>auto simp: json_space_def json_string_def\<close>)

lemma join_with_head:
  "x \<noteq> [] \<Longrightarrow> join_with sep (x # xs) \<noteq> [] \<and> hd (join_with sep (x # xs) @ s) = hd x \<and>
     (\<exists>t. join_with sep (x # xs) = hd x # t)"
  by (cases xs; cases x) auto

lemma Marshal_reads:
  assumes "decoded d v" and "\<forall>f\<in>set (floats v). float_text ff f" and "stop r"
  shows "reads d (Marshal ff v @ r) (jsonify ff v) r"
  using assms
proof (induction v arbitrary: d r)
  case (GSlice vs)
  show ?case
  proof (cases vs)
    case Nil
    then show ?thesis using GSlice.prems reads_empty by simp
  next
    case (Cons v vs')
    let ?s = "join_with '','' (map (Marshal ff) vs) @ '']'' @ r"
    have "\<exists>n. parse_elems n (d + 1) ?s = Some (map (jsonify ff) vs, r)"
    proof (rule reads_elems)
      show "vs \<noteq> []" using Cons by simp
    next
      fix w r' assume w: "w \<in> set vs" "stop r'"
      then have "decoded (d + 1) w" "\<forall>f\<in>set (floats w). float_text ff f"
        using GSlice.prems by (auto simp: list_all_iff)
      then show "reads (d + 1) (Marshal ff w @ r') (jsonify ff w) r'" using GSlice.IH w by blast
    qed
    then obtain n where n: "parse_elems n (d + 1) ?s = Some (map (jsonify ff) vs, r)" ..
    obtain c t where "Marshal ff v = c # t" "\<not> json_space c" "c \<noteq> CHR '']''"
      by (rule Marshal_head [of "d + 1" v ff]) (use GSlice.prems Cons in \<open>auto simp: list_all_iff\<close>)
    moreover from this obtain t' where "join_with '','' (map (Marshal ff) vs) = c # t'"
      using join_with_head [of "Marshal ff v" "'',''" "map (Marshal ff) vs'"] Cons by auto
    ultimately have "reads d (''['' @ ?s) (JArr (map (jsonify ff) vs)) r"
      using GSlice.prems by (intro reads_array [OF _ n]) (simp_all add: skip_space_nonspace)
    then show ?thesis by simp
  qed
next
  case (GMap ms)
  define ms' where "ms' = sort_key fst ms"
  let ?ts = "map (\<lambda>(k, v). (k, Marshal ff v, jsonify ff v)) ms'"
  let ?s = "join_with '','' (map (\<lambda>(k, t, j). json_string k @ '':'' @ t) ?ts) @ ''}'' @ r"
  have shown: "Marshal ff (GMap ms) @ r = ''{'' @ ?s"
    and json: "jsonify ff (GMap ms) = JObj (map (\<lambda>(k, t, j). (k, j)) ?ts)"
    by (simp_all add: sort_key_map ms'_def comp_def case_prod_unfold)
  show ?case
  proof (cases ms')
    case Nil
    then have "ms = []" by (metis ms'_def length_0_conv length_sort)
    then show ?thesis using GMap.prems reads_empty by simp
  next
    case (Cons kv ms'')
    have "\<exists>n. parse_members n (d + 1) ?s = Some (map (\<lambda>(k, t, j). (k, j)) ?ts, r)"
    proof (rule reads_members)
      show "?ts \<noteq> []" using Cons by simp
    next
      fix k t j r' assume "(k, t, j) \<in> set ?ts" and r': "stop r'"
      then obtain w where w: "(k, w) \<in> set ms" "t = Marshal ff w" "j = jsonify ff w"
        by (auto simp: ms'_def)
      then have "decoded (d + 1) w" "utf8 k" "\<forall>f\<in>set (floats w). float_text ff f"
        using GMap.prems by (fastforce simp: list_all_iff)+
      then show "utf8 k \<and> reads (d + 1) (t @ r') j r'"
        using GMap.IH [OF w(1)] w r' by auto
    qed
    then obtain n where n: "parse_members n (d + 1) ?s = Some (map (\<lambda>(k, t, j). (k, j)) ?ts, r)" ..
    show ?thesis
      unfolding shown json
      using join_with_head [of "json_string (fst kv) @ '':'' @ Marshal ff (snd kv)" "'',''"] GMap.prems Cons
      by (intro reads_object [OF _ n]) (auto simp: json_string_def case_prod_unfold)
  qed
qed (use reads_words in \<open>auto simp: float_text_def reads_string intro: reads_number\<close>)

lemma jsonify_decodes:
  assumes "decoded d v" and "\<forall>f\<in>set (floats v). float_text ff f"
  shows "json_to_any (jsonify ff v) = canon v \<and> \<not> number_overflow (jsonify ff v)"
  using assms
proof (induction v arbitrary: d)
  case (GSlice vs)
  then show ?case by (fastforce simp: list_all_iff list_ex_iff)
next
  case (GMap ms)
  have IH: "json_to_any (jsonify ff w) = canon w \<and> \<not> number_overflow (jsonify ff w)"
    if "(k, w) \<in> set ms" for k w
    using GMap that by (fastforce simp: list_all_iff)
  let ?ms = "map (\<lambda>(k, v). (k, canon v)) (sort_key fst ms)"
  have "map (\<lambda>(k, v). (k, json_to_any v)) (map (\<lambda>(k, v). (k, jsonify ff v)) (sort_key fst ms)) = ?ms"
    using IH by auto
  then have "json_to_any (jsonify ff (GMap ms)) = GMap (fold (\<lambda>(k, v) m. AList.update k v m) ?ms [])"
    by (simp only: jsonify.simps json_to_any.simps sort_members)
  also have "\<dots> = canon (GMap ms)"
    using GMap.prems(1)
    by (subst fold_update_distinct) (simp_all add: sort_key_map distinct_map comp_def case_prod_unfold)
  finally show ?case using IH by (auto simp: list_ex_iff)
qed (auto simp: float_text_def)

lemma set_update: "set (AList.update k v m) \<subseteq> insert (k, v) (set m)"
  by (induction m) auto

lemma decoded_update:
  assumes "decoded d (GMap m)" and "utf8 k" and "decoded (d + 1) v"
  shows "decoded d (GMap (AList.update k v m))"
  using assms set_update [of k v m] by (auto simp: list_all_iff distinct_update)

lemma decoded_fold:
  assumes "decoded d (GMap m)" and "list_all (\<lambda>(k, v). utf8 k \<and> decoded (d + 1) (f v)) ms"
  shows "decoded d (GMap (fold (\<lambda>(k, v) m. AList.update k (f v) m) ms m))"
  using assms
proof (induction ms arbitrary: m)
  case (Cons kv ms)
  then show ?case by (cases kv) (simp add: decoded_update del: decoded.simps)
qed simp

lemma decoded_object:
  assumes "d < max_depth" and "list_all (\<lambda>(k, v). utf8 k \<and> decoded (d + 1) (json_to_any v)) ms"
  shows "decoded d (json_to_any (JObj ms))"
  using decoded_fold [of d "[]" json_to_any ms] assms by (simp add: fold_map comp_def case_prod_unfold)

lemma parse_decoded:
  "parse_value n d s = Some vr \<Longrightarrow> decoded d (json_to_any (fst vr))"
  "parse_elems n d s = Some er \<Longrightarrow> list_all (\<lambda>v. decoded d (json_to_any v)) (fst er)"
  "parse_members n d s = Some mr \<Longrightarrow> list_all (\<lambda>(k, v). utf8 k \<and> decoded d (json_to_any v)) (fst mr)"
proof (induction n d s and n d s and n d s arbitrary: vr and er and mr
    rule: parse_value_parse_elems_parse_members.induct)
  case (2 n d s)
  then obtain c t where s: "skip_space s = c # t" by (auto split: list.splits)
  consider (obj) "c = CHR ''{''" | (arr) "c = CHR ''[''" | (str) "c = CHR 0x22"
    | (atom) "c \<notin> {CHR ''{'', CHR ''['', CHR 0x22}" by blast
  then show ?case
  proof cases
    case obj
    then show ?thesis
      using 2 s by (fastforce simp del: json_to_any.simps(6) intro!: decoded_object split: if_splits list.splits)
  next
    case arr
    then show ?thesis using 2 s by (fastforce simp: list_all_iff split: if_splits list.splits)
  next
    case str
    then show ?thesis using 2 s by (auto intro!: utf8_unquote dest: scan_string_quoted)
  next
    case atom
    then show ?thesis using 2 s by (auto split: if_splits option.splits)
  qed
next
  case (4 n d s)
  then show ?case by (fastforce split: option.splits prod.splits list.splits if_splits)
next
  case (6 n d s)
  then obtain t p r u v w y z where s: "skip_space s = CHR 0x22 # t" and p: "scan_string t = Some (p, r)"
    and r: "skip_space r = CHR '':'' # u" and v: "parse_value n d u = Some (v, w)"
    and w: "skip_space w = y # z"
    by (auto split: option.splits prod.splits list.splits if_splits)
  have "decoded d (json_to_any v)" "utf8 (unquote (length p) p)"
    using 6 s p r v utf8_unquote [OF scan_string_quoted [OF p]] by fastforce+
  then show ?case using 6 s p r v w by (fastforce split: if_splits)
qed simp_all

end
