(* ===== verification/K1sApply.thy ===== *)
theory K1sApply
  imports K1sCalls GoJSON_Roundtrip
begin

text \<open>
  What \<open>Apply\<close> posts: the manifest's own value, whatever the manifest looks like.
\<close>

section \<open>Decoding what was rendered\<close>

definition canon_payload :: "payload \<Rightarrow> payload" where
  "canon_payload p = map_option (\<lambda>m. sort_key fst (map (\<lambda>(k, v). (k, canon v)) m)) p"

lemma Unmarshal_map_decoded:
  assumes "Unmarshal_map raw None = (p, None)"
  shows "decoded 0 (payload_any p)"
proof -
  obtain v where "parse_json raw = Some v" "v = JNull \<and> p = None \<or> (\<exists>ms. v = JObj ms \<and> payload_any p = json_to_any v)"
    using assms
    by (auto simp: Unmarshal_map_def payload_any_def fold_map comp_def case_prod_unfold
        split: option.splits json.splits if_splits)
  moreover from this(1) obtain n r where "parse_value n 0 raw = Some (v, r)"
    by (auto simp: parse_json_complete reads_json_def)
  ultimately show ?thesis using parse_decoded(1) [of n 0 raw "(v, r)"] by (auto simp: payload_any_def)
qed

lemma Unmarshal_Marshal:
  assumes "Unmarshal_map raw None = (p, None)"
    and "\<forall>f\<in>set (floats (payload_any p)). float_text ff f"
  shows "Unmarshal_map (Marshal ff (payload_any p)) None = (canon_payload p, None)"
proof -
  let ?v = "payload_any p"
  note ok = Unmarshal_map_decoded [OF assms(1)]
  have "reads 0 (Marshal ff ?v) (jsonify ff ?v) []"
    using Marshal_reads [OF ok assms(2), of "[]"] by simp
  then have "parse_json (Marshal ff ?v) = Some (jsonify ff ?v)"
    unfolding parse_json_complete reads_json_def reads_def skip_space_def by fastforce
  then show ?thesis
    using jsonify_decodes [OF ok assms(2)]
    by (cases p) (auto simp: Unmarshal_map_def canon_payload_def payload_any_def fold_map comp_def case_prod_unfold)
qed

text \<open>The order of the keys is all that changes.\<close>

lemma canon_payload_members:
  assumes "distinct (map fst m)"
  shows "map_of (the (canon_payload (Some m))) k = map_option canon (map_of m k)"
proof -
  have "map_of (sort_key fst m) = map_of m"
    using assms by (subst map_of_inject_set) (simp_all add: distinct_map)
  then show ?thesis
    by (simp add: canon_payload_def sort_members map_of_map)
qed

section \<open>The request of Apply\<close>

definition manifest_floats :: "bytes \<Rightarrow> float64 list" where
  "manifest_floats manifest = floats (payload_any (fst (Unmarshal_map manifest None)))"

text \<open>
  C30: what \<open>Apply\<close> posts, to whatever address and however often, decodes to the same value as the
  manifest does, with the keys of its objects in order: nothing of a manifest is lost, added or
  changed on its way to the k1s cluster. A manifest that cannot be decoded is not posted. The
  numbers of the manifest have to be formatted as literals that are read as the same numbers,
  which is what \<open>strconv\<close> promises.
\<close>

theorem Apply_posts_the_manifest:
  assumes "run_state (Apply E c manifest) h = (r, h @ new)" and "EHTTP q a \<in> set new"
    and "\<forall>f\<in>set (manifest_floats manifest). float_text (e_formatFloat E) f"
  shows "\<exists>p body. Unmarshal_map manifest None = (p, None) \<and> hq_Method q = ''POST'' \<and>
    hq_Body q = Some body \<and> Unmarshal_map body None = (canon_payload p, None)"
proof -
  obtain p e where p: "Unmarshal_map manifest None = (p, e)" by (cases "Unmarshal_map manifest None")
  let ?body = "Marshal (e_formatFloat E) (payload_any p)"
  have e: "e = None" using assms(1,2) p by (cases e) (auto simp: Apply_def)
  then have "call_ok c ''POST'' ''/apply'' (Some ?body) new r"
    using behaves_run [OF doJSONWithLeaderRetry_spec] assms(1) p by (fastforce simp: Apply_def postJSON_def)
  then have q: "q = request_for c ''POST'' (hq_URL q) (Some ?body)"
    using assms(2) by (auto simp: call_ok_def client_event_def)
  have "hq_Method q = ''POST''" "hq_Body q = Some ?body"
    using arg_cong [OF q, of hq_Method] arg_cong [OF q, of hq_Body] by (simp_all add: request_for_def)
  moreover have "Unmarshal_map ?body None = (canon_payload p, None)"
    using Unmarshal_Marshal [of manifest p "e_formatFloat E"] p e assms(3)
    by (simp add: manifest_floats_def)
  ultimately show ?thesis using p e by blast
qed

text \<open>A manifest with a number that is not in its shortest form, a string that is escaped, and keys
  out of order.\<close>

definition sample_manifest :: bytes where
  "sample_manifest = ''{'' @ [CHR 0x22] @ ''n'' @ [CHR 0x22] @ '':1.50,'' @
     json_string_field ''kind'' ''a<b'' @ '' }''"

definition apply_env :: env where
  "apply_env = sample_env\<lparr>e_http := \<lambda>h _. Inr sample_leader, e_formatFloat := \<lambda>_. ''1.5''\<rparr>"

definition sample_payload :: payload where
  "sample_payload = Some [(''n'', GFloat (F64 False 6755399441055744 (- 52))), (''kind'', GStr ''a<b'')]"

lemma sample_manifest_decodes: "Unmarshal_map sample_manifest None = (sample_payload, None)"
  by code_simp

lemma sample_apply_run:
  "run_state (Apply apply_env sample_client sample_manifest) [] =
   ((None, None),
    [EHTTP (request_for sample_client ''POST'' ''http://k1s:80/apply''
        (Some (Marshal (\<lambda>_. ''1.5'') (payload_any sample_payload)))) (Inr sample_leader)])"
proof -
  have url: "client_url sample_client ''/apply'' = ''http://k1s:80/apply''"
    "url_Parse ''http://k1s:80/apply'' = Inr (sample_url ''http://k1s:80/apply'')"
    by code_simp+
  have "read_response ''POST'' p sample_leader None = (None, None)" for p
    by (simp add: read_response_def sample_leader_def)
  then show ?thesis
    using run_doJSONRequest [OF url(2)]
    by (simp add: Apply_def postJSON_def sample_manifest_decodes doJSONWithLeaderRetry_def Let_def url
        apply_env_def del: Marshal.simps)
qed

theorem Apply_posts_the_manifest_witness:
  "\<exists>q body. EHTTP q (Inr sample_leader) \<in> set (trace_of (Apply apply_env sample_client sample_manifest) []) \<and>
     hq_Body q = Some body \<and> Unmarshal_map body None = (canon_payload sample_payload, None)"
proof -
  have "float_text (\<lambda>_. ''1.5'') (F64 False 6755399441055744 (- 52))" by code_simp
  then have "\<forall>f\<in>set (manifest_floats sample_manifest). float_text (e_formatFloat apply_env) f"
    by (simp add: manifest_floats_def sample_manifest_decodes sample_payload_def payload_any_def apply_env_def)
  then show ?thesis
    using Apply_posts_the_manifest [of apply_env sample_client sample_manifest "[]", simplified append_Nil,
        OF sample_apply_run] sample_manifest_decodes
    by (auto simp: sample_apply_run)
qed

end
