(* ===== verification/StatusSchema.thy ===== *)
theory StatusSchema
  imports Operator
begin

text \<open>
  What the operator writes into the conditions of its objects, against the schema of the custom
  resource definitions under src/config/crd/bases, which the API server enforces.
\<close>

section \<open>The schema of a condition\<close>

definition lower_alnum :: "char \<Rightarrow> bool" where
  "lower_alnum c \<longleftrightarrow> (let n = of_char c :: int in 48 \<le> n \<and> n \<le> 57 \<or> 97 \<le> n \<and> n \<le> 122)"

definition letter :: "char \<Rightarrow> bool" where
  "letter c \<longleftrightarrow> (let n = of_char c :: int in 65 \<le> n \<and> n \<le> 90 \<or> 97 \<le> n \<and> n \<le> 122)"

definition alnum :: "char \<Rightarrow> bool" where
  "alnum c \<longleftrightarrow> letter c \<or> lower_alnum c"

text \<open>The pattern \<open>a(b*c)?\<close> of character classes, as the schema uses it.\<close>

definition framed :: "(char \<Rightarrow> bool) \<Rightarrow> (char \<Rightarrow> bool) \<Rightarrow> (char \<Rightarrow> bool) \<Rightarrow> string \<Rightarrow> bool" where
  "framed a b c s \<longleftrightarrow> s \<noteq> [] \<and> a (hd s) \<and> list_all b (butlast (tl s)) \<and> (tl s \<noteq> [] \<longrightarrow> c (last s))"

definition valid_reason :: "string \<Rightarrow> bool" where
  "valid_reason s \<longleftrightarrow> length s \<le> 1024 \<and>
     framed letter (\<lambda>c. alnum c \<or> c \<in> set ''_,:'') (\<lambda>c. alnum c \<or> c = CHR ''_'') s"

definition qualified_name :: "string \<Rightarrow> bool" where
  "qualified_name = framed alnum (\<lambda>c. alnum c \<or> c \<in> set ''-_.'') alnum"

definition valid_condition_type :: "string \<Rightarrow> bool" where
  "valid_condition_type s \<longleftrightarrow> length s \<le> 316 \<and>
     (case Cut s (CHR ''/'') of
        (name, None) \<Rightarrow> qualified_name name
      | (prefix, Some name) \<Rightarrow>
          list_all (framed lower_alnum (\<lambda>c. lower_alnum c \<or> c = CHR ''-'') lower_alnum)
            (Split prefix (CHR ''.'')) \<and> qualified_name name)"

text \<open>\<open>maxLength\<close> counts characters of the JSON string; there are at most as many as bytes.\<close>

definition message_limit :: nat where
  "message_limit = 32768"

section \<open>Programs that decide conditions\<close>

text \<open>Every exchange satisfies \<open>P\<close> and the result \<open>Q\<close>.\<close>

definition okay :: "(event \<Rightarrow> bool) \<Rightarrow> ('a \<Rightarrow> bool) \<Rightarrow> 'a io \<Rightarrow> bool" where
  "okay P Q m \<longleftrightarrow> behaves m (\<lambda>new a. (\<forall>e\<in>set new. P e) \<and> Q a)"

named_theorems okay_rules \<open>a composed program\<close>

lemma okay_bind:
  assumes "okay P R m" and "\<And>a. R a \<Longrightarrow> okay P Q (f a)"
  shows "okay P Q (State_Monad.bind m f)"
  unfolding okay_def
proof (rule behaves_bind [OF assms(1) [unfolded okay_def]])
  fix n1 a assume "(\<forall>e\<in>set n1. P e) \<and> R a"
  then show "behaves (f a) (\<lambda>n2 b. (\<forall>e\<in>set (n1 @ n2). P e) \<and> Q b)"
    using assms(2) [of a] unfolding okay_def by (auto elim: behaves_mono)
qed

lemma okay_emits: "emits P m \<Longrightarrow> okay P (\<lambda>_. True) m"
  by (simp add: okay_def emits_def)

lemma okay_new_event:
  assumes "okay P Q m" and "trace_of m h = h @ new" and "e \<in> set new"
  shows "P e"
  using assms by (auto simp: okay_def elim!: behavesE [where h = h])

lemma okay_return [okay_rules]: "Q a \<Longrightarrow> okay P Q (State_Monad.return a)"
  by (simp add: okay_def behaves_return)

lemma okay_if [okay_rules]:
  "(b \<Longrightarrow> okay P Q m) \<Longrightarrow> (\<not> b \<Longrightarrow> okay P Q n) \<Longrightarrow> okay P Q (if b then m else n)"
  by simp

lemma okay_case_option [okay_rules]:
  "(x = None \<Longrightarrow> okay P Q m) \<Longrightarrow> (\<And>a. x = Some a \<Longrightarrow> okay P Q (f a)) \<Longrightarrow>
     okay P Q (case x of None \<Rightarrow> m | Some a \<Rightarrow> f a)"
  by (simp split: option.splits)

lemma okay_case_sum [okay_rules]:
  "(\<And>e. x = Inl e \<Longrightarrow> okay P Q (f e)) \<Longrightarrow> (\<And>a. x = Inr a \<Longrightarrow> okay P Q (g a)) \<Longrightarrow>
     okay P Q (case x of Inl e \<Rightarrow> f e | Inr a \<Rightarrow> g a)"
  by (simp split: sum.splits)

lemma okay_case_prod [okay_rules]:
  "(\<And>a b. x = (a, b) \<Longrightarrow> okay P Q (f a b)) \<Longrightarrow> okay P Q (case x of (a, b) \<Rightarrow> f a b)"
  by (simp split: prod.splits)

lemma okay_kobject [okay_rules]:
  assumes "\<And>x. y = OCluster x \<Longrightarrow> okay P Q (f1 x)" "\<And>x. y = OExposure x \<Longrightarrow> okay P Q (f2 x)"
    "\<And>x. y = OAppMirror x \<Longrightarrow> okay P Q (f3 x)" "\<And>x. y = OApp x \<Longrightarrow> okay P Q (f4 x)"
    "\<And>x. y = OInference x \<Longrightarrow> okay P Q (f5 x)" "\<And>x. y = OResourceSet x \<Longrightarrow> okay P Q (f6 x)"
    "\<And>x. y = OSecret x \<Longrightarrow> okay P Q (f7 x)" "\<And>x. y = OConfigMap x \<Longrightarrow> okay P Q (f8 x)"
    "\<And>x. y = OService x \<Longrightarrow> okay P Q (f9 x)" "\<And>x. y = OEndpointSlice x \<Longrightarrow> okay P Q (f10 x)"
    "\<And>x. y = OIngress x \<Longrightarrow> okay P Q (f11 x)"
  shows "okay P Q (case_kobject f1 f2 f3 f4 f5 f6 f7 f8 f9 f10 f11 y)"
  using assms by (cases y) simp_all

section \<open>What does not touch a status\<close>

fun is_status_patch :: "event \<Rightarrow> bool" where
  "is_status_patch (EStatusPatch _ _ _) = True"
| "is_status_patch _ = False"

abbreviation plain :: "'a io \<Rightarrow> bool" where
  "plain m \<equiv> emits (\<lambda>e. \<not> is_status_patch e) m"

named_theorems plain_steps \<open>steps that do not touch a status\<close>

lemma plain_events:
  "client_traffic c e \<Longrightarrow> \<not> is_status_patch e"
  "object_patch.patch_event obj M e \<Longrightarrow> \<not> is_status_patch e"
  "upsert_event obj f e \<Longrightarrow> \<not> is_status_patch e"
  "proxy_event e \<Longrightarrow> \<not> is_status_patch e"
  "is_probe e \<Longrightarrow> \<not> is_status_patch e"
  unfolding client_traffic_def object_patch_event upsert_event_def proxy_event_def is_probe_def
  by (simp_all split: event.splits)

lemma plain_traffic: "emits (client_traffic c) m \<Longrightarrow> plain m"
  by (erule emits_mono) (rule plain_events)

lemmas plain_calls [plain_steps] =
  status.traffic [THEN plain_traffic]
  get.traffic [THEN plain_traffic]
  app_status.traffic [THEN plain_traffic]
  nodes.traffic [THEN plain_traffic]
  delete_app.traffic [THEN plain_traffic]
  inference_status.traffic [THEN plain_traffic]
  delete_inference.traffic [THEN plain_traffic]
  apply_manifest.traffic [THEN plain_traffic]

lemma plain_exchanges [plain_steps]:
  "plain (Now E)" "plain (log_message msg)" "plain (kube_Get E rd k key)" "plain (kube_Delete E y)"
  "plain (loadCredentials E ns ref)" "plain (discoverProxyEndpoints E rd cluster)"
  "plain (defaultTrafficProbe E x)"
  by (rule emitsI, rule Now_spec, force, rule emitsI, rule log_message_spec, force,
      rule emitsI, rule kube_Get_spec, force, rule emitsI, rule kube_Delete_spec, force,
      rule emitsI, rule loadCredentials_spec,
      force simp: credentials_ok_def secret_get_def split: option.splits,
      rule emitsI, rule discoverProxyEndpoints_spec, blast dest: plain_events,
      rule emitsI, rule defaultTrafficProbe_spec, blast dest: plain_events)

lemma plain_patches [plain_steps]:
  assumes "lawful E"
  shows "plain (patchFinalizers E obj fs)" and "plain (patchLastAppliedHash E obj hash)"
  by (rule emitsI [OF patchFinalizers_spec [OF assms]], blast dest: plain_events)
    (rule emitsI [OF patchLastAppliedHash_spec [OF assms]], blast dest: plain_events)

lemma plain_upsert:
  assumes "lawful E" and "\<And>y. same_object (f y) y"
  shows "plain (e_createOrUpdate E obj (owned E x f))"
  by (rule emitsI [OF owned_upsert [OF assms]]) (blast dest: plain_events)

lemma plain_objects [plain_steps]:
  assumes "lawful E"
  shows "plain (reconcileService E c x)" and "plain (reconcileEndpointSlice E c x eps)"
    and "plain (reconcileIngress E c x)"
  unfolding reconcileService_def reconcileEndpointSlice_def reconcileIngress_def Let_def
  by (intro emits_rules plain_steps plain_upsert [OF assms]; simp)+

lemma plain_shared [plain_steps]:
  assumes "lawful E"
  shows "plain (writeClient E ns ref)" and "plain (add_finalizer E obj)" and "plain (remove_finalizer E obj)"
    and "plain (apply_manifest E obj api raw shouldApply)" and "plain (Health E c)"
    and "plain (inferenceStatusForEndpoint E api i)" and "plain (deleteManagedResource E api m)"
    and "plain (inference_delete_remote E i api)" and "plain (app_delete_remote E a api)"
  unfolding writeClient_def add_finalizer_def remove_finalizer_def apply_manifest_def Health_def
    inferenceStatusForEndpoint_def InferenceCellStatus_def InferenceCellSetStatus_def
    deleteManagedResource_def inference_delete_remote_def app_delete_remote_def
    DeleteInferenceCell_def DeleteInferenceCellSet_def
  by (intro emits_rules plain_steps assms emits_kobject)+

lemma plain_loops [plain_steps]:
  assumes "lawful E"
  shows "plain (deleteManagedResources E api ms)" and "plain (prune_from E api desiredKeys ms)"
    and "plain (apply_manifests E api shouldApply raws n)"
proof -
  show "plain (deleteManagedResources E api ms)"
    by (induction ms) (auto intro!: emits_rules plain_steps assms)
  show "plain (prune_from E api desiredKeys ms)"
    by (induction ms) (auto intro!: emits_rules plain_steps assms)
  show "plain (apply_manifests E api shouldApply raws n)"
    by (induction raws arbitrary: n) (auto intro!: emits_rules plain_steps assms)
qed

section \<open>An invariant of the conditions\<close>

type_synonym condition_views = "string \<Rightarrow> condition_view option"

fun conditions_of :: "kobject \<Rightarrow> condition list" where
  "conditions_of (OCluster x) = cls_Conditions (cluster_Status x)"
| "conditions_of (OExposure x) = exs_Conditions (exposure_Status x)"
| "conditions_of (OAppMirror x) = mis_Conditions (mirror_Status x)"
| "conditions_of (OApp x) = aps_Conditions (app_Status x)"
| "conditions_of (OInference x) = ins_Conditions (inf_Status x)"
| "conditions_of (OResourceSet x) = rss_Conditions (rs_Status x)"
| "conditions_of _ = []"

lemma put_conditions:
  "kind_of cur = KindCluster \<Longrightarrow> conditions_of (put_cluster_status s1 cur) = cls_Conditions s1"
  "kind_of cur = KindApp \<Longrightarrow> conditions_of (put_app_status s2 cur) = aps_Conditions s2"
  "kind_of cur = KindInferenceEndpoint \<Longrightarrow> conditions_of (put_inference_status s3 cur) = ins_Conditions s3"
  "kind_of cur = KindResourceSet \<Longrightarrow> conditions_of (put_rset_status s4 cur) = rss_Conditions s4"
  "kind_of cur = KindExposure \<Longrightarrow> conditions_of (put_exposure_status s5 cur) = exs_Conditions s5"
  by (cases cur; simp)+

abbreviation condition_types :: "string set" where
  "condition_types \<equiv> {CondReady, CondControllerAvailable, CondProxyReady, CondCredentialsValid,
     CondBootstrapLoaded, CondApishimAvailable, CondClusterReady, CondAppFound, CondAppReady,
     CondProxyEndpointsReady, CondResourcesApplied, CondIngressReady, CondTrafficReady, CondAccepted,
     CondApplied, CondPolicyAllowed}"

abbreviation condition_reasons :: "string set" where
  "condition_reasons \<equiv> {ReasonReady, ReasonUnavailable, ReasonMissing, ReasonInvalid, ReasonApplied,
     ReasonPending, ReasonUnsupported, ReasonDenied}"

text \<open>A property of the conditions that setting a condition of the types \<open>T\<close> keeps.\<close>

locale condition_invariant =
  fixes K :: "condition_views \<Rightarrow> bool" and T :: "string set"
  assumes set_one: "K m \<Longrightarrow> t \<in> T \<Longrightarrow> reason \<in> condition_reasons \<Longrightarrow> K (m(t \<mapsto> (st, reason, msg, gen)))"
    and types: "condition_types - {CondCredentialsValid} \<subseteq> T"
begin

abbreviation good :: "condition list \<Rightarrow> bool" where
  "good cs \<equiv> K (cond_map cs)"

text \<open>A status patch leaves good conditions.\<close>

definition reported :: "event \<Rightarrow> bool" where
  "reported e \<longleftrightarrow> (case e of EStatusPatch cur y _ \<Rightarrow> good (conditions_of y) | _ \<Rightarrow> True)"

lemma reported_simps [simp]: "\<not> is_status_patch e \<Longrightarrow> reported e" "is_now e \<Longrightarrow> reported e"
  by (cases e; simp add: reported_def)+

lemma okay_plain: "plain m \<Longrightarrow> okay reported (\<lambda>_. True) m"
  by (rule okay_emits, erule emits_mono) simp

lemma in_T [simp]:
  "CondReady \<in> T" "CondControllerAvailable \<in> T" "CondProxyReady \<in> T" "CondBootstrapLoaded \<in> T"
  "CondApishimAvailable \<in> T" "CondClusterReady \<in> T" "CondAppFound \<in> T" "CondAppReady \<in> T"
  "CondProxyEndpointsReady \<in> T" "CondResourcesApplied \<in> T" "CondIngressReady \<in> T"
  "CondTrafficReady \<in> T" "CondAccepted \<in> T" "CondApplied \<in> T" "CondPolicyAllowed \<in> T"
  using types by auto

lemma reasonForBool_in: "reasonForBool b \<in> condition_reasons"
  by (simp add: reasonForBool_def)

lemma setCondition_good:
  assumes "lawful E" and "good cs" and "t \<in> T" and "reason \<in> condition_reasons"
  shows "okay reported good (setCondition E cs t st reason msg gen)"
  unfolding okay_def
  by (rule behaves_mono [OF setCondition_spec [OF lawfulD(1) [OF assms(1)]]])
    (use set_one [OF assms(2-4)] in \<open>auto simp: only_clock_def\<close>)

text \<open>The steps of the reconcilers, by the type of the status they hand on.\<close>

abbreviation "cluster_good s \<equiv> good (cls_Conditions s)"
abbreviation "app_good s \<equiv> good (aps_Conditions s)"
abbreviation "inference_good s \<equiv> good (ins_Conditions s)"
abbreviation "rset_good s \<equiv> good (rss_Conditions s)"
abbreviation "exposure_good s \<equiv> good (exs_Conditions s)"

lemmas status_binds =
  okay_bind [where R = cluster_good and P = reported] okay_bind [where R = app_good and P = reported]
  okay_bind [where R = inference_good and P = reported] okay_bind [where R = rset_good and P = reported]
  okay_bind [where R = exposure_good and P = reported]
  okay_bind [where R = "\<lambda>r :: bool \<times> K1sExposureStatus. exposure_good (snd r)" and P = reported]
  okay_bind [where R = "\<lambda>_. True" and P = reported]

lemma decides_good:
  assumes "lawful E" and "t \<in> T" and "reason \<in> condition_reasons"
  shows "cluster_good s1 \<Longrightarrow> okay reported cluster_good (set_cluster_condition E c t st reason msg s1)"
    and "app_good s2 \<Longrightarrow> okay reported app_good (set_app_condition E a t st reason msg s2)"
    and "inference_good s3 \<Longrightarrow> okay reported inference_good (set_inference_condition E i t st reason msg s3)"
    and "rset_good s4 \<Longrightarrow> okay reported rset_good (set_rset_condition E r t st reason msg s4)"
    and "exposure_good s5 \<Longrightarrow> okay reported exposure_good (set_exposure_condition E x t st reason msg s5)"
  unfolding set_cluster_condition_def set_app_condition_def set_inference_condition_def
    set_rset_condition_def set_exposure_condition_def
  by (rule okay_bind [OF setCondition_good [OF assms(1) _ assms(2,3)]], assumption, rule okay_return, simp)+

lemma patch_good:
  assumes "lawful E" and "\<And>cur. same_object cur obj \<Longrightarrow> good (conditions_of (put cur))"
  shows "okay reported (\<lambda>_. True) (patchStatus E obj (\<lambda>cur. State_Monad.return (put cur)))"
  unfolding okay_def
  by (rule behaves_mono [OF patchStatus_spec [OF assms(1), where M = "\<lambda>cur y. y = put cur"]])
    (use assms(2) in \<open>auto simp: status_patch_event reported_def behaves_return split: event.splits\<close>)

lemma patches_good:
  assumes "lawful E"
  shows "cluster_good s1 \<Longrightarrow> okay reported (\<lambda>_. True)
      (patchStatus E (OCluster c) (\<lambda>cur. State_Monad.return (put_cluster_status s1 cur)))"
    and "app_good s2 \<Longrightarrow> okay reported (\<lambda>_. True) (patch_app_status E a s2)"
    and "inference_good s3 \<Longrightarrow> okay reported (\<lambda>_. True) (patch_inference_status E i s3)"
    and "rset_good s4 \<Longrightarrow> okay reported (\<lambda>_. True) (patch_rset_status E r s4)"
    and "exposure_good s5 \<Longrightarrow> okay reported (\<lambda>_. True) (patch_exposure_status E x s5)"
  unfolding patch_app_status_def patch_inference_status_def patch_rset_status_def patch_exposure_status_def
  by (rule patch_good [OF assms], simp add: same_object_def put_conditions)+

lemmas good_steps = status_binds decides_good patches_good reasonForBool_in okay_rules okay_plain
  plain_steps emits_rules

text \<open>The statuses that the reconcilers start from, and the changes that are not to conditions.\<close>

lemma conditions_kept [simp]:
  "cls_Conditions (initial_status c) = []" "aps_Conditions (app_observed a) = aps_Conditions (app_Status a)"
  "ins_Conditions (inference_observed i) = ins_Conditions (inf_Status i)"
  "rss_Conditions (rset_observed r) = rss_Conditions (rs_Status r)"
  "exs_Conditions (exposure_observed x) = exs_Conditions (exposure_Status x)"
  "aps_Conditions (applyObservedAppStatus s2 app) = aps_Conditions s2"
  "ins_Conditions (applyObservedInferenceStatus s3 obs) = ins_Conditions s3"
  "ins_Conditions (inference_synced i now result) = ins_Conditions (inf_Status i)"
  "rss_Conditions (rset_synced r now desired n firstErr) = rss_Conditions (rs_Status r)"
  "exs_Conditions (exposure_synced x now ready eps s5) = exs_Conditions s5"
  by (simp_all add: initial_status_def app_observed_def inference_observed_def rset_observed_def
      exposure_observed_def applyObservedAppStatus_def applyObservedInferenceStatus_def
      inference_synced_def rset_synced_def exposure_synced_def Let_def)

lemma app_good_sync:
  assumes "lawful E" and "app_good (app_Status app)"
  shows "okay reported (\<lambda>_. True) (app_sync E app api cluster)"
  unfolding app_sync_def app_reject_empty_def app_reject_kind_def
    app_resync_def app_look_def apply_manifest_def app_report_def app_observe_def Let_def
  using assms by - (rule good_steps assms | (simp; fail))+

lemma inference_good_sync:
  assumes "lawful E" and "inference_good (inf_Status i)"
  shows "okay reported (\<lambda>_. True) (inference_sync E i api cluster)"
  unfolding inference_sync_def inference_reject_def inference_resync_def inference_look_def
    apply_manifest_def inference_report_def inference_observe_def Let_def
  using assms by - (rule good_steps assms | (simp; fail))+

lemma rset_good_sync:
  assumes "lawful E" and "rset_good (rs_Status x)"
  shows "okay reported (\<lambda>_. True) (rset_sync E kinds x api cluster)"
  unfolding rset_sync_def rset_denied_def rset_apply_def rset_work_def pruneManagedResources_def
    rset_report_def Let_def
  using assms by - (rule good_steps assms | (simp; fail))+

end

text \<open>A property that holds of no conditions too, and for every type of condition.\<close>

locale condition_schema = condition_invariant +
  assumes none: "K Map.empty" and credentials: "CondCredentialsValid \<in> T"
begin

lemma mirror_good:
  assumes "lawful E"
  shows "okay reported (\<lambda>_. True) (reconcileMirror E x app found)"
proof -
  have mutate: "behaves (mirror_mutate E app found cur)
      (\<lambda>new y. only_clock new \<and> good (conditions_of y))" if "kind_of cur = KindAppMirror" for cur
    using that
    unfolding mirror_mutate_def mirrorStatusFromApp_def Let_def
    by (cases cur) (auto intro!: behaves_return behaves_bind [OF Now_spec] setCondition_step [OF assms]
        set_one [OF none] reasonForBool_in)
  have patch: "okay reported (\<lambda>_. True) (patchStatus E y (mirror_mutate E app found))"
    if "kind_of y = KindAppMirror" for y
    unfolding okay_def
    by (rule behaves_mono [OF patchStatus_spec [OF assms, where M = "\<lambda>_ z. good (conditions_of z)"]])
      (use mutate that in \<open>auto simp: status_patch_event reported_def same_object_def split: event.splits\<close>)
  have "behaves (e_createOrUpdate E (OAppMirror (bare_mirror n ns)) (owned E x (set_mirror x)))
      (\<lambda>new r. (\<forall>e\<in>set new. reported e) \<and> kind_of (snd r) = KindAppMirror)" for n ns
    by (rule behaves_mono [OF owned_upsert [OF assms set_same_object(4) [THEN iffD2, OF same_object_refl]]])
      (auto simp: same_object_def dest!: plain_events(3))
  then show ?thesis
    unfolding reconcileMirror_def
    by (intro okay_bind [where R = "\<lambda>r. kind_of (snd r) = KindAppMirror"]) 
      (auto simp: okay_def [where Q = "\<lambda>r. kind_of (snd r) = KindAppMirror"] intro!: okay_rules patch)
qed

lemma no_conditions [simp]: "K Map.empty" "good []"
  using none by simp_all

lemmas schema_steps = good_steps mirror_good decides_good(1,2,3,4) [OF _ credentials]

text \<open>The objects that are read conform.\<close>

definition conforms :: "go_error + kobject \<Rightarrow> bool" where
  "conforms r \<longleftrightarrow> (\<forall>y. r = Inr y \<longrightarrow> good (conditions_of y))"

lemma conforms_simps [simp]: "conforms (Inl e)" "conforms (Inr y) \<longleftrightarrow> good (conditions_of y)"
  by (simp_all add: conforms_def)

lemma get_good:
  assumes "\<And>h rd k key. conforms (e_get E h rd k key)"
  shows "okay reported conforms (kube_Get E rd k key)"
  unfolding okay_def kube_Get_def
  by (rule behavesI) (use assms in \<open>auto simp: reported_def conforms_def split: sum.splits\<close>)

lemma exposure_good_sync:
  assumes "lawful E" and "exposure_good (exposure_Status x)"
  shows "okay reported (\<lambda>_. True) (exposure_sync E (Some APIReader) None x cluster api)"
  unfolding exposure_sync_def exposure_writing_def exposure_ingress_def exposure_report_def
    exposure_traffic_def Let_def option.case
  using assms by - (rule schema_steps assms | (simp; fail))+

lemma cluster_good_steps:
  assumes "lawful E" and "cluster_good s"
  shows "okay reported cluster_good (credentials_status E c err s)"
    and "okay reported cluster_good (bootstrap_status E (Some APIReader) c s)"
    and "okay reported cluster_good (controller_status E c creds s)"
    and "okay reported cluster_good (proxy_status E (Some APIReader) c s)"
    and "okay reported cluster_good (apishim_status E c s)"
    and "okay reported cluster_good (ready_status E c err s)"
  unfolding credentials_status_def bootstrap_status_def controller_status_def proxy_status_def
    apishim_status_def ready_status_def Let_def option.case
  using assms by - ((rule schema_steps assms | (simp split: option.splits; fail))+)+

lemma cluster_good_sync:
  assumes "lawful E"
  shows "okay reported (\<lambda>_. True) (reconcile_cluster E (Some APIReader) c)"
  unfolding reconcile_cluster_def gather_cluster_status_def
  using assms by - (rule schema_steps cluster_good_steps assms | (simp; fail))+

lemma app_good_reconcile:
  assumes "lawful E" and "app_good (app_Status app)"
  shows "okay reported (\<lambda>_. True) (reconcile_app E app)"
  unfolding reconcile_app_def app_no_client_def app_delete_failed_def
  using assms by - (rule schema_steps app_good_sync assms | (simp; fail))+

lemma inference_good_reconcile:
  assumes "lawful E" and "inference_good (inf_Status i)"
  shows "okay reported (\<lambda>_. True) (reconcile_inference E i)"
  unfolding reconcile_inference_def inference_no_client_def inference_delete_failed_def
  using assms by - (rule schema_steps inference_good_sync assms | (simp; fail))+

lemma rset_good_reconcile:
  assumes "lawful E" and "rset_good (rs_Status x)"
  shows "okay reported (\<lambda>_. True) (reconcile_rset E kinds x)"
  unfolding reconcile_rset_def rset_no_client_def rset_delete_remote_def rset_delete_failed_def
  using assms by - (rule schema_steps rset_good_sync assms | (simp; fail))+

lemma exposure_good_reconcile:
  assumes "lawful E" and "exposure_good (exposure_Status x)"
  shows "okay reported (\<lambda>_. True) (reconcile_exposure E (Some APIReader) None x)"
  unfolding reconcile_exposure_def exposure_unavailable_def exposure_no_client_def
  using assms by - (rule schema_steps exposure_good_sync assms | (simp; fail))+

lemma manager_good:
  assumes "lawful E" and "\<And>h rd k key. conforms (e_get E h rd k key)"
  shows "okay reported (\<lambda>_. True) (manager_reconcile E flag work)"
proof -
  note read = okay_bind [OF get_good [OF assms(2)]]
  show ?thesis
    by (cases work)
      (auto simp: K1sCluster_Reconcile_def K1sExposure_Reconcile_def K1sApp_Reconcile_def
        K1sInferenceEndpoint_Reconcile_def K1sResourceSet_Reconcile_def
        intro!: read okay_rules cluster_good_sync exposure_good_reconcile app_good_reconcile
          inference_good_reconcile rset_good_reconcile assms)
qed

end

section \<open>The schema holds\<close>

definition conforming_view :: "string \<Rightarrow> condition_view \<Rightarrow> bool" where
  "conforming_view t v = (case v of (st, reason, msg, gen) \<Rightarrow> valid_condition_type t \<and> valid_reason reason)"

definition conforming_conditions :: "condition list \<Rightarrow> bool" where
  "conforming_conditions cs =
     list_all (\<lambda>t. case cond_map cs t of None \<Rightarrow> True | Some v \<Rightarrow> conforming_view t v) (map c_Type cs)"

definition conforming_views :: "condition_views \<Rightarrow> bool" where
  "conforming_views m \<longleftrightarrow> (\<forall>t v. m t = Some v \<longrightarrow> conforming_view t v)"

lemma cond_map_type: "cond_map cs t = Some v \<Longrightarrow> t \<in> c_Type ` set cs"
  by (induction cs) (auto simp: cond_map_def split: if_splits)

lemma conforming_conditions_views:
  "conforming_conditions cs \<longleftrightarrow> conforming_views (cond_map cs)"
  unfolding conforming_conditions_def conforming_views_def list_all_iff
  using cond_map_type [of cs] by (fastforce split: option.splits)

lemma condition_types_valid: "t \<in> condition_types \<Longrightarrow> valid_condition_type t"
  by (elim insertE emptyE; hypsubst; code_simp)

lemma condition_reasons_valid: "reason \<in> condition_reasons \<Longrightarrow> valid_reason reason"
  by (elim insertE emptyE; hypsubst; code_simp)

interpretation schema: condition_schema conforming_views condition_types
proof (unfold_locales, goal_cases)
  case (1 m t reason st msg gen)
  then show ?case
    by (simp add: conforming_views_def conforming_view_def condition_types_valid condition_reasons_valid)
qed (auto simp: conforming_views_def)

text \<open>
  C21: a condition that the operator writes has a type and a reason that the custom resource
  definitions accept, in every status patch of every reconciler, whatever the requests, the answers
  and the errors, as long as the conditions of the objects it reads have them (which the API server
  sees to): none of its status patches is refused for a malformed condition type or reason.
\<close>

theorem conditions_conform:
  assumes "lawful E"
    and "\<And>h rd k key x. e_get E h rd k key = Inr x \<Longrightarrow> conforming_conditions (conditions_of x)"
    and "trace_of (manager_reconcile E flag work) g = g @ new" and "EStatusPatch cur y r \<in> set new"
  shows "conforming_conditions (conditions_of y)"
proof -
  have "schema.conforms (e_get E h rd k key)" for h rd k key
    using assms(2) by (auto simp: schema.conforms_def conforming_conditions_views)
  from okay_new_event [OF schema.manager_good [OF assms(1) this] assms(3,4)] show ?thesis
    by (simp add: schema.reported_def conforming_conditions_views)
qed

text \<open>A synchronisation of the example exposure, whose last exchange writes its status.\<close>

theorem conditions_conform_witness:
  "\<exists>new cur y. trace_of (manager_reconcile exposure_world []
       (WorkExposure (ObjectKeyFromObject (OExposure example_exposure)))) [] = [] @ new \<and>
     EStatusPatch cur y None \<in> set new \<and> conforming_conditions (conditions_of y)"
proof -
  let ?w = "WorkExposure (ObjectKeyFromObject (OExposure example_exposure))"
  have "behaves (manager_reconcile exposure_world [] ?w) ends_ready"
    by (simp add: reconcile_ready)
  then obtain new where run: "trace_of (manager_reconcile exposure_world [] ?w) [] = [] @ new"
    and "ends_ready new (result_of (manager_reconcile exposure_world [] ?w) [])"
    by (rule behavesE [where h = "[]"])
  then obtain cur y where e: "EStatusPatch cur y None \<in> set new"
    unfolding ends_ready_def by (metis last_in_set)
  have "conforming_conditions (conditions_of x)" if "e_get exposure_world h rd k key = Inr x" for h rd k key x
    using that by (auto simp: exposure_world_def proxied_cluster_def example_cluster_def example_exposure_def
        mirror_of_def bare_mirror_def conforming_conditions_def split: if_splits)
  then have "conforming_conditions (conditions_of y)"
    by (rule conditions_conform [OF exposure_world_simps(1) _ run e])
  with run e show ?thesis by blast
qed

text \<open>Once \<open>CredentialsValid\<close> is false it stays so: no synchronisation writes that condition.\<close>

interpretation credentials: condition_invariant "\<lambda>m. m CondCredentialsValid = v"
    "condition_types - {CondCredentialsValid}"
  for v
  by unfold_locales auto

lemma synchronisations_keep_CredentialsValid:
  assumes "lawful E" and "EStatusPatch cur y r \<in> set new"
  shows "trace_of (app_sync E app api cluster) h = h @ new \<Longrightarrow>
      cond_map (conditions_of y) CondCredentialsValid = cond_map (aps_Conditions (app_Status app)) CondCredentialsValid"
    and "trace_of (inference_sync E i api cluster) h = h @ new \<Longrightarrow>
      cond_map (conditions_of y) CondCredentialsValid = cond_map (ins_Conditions (inf_Status i)) CondCredentialsValid"
    and "trace_of (rset_sync E kinds x api cluster) h = h @ new \<Longrightarrow>
      cond_map (conditions_of y) CondCredentialsValid = cond_map (rss_Conditions (rs_Status x)) CondCredentialsValid"
proof -
  have stuck: "cond_map (conditions_of y) CondCredentialsValid = v"
    if "okay (credentials.reported v) (\<lambda>_. True) m" and "trace_of m h = h @ new" for v and m :: "outcome io"
    using okay_new_event [OF that assms(2)] by (simp add: credentials.reported_def)
  show "trace_of (app_sync E app api cluster) h = h @ new \<Longrightarrow>
      cond_map (conditions_of y) CondCredentialsValid = cond_map (aps_Conditions (app_Status app)) CondCredentialsValid"
    by (rule stuck, rule credentials.app_good_sync [OF assms(1)]) simp_all
  show "trace_of (inference_sync E i api cluster) h = h @ new \<Longrightarrow>
      cond_map (conditions_of y) CondCredentialsValid = cond_map (ins_Conditions (inf_Status i)) CondCredentialsValid"
    by (rule stuck, rule credentials.inference_good_sync [OF assms(1)]) simp_all
  show "trace_of (rset_sync E kinds x api cluster) h = h @ new \<Longrightarrow>
      cond_map (conditions_of y) CondCredentialsValid = cond_map (rss_Conditions (rs_Status x)) CondCredentialsValid"
    by (rule stuck, rule credentials.rset_good_sync [OF assms(1)]) simp_all
qed

text \<open>The message of a condition has no such bound: the body of a failed call goes into it as it came.\<close>

definition oversized_body :: bytes where
  "oversized_body = replicate (Suc message_limit) (CHR ''x'')"

lemma oversized_answer:
  "read_response method pth \<lparr>hr_StatusCode = 500, hr_Body = oversized_body\<rparr> out =
     (out, Some (APIErr method pth 500 oversized_body))"
proof -
  have left: "trim_space_left (CHR ''x'' # s) = CHR ''x'' # s"
    and right: "trim_space_back (CHR ''x'' # s) = CHR ''x'' # s" for s
    by (simp_all add: ascii_space_def wide_space2_def wide_space3_def split: list.splits)
  have "TrimSpace (replicate (Suc n) (CHR ''x'')) = replicate (Suc n) (CHR ''x'')" for n
    unfolding TrimSpace_def replicate_Suc left rev.simps(2) rev_replicate
    by (simp only: replicate_append_same rev_rev_ident left right) (simp add: replicate_append_same)
  then have "TrimSpace oversized_body = oversized_body"
    unfolding oversized_body_def .
  moreover have "take body_limit oversized_body = oversized_body"
    by (simp add: oversized_body_def body_limit_def message_limit_def)
  ultimately show ?thesis
    by (simp add: read_response_def Let_def parseNotLeader_def)
qed

lemma oversized_message:
  "\<exists>cur y msg. EStatusPatch cur y None \<in> set (trace_of (app_delete_failed
       (holding (OApp deleted_app) sample_env) deleted_app (APIErr ''POST'' ''/delete/web'' 500 oversized_body)) []) \<and>
     cond_map (conditions_of y) CondApplied = Some (ConditionFalse, ReasonUnavailable, msg, 3) \<and>
     message_limit < length msg"
proof -
  let ?E = "holding (OApp deleted_app) sample_env"
  have "\<exists>cur y. EStatusPatch cur y None \<in> set (trace_of (app_delete_failed ?E deleted_app e) []) \<and>
      cond_map (conditions_of y) CondApplied =
        Some (ConditionFalse, ReasonUnavailable, ''failed to delete k1s app: '' @ Error ?E e, 3)" for e
  proof -
    have "e_setStatusCondition ?E = ref_SetStatusCondition" by (simp add: holding_def)
    moreover have "aps_Conditions (app_observed deleted_app) = []" "Generation (app_Meta deleted_app) = 3"
      by (simp_all add: app_observed_def example_app_def)
    ultimately show ?thesis
      unfolding app_delete_failed_def patch_app_status_def
      by (simp add: run_patchStatus_sample set_app_condition_def setCondition_def Let_def cond_map_def
          view_condition_def conj_disj_distribR ex_disj_distrib del: error_text.simps)
  qed
  moreover have "message_limit < length (''failed to delete k1s app: '' @ Error ?E (APIErr m p c oversized_body))" for m p c
    by (simp add: oversized_body_def)
  ultimately show ?thesis by blast
qed

end
