(* ===== verification/Divergences.thy ===== *)
theory Divergences
  imports StatusSchema
begin

text \<open>
  Where the code does something that its documentation or its own intent does not say: the concrete
  runs behind the findings, computed from the definitions of the other theories.
\<close>

section \<open>URLs\<close>

text \<open>A namespaced reference is escaped by \<open>url.PathEscape\<close> and again when the URL is written, so the
  first status request asks for a name that contains a percent sign.\<close>

lemma namespaced_status_is_escaped_twice:
  "client_url example_client (app_status_endpoint ''team/web'') =
     ''http://k1s:80/status/team%252Fweb?details=1''"
  by code_simp

text \<open>A name that is a dot-dot segment leaves the path that the client meant: \<open>path.Join\<close> resolves it.\<close>

lemma dotdot_leaves_the_path:
  "client_url example_client (''/delete/'' @ PathEscape ''..'' @ ''?purge=1'') = ''http://k1s:80/?purge=1''"
  "client_url example_client (inference_endpoint ''cells'' ''team'' ''..'') = ''http://k1s:80/inference/cells''"
  by code_simp+

section \<open>Names\<close>

text \<open>The names \<open>namespace--name\<close> of two apps can be the same.\<close>

lemma delete_names_collide:
  "resourceDeleteName ''a'' ''b--c'' = resourceDeleteName ''a--b'' ''c''"
  by code_simp

section \<open>Tokens and numbers\<close>

text \<open>A blank write token passes the test for an empty one and is then trimmed away: the requests
  carry no token at all.\<close>

lemma blank_token_is_no_token:
  "cc_token (WithBearerToken '' '' cc) = []"
  "hq_Authorization (request_for (example_client\<lparr>cli_token := TrimSpace '' ''\<rparr>) ''POST'' u b) = None"
proof -
  have "TrimSpace '' '' = []" by code_simp
  then show "cc_token (WithBearerToken '' '' cc) = []"
    and "hq_Authorization (request_for (example_client\<lparr>cli_token := TrimSpace '' ''\<rparr>) ''POST'' u b) = None"
    by (simp_all add: WithBearerToken_def request_for_def)
qed

text \<open>A count beyond 64 bits is read as -1.\<close>

lemma huge_count_is_negative: "i32_of E (GStr ''9223372036854775808'') = - 1"
  by code_simp

text \<open>A list of namespaces that names none watches them all.\<close>

lemma blank_namespaces_watch_all: "cache_namespaces '' , '' = None"
  by code_simp

end
