(* ===== verification/Startup.thy ===== *)
theory Startup
  imports StatusSchema
begin

text \<open>
  How the operator starts and what wakes it: src/cmd/manager/main.go makes the manager with its
  options, sets up one controller per kind and starts; the functions \<open>SetupWithManager\<close> of
  src/internal/controller say which objects a controller watches; src/api/v1alpha1/groupversion_info.go
  registers the types. The calls into controller-runtime are the steps of the program; whether a step
  fails is a parameter.
\<close>

section \<open>The types that are registered\<close>

definition GroupName :: string where
  "GroupName = ''operator.k1s.io''"

definition GroupVersion :: "string \<times> string" where
  "GroupVersion = (GroupName, ''v1alpha1'')"

definition registered_types :: "string list" where
  "registered_types =
     [''K1sCluster'', ''K1sClusterList'', ''K1sExposure'', ''K1sExposureList'',
      ''K1sAppMirror'', ''K1sAppMirrorList'', ''K1sApp'', ''K1sAppList'',
      ''K1sInferenceEndpoint'', ''K1sInferenceEndpointList'', ''K1sResourceSet'', ''K1sResourceSetList'']"

text \<open>A scheme is the list of the group versions and kinds it knows.\<close>

type_synonym scheme = "((string \<times> string) \<times> string) list"

definition AddToScheme :: "scheme \<Rightarrow> scheme" where
  "AddToScheme s = s @ map (Pair GroupVersion) registered_types"

definition NewScheme :: scheme where
  "NewScheme = AddToScheme []"

section \<open>What the controllers watch\<close>

record controller =
  ctl_For :: object_kind
  ctl_Owns :: "object_kind list"

definition K1sCluster_SetupWithManager :: controller where
  "K1sCluster_SetupWithManager = \<lparr>ctl_For = KindCluster, ctl_Owns = []\<rparr>"

definition K1sExposure_SetupWithManager :: controller where
  "K1sExposure_SetupWithManager = \<lparr>ctl_For = KindExposure,
     ctl_Owns = [KindService, KindEndpointSlice, KindIngress, KindAppMirror]\<rparr>"

definition K1sApp_SetupWithManager :: controller where
  "K1sApp_SetupWithManager = \<lparr>ctl_For = KindApp, ctl_Owns = []\<rparr>"

definition K1sInferenceEndpoint_SetupWithManager :: controller where
  "K1sInferenceEndpoint_SetupWithManager = \<lparr>ctl_For = KindInferenceEndpoint, ctl_Owns = []\<rparr>"

definition K1sResourceSet_SetupWithManager :: controller where
  "K1sResourceSet_SetupWithManager = \<lparr>ctl_For = KindResourceSet, ctl_Owns = []\<rparr>"

text \<open>Which keys a change of an object puts into a controller's queue is controller-runtime's business,
  and a parameter: without predicates it enqueues the key of every object of the controller's kind that
  is created, changed or deleted, and the owners of every such object of a kind it owns. The second
  definition is one such function.\<close>

definition enqueues_watched :: "(controller \<Rightarrow> kobject \<Rightarrow> namespaced_name list) \<Rightarrow> bool" where
  "enqueues_watched q \<longleftrightarrow> (\<forall>c y.
     (kind_of y = ctl_For c \<longrightarrow> ObjectKeyFromObject y \<in> set (q c y)) \<and>
     (kind_of y \<in> set (ctl_Owns c) \<longrightarrow>
        (\<forall>owner\<in>set (OwnerReferences (meta_of y)).
           \<lparr>nn_Namespace = Namespace (meta_of y), nn_Name = owner\<rparr> \<in> set (q c y))))"

definition ref_enqueue :: "controller \<Rightarrow> kobject \<Rightarrow> namespaced_name list" where
  "ref_enqueue c y =
     (if kind_of y = ctl_For c then [ObjectKeyFromObject y] else []) @
     (if kind_of y \<in> set (ctl_Owns c)
      then map (\<lambda>owner. \<lparr>nn_Namespace = Namespace (meta_of y), nn_Name = owner\<rparr>) (OwnerReferences (meta_of y))
      else [])"

lemma enqueues_own: "enqueues_watched q \<Longrightarrow> kind_of y = ctl_For c \<Longrightarrow> ObjectKeyFromObject y \<in> set (q c y)"
  by (simp add: enqueues_watched_def)

lemma ref_enqueues_watched [simp]: "enqueues_watched ref_enqueue"
  by (simp add: enqueues_watched_def ref_enqueue_def)

section \<open>The program main\<close>

record main_flags =
  fl_MetricsBindAddress :: string
  fl_HealthProbeBindAddress :: string
  fl_ResourceSetAllowedKinds :: string
  fl_LeaderElect :: bool

definition default_flags :: main_flags where
  "default_flags = \<lparr>fl_MetricsBindAddress = ''127.0.0.1:8080'', fl_HealthProbeBindAddress = '':8081'',
     fl_ResourceSetAllowedKinds = default_resourceset_allowed_kinds, fl_LeaderElect = False\<rparr>"

record manager_options =
  mo_Scheme :: scheme
  mo_MetricsBindAddress :: string
  mo_HealthProbeBindAddress :: string
  mo_LeaderElection :: bool
  mo_LeaderElectionID :: string
  mo_DefaultNamespaces :: "string set option"

text \<open>\<open>core\<close> is the scheme of client-go, \<open>raw\<close> the variable \<open>WATCH_NAMESPACE\<close>.\<close>

definition main_options :: "scheme \<Rightarrow> main_flags \<Rightarrow> string \<Rightarrow> manager_options" where
  "main_options core fl raw =
     \<lparr>mo_Scheme = AddToScheme core, mo_MetricsBindAddress = fl_MetricsBindAddress fl,
      mo_HealthProbeBindAddress = fl_HealthProbeBindAddress fl, mo_LeaderElection = fl_LeaderElect fl,
      mo_LeaderElectionID = ''k1s-operator.operator.k1s.io'', mo_DefaultNamespaces = cache_namespaces raw\<rparr>"

datatype startup_call =
    NewManager manager_options
  | SetupController controller
  | AddHealthzCheck string
  | AddReadyzCheck string
  | StartManager

datatype main_step = Checked startup_call string | Info string

datatype startup_event = Called startup_call | Logged string | LoggedError string string

text \<open>\<open>if err := call; err != nil { log; os.Exit(1) }\<close>, for one call after the other; the second
  component is the exit code.\<close>

fun run_steps :: "(startup_call \<Rightarrow> string option) \<Rightarrow> main_step list \<Rightarrow> startup_event list \<times> nat" where
  "run_steps fails [] = ([], 0)"
| "run_steps fails (Info msg # rest) = (case run_steps fails rest of (es, code) \<Rightarrow> (Logged msg # es, code))"
| "run_steps fails (Checked call msg # rest) =
     (case fails call of
        Some err \<Rightarrow> ([Called call, LoggedError err msg], 1)
      | None \<Rightarrow> (case run_steps fails rest of (es, code) \<Rightarrow> (Called call # es, code)))"

definition main_steps :: "scheme \<Rightarrow> main_flags \<Rightarrow> string \<Rightarrow> main_step list" where
  "main_steps core fl raw =
     [Checked (NewManager (main_options core fl raw)) ''unable to start manager'',
      Checked (SetupController K1sCluster_SetupWithManager) ''unable to create K1sCluster controller'',
      Checked (SetupController K1sExposure_SetupWithManager) ''unable to create K1sExposure controller'',
      Checked (SetupController K1sApp_SetupWithManager) ''unable to create K1sApp controller'',
      Checked (SetupController K1sInferenceEndpoint_SetupWithManager)
        ''unable to create K1sInferenceEndpoint controller'',
      Checked (SetupController K1sResourceSet_SetupWithManager) ''unable to create K1sResourceSet controller'',
      Checked (AddHealthzCheck ''healthz'') ''unable to set up health check'',
      Checked (AddReadyzCheck ''readyz'') ''unable to set up ready check'',
      Info ''starting manager'',
      Checked StartManager ''manager exited'']"

definition main :: "scheme \<Rightarrow> (startup_call \<Rightarrow> string option) \<Rightarrow> main_flags \<Rightarrow> string \<Rightarrow> startup_event list \<times> nat" where
  "main core fails fl raw = run_steps fails (main_steps core fl raw)"

section \<open>What a started operator watches\<close>

definition controllers :: "controller list" where
  "controllers = [K1sCluster_SetupWithManager, K1sExposure_SetupWithManager, K1sApp_SetupWithManager,
     K1sInferenceEndpoint_SetupWithManager, K1sResourceSet_SetupWithManager]"

lemmas controller_defs = K1sCluster_SetupWithManager_def K1sExposure_SetupWithManager_def
  K1sApp_SetupWithManager_def K1sInferenceEndpoint_SetupWithManager_def K1sResourceSet_SetupWithManager_def

fun kind_name :: "object_kind \<Rightarrow> string" where
  "kind_name KindCluster = ''K1sCluster''"
| "kind_name KindExposure = ''K1sExposure''"
| "kind_name KindAppMirror = ''K1sAppMirror''"
| "kind_name KindApp = ''K1sApp''"
| "kind_name KindInferenceEndpoint = ''K1sInferenceEndpoint''"
| "kind_name KindResourceSet = ''K1sResourceSet''"
| "kind_name KindSecret = ''Secret''"
| "kind_name KindConfigMap = ''ConfigMap''"
| "kind_name KindService = ''Service''"
| "kind_name KindEndpointSlice = ''EndpointSlice''"
| "kind_name KindIngress = ''Ingress''"

text \<open>The installed role lets the kind be listed and watched in the namespace of the installation, and it
  is one of the registered types if it is the operator's.\<close>

definition watchable :: "scheme \<Rightarrow> object_kind \<Rightarrow> bool" where
  "watchable s k \<longleftrightarrow> grants manager_role install_namespace (resource_of k) ''list'' \<and> grants manager_role install_namespace (resource_of k) ''watch'' \<and>
     (fst (resource_of k) = GroupName \<longrightarrow> (GroupVersion, kind_name k) \<in> set s)"

fun succeeds :: "(startup_call \<Rightarrow> string option) \<Rightarrow> main_step \<Rightarrow> bool" where
  "succeeds fails (Checked c msg) \<longleftrightarrow> fails c = None"
| "succeeds fails (Info msg) \<longleftrightarrow> True"

lemma run_steps_append:
  "run_steps fails (pre @ post) =
     (if list_all (succeeds fails) pre
      then (fst (run_steps fails pre) @ fst (run_steps fails post), snd (run_steps fails post))
      else run_steps fails pre)"
  by (induction fails pre rule: run_steps.induct) (auto split: option.splits prod.splits)

text \<open>The controller that serves a piece of work.\<close>

fun work_kind :: "work \<Rightarrow> object_kind" where
  "work_kind (WorkCluster req) = KindCluster"
| "work_kind (WorkExposure req) = KindExposure"
| "work_kind (WorkApp req) = KindApp"
| "work_kind (WorkInference req) = KindInferenceEndpoint"
| "work_kind (WorkResourceSet req) = KindResourceSet"

text \<open>
  C28: the manager is started only when everything before it succeeded: the manager was made with the
  options of the flags, the five controllers were set up, one for each kind of work, and the two
  checks were added. The installed role lets each controller list and watch all the kinds it watches in
  the namespace of the installation (a manager that watches other namespaces needs more), and those of
  the operator are registered in the manager's scheme. The process then ends with
  code 0 exactly when the manager ends without an error.
\<close>

theorem main_starts_completely:
  assumes "Called StartManager \<in> set (fst (main core fails fl raw))"
  shows "list_all (\<lambda>call. Called call \<in> set (fst (main core fails fl raw)) \<and> fails call = None)
      (NewManager (main_options core fl raw) # map SetupController controllers @
        [AddHealthzCheck ''healthz'', AddReadyzCheck ''readyz'']) \<and>
    (\<forall>w. work_kind w \<in> set (map ctl_For controllers)) \<and>
    list_all (\<lambda>c. list_all (watchable (mo_Scheme (main_options core fl raw))) (ctl_For c # ctl_Owns c)) controllers \<and>
    (snd (main core fails fl raw) = 0 \<longleftrightarrow> fails StartManager = None)"
proof -
  have kinds: "work_kind w \<in> set (map ctl_For controllers)" for w
    by (cases w) (simp_all add: controllers_def controller_defs)
  have registered: "(GroupVersion, t) \<in> set (mo_Scheme (main_options core fl raw))" if "t \<in> set registered_types" for t
    using that by (simp add: main_options_def AddToScheme_def)
  have watched: "watchable (mo_Scheme (main_options core fl raw)) k"
    if "k \<in> set (own_kinds @ generated_kinds)" for k
  proof -
    have "grants manager_role install_namespace (resource_of k) ''list'' \<and> grants manager_role install_namespace (resource_of k) ''watch''"
      using that by (auto intro!: grants_read(3) simp: own_kinds_def generated_kinds_def read_kinds_def
          simp del: resource_of.simps)
    moreover have "kind_name k \<in> set registered_types" if "fst (resource_of k) = GroupName"
      using that by (cases k) (simp_all add: registered_types_def GroupName_def)
    ultimately show ?thesis by (simp add: watchable_def registered)
  qed
  have all: "list_all (\<lambda>c. list_all (watchable (mo_Scheme (main_options core fl raw))) (ctl_For c # ctl_Owns c)) controllers"
    by (simp add: controllers_def controller_defs watched own_kinds_def generated_kinds_def)
  show ?thesis
    using assms kinds all
    by (auto simp: main_def main_steps_def controllers_def split: option.splits)
qed

theorem main_starts_completely_witness:
  "fst (main [] (\<lambda>c. if c = StartManager then Some ''terminated'' else None) default_flags [])
     ! Suc (length controllers) = Called (AddHealthzCheck ''healthz'') \<and>
   snd (main [] (\<lambda>c. if c = StartManager then Some ''terminated'' else None) default_flags []) = 1"
proof -
  let ?fails = "\<lambda>c. if c = StartManager then Some ''terminated'' else None"
  have started: "Called StartManager \<in> set (fst (main [] ?fails default_flags []))"
    by (simp add: main_def main_steps_def)
  have "snd (main [] ?fails default_flags []) \<noteq> 0"
    using main_starts_completely [OF started] by simp
  then show ?thesis
    by (simp add: main_def main_steps_def controllers_def)
qed

end
