(* ===== verification/Watches.thy ===== *)
theory Watches
  imports Startup
begin

text \<open>
  What wakes a controller again: the objects that an exposure's reconciliation writes bring the
  exposure back when they change, and the reports of the capability reconcilers carry the time of their
  pass, which brings back their own object, because no controller filters the changes of a status (the
  functions \<open>SetupWithManager\<close> of src/internal/controller).
\<close>

section \<open>The generated objects\<close>

text \<open>\<open>SetControllerReference\<close> makes the owner the controller of an object of its own namespace.\<close>

definition sets_controller :: "(kobject \<Rightarrow> kobject \<Rightarrow> go_error + kobject) \<Rightarrow> bool" where
  "sets_controller own \<longleftrightarrow> (\<forall>owner x y. own owner x = Inr y \<longrightarrow>
     Name (meta_of owner) \<in> set (OwnerReferences (meta_of y)) \<and> Namespace (meta_of owner) = Namespace (meta_of y))"

lemma ref_sets_controller: "sets_controller ref_setControllerReference"
proof -
  have "meta_of (update_meta f x) = f (meta_of x)" for f x by (cases x) simp_all
  then show ?thesis
    by (auto simp: sets_controller_def ref_setControllerReference_def Let_def split: if_splits)
qed

text \<open>The exposure's controller owns the kind of the object, which names the exposure as an owner.\<close>

definition returns_to :: "K1sExposure \<Rightarrow> kobject \<Rightarrow> bool" where
  "returns_to x y \<longleftrightarrow> kind_of y \<in> set (ctl_Owns K1sExposure_SetupWithManager) \<and>
     Namespace (exposure_Meta x) = Namespace (meta_of y) \<and>
     Name (exposure_Meta x) \<in> set (OwnerReferences (meta_of y))"

definition returning :: "K1sExposure \<Rightarrow> event \<Rightarrow> bool" where
  "returning x e \<longleftrightarrow> (case e of ECreate y _ \<Rightarrow> returns_to x y | EUpdate _ y _ \<Rightarrow> returns_to x y | _ \<Rightarrow> True)"

lemma returning_writes:
  "returning x (ECreate y r) \<longleftrightarrow> returns_to x y" "returning x (EUpdate cur y r) \<longleftrightarrow> returns_to x y"
  by (simp_all add: returning_def)

text \<open>A change that leaves the kind, the namespace and the owners.\<close>

definition keeps_owner :: "(kobject \<Rightarrow> kobject) \<Rightarrow> bool" where
  "keeps_owner f \<longleftrightarrow> (\<forall>z. kind_of (f z) = kind_of z \<and> Namespace (meta_of (f z)) = Namespace (meta_of z) \<and>
     OwnerReferences (meta_of (f z)) = OwnerReferences (meta_of z))"

lemma setters_keep_owner:
  "keeps_owner (set_service ws)" "keeps_owner (set_slice we)" "keeps_owner (set_ingress wi)" "keeps_owner (set_mirror x)"
proof -
  show "keeps_owner (set_service ws)"
    unfolding keeps_owner_def by (rule allI, case_tac z) simp_all
  show "keeps_owner (set_slice we)"
    unfolding keeps_owner_def by (rule allI, case_tac z) simp_all
  show "keeps_owner (set_ingress wi)"
    unfolding keeps_owner_def by (rule allI, case_tac z) simp_all
  show "keeps_owner (set_mirror x)"
    unfolding keeps_owner_def by (rule allI, case_tac z) simp_all
qed

lemma owned_returns:
  assumes "sets_controller (e_setControllerReference E)" and "keeps_owner f" and "owned E x f z = Inr y"
    and "lawful E" and "kind_of z \<in> set generated_kinds"
  shows "returns_to x y"
proof -
  obtain w where own: "e_setControllerReference E (OExposure x) z = Inr w" and y: "y = f w"
    using assms(3) by (auto simp: owned_def split: sum.splits)
  obtain refs where "w = update_meta (\<lambda>m. m\<lparr>OwnerReferences := refs\<rparr>) z"
    using lawfulD(4) [OF assms(4)] own unfolding sets_owner_def by blast
  then have "kind_of w = kind_of z" by (cases z) simp_all
  moreover have "Name (exposure_Meta x) \<in> set (OwnerReferences (meta_of w))"
      "Namespace (exposure_Meta x) = Namespace (meta_of w)"
    using assms(1) own by (fastforce simp: sets_controller_def)+
  ultimately show ?thesis
    using assms(2,5)
    by (auto simp: y keeps_owner_def returns_to_def controller_defs generated_kinds_def)
qed

fun writes_object :: "event \<Rightarrow> bool" where
  "writes_object (ECreate _ _) = True"
| "writes_object (EUpdate _ _ _) = True"
| "writes_object _ = False"

lemma returning_plain: "\<not> writes_object e \<Longrightarrow> returning x e"
  by (cases e) (simp_all add: returning_def)

named_theorems returning_steps \<open>steps whose writes return to the exposure\<close>

lemma traffic_returning: "client_traffic c e \<Longrightarrow> returning x e"
  by (cases e) (simp_all add: client_traffic_def returning_def)

lemma observing_returning [returning_steps]:
  "emits (returning x) (api_AppStatus E c ns name)" "emits (returning x) (Now E)"
  "emits (returning x) (log_message msg)" "emits (returning x) (kube_Get E rd k key)"
  "emits (returning x) (kube_Delete E y)" "emits (returning x) (loadCredentials E ns ref)"
  "emits (returning x) (discoverProxyEndpoints E rd cluster)" "emits (returning x) (defaultTrafficProbe E x')"
  by (rule emits_mono [OF app_status.traffic traffic_returning], assumption,
      rule emitsI, rule Now_spec, simp add: returning_def,
      rule emitsI, rule log_message_spec, simp add: returning_def,
      rule emitsI, rule kube_Get_spec, force simp: returning_def,
      rule emitsI, rule kube_Delete_spec, simp add: returning_def,
      rule emitsI, rule loadCredentials_spec,
      force simp: credentials_ok_def secret_get_def returning_def split: option.splits,
      rule emitsI, rule discoverProxyEndpoints_spec, force simp: proxy_event_def returning_def split: event.splits,
      rule emitsI, rule defaultTrafficProbe_spec, force simp: is_probe_def returning_def split: event.splits)

text \<open>A status patch and a decision write no object.\<close>

lemma status_patch_returning:
  assumes "lawful E" and "\<And>cur. same_object cur obj \<Longrightarrow> emits is_now (mutate cur)"
  shows "emits (returning x) (patchStatus E obj mutate)"
proof (rule emitsI)
  show "behaves (patchStatus E obj mutate)
      (\<lambda>new r. (\<forall>e\<in>set new. status_patch.patch_event obj (\<lambda>_ _. True) e) \<and> status_patch.patch_outcome new r)"
    by (rule patchStatus_spec [OF assms(1)])
      (use assms(2) in \<open>auto simp: emits_def only_clock_def\<close>)
qed (auto simp: status_patch_event returning_def split: event.splits)

lemma reporting_returning [returning_steps]:
  assumes "lawful E"
  shows "emits (returning x) (patch_exposure_status E x' s)"
    and "emits (returning x) (patchStatus E obj (mirror_mutate E app found))"
    and "emits (returning x) (set_exposure_condition E x' t st reason msg s)"
  unfolding patch_exposure_status_def set_exposure_condition_def setCondition_def
  by (rule status_patch_returning [OF assms], simp add: emits_return,
      rule status_patch_returning [OF assms], rule emitsI [OF mirror_mutate_spec [OF assms]],
      simp add: only_clock_def, intro emits_rules returning_steps)

lemma upsert_returning:
  assumes "lawful E" and "sets_controller (e_setControllerReference E)" and "keeps_owner f"
    and "\<And>y. same_object (f y) y" and "kind_of obj \<in> set generated_kinds"
  shows "emits (returning x) (e_createOrUpdate E obj (owned E x f))"
proof -
  have "returning x e" if "upsert_event obj (owned E x f) e" for e
    using that owned_returns [OF assms(2,3) _ assms(1)] assms(5)
    by (cases e) (auto simp: upsert_event_def returning_def same_object_def)
  then show ?thesis by (intro emitsI [OF owned_upsert [OF assms(1,4)]]) blast
qed

lemma objects_returning [returning_steps]:
  assumes "lawful E" and "sets_controller (e_setControllerReference E)"
  shows "emits (returning x) (reconcileService E c x)" and "emits (returning x) (reconcileEndpointSlice E c x eps)"
    and "emits (returning x) (reconcileIngress E c x)" and "emits (returning x) (reconcileMirror E x app found)"
  unfolding reconcileService_def reconcileEndpointSlice_def reconcileIngress_def reconcileMirror_def Let_def
  by (intro emits_rules returning_steps upsert_returning [OF assms] setters_keep_owner assms;
      simp add: generated_kinds_def)+

text \<open>
  C25: whatever an exposure's reconciliation creates or writes over, the exposure is reconciled again
  when that object is changed or deleted later: the controller watches its kind and finds the
  exposure's key in its owner. So no generated object can drift without the operator noticing.
\<close>

theorem generated_objects_return:
  assumes "lawful E" and "sets_controller (e_setControllerReference E)"
    and "trace_of (reconcile_exposure E (Some APIReader) None x) h = h @ new"
    and "ECreate y r \<in> set new \<or> EUpdate cur y r \<in> set new"
    and "enqueues_watched q"
  shows "ObjectKeyFromObject (OExposure x) \<in> set (q K1sExposure_SetupWithManager y)"
proof -
  have "emits (returning x) (reconcile_exposure E (Some APIReader) None x)"
    unfolding reconcile_exposure_def exposure_unavailable_def exposure_no_client_def exposure_sync_def
      exposure_writing_def exposure_ingress_def exposure_report_def exposure_traffic_def Let_def
    by (intro emits_rules emits_kobject returning_steps assms) simp_all
  from emits_new_event [OF this assms(3)] assms(4) have "returns_to x y"
    using returning_writes by blast
  then show ?thesis
    using assms(5) by (simp add: returns_to_def enqueues_watched_def ObjectKeyFromObject_def)
qed

text \<open>The reconciliation of the example exposure creates its Service.\<close>

lemma writing_creates:
  "behaves (exposure_writing exposure_world None example_exposure c app True True eps s)
     (\<lambda>new _. \<exists>y. ECreate y None \<in> set new)"
proof -
  have service: "behaves (reconcileService exposure_world c example_exposure)
      (\<lambda>new r. r = None \<and> (\<exists>y. ECreate y None \<in> set new))"
    by (rule behavesI) (auto simp: reconcileService_def BuildExposureService_def run_object_simps)
  have controls: "sets_controller (e_setControllerReference exposure_world)"
    by (simp add: ref_sets_controller)
  have rest: "emits (returning example_exposure) (case err of None \<Rightarrow> do {
         status \<leftarrow> exposure_ingress exposure_world example_exposure c s;
         err \<leftarrow> reconcileMirror exposure_world example_exposure app True;
         case err of
           Some e \<Rightarrow> do {
             _ \<leftarrow> log_message ''unable to reconcile app mirror'';
             State_Monad.return (no_result, Some e)
           }
         | None \<Rightarrow> exposure_report exposure_world None example_exposure c True (as_Ready app) True eps status
       } | Some e \<Rightarrow> State_Monad.return (no_result, Some e))" for err
    unfolding exposure_ingress_def exposure_report_def exposure_traffic_def Let_def
    by (intro emits_rules returning_steps controls exposure_world_simps(1)) simp_all
  show ?thesis
    unfolding exposure_writing_def
    by (rule behaves_bind [OF service], simp,
        rule behaves_bind [OF objects_returning(2) [unfolded emits_def]], rule exposure_world_simps, rule controls)
      (rule behaves_mono [OF rest [unfolded emits_def]], auto)
qed

theorem generated_objects_return_witness:
  "\<exists>new y. trace_of (reconcile_exposure exposure_world (Some APIReader) None example_exposure) [] = [] @ new \<and>
     ECreate y None \<in> set new \<and>
     ObjectKeyFromObject (OExposure example_exposure) \<in> set (ref_enqueue K1sExposure_SetupWithManager y)"
proof -
  have "behaves (reconcile_exposure exposure_world (Some APIReader) None example_exposure)
      (\<lambda>new _. \<exists>y. ECreate y None \<in> set new)"
    by (rule reconcile_leads [OF writing_creates]) auto
  then obtain new y where run: "trace_of (reconcile_exposure exposure_world (Some APIReader) None example_exposure) [] = [] @ new"
    and made: "ECreate y None \<in> set new"
    by (auto elim: behavesE [where h = "[]"])
  have "sets_controller (e_setControllerReference exposure_world)"
    by (simp add: ref_sets_controller)
  from generated_objects_return [OF exposure_world_simps(1) this run disjI1 [OF made] ref_enqueues_watched] run made show ?thesis
    by blast
qed

section \<open>The reports\<close>

fun sync_time :: "kobject \<Rightarrow> int option" where
  "sync_time (OApp x) = aps_LastSyncTime (app_Status x)"
| "sync_time (OInference x) = ins_LastSyncTime (inf_Status x)"
| "sync_time (OResourceSet x) = rss_LastSyncTime (rs_Status x)"
| "sync_time (OExposure x) = exs_LastAppSyncTime (exposure_Status x)"
| "sync_time _ = None"

text \<open>After the clock was read: status patches with that time, and nothing posted any more.\<close>

definition stamped :: "kobject \<Rightarrow> int \<Rightarrow> event \<Rightarrow> bool" where
  "stamped obj now e \<longleftrightarrow> (case e of
     EStatusPatch cur y _ \<Rightarrow> same_object y obj \<and> sync_time y = Some now
   | _ \<Rightarrow> \<not> posts e)"

lemma stamped_posts: "stamped obj now e \<Longrightarrow> \<not> posts e"
  by (cases e) (simp_all add: stamped_def posts_def)

abbreviation calm :: "'a io \<Rightarrow> bool" where
  "calm m \<equiv> emits (\<lambda>e. \<not> is_status_patch e \<and> \<not> posts e) m"

lemma okay_stamped: "calm m \<Longrightarrow> okay (stamped obj now) (\<lambda>_. True) m"
  by (rule okay_emits, erule emits_mono) (auto simp: stamped_def split: event.splits)

lemma get_calm: "emits (requests ''GET'') m \<Longrightarrow> plain m \<Longrightarrow> calm m"
  by (drule (1) emits_conj, erule emits_mono) (auto dest: requests_not_posts)

named_theorems calm_steps \<open>steps that neither touch a status nor post anything\<close>

lemma calm_calls [calm_steps]:
  "calm (api_AppStatus E c ns name)" "calm (inferenceStatus E c coll ns name)"
  by (rule get_calm, rule api_AppStatus_requests, rule plain_calls,
      rule get_calm, rule inferenceStatus_requests, rule plain_calls)

lemma calm_observing [calm_steps]: "calm (inferenceStatusForEndpoint E api i)"
  unfolding inferenceStatusForEndpoint_def InferenceCellStatus_def InferenceCellSetStatus_def
  by (intro emits_rules calm_steps)

text \<open>What \<open>m\<close> writes into a status carries a time that it read from the clock before, and after it had
  posted everything.\<close>

definition stamped_last :: "kobject \<Rightarrow> event list \<Rightarrow> kobject \<Rightarrow> kobject \<Rightarrow> go_error option \<Rightarrow> bool" where
  "stamped_last obj new cur y r \<longleftrightarrow> (\<exists>now pre post. new = pre @ ENow now # post \<and>
     EStatusPatch cur y r \<in> set post \<and> (\<forall>e\<in>set post. \<not> posts e) \<and>
     same_object y obj \<and> sync_time y = Some now)"

lemma stamped_last_append: "stamped_last obj new cur y r \<Longrightarrow> stamped_last obj (xs @ new) cur y r"
  unfolding stamped_last_def by (metis append_assoc)

definition stamps :: "kobject \<Rightarrow> 'a io \<Rightarrow> bool" where
  "stamps obj m \<longleftrightarrow> behaves m (\<lambda>new _. \<forall>cur y r. EStatusPatch cur y r \<in> set new \<longrightarrow> stamped_last obj new cur y r)"

lemma stamps_Now:
  assumes "\<And>now. okay (stamped obj now) (\<lambda>_. True) (f now)"
  shows "stamps obj (State_Monad.bind (Now E) f)"
  unfolding stamps_def
proof (rule behaves_bind [OF Now_spec])
  fix n1 now assume n1: "n1 = [ENow now]"
  show "behaves (f now) (\<lambda>n2 _. \<forall>cur y r. EStatusPatch cur y r \<in> set (n1 @ n2) \<longrightarrow> stamped_last obj (n1 @ n2) cur y r)"
  proof (rule behaves_mono [OF assms [unfolded okay_def]], intro allI impI)
    fix n2 cur y r assume "(\<forall>e\<in>set n2. stamped obj now e) \<and> True" and e: "EStatusPatch cur y r \<in> set (n1 @ n2)"
    then have all: "\<forall>e\<in>set n2. stamped obj now e" and e: "EStatusPatch cur y r \<in> set n2"
      by (simp_all add: n1)
    then have "stamped obj now (EStatusPatch cur y r)" by blast
    with all e stamped_posts show "stamped_last obj (n1 @ n2) cur y r"
      unfolding stamped_last_def n1
      by (intro exI [of _ now] exI [of _ "[]"] exI [of _ n2]) (auto simp: stamped_def)
  qed
qed

lemma stamps_bind:
  assumes "plain m" and "\<And>a. stamps obj (f a)"
  shows "stamps obj (State_Monad.bind m f)"
  unfolding stamps_def
proof (rule behaves_bind [OF assms(1) [unfolded emits_def]])
  fix n1 a assume n1: "\<forall>e\<in>set n1. \<not> is_status_patch e"
  then have "EStatusPatch cur y r \<notin> set n1" for cur y r by fastforce
  then show "behaves (f a) (\<lambda>n2 _. \<forall>cur y r. EStatusPatch cur y r \<in> set (n1 @ n2) \<longrightarrow> stamped_last obj (n1 @ n2) cur y r)"
    by (intro behaves_mono [OF assms(2) [unfolded stamps_def]]) (auto intro: stamped_last_append)
qed

lemma stamps_return: "stamps obj (State_Monad.return a)"
  by (simp add: stamps_def behaves_return)

lemma stamps_case_option:
  "(x = None \<Longrightarrow> stamps obj m) \<Longrightarrow> (\<And>a. x = Some a \<Longrightarrow> stamps obj (f a)) \<Longrightarrow> stamps obj (case x of None \<Rightarrow> m | Some a \<Rightarrow> f a)"
  by (simp split: option.splits)

lemma stamps_case_prod: "(\<And>a b. x = (a, b) \<Longrightarrow> stamps obj (f a b)) \<Longrightarrow> stamps obj (case x of (a, b) \<Rightarrow> f a b)"
  by (simp split: prod.splits)

text \<open>The steps between the clock and the report keep the time.\<close>

lemma decides_stamped:
  assumes "lawful E"
  shows "aps_LastSyncTime s1 = Some now \<Longrightarrow>
      okay (stamped obj now) (\<lambda>s. aps_LastSyncTime s = Some now) (set_app_condition E a t st reason msg s1)"
    and "ins_LastSyncTime s2 = Some now \<Longrightarrow>
      okay (stamped obj now) (\<lambda>s. ins_LastSyncTime s = Some now) (set_inference_condition E i t st reason msg s2)"
    and "rss_LastSyncTime s3 = Some now \<Longrightarrow>
      okay (stamped obj now) (\<lambda>s. rss_LastSyncTime s = Some now) (set_rset_condition E x t st reason msg s3)"
proof -
  have "is_now e \<Longrightarrow> \<not> is_status_patch e \<and> \<not> posts e" for e by (cases e) (simp_all add: posts_def)
  then have "calm (setCondition E cs t st reason msg gen)" for cs gen
    by (intro emitsI [OF setCondition_spec [OF lawfulD(1) [OF assms]]]) (auto simp: only_clock_def)
  note step = okay_bind [OF okay_stamped [OF this]]
  show "aps_LastSyncTime s1 = Some now \<Longrightarrow>
      okay (stamped obj now) (\<lambda>s. aps_LastSyncTime s = Some now) (set_app_condition E a t st reason msg s1)"
    unfolding set_app_condition_def by (rule step, rule okay_return) simp
  show "ins_LastSyncTime s2 = Some now \<Longrightarrow>
      okay (stamped obj now) (\<lambda>s. ins_LastSyncTime s = Some now) (set_inference_condition E i t st reason msg s2)"
    unfolding set_inference_condition_def by (rule step, rule okay_return) simp
  show "rss_LastSyncTime s3 = Some now \<Longrightarrow>
      okay (stamped obj now) (\<lambda>s. rss_LastSyncTime s = Some now) (set_rset_condition E x t st reason msg s3)"
    unfolding set_rset_condition_def by (rule step, rule okay_return) simp
qed

lemma put_sync_time:
  "kind_of cur = KindApp \<Longrightarrow> sync_time (put_app_status s1 cur) = aps_LastSyncTime s1"
  "kind_of cur = KindInferenceEndpoint \<Longrightarrow> sync_time (put_inference_status s2 cur) = ins_LastSyncTime s2"
  "kind_of cur = KindResourceSet \<Longrightarrow> sync_time (put_rset_status s3 cur) = rss_LastSyncTime s3"
  by (cases cur; simp)+

lemma patches_stamped:
  assumes "lawful E"
  shows "aps_LastSyncTime s1 = Some now \<Longrightarrow> okay (stamped (OApp a) now) (\<lambda>_. True) (patch_app_status E a s1)"
    and "ins_LastSyncTime s2 = Some now \<Longrightarrow> okay (stamped (OInference i) now) (\<lambda>_. True) (patch_inference_status E i s2)"
    and "rss_LastSyncTime s3 = Some now \<Longrightarrow> okay (stamped (OResourceSet x) now) (\<lambda>_. True) (patch_rset_status E x s3)"
proof -
  have patch: "okay (stamped obj now) (\<lambda>_. True) (patchStatus E obj (\<lambda>cur. State_Monad.return (put cur)))"
    if "\<And>cur. same_object (put cur) cur"
      and "\<And>cur. same_object cur obj \<Longrightarrow> sync_time (put cur) = Some now" for obj put
    unfolding okay_def
    by (rule behaves_mono [OF patchStatus_spec [OF assms, where M = "\<lambda>cur y. y = put cur"]])
      (use same_object_trans [OF that(1)] that(2) in \<open>auto simp: status_patch_event stamped_def posts_def behaves_return split: event.splits\<close>)
  show "aps_LastSyncTime s1 = Some now \<Longrightarrow> okay (stamped (OApp a) now) (\<lambda>_. True) (patch_app_status E a s1)"
    and "ins_LastSyncTime s2 = Some now \<Longrightarrow> okay (stamped (OInference i) now) (\<lambda>_. True) (patch_inference_status E i s2)"
    and "rss_LastSyncTime s3 = Some now \<Longrightarrow> okay (stamped (OResourceSet x) now) (\<lambda>_. True) (patch_rset_status E x s3)"
    unfolding patch_app_status_def patch_inference_status_def patch_rset_status_def
    by (rule patch, simp, simp add: same_object_def put_sync_time)+
qed

lemmas stamped_binds =
  okay_bind [where R = "\<lambda>s. aps_LastSyncTime s = Some now" and P = "stamped obj now" for obj now]
  okay_bind [where R = "\<lambda>s. ins_LastSyncTime s = Some now" and P = "stamped obj now" for obj now]
  okay_bind [where R = "\<lambda>s. rss_LastSyncTime s = Some now" and P = "stamped obj now" for obj now]
  okay_bind [where R = "\<lambda>_. True" and P = "stamped obj now" for obj now]

lemmas stamped_steps = stamped_binds decides_stamped patches_stamped okay_rules okay_stamped calm_steps emits_rules

lemma times_kept [simp]:
  "aps_LastSyncTime (applyObservedAppStatus s1 app) = aps_LastSyncTime s1"
  "ins_LastSyncTime (applyObservedInferenceStatus s2 obs) = ins_LastSyncTime s2"
  "ins_LastSyncTime (inference_synced i now result) = Some now"
  "rss_LastSyncTime (rset_synced x now desired n firstErr) = Some now"
  by (simp_all add: applyObservedAppStatus_def applyObservedInferenceStatus_def inference_synced_def
      rset_synced_def Let_def)

lemma reports_stamp:
  assumes "lawful E"
  shows "stamps (OApp a) (app_report E a api cluster raw shouldApply o1 r)"
    and "stamps (OInference i) (inference_report E i api cluster shouldApply o2 r)"
    and "stamps (OResourceSet x) (rset_report E x cluster desired shouldApply d)"
  unfolding app_report_def app_observe_def inference_report_def inference_observe_def rset_report_def Let_def
  using assms by - (rule stamps_Now, (rule stamped_steps assms | (simp; fail))+)+

lemma resyncs_stamp:
  assumes "lawful E"
  shows "stamps (OApp a) (app_resync E a api cluster raw)"
    and "stamps (OInference i) (inference_resync E i api cluster raw)"
    and "stamps (OResourceSet x) (rset_apply E x api cluster allowed)"
proof -
  note steps = stamps_bind stamps_return stamps_case_option stamps_case_prod reports_stamp [OF assms] plain_steps emits_rules assms
  show "stamps (OApp a) (app_resync E a api cluster raw)"
    unfolding app_resync_def app_look_def by (rule steps | (simp; fail))+
  show "stamps (OInference i) (inference_resync E i api cluster raw)"
    unfolding inference_resync_def inference_look_def by (rule steps | (simp; fail))+
  show "stamps (OResourceSet x) (rset_apply E x api cluster allowed)"
    unfolding rset_apply_def rset_work_def pruneManagedResources_def Let_def
    by (rule steps | (simp; fail))+
qed

text \<open>
  C22: every status that a synchronisation of an app (with a manifest that is accepted), an inference
  endpoint (with a manifest that can be built) or a resource set (with kinds that are allowed) writes is
  one of its own object, and carries as its last sync time what the clock showed in this very pass,
  after the last request that changes anything in the k1s cluster was answered and before the status
  was written, whether these requests succeeded or not. The reports of a pass that does not get that far
  (no write client, rejected, failed clean-up) do not touch the time and are not meant here.
\<close>

theorem reports_are_stamped:
  assumes "lawful E"
    and "(obj, m) \<in> {(OApp a, app_resync E a api cluster raw),
      (OInference i, inference_resync E i api cluster raw),
      (OResourceSet x, rset_apply E x api cluster allowed)}"
    and "trace_of m h = h @ new" and "EStatusPatch cur y r \<in> set new"
  shows "\<exists>now pre post. new = pre @ ENow now # post \<and> EStatusPatch cur y r \<in> set post \<and>
    (\<forall>e\<in>set post. \<not> posts e) \<and> same_object y obj \<and> sync_time y = Some now"
proof -
  have "stamps obj m"
    using assms(2) resyncs_stamp [OF assms(1)] by auto
  then have "stamped_last obj new cur y r"
    using assms(3,4) by (auto simp: stamps_def elim!: behavesE [where h = h])
  then show ?thesis unfolding stamped_last_def .
qed

theorem reports_are_stamped_witness:
  "\<exists>new cur y now. EStatusPatch cur y None \<in> set new \<and> ENow now \<in> set new \<and> sync_time y = Some now \<and>
     trace_of (app_sync (example_world (OApp new_app)) new_app example_client example_cluster) [] = new"
proof (rule sync_example)
  fix r new cur y
  assume run: "run_state (app_sync (example_world (OApp new_app)) new_app example_client
      example_cluster) [] = (r, [] @ new)" and st: "EStatusPatch cur y None \<in> set new"
  have "app_sync (example_world (OApp new_app)) new_app example_client example_cluster =
      app_resync (example_world (OApp new_app)) new_app example_client example_cluster example_manifest"
    using example_manifest_simps by (simp add: app_sync_def Let_def example_app_def)
  with run have trace: "trace_of (app_resync (example_world (OApp new_app)) new_app example_client
      example_cluster example_manifest) [] = [] @ new" by simp
  obtain now pre post where "new = pre @ ENow now # post" "sync_time y = Some now"
    using reports_are_stamped [OF example_world_lawful insertI1 trace st] by blast
  with st run show ?thesis
    by (intro exI [of _ new] exI [of _ cur] exI [of _ y] exI [of _ now]) simp
qed

text \<open>
  So a report differs from the status it replaces whenever the clock has moved on; and when every
  change of an object asks its controller for it again, as the watches are set up without a filter, it
  is the report itself that asks for the next pass, and not only the poll interval of its result.
\<close>

lemma reports_reschedule:
  assumes "lawful E" and "enqueues_watched q"
    and "(c, obj, m) \<in> {(K1sApp_SetupWithManager, OApp a, app_resync E a api cluster raw),
      (K1sInferenceEndpoint_SetupWithManager, OInference i, inference_resync E i api cluster raw),
      (K1sResourceSet_SetupWithManager, OResourceSet x, rset_apply E x api cluster allowed)}"
    and "trace_of m h = h @ new" and "EStatusPatch cur y r \<in> set new"
  shows "\<exists>now. ENow now \<in> set new \<and> sync_time y = Some now \<and> (sync_time cur = Some now \<or> y \<noteq> cur) \<and>
    ObjectKeyFromObject obj \<in> set (q c y)"
proof -
  have "stamps obj m"
    using assms(3) resyncs_stamp [OF assms(1)] by auto
  then have "stamped_last obj new cur y r"
    using assms(4,5) by (auto simp: stamps_def elim!: behavesE [where h = h])
  then obtain now where "ENow now \<in> set new" and same: "same_object y obj" and "sync_time y = Some now"
    unfolding stamped_last_def by fastforce
  moreover have "ctl_For c = kind_of obj"
    using assms(3) by (auto simp: controller_defs)
  ultimately show ?thesis
    using enqueues_own [OF assms(2), of y c] by (auto simp: same_object_def)
qed

end
