(* ===== verification/Lifecycle.thy ===== *)
theory Lifecycle
  imports App Inference
begin

text \<open>
  Many passes over one object: whether the finalizer is on, and what may exist in the k1s cluster
  because of the object. \<open>custody_step\<close> is the contract in the abstract: things are made and removed
  only under the finalizer, and the finalizer comes off when nothing is left. A pass of the reconcilers
  of src/internal/controller/capability_controller.go refines it.
\<close>

section \<open>The contract\<close>

text \<open>\<open>guarded\<close>: the stored object carries the finalizer; \<open>remote\<close>: the endpoints at which something
  made for the object may have to be deleted.\<close>

record custody =
  guarded :: bool
  remote :: "string set"

inductive custody_step :: "custody \<Rightarrow> custody \<Rightarrow> bool" where
  guard: "custody_step s (s\<lparr>guarded := True\<rparr>)"
| make: "guarded s \<Longrightarrow> custody_step s (s\<lparr>remote := insert t (remote s)\<rparr>)"
| destroy: "guarded s \<Longrightarrow> custody_step s (s\<lparr>remote := remote s - {t}\<rparr>)"
| release: "remote s = {} \<Longrightarrow> custody_step s (s\<lparr>guarded := False\<rparr>)"

lemma custody_set: "s' = s\<lparr>remote := remote s', guarded := guarded s'\<rparr>" for s s' :: custody
  by (cases s; cases s') simp

lemma custody_remote:
  assumes "r = remote s \<or> guarded s \<and> (r = insert t (remote s) \<or> r = remote s - {u})"
  shows "custody_step\<^sup>*\<^sup>* s (s\<lparr>remote := r\<rparr>)"
  using assms
proof (elim disjE conjE)
  assume "r = remote s"
  then have "s\<lparr>remote := r\<rparr> = s" by (cases s) simp
  then show ?thesis by simp
qed (simp_all add: custody_step.make custody_step.destroy r_into_rtranclp)

lemma custody_guarded:
  assumes "g \<in> {guarded s, True}"
  shows "custody_step\<^sup>*\<^sup>* s (s\<lparr>guarded := g\<rparr>)"
proof (cases g)
  case True
  then show ?thesis using custody_step.guard [of s] by (simp add: r_into_rtranclp)
next
  case False
  with assms have "s\<lparr>guarded := g\<rparr> = s" by (cases s) simp
  then show ?thesis by simp
qed

definition kept :: "custody \<Rightarrow> bool" where
  "kept s \<longleftrightarrow> (remote s \<noteq> {} \<longrightarrow> guarded s)"

lemma custody_step_kept: "custody_step s s' \<Longrightarrow> kept s \<Longrightarrow> kept s'"
  by (induction rule: custody_step.induct) (auto simp: kept_def)

lemma custody_steps_kept: "custody_step\<^sup>*\<^sup>* s s' \<Longrightarrow> kept s \<Longrightarrow> kept s'"
  by (induction rule: rtranclp_induct) (auto intro: custody_step_kept)

section \<open>What a pass does to it\<close>

text \<open>A merge patch carries what it changes: an accepted one that changes the finalizers sets them.\<close>

fun guard_after :: "event list \<Rightarrow> bool \<Rightarrow> bool" where
  "guard_after [] g = g"
| "guard_after (e # es) g = guard_after es
     (case e of
        EPatch cur y None \<Rightarrow>
          if Finalizers (meta_of y) = Finalizers (meta_of cur) then g else has_finalizer y
      | _ \<Rightarrow> g)"

text \<open>\<open>made\<close> is the endpoint at which what the pass applies is to be deleted, \<open>gone\<close> what shows that it
  is not there. Any POST of a pass that does not delete may have made it.\<close>

definition custody_after :: "kobject \<Rightarrow> string \<Rightarrow> string \<Rightarrow> (event list \<Rightarrow> bool) \<Rightarrow> event list \<Rightarrow> custody \<Rightarrow> custody" where
  "custody_after obj made deleted gone new s =
     \<lparr>guarded = guard_after new (guarded s),
      remote =
        (if being_deleted obj then
           (if (\<exists>before del fin. new = before @ del @ fin \<and> gone del \<and> list_ex posts del \<and>
                \<not> list_ex is_http fin)
            then remote s - {deleted} else remote s)
         else if list_ex posts new then insert made (remote s) else remote s)\<rparr>"

lemma guard_after_append: "guard_after (xs @ ys) g = guard_after ys (guard_after xs g)"
  by (induction xs arbitrary: g) simp_all

lemma guard_after_keeps:
  "(\<And>cur y. EPatch cur y None \<in> set es \<Longrightarrow> Finalizers (meta_of y) = Finalizers (meta_of cur)) \<Longrightarrow>
     guard_after es g = g"
  by (induction es arbitrary: g) (auto split: event.splits option.splits)

lemma guard_after_sets:
  "(\<And>cur y. EPatch cur y None \<in> set es \<Longrightarrow> has_finalizer y = b) \<Longrightarrow> guard_after es g \<in> {g, b}"
proof (induction es arbitrary: g)
  case (Cons e es)
  define g' where "g' = (case e of EPatch cur y None \<Rightarrow>
      if Finalizers (meta_of y) = Finalizers (meta_of cur) then g else has_finalizer y | _ \<Rightarrow> g)"
  have "g' \<in> {g, b}"
    using Cons.prems by (auto simp: g'_def split: event.splits option.splits)
  moreover have "guard_after es g' \<in> {g', b}"
    by (rule Cons.IH) (use Cons.prems in auto)
  ultimately show ?case by (auto simp: g'_def)
qed simp

lemma no_patch_keeps: "\<forall>e\<in>set es. \<not> is_kube_write e \<Longrightarrow> guard_after es g = g"
  by (rule guard_after_keeps) auto

lemma traffic_no_write: "client_traffic api e \<Longrightarrow> \<not> is_kube_write e"
  by (cases e) (simp_all add: client_traffic_def)

lemma posts_http: "posts e \<Longrightarrow> is_http e"
  by (cases e) (simp_all add: posts_def)

context capability
begin

lemma finalizer_on: "finalizer_event (Finalizers (meta_of obj) @ [capabilityFinalizer]) (EPatch cur y r) \<Longrightarrow> has_finalizer y"
  by (simp add: finalizer_event_def has_finalizer_def containsString_def)

lemma finalizer_off: "finalizer_event (removeString (Finalizers (meta_of obj)) capabilityFinalizer) (EPatch cur y r) \<Longrightarrow>
    \<not> has_finalizer y"
  by (simp add: finalizer_event_def has_finalizer_def containsString_def removeString_filter)

text \<open>One pass over an object whose finalizer, if it was read, is still on, and for which nothing is
  left but what the pass would delete.\<close>

lemma pass_custody:
  assumes "life new r" and "\<not> orphan" and "has_finalizer obj \<Longrightarrow> guarded s"
    and "remote s \<subseteq> {deleted}" and "\<And>api del. gone api del \<Longrightarrow> list_ex posts del"
  shows "custody_step\<^sup>*\<^sup>* s (custody_after obj made deleted (\<lambda>del. \<exists>api. gone api del) new s)"
proof -
  let ?s = "custody_after obj made deleted (\<lambda>del. \<exists>api. gone api del) new s"
  obtain start w rest where new: "new = start @ rest" and w: "writer_ok start w" and ph: "phase w rest r"
    using assms(1) by (auto simp: life_def)
  have reads: "\<forall>e\<in>set start. \<not> is_kube_write e \<and> \<not> is_http e"
    using w by (simp add: writer_ok_def)
  have start: "guard_after start g = g" "\<not> list_ex posts start" for g
  proof -
    show "guard_after start g = g" using reads by (simp add: no_patch_keeps)
    show "\<not> list_ex posts start" using reads posts_http unfolding list_ex_iff by blast
  qed
  have quiet: "guard_after es g = g" "\<not> list_ex posts es" if "\<forall>e\<in>set es. reports obj e" for es g
  proof -
    show "guard_after es g = g"
      by (rule guard_after_keeps) (use that in \<open>force simp: reports_def\<close>)
    show "\<not> list_ex posts es"
      using that posts_http unfolding list_ex_iff reports_def by blast
  qed
  have grd: "guard_after new (guarded s) = guard_after rest (guarded s)"
    by (simp add: new guard_after_append start)
  have steps: ?thesis
    if "guarded ?s \<in> {guarded s, True}" and "remote ?s = remote s \<or> guarded s \<and>
        (remote ?s = insert made (remote s) \<or> remote ?s = remote s - {deleted})"
  proof -
    have "custody_step\<^sup>*\<^sup>* s (s\<lparr>remote := remote ?s\<rparr>)"
      by (rule custody_remote [OF that(2)])
    moreover have "custody_step\<^sup>*\<^sup>* (s\<lparr>remote := remote ?s\<rparr>) (s\<lparr>remote := remote ?s, guarded := guarded ?s\<rparr>)"
      by (rule custody_guarded) (use that(1) in simp)
    ultimately have "custody_step\<^sup>*\<^sup>* s (s\<lparr>remote := remote ?s, guarded := guarded ?s\<rparr>)"
      by (rule rtranclp_trans)
    then show ?thesis
      by (simp only: custody_set [of ?s s, symmetric])
  qed
  show ?thesis
  proof (cases w)
    case (Inl e)
    then have "\<forall>e\<in>set rest. reports obj e" using ph by (simp add: phase_def)
    note q = quiet [OF this]
    have "\<not> list_ex posts new" using q start by (simp add: new)
    then have "remote ?s = remote s" by (auto simp: custody_after_def)
    moreover have "guarded ?s = guarded s" using q by (simp add: custody_after_def grd)
    ultimately show ?thesis by (intro steps) simp_all
  next
    case (Inr p)
    obtain api cluster where w: "w = Inr (api, cluster)" using Inr by (cases p) auto
    show ?thesis
    proof (cases "being_deleted obj")
      case deleting: True
      show ?thesis
      proof (cases "has_finalizer obj")
        case False
        then have "rest = []" using ph deleting by (simp add: phase_def w)
        then have "\<not> list_ex posts new" by (simp add: new start)
        then have "remote ?s = remote s" by (auto simp: custody_after_def)
        then show ?thesis using \<open>rest = []\<close> by (intro steps) (simp_all add: custody_after_def grd)
      next
        case True
        then have g: "guarded s" by (rule assms(3))
        obtain del fin where df: "rest = del @ fin" "\<forall>x\<in>set del. client_traffic api x"
          "gone api del \<and> (\<forall>x\<in>set fin. finalizer_event (removeString (Finalizers (meta_of obj)) capabilityFinalizer) x) \<or>
           (\<forall>x\<in>set fin. reports obj x)"
          using ph unfolding phase_def w sum.case prod.case
          by (simp only: deleting True if_True not_True_eq_False if_False) (use assms(2) in auto)
        have del: "guard_after del b = b" for b
          using df(2) traffic_no_write by (intro no_patch_keeps) blast
        from df(3) show ?thesis
        proof (elim disjE conjE)
          assume "\<forall>x\<in>set fin. reports obj x"
          then have "guarded ?s = guarded s"
            using quiet by (simp add: custody_after_def grd df(1) guard_after_append del)
          moreover have "remote ?s = remote s \<or> remote ?s = remote s - {deleted}"
            by (simp add: custody_after_def deleting)
          ultimately show ?thesis using g by (intro steps) auto
        next
          assume confirmed: "gone api del"
            and off: "\<forall>x\<in>set fin. finalizer_event (removeString (Finalizers (meta_of obj)) capabilityFinalizer) x"
          have "new = start @ del @ fin \<and> (\<exists>api. gone api del) \<and> list_ex posts del \<and> \<not> list_ex is_http fin"
            using confirmed assms(5) off by (auto simp: new df(1) list_ex_iff finalizer_event_def)
          then have "remote ?s = remote s - {deleted}"
            by (auto simp: custody_after_def deleting)
          then have remote: "remote ?s = {}" using assms(4) by auto
          let ?m = "s\<lparr>remote := {}\<rparr>"
          have "custody_step s ?m"
            using custody_step.destroy [OF g, of deleted] assms(4) by (simp add: Diff_eq_empty_iff [THEN iffD2])
          moreover have "?s = ?m \<or> ?s = ?m\<lparr>guarded := False\<rparr>"
            using remote g by (cases ?s; cases s) auto
          ultimately show ?thesis
            using custody_step.release [of ?m] by (auto intro: rtranclp.rtrancl_into_rtrancl)
        qed
      qed
    next
      case alive: False
      show ?thesis
      proof (cases "has_finalizer obj")
        case False
        then have on: "\<forall>x\<in>set rest. finalizer_event (Finalizers (meta_of obj) @ [capabilityFinalizer]) x"
          using ph alive by (simp add: phase_def w)
        have "guard_after rest (guarded s) \<in> {guarded s, True}"
          by (rule guard_after_sets) (use on finalizer_on in blast)
        moreover have "\<not> list_ex posts new"
        proof -
          have "\<not> posts x" if "x \<in> set rest" for x
            using on that posts_http [of x] by (auto simp: finalizer_event_def)
          then show ?thesis using start by (auto simp: new list_ex_iff)
        qed
        ultimately show ?thesis
          by (intro steps) (auto simp: custody_after_def grd alive)
      next
        case True
        then have "\<forall>x\<in>set rest. applies obj api x"
          using ph alive by (simp add: phase_def w)
        then have "guard_after rest (guarded s) = guarded s"
          by (intro guard_after_keeps) (auto simp: applies_def)
        then have "guarded ?s = guarded s" by (simp add: custody_after_def grd)
        moreover have "remote ?s = remote s \<or> remote ?s = insert made (remote s)"
          by (simp add: custody_after_def alive)
        ultimately show ?thesis
          using assms(3) [OF True] by (intro steps) auto
      qed
    qed
  qed
qed

end

section \<open>Apps and inference endpoints\<close>

fun capability_reconcile :: "env \<Rightarrow> kobject \<Rightarrow> outcome io" where
  "capability_reconcile E (OApp a) = reconcile_app E a"
| "capability_reconcile E (OInference i) = reconcile_inference E i"
| "capability_reconcile E _ = State_Monad.return (no_result, None)"

fun orphaned :: "kobject \<Rightarrow> bool" where
  "orphaned (OApp a) \<longleftrightarrow> app_DeletePolicy (app_Spec a) = K1sDeletePolicyOrphan"
| "orphaned (OInference i) \<longleftrightarrow> inf_DeletePolicy (inf_Spec i) = K1sDeletePolicyOrphan"
| "orphaned _ \<longleftrightarrow> False"

text \<open>Where a pass deletes, and where what it applies would have to be deleted.\<close>

fun delete_target :: "kobject \<Rightarrow> string" where
  "delete_target (OApp a) = app_delete_endpoint a"
| "delete_target (OInference i) = inference_delete_endpoint i"
| "delete_target _ = []"

fun made_target :: "kobject \<Rightarrow> string" where
  "made_target (OApp a) = ''/delete/'' @ PathEscape (appNameFromManifest (app_Manifest (app_Spec a))) @ ''?purge=1''"
| "made_target (OInference i) = inference_delete_endpoint i"
| "made_target _ = []"

definition after_pass :: "kobject \<Rightarrow> event list \<Rightarrow> custody \<Rightarrow> custody" where
  "after_pass obj = custody_after obj (made_target obj) (delete_target obj)
     (\<lambda>del. \<exists>api. confirmed api (delete_target obj) del)"

lemma confirmed_posts: "confirmed api ep del \<Longrightarrow> list_ex posts del"
proof -
  assume "confirmed api ep del"
  then obtain q a where "EHTTP q a \<in> set del" and "hq_Method q = ''POST''"
    unfolding confirmed_def by blast
  moreover from this(2) have "posts (EHTTP q a)" by (simp add: posts_def)
  ultimately show ?thesis unfolding list_ex_iff by blast
qed

lemma custody_same [simp]: "\<lparr>guarded = guarded s, remote = remote s\<rparr> = s"
  by (cases s) simp

lemma pass_steps:
  assumes "lawful E" and "trace_of (capability_reconcile E obj) h = h @ new"
    and "\<not> orphaned obj" and "has_finalizer obj \<Longrightarrow> guarded s" and "remote s \<subseteq> {delete_target obj}"
  shows "custody_step\<^sup>*\<^sup>* s (after_pass obj new s)"
proof (cases obj)
  case (OApp a)
  have "app.life a new (result_of (reconcile_app E a) h)"
    using app.reconcile_life [OF assms(1), of a] assms(2)
    by (auto simp: OApp elim!: behavesE [where h = h])
  from app.pass_custody [OF this] assms(3-5) show ?thesis
    by (simp add: OApp after_pass_def confirmed_posts)
next
  case (OInference i)
  have "inference.life i new (result_of (reconcile_inference E i) h)"
    using inference.reconcile_life [OF assms(1), of i] assms(2)
    by (auto simp: OInference elim!: behavesE [where h = h])
  from inference.pass_custody [OF this] assms(3-5) show ?thesis
    by (simp add: OInference after_pass_def confirmed_posts)
qed (use assms(2,4) in \<open>simp_all add: after_pass_def custody_after_def\<close>)

text \<open>
  C2: a pass over an app or an inference endpoint whose delete policy is not Orphan keeps the contract of
  the finalizer, whatever the API and the k1s controller answer: if the object it was handed shows the finalizer only while the
  stored object has it, and nothing is left over from another name, then what the pass does is a
  sequence of steps that make and remove things in the k1s cluster only under the finalizer, and take
  the finalizer off only when nothing is left. (Under the policy Orphan the finalizer comes off without a
  deletion, as it is meant to.)
\<close>

theorem pass_refines_custody:
  assumes "lawful E" and "trace_of (capability_reconcile E obj) h = h @ new"
    and "\<not> orphaned obj" and "has_finalizer obj \<Longrightarrow> guarded s" and "remote s \<subseteq> {delete_target obj}"
  shows "custody_step\<^sup>*\<^sup>* s (after_pass obj new s)"
  using assms by (rule pass_steps)

text \<open>The life of an object: it is created without the finalizer, and pass follows pass. What happens in
  between is anything but a removal of the finalizer; the name of what it applies stays the same, and
  its policy is not Orphan. A pass may be handed an old version of the object, as long as the finalizer
  in it has not been taken off since.\<close>

inductive life_of :: "string \<Rightarrow> custody \<Rightarrow> bool" for target :: string where
  born: "life_of target \<lparr>guarded = False, remote = {}\<rparr>"
| passed: "life_of target s \<Longrightarrow> lawful E \<Longrightarrow> \<not> orphaned obj \<Longrightarrow> made_target obj = target \<Longrightarrow>
    delete_target obj = target \<Longrightarrow> (has_finalizer obj \<Longrightarrow> guarded s) \<Longrightarrow>
    trace_of (capability_reconcile E obj) h = h @ new \<Longrightarrow> life_of target (after_pass obj new s)"

lemma after_pass_remote: "remote (after_pass obj new s) \<subseteq> insert (made_target obj) (remote s)"
  by (auto simp: after_pass_def custody_after_def)

text \<open>
  C1: nothing is left behind. After any number of passes over an app or an inference endpoint, however
  they end, whatever may still exist in the k1s cluster because of it is still guarded by the finalizer,
  so Kubernetes cannot forget the object before it is cleaned up. The name under which it is applied
  stays the same in this life, and the policy is never Orphan.
\<close>

theorem nothing_left_behind:
  assumes "life_of target s"
  shows "remote s \<subseteq> {target} \<and> (remote s = {} \<or> guarded s)"
  using assms
proof (induction rule: life_of.induct)
  case (passed s E obj h new)
  have "custody_step\<^sup>*\<^sup>* s (after_pass obj new s)"
    using passed by (intro pass_steps) auto
  then have "kept (after_pass obj new s)"
    by (rule custody_steps_kept) (use passed in \<open>auto simp: kept_def\<close>)
  then show ?case
    using passed after_pass_remote [of obj new s] by (auto simp: kept_def)
qed simp

section \<open>Examples\<close>

text \<open>The app of the example is applied under the name \<open>w\<close>.\<close>

lemma new_app_pass:
  "behaves (reconcile_app (example_world (OApp new_app)) new_app)
     (\<lambda>new _. list_ex posts new \<and> (\<forall>e\<in>set new. e \<in> set example_reads \<or> applies (OApp new_app) example_client e))"
proof -
  let ?E = "example_world (OApp new_app)"
  have meta: "app_Manifest (app_Spec new_app) = example_manifest" "lastAppliedHash (OApp new_app) = []"
      "app_ClusterRef (app_Spec new_app) = example_ref" "DeletionTimestamp (app_Meta new_app) = None"
      "Finalizers (app_Meta new_app) = [capabilityFinalizer]"
    by (simp_all add: example_app_def lastAppliedHash_def)
  have applying: "behaves (apply_manifest ?E (OApp new_app) example_client example_manifest True)
      (\<lambda>new r. r = ((None, None), None) \<and> list_ex posts new)"
    by (rule behavesI) (auto simp: run_apply_manifest_example example_manifest_simps example_applied_def
        posts_def example_apply_def)
  have report: "behaves (app_report ?E new_app example_client example_cluster example_manifest True None (None, None))
      (\<lambda>_ _. True)"
    by (rule behaves_mono [OF app_report_spec]) simp_all
  have posts: "behaves (app_sync ?E new_app example_client example_cluster) (\<lambda>new _. list_ex posts new)"
    by (simp add: app_sync_def app_resync_def meta example_manifest_simps app_look_def hash_not_empty [symmetric],
        rule behaves_bind [OF applying], simp)
      (rule behaves_mono [OF report], simp)
  have writer: "behaves (writeClient ?E (Namespace (app_Meta new_app)) example_ref)
      (\<lambda>new r. new = example_reads \<and> r = Inr (example_client, example_cluster))"
    by (rule behavesI) (simp add: run_writeClient_example)
  show ?thesis
    unfolding reconcile_app_def meta
    by (rule behaves_bind [OF writer], simp add: containsString_def,
        rule behaves_mono [OF behaves_conj [OF posts app_sync_spec]])
      (auto intro: app_sync_applies)
qed

lemma new_app_simps [simp]:
  "\<not> being_deleted (OApp new_app)" "has_finalizer (OApp new_app)" "\<not> orphaned (OApp new_app)"
  "made_target (OApp new_app) = ''/delete/w?purge=1''" "delete_target (OApp deleted_app) = ''/delete/web?purge=1''"
proof -
  show "\<not> being_deleted (OApp new_app)" "has_finalizer (OApp new_app)" "\<not> orphaned (OApp new_app)"
    by (simp_all add: being_deleted_def has_finalizer_def containsString_def example_app_def)
  show "made_target (OApp new_app) = ''/delete/w?purge=1''" "delete_target (OApp deleted_app) = ''/delete/web?purge=1''"
    by code_simp+
qed

text \<open>A change of the name in the manifest leaves what was applied under the old name behind: a pass
  applies \<open>w\<close>, and when the app, which is called \<open>web\<close> by then, is deleted, the finalizer comes off with
  \<open>w\<close> still in place.\<close>

lemma renamed_app_leaks:
  "\<exists>new1 new2.
     trace_of (reconcile_app (example_world (OApp new_app)) new_app) [] = [] @ new1 \<and>
     trace_of (reconcile_app (example_world (OApp deleted_app)) deleted_app) [] = [] @ new2 \<and>
     after_pass (OApp deleted_app) new2 (after_pass (OApp new_app) new1 \<lparr>guarded = True, remote = {}\<rparr>) =
       \<lparr>guarded = False, remote = {''/delete/w?purge=1''}\<rparr>"
proof -
  have old: "\<forall>e\<in>set example_reads. \<not> is_kube_write e"
    by (simp add: example_reads_def)
  obtain new1 where run1: "trace_of (reconcile_app (example_world (OApp new_app)) new_app) [] = [] @ new1"
    and posted: "list_ex posts new1"
    and kept: "\<forall>e\<in>set new1. e \<in> set example_reads \<or> applies (OApp new_app) example_client e"
    by (rule behavesE [OF new_app_pass, of "[]"]) blast
  have "guard_after new1 True"
    by (subst guard_after_keeps) (use kept old in \<open>force simp: applies_def\<close>, simp)
  with posted have first: "after_pass (OApp new_app) new1 \<lparr>guarded = True, remote = {}\<rparr> =
      \<lparr>guarded = True, remote = {''/delete/w?purge=1''}\<rparr>"
    by (simp add: after_pass_def custody_after_def del: made_target.simps delete_target.simps)
  let ?post = "EHTTP (request_for example_client ''POST''
      (client_url example_client (app_delete_endpoint deleted_app)) (Some ''{}'')) (Inr sample_leader)"
  let ?fin = "[EGet CachedClient KindApp (ObjectKeyFromObject (OApp deleted_app)) (Inr (OApp deleted_app)),
      EPatch (OApp deleted_app) (update_meta (\<lambda>m. m\<lparr>Finalizers := []\<rparr>) (OApp deleted_app)) None]"
  have run2: "trace_of (reconcile_app (example_world (OApp deleted_app)) deleted_app) [] =
      [] @ (example_reads @ ?post # ?fin)"
    by (simp add: run_delete_example)
  have "guard_after (example_reads @ ?post # ?fin) True = False"
    using old by (simp add: guard_after_append no_patch_keeps has_finalizer_def containsString_def example_app_def)
  moreover have "being_deleted (OApp deleted_app)"
    by (simp add: being_deleted_def example_app_def)
  ultimately have "after_pass (OApp deleted_app) (example_reads @ ?post # ?fin)
      \<lparr>guarded = True, remote = {''/delete/w?purge=1''}\<rparr> = \<lparr>guarded = False, remote = {''/delete/w?purge=1''}\<rparr>"
    by (simp add: after_pass_def custody_after_def del: made_target.simps delete_target.simps)
  with run1 run2 first show ?thesis by metis
qed

text \<open>The life of an inference endpoint in two passes: the finalizer is put on, and, once the endpoint is
  being deleted, taken off after the deletion of its cell.\<close>

abbreviation fresh_endpoint :: K1sInferenceEndpoint where
  "fresh_endpoint \<equiv> example_endpoint [] None"

abbreviation example_target :: string where
  "example_target \<equiv> ''/inference/delete/cells/llm?namespace=team''"

lemma example_endpoint_simps [simp]:
  "made_target (OInference (example_endpoint fs del)) = example_target"
  "delete_target (OInference (example_endpoint fs del)) = example_target"
  "\<not> orphaned (OInference (example_endpoint fs del))"
proof -
  have "inference_delete_endpoint (example_endpoint fs del) = inference_delete_endpoint deleted_endpoint"
    by (simp add: inference_delete_endpoint_def example_endpoint_def)
  then show "made_target (OInference (example_endpoint fs del)) = example_target"
    and "delete_target (OInference (example_endpoint fs del)) = example_target"
    by (simp_all add: delete_endpoint_example)
qed (simp add: example_endpoint_def)

lemma fresh_endpoint_pass:
  "\<exists>cur. trace_of (reconcile_inference (example_world (OInference fresh_endpoint)) fresh_endpoint) [] =
     [] @ (example_reads @ [cur, EPatch (OInference fresh_endpoint)
       (update_meta (\<lambda>m. m\<lparr>Finalizers := [capabilityFinalizer]\<rparr>) (OInference fresh_endpoint)) None]) \<and>
     \<not> is_kube_write cur \<and> \<not> is_http cur"
proof -
  have meta: "DeletionTimestamp (inf_Meta fresh_endpoint) = None" "Finalizers (inf_Meta fresh_endpoint) = []"
      "inf_ClusterRef (inf_Spec fresh_endpoint) = example_ref"
    by (simp_all add: example_endpoint_def)
  show ?thesis
    by (simp add: reconcile_inference_def run_writeClient_example meta containsString_def add_finalizer_def
        run_patchFinalizers_example)
qed

theorem pass_refines_custody_witness:
  "\<exists>new. trace_of (capability_reconcile (example_world (OInference deleted_endpoint)) (OInference deleted_endpoint)) [] =
       [] @ new \<and>
     custody_step\<^sup>*\<^sup>* \<lparr>guarded = True, remote = {example_target}\<rparr>
       (after_pass (OInference deleted_endpoint) new \<lparr>guarded = True, remote = {example_target}\<rparr>)"
proof -
  let ?m = "capability_reconcile (example_world (OInference deleted_endpoint)) (OInference deleted_endpoint)"
  obtain new where run: "trace_of ?m [] = [] @ new"
    by (simp add: run_inference_delete_example)
  have "custody_step\<^sup>*\<^sup>* \<lparr>guarded = True, remote = {example_target}\<rparr>
      (after_pass (OInference deleted_endpoint) new \<lparr>guarded = True, remote = {example_target}\<rparr>)"
    using example_endpoint_simps [of "[capabilityFinalizer]" "Some 5"]
    by (intro pass_refines_custody [OF _ run]) (simp_all del: delete_target.simps orphaned.simps)
  with run show ?thesis by blast
qed

theorem nothing_left_behind_witness:
  "\<exists>s. life_of example_target s \<and> \<not> guarded s \<and> remote s = {}"
proof -
  have reads: "\<forall>e\<in>set example_reads. \<not> is_kube_write e"
    by (simp add: example_reads_def)
  have meta: "Finalizers (inf_Meta fresh_endpoint) = []" "Finalizers (inf_Meta deleted_endpoint) = [capabilityFinalizer]"
    by (simp_all add: example_endpoint_def)
  have fin: "has_finalizer (OInference deleted_endpoint)" "\<not> has_finalizer (OInference fresh_endpoint)"
    by (simp_all add: has_finalizer_def meta containsString_def)
  let ?on = "EPatch (OInference fresh_endpoint)
      (update_meta (\<lambda>m. m\<lparr>Finalizers := [capabilityFinalizer]\<rparr>) (OInference fresh_endpoint)) None"
  obtain cur where run: "trace_of (reconcile_inference (example_world (OInference fresh_endpoint)) fresh_endpoint) [] =
      [] @ (example_reads @ [cur, ?on])" and cur: "\<not> is_kube_write cur"
    using fresh_endpoint_pass by blast
  define new1 where "new1 = example_reads @ [cur, ?on]"
  have run1: "trace_of (capability_reconcile (example_world (OInference fresh_endpoint))
      (OInference fresh_endpoint)) [] = [] @ new1"
    using run by (simp only: capability_reconcile.simps new1_def)
  have "guard_after (cur # es) b = guard_after es b" for es b
    using cur by (cases cur) simp_all
  then have on: "guard_after new1 False"
    by (simp add: new1_def guard_after_append no_patch_keeps [OF reads] has_finalizer_def containsString_def meta)
  define s1 where "s1 = after_pass (OInference fresh_endpoint) new1 \<lparr>guarded = False, remote = {}\<rparr>"
  have life1: "life_of example_target s1"
    unfolding s1_def by (rule life_of.passed [OF life_of.born _ _ _ _ _ run1])
      (simp_all add: fin del: made_target.simps delete_target.simps orphaned.simps)
  have guarded1: "guarded s1"
    using on by (simp add: s1_def after_pass_def custody_after_def)
  obtain new2 where run2: "trace_of (capability_reconcile (example_world (OInference deleted_endpoint))
      (OInference deleted_endpoint)) [] = [] @ new2" and off: "\<not> guard_after new2 True"
    by (simp add: run_inference_delete_example)
      (simp add: guard_after_append no_patch_keeps [OF reads] has_finalizer_def containsString_def meta)
  define s2 where "s2 = after_pass (OInference deleted_endpoint) new2 s1"
  have "life_of example_target s2"
    unfolding s2_def by (rule life_of.passed [OF life1 _ _ _ _ _ run2])
      (simp_all add: guarded1 del: made_target.simps delete_target.simps orphaned.simps)
  moreover have "\<not> guarded s2"
    using off guarded1 by (simp add: s2_def after_pass_def custody_after_def)
  ultimately show ?thesis
    using nothing_left_behind [of example_target s2] by blast
qed

end
