(* ===== verification/SetLifecycle.thy ===== *)
theory SetLifecycle
  imports Lifecycle ResourceSet
begin

text \<open>
  Many passes over one resource set: what may exist in the k1s cluster because of it, against what
  its status lists as managed. The list is what the clean-up goes by, so everything that exists has
  to be on it. The reconciler keeps this as long as a pass that applies manifests gets to write its
  status; a pass that stops half way does not (src/internal/controller/capability_controller.go:407),
  and \<open>half_applied_set_leaks\<close> is a run in which what it applied is never deleted.
\<close>

section \<open>The managed list of a status that is written\<close>

abbreviation listed :: "K1sResourceSet \<Rightarrow> K1sManagedResourceStatus list" where
  "listed x \<equiv> rss_ManagedResources (rs_Status x)"

text \<open>A status that is written keeps the list, or lists what the manifests name; then, under \<open>prune\<close>,
  the deletion of everything else on the list was confirmed before.\<close>

definition lists_kept :: "K1sResourceSet \<Rightarrow> K1sResourceSetStatus \<Rightarrow> bool" where
  "lists_kept x s \<longleftrightarrow> rss_ManagedResources s = listed x"

definition lists_wanted ::
  "K1sResourceSet \<Rightarrow> event list \<Rightarrow> K1sManagedResourceStatus list \<Rightarrow> bool" where
  "lists_wanted x new d \<longleftrightarrow> rset_wants x d \<and>
     (rs_Prune (rs_Spec x) \<longrightarrow> (\<exists>api. managed_gone api (unwanted (listed x) d) new))"

definition keeps_list :: "K1sResourceSet \<Rightarrow> event list \<Rightarrow> event \<Rightarrow> bool" where
  "keeps_list x new e \<longleftrightarrow> writes_status put_rset_status
     (\<lambda>s. lists_kept x s \<or> lists_wanted x new (rss_ManagedResources s)) e"

lemma writes_status_mono: "writes_status put P e \<Longrightarrow> (\<And>s. P s \<Longrightarrow> Q s) \<Longrightarrow> writes_status put Q e"
  by (auto simp: writes_status_def split: event.splits)

lemma keeps_list_kept: "writes_status put_rset_status (lists_kept x) e \<Longrightarrow> keeps_list x new e"
  unfolding keeps_list_def by (erule writes_status_mono) simp

lemma keeps_list_append:
  assumes "keeps_list x new e"
  shows "keeps_list x (xs @ new) e" and "keeps_list x (new @ ys) e"
  using assms unfolding keeps_list_def lists_wanted_def
  by (auto elim!: writes_status_mono intro: managed_gone_append)

lemma no_status_keeps: "\<not> is_kube_write e \<Longrightarrow> keeps_list x new e"
  by (cases e) (simp_all add: keeps_list_def writes_status_def)

lemma object_patch_keeps: "object_patch.patch_event obj M e \<Longrightarrow> keeps_list x new e"
  by (auto simp: object_patch_event keeps_list_def writes_status_def split: event.splits)

text \<open>The reports outside a synchronisation decide one condition of the status that was read.\<close>

lemma one_decision_kept:
  assumes "lawful E" and "rss_ManagedResources s = listed x"
  shows "behaves (do {
       status \<leftarrow> set_rset_condition E x t st reason msg s;
       err \<leftarrow> patch_rset_status E x status;
       State_Monad.return (g err)
     }) (\<lambda>new _. \<forall>e\<in>set new. writes_status put_rset_status (lists_kept x) e)"
proof (rule rset_condition_step [OF assms(1)], rule rset_says.patch_step [OF assms(1)],
    rule behaves_return, goal_cases)
  case (1 n1 s' n2 err)
  then have "lists_kept x s'"
    using assms(2) by (auto simp: lists_kept_def)
  with 1 show ?case
    using only_clock_observes [of n1]
    by (auto intro: patch_writes_status observes_writes_status)
qed

lemma stops_keep_list:
  assumes "lawful E"
  shows "behaves (rset_no_client E x e) (\<lambda>new _. \<forall>z\<in>set new. keeps_list x new z)"
    and "behaves (rset_delete_failed E x e) (\<lambda>new _. \<forall>z\<in>set new. keeps_list x new z)"
  unfolding rset_no_client_def rset_delete_failed_def
  by (rule behaves_mono [OF one_decision_kept [OF assms]];
      auto simp: rset_observed_def intro: keeps_list_kept)+

section \<open>A synchronisation\<close>

lemma requests_no_write:
  "delete_request api ms e \<Longrightarrow> \<not> is_kube_write e" "apply_request E api raws e \<Longrightarrow> \<not> is_kube_write e"
  using request_traffic traffic_no_write by blast+

lemma rset_work_pruned:
  "behaves (rset_work E x api desired sh scanErr)
    (\<lambda>new r. (\<forall>e\<in>set new. \<not> is_kube_write e) \<and>
       (snd r = None \<longrightarrow> scanErr = None \<and> fst r = of_nat (length (rs_Manifests (rs_Spec x))) \<and>
         (rs_Prune (rs_Spec x) \<longrightarrow> managed_gone api (unwanted (listed x) desired) new)))"
proof -
  let ?prune = "if scanErr = None \<and> rs_Prune (rs_Spec x)
    then pruneManagedResources E api (listed x) desired else State_Monad.return scanErr"
  have prune: "behaves ?prune (\<lambda>new r. (\<forall>e\<in>set new. \<not> is_kube_write e) \<and> (r = None \<longrightarrow> scanErr = None \<and>
      (rs_Prune (rs_Spec x) \<longrightarrow> managed_gone api (unwanted (listed x) desired) new)))"
    by (rule behaves_if, rule behaves_mono [OF pruneManagedResources_spec])
      (auto intro: behaves_return dest: requests_no_write)
  have applying: "behaves (apply_manifests E api sh (rs_Manifests (rs_Spec x)) 0)
      (\<lambda>new r. (\<forall>e\<in>set new. \<not> is_kube_write e) \<and>
         (snd r = None \<longrightarrow> fst r = of_nat (length (rs_Manifests (rs_Spec x)))))"
    by (rule behaves_mono [OF apply_manifests_spec]) (auto dest: requests_no_write)
  show ?thesis
    unfolding rset_work_def
  proof (rule behaves_bind [OF prune], rule behaves_case_option, goal_cases)
    case (1 n1 err)
    then show ?case
      by (intro behaves_mono [OF applying]) (auto intro: managed_gone_append)
  next
    case (2 n1 err e)
    then show ?case by (intro behaves_return) simp
  qed
qed

lemma status_bad_kept: "rset_status_bad x s \<Longrightarrow> lists_kept x s"
  by (simp add: rset_status_bad_def lists_kept_def)

lemma rset_apply_keeps_list:
  assumes "lawful E"
  shows "behaves (rset_apply E x api cluster allowed) (\<lambda>new _. \<forall>e\<in>set new. keeps_list x new e)"
proof -
  let ?ms = "rs_Manifests (rs_Spec x)"
  obtain raws desired scanErr where scan: "scan_manifests allowed ?ms = (raws, desired, scanErr)"
    by (metis prod_cases3)
  let ?sh = "scanErr = None \<and> lastAppliedHash (OResourceSet x) \<noteq> hashManifestSet raws"
  have wants: "rset_wants x desired" if "scanErr = None"
    using scan_manifests_accepts [of allowed ?ms raws desired] scan that by (auto simp: rset_wants_def)
  show ?thesis
    unfolding rset_apply_def scan prod.case Let_def
  proof (rule behaves_bind [OF rset_work_pruned], goal_cases)
    case (1 n1 d)
    then have n1: "\<forall>e\<in>set n1. keeps_list x n e" for n
      by (auto intro: no_status_keeps)
    have good: "lists_wanted x n1 (rss_ManagedResources s)" if "snd d = None" "rset_status_good x s" for s
    proof -
      have "scanErr = None" using 1 that by blast
      then have "map Inr desired = (map Inr (rss_ManagedResources s) ::
          (go_error + K1sManagedResourceStatus) list)"
        using that(2) wants by (simp add: rset_status_good_def rset_wants_def)
      then have "rss_ManagedResources s = desired"
        by (metis inj_map_eq_map sum.inject(2) injI)
      then show ?thesis
        using 1 that(1) wants \<open>scanErr = None\<close> by (auto simp: lists_wanted_def)
    qed
    have hash: "behaves (if snd d = None \<and> ?sh
        then patchLastAppliedHash E (OResourceSet x) (hashManifestSet raws) else State_Monad.return None)
        (\<lambda>new _. \<forall>e\<in>set new. \<forall>n. keeps_list x n e)"
      by (rule behaves_if, rule behaves_mono [OF patchLastAppliedHash_spec [OF assms]])
        (auto intro: object_patch_keeps behaves_return)
    have "map Inr desired = map managedResourceFromManifest ?ms \<or> snd d \<noteq> None"
      "snd d = None \<Longrightarrow> fst d = of_nat (length ?ms)"
      using 1 wants by (auto simp: rset_wants_def)
    note rep = rset_report_spec [OF assms this]
    have report: "behaves (rset_report E x cluster desired ?sh d)
        (\<lambda>new _. \<forall>e\<in>set new. keeps_list x n1 e)"
      by (rule behaves_mono [OF rep])
        (auto simp: keeps_list_def elim!: writes_status_mono split: if_splits
          dest: good status_bad_kept)
    show ?case
    proof (rule behaves_bind [OF hash], rule behaves_case_option, goal_cases)
      case (1 n2 p)
      then show ?case
        by (intro behaves_mono [OF report]) (auto intro: n1 [rule_format] keeps_list_append)
    next
      case (2 n2 p e)
      then show ?case by (intro behaves_return) (auto intro: n1 [rule_format])
    qed
  qed
qed

lemma rset_sync_keeps_list:
  assumes "lawful E"
  shows "behaves (rset_sync E kinds x api cluster) (\<lambda>new _. \<forall>e\<in>set new. keeps_list x new e)"
  unfolding rset_sync_def
  by (rule behaves_case_sum, rule behaves_mono [OF rset_denied_spec [OF assms]])
    (auto intro!: rset_apply_keeps_list [OF assms] keeps_list_kept elim!: writes_status_mono
      dest: status_bad_kept)

lemma rset_pass_keeps_list:
  assumes "lawful E"
  shows "behaves (reconcile_rset E kinds x) (\<lambda>new _. \<forall>e\<in>set new. keeps_list x new e)"
proof -
  have start: "\<forall>e\<in>set n1. keeps_list x n e" if "writer_ok n1 w" for n1 w n
    using that by (auto simp: writer_ok_def intro: no_status_keeps)
  have fin: "behaves (patchFinalizers E (OResourceSet x) fs) (\<lambda>new _. \<forall>e\<in>set new. \<forall>n. keeps_list x n e)" for fs
    by (rule behaves_mono [OF patchFinalizers_spec [OF assms]]) (auto intro: object_patch_keeps)
  have fins: "behaves (remove_finalizer E (OResourceSet x)) (\<lambda>new _. \<forall>e\<in>set new. \<forall>n. keeps_list x n e)"
    "behaves (add_finalizer E (OResourceSet x)) (\<lambda>new _. \<forall>e\<in>set new. \<forall>n. keeps_list x n e)"
    unfolding remove_finalizer_def add_finalizer_def by (auto intro!: behaves_bind [OF fin] behaves_return)
  have del: "behaves (rset_delete_remote E x api) (\<lambda>new _. \<forall>e\<in>set new. \<forall>n. keeps_list x n e)" for api
    by (rule behaves_mono [OF rset_delete_remote_spec]) (auto intro: no_status_keeps dest: traffic_no_write)
  have deleting: "behaves (do {
         failure \<leftarrow> rset_delete_remote E x api;
         case failure of Some e \<Rightarrow> rset_delete_failed E x e | None \<Rightarrow> remove_finalizer E (OResourceSet x) })
      (\<lambda>new _. \<forall>e\<in>set new. keeps_list x new e)" for api
    by (rule behaves_bind [OF del], rule behaves_case_option; rule behaves_mono,
        (rule fins stops_keep_list [OF assms])+) (auto intro: keeps_list_append)
  have later: "behaves m (\<lambda>new _. \<forall>e\<in>set (n1 @ new). keeps_list x (n1 @ new) e)"
    if "behaves m (\<lambda>new _. \<forall>e\<in>set new. keeps_list x new e)" "writer_ok n1 w" for m :: "outcome io" and n1 w
    by (rule behaves_mono [OF that(1)]) (use start [OF that(2)] in \<open>auto intro: keeps_list_append\<close>)
  show ?thesis
    unfolding rset.reconcile_is [of E kinds x]
    by (rule behaves_bind [OF writeClient_spec], rule later)
      (auto intro!: behaves_case_sum behaves_case_prod behaves_if behaves_return deleting
        rset_sync_keeps_list [OF assms] stops_keep_list [OF assms]
        behaves_mono [OF fins(1)] behaves_mono [OF fins(2)])
qed

section \<open>What a pass does to the list and to what exists\<close>

record set_custody =
  set_guarded :: bool
  set_listed :: "K1sManagedResourceStatus list"
  set_remote :: "string set"

definition resource_keys :: "K1sManagedResourceStatus list \<Rightarrow> string set" where
  "resource_keys ms = managedResourceKey ` set ms"

text \<open>A merge patch carries what it changes.\<close>

fun listed_step :: "event \<Rightarrow> K1sManagedResourceStatus list \<Rightarrow> K1sManagedResourceStatus list" where
  "listed_step (EStatusPatch (OResourceSet c) (OResourceSet y) None) l =
     (if listed y = listed c then l else listed y)"
| "listed_step _ l = l"

definition listed_after ::
  "event list \<Rightarrow> K1sManagedResourceStatus list \<Rightarrow> K1sManagedResourceStatus list" where
  "listed_after es l = fold listed_step es l"

text \<open>A request that applies one of the manifests may make what any of them names; a resource of the
  list is gone when its deletion was confirmed.\<close>

definition applying :: "K1sResourceSet \<Rightarrow> event list \<Rightarrow> bool" where
  "applying x new \<longleftrightarrow> (\<exists>e\<in>set new. is_http e \<and> (\<exists>E api. apply_request E api (rs_Manifests (rs_Spec x)) e))"

definition made_keys :: "K1sResourceSet \<Rightarrow> string set" where
  "made_keys x = {managedResourceKey ref |ref raw. raw \<in> set (rs_Manifests (rs_Spec x)) \<and>
     managedResourceFromManifest raw = Inr ref}"

definition gone_keys :: "K1sResourceSet \<Rightarrow> event list \<Rightarrow> string set" where
  "gone_keys x new = {managedResourceKey m |m. m \<in> set (listed x) \<and> (\<exists>api. managed_gone api [m] new)}"

definition set_after :: "K1sResourceSet \<Rightarrow> event list \<Rightarrow> set_custody \<Rightarrow> set_custody" where
  "set_after x new s =
     \<lparr>set_guarded = guard_after new (set_guarded s),
      set_listed = listed_after new (set_listed s),
      set_remote = (set_remote s - gone_keys x new) \<union>
        (if \<not> being_deleted (OResourceSet x) \<and> applying x new then made_keys x else {})\<rparr>"

text \<open>The pass read the list that is stored, and when it applied anything, a status that lists what the
  manifests name was accepted.\<close>

definition reads_current :: "K1sResourceSet \<Rightarrow> event list \<Rightarrow> set_custody \<Rightarrow> bool" where
  "reads_current x new s \<longleftrightarrow> listed x = set_listed s \<and>
     (\<forall>cur y r. EStatusPatch cur y r \<in> set new \<longrightarrow> (\<exists>c. cur = OResourceSet c \<and> listed c = set_listed s))"

definition accounted :: "K1sResourceSet \<Rightarrow> event list \<Rightarrow> bool" where
  "accounted x new \<longleftrightarrow> (applying x new \<longrightarrow>
     (\<exists>cur y. EStatusPatch cur (OResourceSet y) None \<in> set new \<and> rset_wants x (listed y)))"

lemma made_keys_wanted: "rset_wants x d \<Longrightarrow> made_keys x = resource_keys d"
proof -
  assume w: "rset_wants x d"
  have "managedResourceFromManifest ` set (rs_Manifests (rs_Spec x)) = Inr ` set d"
    using w unfolding rset_wants_def by (metis list.set_map)
  then have "(\<exists>raw\<in>set (rs_Manifests (rs_Spec x)). managedResourceFromManifest raw = Inr ref) \<longleftrightarrow> ref \<in> set d" for ref
    by (metis (no_types, lifting) image_iff sum.inject(2))
  then have "{ref. \<exists>raw\<in>set (rs_Manifests (rs_Spec x)). managedResourceFromManifest raw = Inr ref} = set d"
    by blast
  moreover have "made_keys x = managedResourceKey `
      {ref. \<exists>raw\<in>set (rs_Manifests (rs_Spec x)). managedResourceFromManifest raw = Inr ref}"
    by (auto simp: made_keys_def)
  ultimately show ?thesis by (simp add: resource_keys_def)
qed

lemma gone_members:
  "managed_gone api ms new \<Longrightarrow> m \<in> set ms \<Longrightarrow> managed_gone api [m] new"
  by (simp add: managed_gone_def)

text \<open>The list stays, or becomes the wanted one.\<close>

lemma listed_step_cases:
  assumes "keeps_list x new e" and "\<And>cur y r. e = EStatusPatch cur y r \<Longrightarrow>
      \<exists>c. cur = OResourceSet c \<and> listed c = listed x"
  shows "listed_step e l = l \<or> lists_wanted x new (listed_step e l)"
  using assms
  by (cases "(e, l)" rule: listed_step.cases)
    (fastforce simp: keeps_list_def writes_status_def lists_kept_def lists_wanted_def)+

lemma listed_after_cases:
  assumes "\<forall>e\<in>set es. keeps_list x new e" and "\<forall>cur y r. EStatusPatch cur y r \<in> set es \<longrightarrow>
      (\<exists>c. cur = OResourceSet c \<and> listed c = listed x)"
  shows "listed_after es l = l \<or> lists_wanted x new (listed_after es l)"
  using assms
proof (induction es arbitrary: l)
  case (Cons e es)
  have "listed_step e l = l \<or> lists_wanted x new (listed_step e l)"
    by (rule listed_step_cases) (use Cons.prems in auto)
  moreover have "listed_after es (listed_step e l) = listed_step e l \<or>
      lists_wanted x new (listed_after es (listed_step e l))"
    by (rule Cons.IH) (use Cons.prems in auto)
  ultimately show ?case by (auto simp: listed_after_def)
qed (simp add: listed_after_def)

text \<open>Once a status with the wanted list was accepted, that is the list.\<close>

lemma listed_after_wanted:
  assumes "\<forall>e\<in>set es. keeps_list x new e" and "\<forall>cur y r. EStatusPatch cur y r \<in> set es \<longrightarrow>
      (\<exists>c. cur = OResourceSet c \<and> listed c = listed x)"
    and "l = listed x \<or> rset_wants x l"
    and "EStatusPatch cur (OResourceSet y) None \<in> set es" and "rset_wants x (listed y)"
  shows "rset_wants x (listed_after es l)"
proof -
  obtain as bs where es: "es = as @ EStatusPatch cur (OResourceSet y) None # bs"
    using assms(4) split_list by fast
  obtain c where c: "cur = OResourceSet c" "listed c = listed x"
    using assms(2,4) by blast
  have "listed_after as l = l \<or> rset_wants x (listed_after as l)"
    using listed_after_cases [of as x new l] assms(1,2) unfolding es lists_wanted_def by fastforce
  then have mid: "rset_wants x (listed_step (EStatusPatch cur (OResourceSet y) None) (listed_after as l))"
    using assms(3,5) c by auto
  have "listed_after bs m = m \<or> lists_wanted x new (listed_after bs m)" for m
    by (rule listed_after_cases) (use assms(1,2) es in auto)
  then show ?thesis
    using mid by (auto simp: es listed_after_def lists_wanted_def) metis
qed

section \<open>The finalizer\<close>

lemma guard_after_kept_or_on:
  "(\<And>cur y. EPatch cur y None \<in> set es \<Longrightarrow>
      Finalizers (meta_of y) = Finalizers (meta_of cur) \<or> has_finalizer y) \<Longrightarrow>
     guard_after es g \<in> {g, True}"
proof (induction es arbitrary: g)
  case (Cons e es)
  define g' where "g' = (case e of EPatch cur y None \<Rightarrow>
      if Finalizers (meta_of y) = Finalizers (meta_of cur) then g else has_finalizer y | _ \<Rightarrow> g)"
  have "g' \<in> {g, True}"
    using Cons.prems by (auto simp: g'_def split: event.splits option.splits)
  moreover have "guard_after es g' \<in> {g', True}"
    by (rule Cons.IH) (use Cons.prems in auto)
  ultimately show ?case by (auto simp: g'_def)
qed simp

context capability
begin

lemma guard_life:
  assumes "life new r" and "\<not> orphan"
  shows "guard_after new g \<in> {g, True} \<or>
    being_deleted obj \<and> (\<exists>api before del fin. new = before @ del @ fin \<and> gone api del)"
proof (rule disjCI)
  assume no: "\<not> (being_deleted obj \<and> (\<exists>api before del fin. new = before @ del @ fin \<and> gone api del))"
  obtain start w rest where new: "new = start @ rest" and w: "writer_ok start w" and ph: "phase w rest r"
    using assms(1) by (auto simp: life_def)
  have reads: "\<forall>e\<in>set start. \<not> is_kube_write e"
    using w by (simp add: writer_ok_def)
  have "Finalizers (meta_of y) = Finalizers (meta_of cur) \<or> has_finalizer y"
    if "EPatch cur y None \<in> set rest" for cur y
    using ph that
  proof (cases rule: phase_cases)
    case (3 api cluster del fin)
    then show ?thesis using no assms(2) new by blast
  qed (auto simp: reports_def applies_def dest: finalizer_on)
  then have "guard_after rest g \<in> {g, True}"
    by (rule guard_after_kept_or_on)
  then show "guard_after new g \<in> {g, True}"
    by (simp add: new guard_after_append no_patch_keeps [OF reads])
qed

end

section \<open>The life of a set\<close>

definition set_kept :: "set_custody \<Rightarrow> bool" where
  "set_kept s \<longleftrightarrow> set_remote s \<subseteq> resource_keys (set_listed s) \<and> (set_remote s = {} \<or> set_guarded s)"

lemma set_pass_kept:
  assumes "lawful E" and "rs_DeletePolicy (rs_Spec x) \<noteq> K1sDeletePolicyOrphan" and "rs_Prune (rs_Spec x)"
    and "has_finalizer (OResourceSet x) \<Longrightarrow> set_guarded s"
    and run: "run_state (reconcile_rset E kinds x) h = (r, h @ new)"
    and "reads_current x new s" and "accounted x new" and kept: "set_kept s"
  shows "set_kept (set_after x new s)"
proof -
  let ?s = "set_after x new s" and ?l = "listed x"
  have l: "set_listed s = ?l" and remote: "set_remote s \<subseteq> resource_keys ?l"
    and cur: "\<forall>cur y r. EStatusPatch cur y r \<in> set new \<longrightarrow>
      (\<exists>c. cur = OResourceSet c \<and> listed c = ?l)"
    using assms(6) kept by (auto simp: reads_current_def set_kept_def)
  have keeps: "\<forall>e\<in>set new. keeps_list x new e"
    by (rule behaves_run [OF rset_pass_keeps_list [OF assms(1)] run])
  have life: "rset.life x new r"
    by (rule behaves_run [OF rset.reconcile_life [OF assms(1)] run])
  have made: "applying x new \<Longrightarrow> rset_wants x (listed_after new ?l)"
    using assms(7) listed_after_wanted [OF keeps cur, where l = ?l] by (auto simp: accounted_def)
  have "set_remote ?s \<subseteq> resource_keys (set_listed ?s)"
  proof (cases "listed_after new ?l = ?l")
    case True
    then show ?thesis
      using remote made made_keys_wanted by (auto simp: set_after_def l)
  next
    case False
    then obtain api where d: "rset_wants x (listed_after new ?l)"
        and gone: "managed_gone api (unwanted ?l (listed_after new ?l)) new"
      using listed_after_cases [OF keeps cur, where l = ?l] assms(3) by (auto simp: lists_wanted_def)
    have "set_remote s - gone_keys x new \<subseteq> resource_keys (listed_after new ?l)"
    proof
      fix k assume k: "k \<in> set_remote s - gone_keys x new"
      then obtain m where m: "m \<in> set ?l" "k = managedResourceKey m"
        using remote by (auto simp: resource_keys_def)
      have "m \<notin> set (unwanted ?l (listed_after new ?l))"
        using gone_members [OF gone] k m by (auto simp: gone_keys_def)
      then show "k \<in> resource_keys (listed_after new ?l)"
        using m by (auto simp: unwanted_def resource_keys_def)
    qed
    then show ?thesis
      using made_keys_wanted [OF d] by (auto simp: set_after_def l)
  qed
  moreover have "set_remote ?s = {} \<or> set_guarded ?s"
  proof (cases "guard_after new (set_guarded s) \<in> {set_guarded s, True}")
    case False
    then obtain api before del fin where del: "being_deleted (OResourceSet x)" "new = before @ del @ fin"
        "managed_gone api ?l del"
      using rset.guard_life [OF life assms(2)] by blast
    then have "managed_gone api ?l new"
      by (simp add: managed_gone_append)
    then have "resource_keys ?l \<subseteq> gone_keys x new"
      using gone_members by (fastforce simp: gone_keys_def resource_keys_def)
    then show ?thesis
      using remote del(1) by (auto simp: set_after_def)
  next
    case True
    show ?thesis
    proof (cases "set_guarded s")
      case guarded: False
      have "\<not> is_http e" if "e \<in> set new" for e
        using rset.reconcile_safe(2) [OF assms(1) run that] guarded assms(4) by blast
      then have "\<not> applying x new" by (auto simp: applying_def)
      then show ?thesis using kept guarded by (simp add: set_after_def set_kept_def)
    qed (use True in \<open>simp add: set_after_def\<close>)
  qed
  ultimately show ?thesis by (simp add: set_kept_def)
qed

text \<open>The set is created without the finalizer, and pass follows pass, with any changes of the manifests in
  between. \<open>prune\<close> stays on and the policy is not Orphan; each pass reads the list that is stored, and
  one that applied anything had its status accepted.\<close>

inductive set_life :: "set_custody \<Rightarrow> bool" where
  born: "set_life \<lparr>set_guarded = False, set_listed = l, set_remote = {}\<rparr>"
| passed: "set_life s \<Longrightarrow> lawful E \<Longrightarrow> rs_DeletePolicy (rs_Spec x) \<noteq> K1sDeletePolicyOrphan \<Longrightarrow>
    rs_Prune (rs_Spec x) \<Longrightarrow> (has_finalizer (OResourceSet x) \<Longrightarrow> set_guarded s) \<Longrightarrow>
    run_state (reconcile_rset E kinds x) h = (r, h @ new) \<Longrightarrow> reads_current x new s \<Longrightarrow>
    accounted x new \<Longrightarrow> set_life (set_after x new s)"

text \<open>
  C3: a resource set can account for what it made. After any number of passes over a set with \<open>prune\<close>,
  each of which got to record what it applied, everything that may exist in the k1s cluster because of
  the set is on the managed list of its status, by which the clean-up goes, and is guarded by the
  finalizer. (\<open>half_applied_set_leaks\<close> is a run in which a pass stops half way.)
\<close>

theorem set_accounts_for_all:
  assumes "set_life s"
  shows "set_remote s \<subseteq> resource_keys (set_listed s) \<and> (set_remote s = {} \<or> set_guarded s)"
proof -
  have "set_kept s"
    using assms
  proof (induction rule: set_life.induct)
    case (passed s E x kinds h r new)
    then show ?case by (intro set_pass_kept) auto
  qed (simp add: set_kept_def)
  then show ?thesis by (simp add: set_kept_def)
qed

section \<open>Examples\<close>

text \<open>A set that lists \<open>old\<close> gets the finalizer, and then its manifest \<open>w\<close> is applied and \<open>old\<close> deleted.\<close>

abbreviation fresh_rset :: K1sResourceSet where
  "fresh_rset \<equiv> example_rset [] None"

lemma example_set_patch:
  "behaves (patch_rset_status (example_world (OResourceSet x)) x s) (\<lambda>new _. \<exists>g. \<not> is_kube_write g \<and>
     new = [g, EStatusPatch (OResourceSet x) (put_rset_status s (OResourceSet x)) None])"
  by (rule behavesI) (simp add: patch_rset_status_def run_patchStatus_example del: put_rset_status.simps)

lemma only_clock_no_write: "only_clock new \<Longrightarrow> \<forall>e\<in>set new. \<not> is_kube_write e"
  by (auto simp: only_clock_def) (metis is_kube_write.simps is_now.elims(2))

lemma example_set_report:
  "behaves (rset_report (example_world (OResourceSet x)) x cluster desired sh (n, err))
     (\<lambda>new _. \<exists>pre s. new = pre @ [EStatusPatch (OResourceSet x) (put_rset_status s (OResourceSet x)) None] \<and>
        (\<forall>e\<in>set pre. \<not> is_kube_write e))"
  unfolding rset_report_def Let_def snd_conv
proof (rule behaves_bind [OF Now_spec], goal_cases)
  case (1 n1 now)
  let ?E = "example_world (OResourceSet x)"
  have n1: "\<forall>e\<in>set n1. \<not> is_kube_write e" using 1 by simp
  have rest: "behaves (do {
      status \<leftarrow> set_rset_condition ?E x CondReady (conditionStatus (rss_Ready status))
        (reasonForBool (rss_Ready status)) (readyMessage (rss_Ready status)) status;
      err \<leftarrow> patch_rset_status ?E x status;
      State_Monad.return (f err) })
    (\<lambda>new _. \<exists>pre s. n0 @ new = pre @ [EStatusPatch (OResourceSet x) (put_rset_status s (OResourceSet x)) None] \<and>
        (\<forall>e\<in>set pre. \<not> is_kube_write e))"
    if "\<forall>e\<in>set n0. \<not> is_kube_write e" for status n0 and f :: "go_error option \<Rightarrow> Result \<times> go_error option"
  proof (rule rset_condition_step [OF example_world_lawful], rule behaves_bind [OF example_set_patch],
      rule behaves_return, goal_cases)
    case (1 n2 s n3 err)
    then obtain g where "\<not> is_kube_write g"
        "n3 = [g, EStatusPatch (OResourceSet x) (put_rset_status s (OResourceSet x)) None]" by blast
    then show ?case
      using that only_clock_no_write [of n2] 1(1)
      by (intro exI [of _ "n0 @ n2 @ [g]"] exI [of _ s]) auto
  qed
  have decide: "behaves (case err of
         Some firstErr \<Rightarrow> do {
           status \<leftarrow> set_rset_condition ?E x CondPolicyAllowed ConditionFalse ReasonDenied (m1 firstErr) s;
           set_rset_condition ?E x CondApplied ConditionFalse ReasonUnavailable (m1 firstErr) status }
       | None \<Rightarrow> do {
           status \<leftarrow> set_rset_condition ?E x CondPolicyAllowed ConditionTrue ReasonReady m2 s;
           set_rset_condition ?E x CondApplied ConditionTrue ReasonApplied m3 status })
      (\<lambda>new _. \<forall>e\<in>set new. \<not> is_kube_write e)" for s m1 m2 m3
    by (rule behaves_case_option; rule rset_condition_step [OF example_world_lawful],
        rule rset_condition_last [OF example_world_lawful]) (auto dest: only_clock_no_write)
  show ?case
    by (rule behaves_bind [OF decide], rule behaves_mono [OF rest])
      (use n1 in auto)
qed

lemma fresh_rset_pass:
  "run_state (reconcile_rset (example_world (OResourceSet fresh_rset)) kinds fresh_rset) [] =
     ((no_result\<lparr>res_Requeue := True\<rparr>, None), [] @ (example_reads @
       [EGet CachedClient KindResourceSet (ObjectKeyFromObject (OResourceSet fresh_rset))
          (Inr (OResourceSet fresh_rset)),
        EPatch (OResourceSet fresh_rset)
          (update_meta (\<lambda>m. m\<lparr>Finalizers := [capabilityFinalizer]\<rparr>) (OResourceSet fresh_rset)) None]))"
  by (simp add: reconcile_rset_def example_rset_simps run_writeClient_example containsString_def
      add_finalizer_def run_patchFinalizers_example)

definition wanted_ref :: K1sManagedResourceStatus where
  "wanted_ref = \<lparr>mr_Kind = ''Deployment'', mr_Namespace = ''default'', mr_Name = ''w'',
     mr_Hash = hashBytes example_manifest\<rparr>"

lemma new_rset_wants: "rset_wants (example_rset fs del) [wanted_ref]"
  by (simp add: rset_wants_def example_rset_simps managed_example wanted_ref_def)

lemma new_rset_pass:
  "\<exists>r pre y. run_state (reconcile_rset (example_world (OResourceSet new_rset)) [] new_rset) [] =
     (r, [] @ (example_reads @ [old_deletion, example_apply example_manifest,
        EGet CachedClient KindResourceSet (ObjectKeyFromObject (OResourceSet new_rset))
          (Inr (OResourceSet new_rset)), example_set_hash] @ pre @
        [EStatusPatch (OResourceSet new_rset) (OResourceSet y) None])) \<and>
     (\<forall>e\<in>set pre. \<not> is_kube_write e) \<and> listed y = [wanted_ref]"
proof -
  let ?E = "example_world (OResourceSet new_rset)"
  let ?work = "[old_deletion, example_apply example_manifest,
    EGet CachedClient KindResourceSet (ObjectKeyFromObject (OResourceSet new_rset))
      (Inr (OResourceSet new_rset)), example_set_hash]"
  let ?rep = "rset_report ?E new_rset example_cluster [wanted_ref] True (1, None)"
  have "behaves ?rep (\<lambda>new _. (\<forall>z\<in>set new. reports (OResourceSet new_rset) z) \<and>
      (\<forall>z\<in>set new. writes_status put_rset_status (rset_status_good new_rset) z))"
    using rset_report_spec [of ?E "[wanted_ref]" new_rset "(1, None)" example_cluster True]
    by (simp add: example_rset_simps managed_example wanted_ref_def)
  from behaves_conj [OF this example_set_report] obtain n pre s where
    rep: "trace_of ?rep (example_reads @ ?work) = (example_reads @ ?work) @ n"
      "n = pre @ [EStatusPatch (OResourceSet new_rset) (put_rset_status s (OResourceSet new_rset)) None]"
      "\<forall>e\<in>set pre. \<not> is_kube_write e"
    and good: "\<forall>z\<in>set n. writes_status put_rset_status (rset_status_good new_rset) z"
    by (rule behavesE [where h = "example_reads @ ?work"]) blast
  obtain s' where s': "put_rset_status s (OResourceSet new_rset) = put_rset_status s' (OResourceSet new_rset)"
      "rset_status_good new_rset s'"
    using good rep(2) by (auto simp: writes_status_def simp del: put_rset_status.simps)
  have "listed (new_rset\<lparr>rs_Status := s\<rparr>) = rss_ManagedResources s'"
    using s'(1) by (auto dest: arg_cong [where f = rs_Status])
  moreover have "map Inr (rss_ManagedResources s') = (map Inr [wanted_ref] :: (go_error + K1sManagedResourceStatus) list)"
    using s'(2) new_rset_wants by (simp add: rset_status_good_def rset_wants_def)
  ultimately have y: "listed (new_rset\<lparr>rs_Status := s\<rparr>) = [wanted_ref]"
    by (cases "rss_ManagedResources s'") auto
  have "trace_of (reconcile_rset ?E [] new_rset) [] = [] @ (example_reads @ ?work @ pre @
      [EStatusPatch (OResourceSet new_rset) (OResourceSet (new_rset\<lparr>rs_Status := s\<rparr>)) None])"
    using rep
    by (simp add: reconcile_rset_def example_rset_simps run_writeClient_example containsString_def
        rset_sync_def allowed_example rset_apply_def managed_example wanted_ref_def
        rset_work_def run_prune_example run_Apply_example example_manifest_simps
        hash_set_not_empty [symmetric] run_patchLastAppliedHash_example example_set_hash_def)
  with rep(3) y show ?thesis
    by (intro exI [of _ "result_of (reconcile_rset ?E [] new_rset) []"] exI [of _ pre]
        exI [of _ "new_rset\<lparr>rs_Status := s\<rparr>"]) (simp add: prod_eq_iff)
qed

lemma listed_after_other:
  "\<forall>cur y r. EStatusPatch cur y r \<notin> set es \<Longrightarrow> listed_after es l = l"
proof (induction es arbitrary: l)
  case (Cons e es)
  have "listed_step e l = l"
    by (cases "(e, l)" rule: listed_step.cases) (use Cons.prems in auto)
  then show ?case using Cons by (simp add: listed_after_def)
qed (simp add: listed_after_def)

lemma example_apply_request:
  "apply_request (example_world x) example_client [example_manifest] (example_apply example_manifest)"
  using behaves_run [OF Apply_request run_Apply_example [OF example_manifest_simps(3)]] by simp

theorem set_accounts_for_all_witness:
  "\<exists>s. set_life s \<and> set_guarded s \<and> set_remote s = {managedResourceKey wanted_ref} \<and>
     set_remote s \<subseteq> resource_keys (set_listed s)"
proof -
  let ?on = "EPatch (OResourceSet fresh_rset)
      (update_meta (\<lambda>m. m\<lparr>Finalizers := [capabilityFinalizer]\<rparr>) (OResourceSet fresh_rset)) None"
  let ?s0 = "\<lparr>set_guarded = False, set_listed = [old_resource], set_remote = {}\<rparr>"
  have reads: "\<forall>e\<in>set example_reads. \<not> is_kube_write e \<and> \<not> is_http e"
    by (simp add: example_reads_def)
  have fin: "\<not> has_finalizer (OResourceSet fresh_rset)" "has_finalizer (OResourceSet new_rset)"
      "\<not> being_deleted (OResourceSet new_rset)"
    by (simp_all add: has_finalizer_def being_deleted_def containsString_def example_rset_simps)
  define n1 where "n1 = example_reads @ [EGet CachedClient KindResourceSet
      (ObjectKeyFromObject (OResourceSet fresh_rset)) (Inr (OResourceSet fresh_rset)), ?on]"
  define s1 where "s1 = set_after fresh_rset n1 ?s0"
  have quiet: "\<not> applying fresh_rset n1" "\<forall>cur y r. EStatusPatch cur y r \<notin> set n1"
    using reads by (auto simp: applying_def n1_def)
  have s1: "s1 = \<lparr>set_guarded = True, set_listed = [old_resource], set_remote = {}\<rparr>"
    using quiet listed_after_other [OF quiet(2)] reads
    by (simp add: s1_def set_after_def)
      (simp add: n1_def guard_after_append no_patch_keeps has_finalizer_def containsString_def example_rset_simps)
  have life1: "set_life s1"
    unfolding s1_def
  proof (rule set_life.passed [OF set_life.born example_world_lawful])
    show "run_state (reconcile_rset (example_world (OResourceSet fresh_rset)) [] fresh_rset) [] =
        ((no_result\<lparr>res_Requeue := True\<rparr>, None), [] @ n1)"
      by (simp only: fresh_rset_pass n1_def)
    show "reads_current fresh_rset n1 ?s0" "accounted fresh_rset n1"
      using quiet by (simp_all add: reads_current_def accounted_def example_rset_simps)
  qed (use fin in \<open>simp_all add: example_rset_simps\<close>)
  obtain r pre y where run2: "run_state (reconcile_rset (example_world (OResourceSet new_rset)) [] new_rset) [] =
     (r, [] @ (example_reads @ [old_deletion, example_apply example_manifest,
        EGet CachedClient KindResourceSet (ObjectKeyFromObject (OResourceSet new_rset))
          (Inr (OResourceSet new_rset)), example_set_hash] @ pre @
        [EStatusPatch (OResourceSet new_rset) (OResourceSet y) None]))"
     and pre: "\<forall>e\<in>set pre. \<not> is_kube_write e" and y: "listed y = [wanted_ref]"
    using new_rset_pass by blast
  define n2 where "n2 = example_reads @ [old_deletion, example_apply example_manifest,
        EGet CachedClient KindResourceSet (ObjectKeyFromObject (OResourceSet new_rset))
          (Inr (OResourceSet new_rset)), example_set_hash] @ pre @
        [EStatusPatch (OResourceSet new_rset) (OResourceSet y) None]"
  have run: "run_state (reconcile_rset (example_world (OResourceSet new_rset)) [] new_rset) [] = (r, [] @ n2)"
    using run2 by (simp only: n2_def)
  have patches: "cur = OResourceSet new_rset" if "EStatusPatch cur z res \<in> set n2" for cur z res
    using that reads pre
    by (auto simp: n2_def old_deletion_def example_apply_def example_set_hash_def)
  have accepted: "EStatusPatch (OResourceSet new_rset) (OResourceSet y) None \<in> set n2"
      "example_apply example_manifest \<in> set n2"
    by (simp_all add: n2_def)
  have acc: "reads_current new_rset n2 s1"
    unfolding reads_current_def s1 using patches by (fastforce simp: example_rset_simps)
  have "accounted new_rset n2"
    unfolding accounted_def using accepted(1) y new_rset_wants by metis
  note acc = acc this
  define s2 where "s2 = set_after new_rset n2 s1"
  have life2: "set_life s2"
    unfolding s2_def
    by (rule set_life.passed [OF life1 example_world_lawful _ _ _ run acc]) (simp_all add: example_rset_simps s1)
  have "is_http (example_apply example_manifest)"
    by (simp add: example_apply_def)
  then have "applying new_rset n2"
    using accepted(2) example_apply_request unfolding applying_def example_rset_simps by blast
  then have remote: "set_remote s2 = {managedResourceKey wanted_ref}"
    using fin(3) made_keys_wanted [OF new_rset_wants, of "[capabilityFinalizer]" None]
    by (simp add: s2_def set_after_def s1 resource_keys_def)
  show ?thesis
    using life2 remote set_accounts_for_all [OF life2] by blast
qed

section \<open>A pass that stops half way\<close>

text \<open>The k1s controller accepts the first request and refuses all others.\<close>

definition refused :: http_response where
  "refused = \<lparr>hr_StatusCode = 500, hr_Body = []\<rparr>"

definition half_world :: "kobject \<Rightarrow> env" where
  "half_world x = (example_world x)
     \<lparr>e_http := \<lambda>h _. Inr (if list_ex is_http h then refused else sample_leader)\<rparr>"

definition other_manifest :: bytes where
  "other_manifest = ''{'' @ json_string_field ''kind'' ''Deployment'' @ '','' @
     [CHR 0x22] @ ''metadata'' @ [CHR 0x22] @ '':{'' @ json_string_field ''name'' ''v'' @ ''}}''"

lemma other_manifest_simps:
  "snd (Unmarshal_map other_manifest None) = None"
  "Unmarshal_head other_manifest =
     (\<lparr>mh_kind = ''Deployment'', mh_name = ''v'', mh_namespace = [], mh_bad = False\<rparr>, None)"
  by code_simp+

definition two_set :: "int option \<Rightarrow> K1sResourceSet" where
  "two_set deletion = (example_rset [capabilityFinalizer] deletion)
     \<lparr>rs_Spec := (rs_Spec (example_rset [] None))\<lparr>rs_Manifests := [example_manifest, other_manifest]\<rparr>,
      rs_Status := (rs_Status (example_rset [] None))\<lparr>rss_ManagedResources := []\<rparr>\<rparr>"

lemma two_set_simps:
  "DeletionTimestamp (rs_Meta (two_set d)) = d" "Finalizers (rs_Meta (two_set d)) = [capabilityFinalizer]"
  "rs_ClusterRef (rs_Spec (two_set d)) = example_ref"
  "rs_Manifests (rs_Spec (two_set d)) = [example_manifest, other_manifest]"
  "rs_AllowedKinds (rs_Spec (two_set d)) = []" "rs_Prune (rs_Spec (two_set d))"
  "rs_DeletePolicy (rs_Spec (two_set d)) = ''Delete''"
  "listed (two_set d) = []" "lastAppliedHash (OResourceSet (two_set d)) = []"
  by (simp_all add: two_set_def example_rset_def lastAppliedHash_def)

lemma http_update_simps:
  "writeClient (E\<lparr>e_http := f\<rparr>) = writeClient E" "rset_report (E\<lparr>e_http := f\<rparr>) = rset_report E"
proof -
  let ?E = "E\<lparr>e_http := f\<rparr>"
  have fields: "e_get ?E = e_get E" "e_pemHasCerts ?E = e_pemHasCerts E" "e_now ?E = e_now E"
    "e_statusPatch ?E = e_statusPatch E" "e_setStatusCondition ?E = e_setStatusCondition E"
    "e_retryOnConflict ?E = e_retryOnConflict E" "e_jsonErrorText ?E = e_jsonErrorText E"
    by simp_all
  have calls: "kube_Get ?E = kube_Get E" "NewClient ?E = NewClient E" "Now ?E = Now E"
      "status_Patch ?E = status_Patch E"
    unfolding fun_eq_iff kube_Get_def NewClient_def Now_def status_Patch_def fields by simp_all
  then show "writeClient ?E = writeClient E" "rset_report ?E = rset_report E"
    unfolding fun_eq_iff writeClient_def loadCredentials_def rset_report_def
        set_rset_condition_def setCondition_def patch_rset_status_def patchStatus_def fields calls by simp_all
qed

lemma run_Apply_half:
  assumes "snd (Unmarshal_map raw None) = None"
  shows "\<exists>e a. run_state (Apply (half_world x) example_client raw) h =
      (if list_ex is_http h then ((None, Some e), h @ [EHTTP a (Inr refused)])
       else ((None, None), h @ [example_apply raw]))"
proof -
  obtain v where v: "url_Parse (client_url example_client ''/apply'') = Inr v"
    using apply_url_example by blast
  obtain p where p: "Unmarshal_map raw None = (p, None)"
    using assms by (cases "Unmarshal_map raw None") auto
  show ?thesis
    using p
    by (auto simp: Apply_def postJSON_def doJSONWithLeaderRetry_def Let_def run_doJSONRequest [OF v]
        half_world_def example_world_def read_response_def refused_def sample_leader_def
        parseNotLeader_def example_apply_def)
qed

lemma allowed_two_set:
  "allowedKindsFor [] (two_set d) = Inr {''Deployment'', ''InferenceCell'', ''InferenceCellSet''}"
  using allowed_example by (simp add: allowedKindsFor_def two_set_simps example_rset_simps)

lemma other_managed:
  "managedResourceFromManifest other_manifest = Inr \<lparr>mr_Kind = ''Deployment'',
     mr_Namespace = ''default'', mr_Name = ''v'', mr_Hash = hashBytes other_manifest\<rparr>"
  by (simp add: managedResourceFromManifest_def other_manifest_simps)

lemma two_set_pass:
  "\<exists>r a pre y. run_state (reconcile_rset (half_world (OResourceSet (two_set None))) [] (two_set None)) [] =
     (r, example_reads @ [example_apply example_manifest, EHTTP a (Inr refused)] @ pre @
        [EStatusPatch (OResourceSet (two_set None)) (OResourceSet y) None]) \<and>
     listed y = [] \<and> y = two_set None\<lparr>rs_Status := rs_Status y\<rparr>"
proof -
  let ?x = "two_set None" and ?E = "half_world (OResourceSet (two_set None))"
  let ?refs = "[wanted_ref, \<lparr>mr_Kind = ''Deployment'', mr_Namespace = ''default'', mr_Name = ''v'',
     mr_Hash = hashBytes other_manifest\<rparr>]"
  obtain e a where half: "run_state (Apply ?E example_client other_manifest) (example_reads @ [example_apply example_manifest]) =
      ((None, Some e), example_reads @ [example_apply example_manifest, EHTTP a (Inr refused)])"
    using run_Apply_half [OF other_manifest_simps(1), of "OResourceSet ?x" "example_reads @ [example_apply example_manifest]"]
    by (auto simp: example_apply_def)
  have quiet: "\<not> list_ex is_http example_reads"
    by (simp add: example_reads_def)
  have first: "run_state (Apply ?E example_client example_manifest) example_reads =
      ((None, None), example_reads @ [example_apply example_manifest])"
    using run_Apply_half [OF example_manifest_simps(3), of "OResourceSet ?x" example_reads] quiet by simp
  let ?work = "[example_apply example_manifest, EHTTP a (Inr refused)]"
  let ?rep = "rset_report (example_world (OResourceSet ?x)) ?x example_cluster ?refs True (1, Some e)"
  have "behaves ?rep (\<lambda>new _. (\<forall>z\<in>set new. reports (OResourceSet ?x) z) \<and>
      (\<forall>z\<in>set new. writes_status put_rset_status (rset_status_bad ?x) z))"
    using rset_report_spec [of "example_world (OResourceSet ?x)" ?refs ?x "(1, Some e)" example_cluster True]
    by simp
  from behaves_conj [OF this example_set_report] obtain n pre s where
    rep: "trace_of ?rep (example_reads @ ?work) = (example_reads @ ?work) @ n"
      "n = pre @ [EStatusPatch (OResourceSet ?x) (put_rset_status s (OResourceSet ?x)) None]"
    and bad: "\<forall>z\<in>set n. writes_status put_rset_status (rset_status_bad ?x) z"
    by (rule behavesE [where h = "example_reads @ ?work"]) blast
  then have "listed (?x\<lparr>rs_Status := s\<rparr>) = []"
    by (auto simp: writes_status_def rset_status_bad_def two_set_simps dest: arg_cong [where f = rs_Status])
  moreover have "trace_of (reconcile_rset ?E [] ?x) [] = example_reads @ ?work @ pre @
      [EStatusPatch (OResourceSet ?x) (OResourceSet (?x\<lparr>rs_Status := s\<rparr>)) None]"
    using rep half first
    by (simp add: reconcile_rset_def half_world_def http_update_simps two_set_simps run_writeClient_example
        containsString_def rset_sync_def allowed_two_set rset_apply_def managed_example other_managed wanted_ref_def
        rset_work_def pruneManagedResources_def hash_set_not_empty [symmetric])
  ultimately show ?thesis
    by (intro exI [of _ "result_of (reconcile_rset ?E [] ?x) []"] exI [of _ a] exI [of _ pre]
        exI [of _ "?x\<lparr>rs_Status := s\<rparr>"]) (simp add: prod_eq_iff)
qed

text \<open>The set is deleted then: its clean-up finds nothing on the list, and lets go of it.\<close>

lemma unlisted_cleanup:
  assumes "listed x = []" and "being_deleted (OResourceSet x)" and "has_finalizer (OResourceSet x)"
    and "rs_ClusterRef (rs_Spec x) = example_ref"
  shows "\<exists>y. run_state (reconcile_rset (example_world (OResourceSet x)) kinds x) [] =
    ((no_result, None), example_reads @ [EGet CachedClient KindResourceSet (ObjectKeyFromObject (OResourceSet x))
        (Inr (OResourceSet x)), EPatch (OResourceSet x) y None]) \<and> \<not> has_finalizer y"
  using assms
  by (simp add: reconcile_rset_def run_writeClient_example being_deleted_def has_finalizer_def
      rset_delete_remote_def remove_finalizer_def run_patchFinalizers_example
      containsString_def removeString_filter)

text \<open>So \<open>w\<close> is applied, and nothing ever deletes it.\<close>

lemma half_applied_set_leaks:
  "\<exists>r new y z r' new'.
     run_state (reconcile_rset (half_world (OResourceSet (two_set None))) [] (two_set None)) [] = (r, new) \<and>
     example_apply example_manifest \<in> set new \<and>
     EStatusPatch (OResourceSet (two_set None)) (OResourceSet y) None \<in> set new \<and> listed y = [] \<and>
     z = y\<lparr>rs_Meta := (rs_Meta y)\<lparr>DeletionTimestamp := Some 5\<rparr>\<rparr> \<and>
     run_state (reconcile_rset (example_world (OResourceSet z)) [] z) [] = ((no_result, None), new') \<and>
     (\<forall>e\<in>set new'. \<not> is_http e) \<and> (\<exists>cur w. EPatch cur w None \<in> set new' \<and> \<not> has_finalizer w)"
proof -
  obtain r a pre y where run:
      "run_state (reconcile_rset (half_world (OResourceSet (two_set None))) [] (two_set None)) [] =
        (r, example_reads @ [example_apply example_manifest, EHTTP a (Inr refused)] @ pre @
          [EStatusPatch (OResourceSet (two_set None)) (OResourceSet y) None])"
    and y: "listed y = []" "y = two_set None\<lparr>rs_Status := rs_Status y\<rparr>"
    using two_set_pass by blast
  define z where "z = y\<lparr>rs_Meta := (rs_Meta y)\<lparr>DeletionTimestamp := Some 5\<rparr>\<rparr>"
  have meta: "rs_Meta y = rs_Meta (two_set None)" "rs_Spec y = rs_Spec (two_set None)"
    using arg_cong [OF y(2), of rs_Meta] arg_cong [OF y(2), of rs_Spec] by simp_all
  have "listed z = []" "being_deleted (OResourceSet z)" "has_finalizer (OResourceSet z)"
      "rs_ClusterRef (rs_Spec z) = example_ref"
    using y(1) by (simp_all add: z_def meta being_deleted_def has_finalizer_def two_set_simps containsString_def)
  then obtain w where "run_state (reconcile_rset (example_world (OResourceSet z)) [] z) [] =
      ((no_result, None), example_reads @ [EGet CachedClient KindResourceSet (ObjectKeyFromObject (OResourceSet z))
        (Inr (OResourceSet z)), EPatch (OResourceSet z) w None])" "\<not> has_finalizer w"
    using unlisted_cleanup by blast
  moreover have "\<forall>e\<in>set example_reads. \<not> is_http e"
    by (simp add: example_reads_def)
  ultimately show ?thesis
    using run y(1) z_def by (fastforce intro!: exI [of _ r] exI [of _ y])
qed

end
