(* ===== verification/Progress.thy ===== *)
theory Progress
  imports App Inference ResourceSet
begin

text \<open>
  That the capability reconcilers get somewhere when the outside cooperates: one pass puts the
  finalizer on, one pass applies an accepted manifest and records its hash, and one pass over a
  deleted object deletes what it made and takes the finalizer off, so that the object can go. What
  the outside has to do is stated per exchange, for all continuations of the history: the object
  can be read and patched, and the k1s controller answers the requests of the pass.
\<close>

section \<open>A cooperative outside\<close>

definition patchable :: "env \<Rightarrow> history \<Rightarrow> kobject \<Rightarrow> bool" where
  "patchable E h obj \<longleftrightarrow> (\<forall>new.
     (\<exists>cur. e_get E (h @ new) CachedClient (kind_of obj) (ObjectKeyFromObject obj) = Inr cur \<and>
        same_object cur obj) \<and>
     (\<forall>a b. e_patch E (h @ new) a b = None))"

text \<open>Whatever is posted to the endpoint, the controller answers, and the answer is one of \<open>ok\<close>.\<close>

definition answers_post ::
  "env \<Rightarrow> history \<Rightarrow> Client \<Rightarrow> (http_response \<Rightarrow> bool) \<Rightarrow> string \<Rightarrow> bool" where
  "answers_post E h api ok endpoint \<longleftrightarrow>
     (\<exists>v. url_Parse (client_url api endpoint) = Inr v) \<and>
     (\<forall>new body. \<exists>resp. e_http E (h @ new)
        (request_for api ''POST'' (client_url api endpoint) body) = Inr resp \<and> ok resp)"

definition good_or_absent :: "http_response \<Rightarrow> bool" where
  "good_or_absent resp \<longleftrightarrow> good_answer resp \<or> hr_StatusCode resp = 404"

lemma patchable_append: "patchable E h obj \<Longrightarrow> patchable E (h @ n) obj"
  by (simp add: patchable_def)

lemma answers_append: "answers_post E h api ok ep \<Longrightarrow> answers_post E (h @ n) api ok ep"
  by (simp add: answers_post_def)

section \<open>Calls that are answered\<close>

lemma read_response_absent:
  "hr_StatusCode resp = 404 \<Longrightarrow> \<exists>b. read_response m p resp out = (out, Some (APIErr m p 404 b))"
  by (simp add: read_response_def Let_def parseNotLeader_def)

lemma call_good:
  assumes "answers_post E h api good_answer ep"
  shows "snd (result_of (doJSONWithLeaderRetry E api ''POST'' ep body out) h) = None"
proof -
  obtain v where v: "url_Parse (client_url api ep) = Inr v"
    using assms by (auto simp: answers_post_def)
  obtain resp where r: "e_http E h (request_for api ''POST'' (client_url api ep) body) = Inr resp"
      "good_answer resp"
    using assms unfolding answers_post_def by (metis append_Nil2)
  show ?thesis
    using read_response_good [OF r(2), of "''POST''" "u_Path v" out] r(1)
    by (cases "read_response ''POST'' (u_Path v) resp out")
      (simp add: doJSONWithLeaderRetry_def Let_def run_doJSONRequest [OF v])
qed

lemma call_good_or_absent:
  assumes "answers_post E h api good_or_absent ep"
  shows "snd (result_of (doJSONWithLeaderRetry E api ''POST'' ep body out) h) = None \<or>
    IsNotFound (snd (result_of (doJSONWithLeaderRetry E api ''POST'' ep body out) h))"
proof -
  obtain v where v: "url_Parse (client_url api ep) = Inr v"
    using assms by (auto simp: answers_post_def)
  obtain resp where r: "e_http E h (request_for api ''POST'' (client_url api ep) body) = Inr resp"
      "good_or_absent resp"
    using assms unfolding answers_post_def by (metis append_Nil2)
  show ?thesis
  proof (cases "good_answer resp")
    case True
    then show ?thesis
      using read_response_good [OF True, of "''POST''" "u_Path v" out] r(1)
      by (cases "read_response ''POST'' (u_Path v) resp out")
        (simp add: doJSONWithLeaderRetry_def Let_def run_doJSONRequest [OF v])
  next
    case False
    then obtain b where "read_response ''POST'' (u_Path v) resp out =
        (out, Some (APIErr ''POST'' (u_Path v) 404 b))"
      using r(2) read_response_absent good_or_absent_def by blast
    then show ?thesis
      using r(1)
      by (simp add: doJSONWithLeaderRetry_def Let_def run_doJSONRequest [OF v] IsNotFound_def)
  qed
qed

section \<open>Patches that are accepted\<close>

text \<open>\<open>RetryOnConflict\<close> returns at once when the function succeeds.\<close>

lemma retried_once:
  assumes "retried fn h r" and "result_of fn h = None"
  shows "r = run_state fn h"
  using assms by cases (auto simp: prod_eq_iff)

lemma patchObject_accepted:
  assumes "lawful E" and "patchable E h obj"
  shows "\<exists>cur g. run_state (patchObject E obj (\<lambda>cur. State_Monad.return (f cur))) h =
      (None, h @ [g, EPatch cur (f cur) None]) \<and> same_object cur obj"
proof -
  let ?fn = "do {
        found \<leftarrow> kube_Get E CachedClient (kind_of obj) (ObjectKeyFromObject obj);
        case found of
          Inl e \<Rightarrow> State_Monad.return (Some e)
        | Inr current \<Rightarrow> do {
            changed \<leftarrow> State_Monad.return (f current);
            kube_Patch E current changed
          }
      }"
  obtain cur where cur: "e_get E h CachedClient (kind_of obj) (ObjectKeyFromObject obj) = Inr cur"
      "same_object cur obj"
    using assms(2) unfolding patchable_def by (metis append_Nil2)
  have acc: "e_patch E (h @ new) a b = None" for new a b
    using assms(2) by (simp add: patchable_def)
  have run: "run_state ?fn h = (None, h @ [EGet CachedClient (kind_of obj) (ObjectKeyFromObject obj)
      (Inr cur), EPatch cur (f cur) None])"
    using cur acc [of "[EGet CachedClient (kind_of obj) (ObjectKeyFromObject obj) (Inr cur)]"]
    by (simp add: kube_Get_def kube_Patch_def same_object_def)
  have "retried ?fn h (run_state (e_retryOnConflict E ?fn) h)"
    using lawfulD(2) [OF assms(1)] by (simp add: retries_on_conflict_def)
  then have "run_state (e_retryOnConflict E ?fn) h = run_state ?fn h"
    by (rule retried_once) (simp only: run fst_conv)
  moreover have "patchObject E obj (\<lambda>cur. State_Monad.return (f cur)) = e_retryOnConflict E ?fn"
    by (simp only: patchObject_def Let_def)
  ultimately show ?thesis
    using cur(2) run by metis
qed

section \<open>One pass of the skeleton\<close>

text \<open>The pass ended without an error, its last exchange an accepted patch of the object's finalizers.\<close>

definition patched_finalizers :: "kobject \<Rightarrow> string list \<Rightarrow> event list \<Rightarrow> bool" where
  "patched_finalizers obj fs new \<longleftrightarrow> (\<exists>pre cur y. new = pre @ [EPatch cur y None] \<and>
     same_object cur obj \<and> y = update_meta (\<lambda>m. m\<lparr>Finalizers := fs\<rparr>) cur)"

lemma patchFinalizers_accepted:
  assumes "lawful E" and "patchable E h obj"
  shows "\<exists>new. run_state (patchFinalizers E obj fs) h = (None, h @ new) \<and> patched_finalizers obj fs new"
proof -
  obtain cur g where "run_state (patchFinalizers E obj fs) h =
      (None, h @ [g, EPatch cur (update_meta (\<lambda>m. m\<lparr>Finalizers := fs\<rparr>) cur) None])"
      "same_object cur obj"
    using patchObject_accepted [OF assms] unfolding patchFinalizers_def by blast
  then show ?thesis
    unfolding patched_finalizers_def by (metis append_Cons append_Nil)
qed

text \<open>The exchanges of such a patch are none with the k1s cluster.\<close>

lemma patchFinalizers_quiet:
  assumes "lawful E" and "run_state (patchFinalizers E obj fs) h = (r, h @ new)" and "e \<in> set new"
  shows "\<not> is_http e"
proof -
  have "object_patch.patch_event obj (\<lambda>cur y. y = update_meta (\<lambda>m. m\<lparr>Finalizers := fs\<rparr>) cur) e"
    using behaves_run [OF patchFinalizers_spec [OF assms(1)] assms(2)] assms(3) by blast
  then show ?thesis by (cases e) (simp_all add: object_patch_event)
qed

lemma patched_finalizers_append:
  "patched_finalizers obj fs new \<Longrightarrow> patched_finalizers obj fs (pre @ new)"
  unfolding patched_finalizers_def by (metis append_assoc)

context capability
begin

lemma guard_pass:
  assumes "lawful E" and "\<not> being_deleted obj" and "\<not> has_finalizer obj"
    and client: "result_of (writeClient E (Namespace (meta_of obj)) cluster_ref) h = Inr (api, cluster)"
    and "patchable E h obj"
  shows "\<exists>new. run_state reconcile h = ((no_result\<lparr>res_Requeue := True\<rparr>, None), h @ new) \<and>
    patched_finalizers obj (Finalizers (meta_of obj) @ [capabilityFinalizer]) new"
proof -
  obtain n1 where n1: "trace_of (writeClient E (Namespace (meta_of obj)) cluster_ref) h = h @ n1"
    using behavesE [OF writeClient_spec] by blast
  obtain n2 where n2: "run_state (patchFinalizers E obj (Finalizers (meta_of obj) @ [capabilityFinalizer]))
      (h @ n1) = (None, (h @ n1) @ n2)"
      "patched_finalizers obj (Finalizers (meta_of obj) @ [capabilityFinalizer]) n2"
    using patchFinalizers_accepted [OF assms(1) patchable_append [OF assms(5)]] by blast
  show ?thesis
    using n2 assms(2,3) client n1
    by (intro exI [of _ "n1 @ n2"])
      (simp add: reconcile_is add_finalizer_def patched_finalizers_append)
qed

lemma live_pass:
  assumes "\<not> being_deleted obj" and "has_finalizer obj"
    and client: "result_of (writeClient E (Namespace (meta_of obj)) cluster_ref) h = Inr (api, cluster)"
  shows "\<exists>n. trace_of reconcile h = trace_of (sync api cluster) (h @ n)"
proof -
  obtain n where "trace_of (writeClient E (Namespace (meta_of obj)) cluster_ref) h = h @ n"
    using behavesE [OF writeClient_spec] by blast
  with assms show ?thesis
    by (intro exI [of _ n]) (simp add: reconcile_is)
qed

text \<open>First the resources are deleted, then the finalizer comes off.\<close>

lemma release_pass:
  assumes "lawful E" and "being_deleted obj" and "has_finalizer obj"
    and client: "result_of (writeClient E (Namespace (meta_of obj)) cluster_ref) h = Inr (api, cluster)"
    and "patchable E h obj"
    and deleted: "\<not> orphan \<Longrightarrow> (\<And>new. result_of (delete_remote api) (h @ new) = None)"
  shows "\<exists>before del fin. run_state reconcile h = ((no_result, None), h @ before @ del @ fin) \<and>
    (if orphan then del = [] else gone api del) \<and> (\<forall>e\<in>set (before @ fin). \<not> is_http e) \<and>
    patched_finalizers obj (removeString (Finalizers (meta_of obj)) capabilityFinalizer) fin"
proof -
  let ?fs = "removeString (Finalizers (meta_of obj)) capabilityFinalizer"
  obtain n1 where n1: "trace_of (writeClient E (Namespace (meta_of obj)) cluster_ref) h = h @ n1"
      "writer_ok n1 (result_of (writeClient E (Namespace (meta_of obj)) cluster_ref) h)"
    by (rule behavesE [OF writeClient_spec])
  have quiet: "\<forall>e\<in>set n1. \<not> is_http e"
    by (intro ballI) (rule writer_ok_events [OF n1(2), THEN conjunct2, THEN conjunct1])
  obtain n2 where n2: "trace_of (delete_remote api) (h @ n1) = (h @ n1) @ n2"
      "result_of (delete_remote api) (h @ n1) = None \<longrightarrow> gone api n2"
    by (rule behavesE [OF delete_remote_contract, of api "h @ n1"]) simp
  have fin: "\<exists>n. run_state (patchFinalizers E obj ?fs) (h @ k) = (None, (h @ k) @ n)
      \<and> patched_finalizers obj ?fs n \<and> (\<forall>e\<in>set n. \<not> is_http e)" for k
  proof -
    obtain n where "run_state (patchFinalizers E obj ?fs) (h @ k) = (None, (h @ k) @ n)" "patched_finalizers obj ?fs n"
      using patchFinalizers_accepted [OF assms(1) patchable_append [OF assms(5)]] by blast
    with patchFinalizers_quiet [OF assms(1) this(1)] show ?thesis by blast
  qed
  show ?thesis
  proof (cases orphan)
    case True
    obtain n where n: "run_state (patchFinalizers E obj ?fs) (h @ n1) = (None, (h @ n1) @ n)"
        "patched_finalizers obj ?fs n" "\<forall>e\<in>set n. \<not> is_http e"
      using fin by blast
    show ?thesis
      using n assms(2,3) client n1(1) quiet True
      by (intro exI [of _ n1] exI [of _ "[]"] exI [of _ n]) (auto simp: reconcile_is remove_finalizer_def)
  next
    case False
    obtain n where n: "run_state (patchFinalizers E obj ?fs) (h @ n1 @ n2) = (None, (h @ n1 @ n2) @ n)"
        "patched_finalizers obj ?fs n" "\<forall>e\<in>set n. \<not> is_http e"
      using fin by blast
    show ?thesis
      using n assms(2,3) client n1(1) quiet n2 deleted [OF False] False
      by (intro exI [of _ n1] exI [of _ n2] exI [of _ n]) (auto simp: reconcile_is remove_finalizer_def)
  qed
qed

end

section \<open>What the three reconcilers delete\<close>

abbreviation delete_call :: "env \<Rightarrow> Client \<Rightarrow> string \<Rightarrow> (payload \<times> go_error option) io" where
  "delete_call E api ep \<equiv> doJSONWithLeaderRetry E api ''POST'' ep
     (Some (Marshal (e_formatFloat E) (payload_any (Some [])))) None"

lemma app_delete_answered:
  assumes "answers_post E h api good_or_absent (app_delete_endpoint app)"
  shows "result_of (app_delete_remote E app api) h = None"
proof -
  have "DeleteApp E api (appDeleteName app) True = delete_call E api (app_delete_endpoint app)"
    by (simp add: DeleteApp_def postJSON_def app_delete_endpoint_def)
  then show ?thesis
    using call_good_or_absent [OF assms] by (auto simp: app_delete_remote_def)
qed

lemma inference_delete_answered:
  assumes "answers_post E h api good_or_absent (inference_delete_endpoint x)"
  shows "result_of (inference_delete_remote E x api) h = None"
proof -
  have "(case inf_CellSet (inf_Spec x) of
      Some _ \<Rightarrow> DeleteInferenceCellSet E api (Namespace (inf_Meta x)) (Name (inf_Meta x))
    | None \<Rightarrow> DeleteInferenceCell E api (Namespace (inf_Meta x)) (Name (inf_Meta x)))
    = delete_call E api (inference_delete_endpoint x)"
    by (simp add: DeleteInferenceCell_def DeleteInferenceCellSet_def deleteInference_def
        postJSON_def inference_delete_endpoint_def split: option.splits)
  then show ?thesis
    using call_good_or_absent [OF assms] by (auto simp: inference_delete_remote_def)
qed

lemma managed_delete_answered:
  assumes "managed_endpoint m = Some ep" and "answers_post E h api good_or_absent ep"
  shows "result_of (deleteManagedResource E api m) h = None"
proof -
  have "deleteManagedResource E api m = do {
      r \<leftarrow> delete_call E api ep;
      State_Monad.return (if IsNotFound (snd r) then None else snd r) }"
    using assms(1)
    by (auto simp: deleteManagedResource_def managed_endpoint_def DeleteApp_def
        DeleteInferenceCell_def DeleteInferenceCellSet_def deleteInference_def postJSON_def
        split: if_splits)
  then show ?thesis
    using call_good_or_absent [OF assms(2)] by auto
qed

lemma all_managed_deleted:
  assumes "\<forall>m \<in> set ms. \<exists>ep. managed_endpoint m = Some ep \<and> answers_post E h api good_or_absent ep"
  shows "result_of (deleteManagedResources E api ms) (h @ n) = None"
  using assms
proof (induction ms arbitrary: n)
  case (Cons m ms)
  obtain ep where "managed_endpoint m = Some ep" "answers_post E h api good_or_absent ep"
    using Cons.prems by auto
  then have "result_of (deleteManagedResource E api m) (h @ n) = None"
    by (intro managed_delete_answered answers_append)
  moreover obtain k where "trace_of (deleteManagedResource E api m) (h @ n) = (h @ n) @ k"
    using behavesE [OF deleteManagedResource_spec] by blast
  ultimately show ?case
    using Cons.IH [of "n @ k"] Cons.prems by simp
qed simp

section \<open>What the app and inference reconcilers apply\<close>

text \<open>The controller accepted the manifest, and then the patch that records its hash was accepted.\<close>

definition applied_and_recorded ::
  "env \<Rightarrow> kobject \<Rightarrow> Client \<Rightarrow> bytes \<Rightarrow> event list \<Rightarrow> bool" where
  "applied_and_recorded E obj api raw new \<longleftrightarrow>
     (\<exists>z\<in>set new. applied_manifest E api raw z) \<and>
     (\<exists>cur y. EPatch cur y None \<in> set new \<and> same_object cur obj \<and>
        lastAppliedHash y = hashBytes raw)"

lemma lastAppliedHash_annotated:
  "lastAppliedHash (update_meta (annotate lastAppliedHashAnnotation v) cur) = v"
  by (cases cur) (simp_all add: lastAppliedHash_def annotate_def)

lemma apply_manifest_accepted:
  assumes "lawful E" and "patchable E h obj" and "answers_post E h api good_answer ''/apply''"
    and raw: "snd (Unmarshal_map raw None) = None"
  shows "\<exists>new p. run_state (apply_manifest E obj api raw True) h = (((p, None), None), h @ new) \<and>
    applied_and_recorded E obj api raw new"
proof -
  obtain v where v: "Unmarshal_map raw None = (v, None)"
    using raw by (cases "Unmarshal_map raw None") simp
  have "snd (result_of (Apply E api raw) h) = None"
    using call_good [OF assms(3)] by (simp add: Apply_def v postJSON_def)
  then obtain p n1 where a: "run_state (Apply E api raw) h = ((p, None), h @ n1)"
    by (rule_tac behavesE [OF Apply_spec [of E api raw], of h]) (auto simp: prod_eq_iff)
  obtain cur g where f: "run_state (patchLastAppliedHash E obj (hashBytes raw)) (h @ n1) =
      (None, (h @ n1) @ [g, EPatch cur
         (update_meta (annotate lastAppliedHashAnnotation (hashBytes raw)) cur) None])"
      "same_object cur obj"
    using patchObject_accepted [OF assms(1) patchable_append [OF assms(2)]]
    unfolding patchLastAppliedHash_def by blast
  let ?new = "n1 @ [g, EPatch cur (update_meta (annotate lastAppliedHashAnnotation (hashBytes raw)) cur) None]"
  have run: "run_state (apply_manifest E obj api raw True) h = (((p, None), None), h @ ?new)"
    using a f by (simp add: apply_manifest_def)
  have "\<exists>z\<in>set ?new. applied_manifest E api raw z"
    using behaves_run [OF apply_manifest_spec [OF assms(1)] run] by (auto simp: hash_written_def)
  then have "applied_and_recorded E obj api raw ?new"
    using f(2) lastAppliedHash_annotated by (auto simp: applied_and_recorded_def)
  with run show ?thesis by blast
qed

lemma applied_and_recorded_append:
  "applied_and_recorded E obj api raw new \<Longrightarrow> applied_and_recorded E obj api raw (xs @ new @ ys)"
  by (auto simp: applied_and_recorded_def)

context resync
begin

lemma apply_pass:
  assumes "lawful E" and look: "fst (result_of look h)"
    and "patchable E h obj" and "answers_post E h api good_answer ''/apply''"
    and "snd (Unmarshal_map raw None) = None"
  shows "\<exists>new. trace_of sync h = h @ new \<and> applied_and_recorded E obj api raw new"
proof -
  obtain n1 where n1: "trace_of look h = h @ n1"
    using behavesE [OF look_spec] by blast
  obtain n2 p where n2: "run_state (apply_manifest E obj api raw True) (h @ n1) =
      (((p, None), None), (h @ n1) @ n2)" "applied_and_recorded E obj api raw n2"
    using apply_manifest_accepted [OF assms(1) patchable_append answers_append] assms(3-5) by blast
  obtain n3 where n3: "trace_of (report True (snd (result_of look h)) (p, None)) (h @ n1 @ n2) =
      (h @ n1 @ n2) @ n3"
    using behavesE [OF report_spec [OF assms(1)]] by blast
  have "trace_of sync h = h @ (n1 @ n2 @ n3)"
    using n1 n2(1) n3 look by (simp add: sync_is)
  then show ?thesis
    using applied_and_recorded_append [OF n2(2)] by blast
qed

end

section \<open>The three kinds\<close>

text \<open>A pass over an object of one of the three kinds; \<open>kinds\<close> is the flag with the allowed kinds.\<close>

fun life_pass :: "env \<Rightarrow> string list \<Rightarrow> kobject \<Rightarrow> outcome io" where
  "life_pass E kinds (OApp a) = reconcile_app E a"
| "life_pass E kinds (OInference i) = reconcile_inference E i"
| "life_pass E kinds (OResourceSet s) = reconcile_rset E kinds s"
| "life_pass E kinds _ = State_Monad.return (no_result, None)"

fun life_cluster :: "kobject \<Rightarrow> NamespacedNameRef" where
  "life_cluster (OApp a) = app_ClusterRef (app_Spec a)"
| "life_cluster (OInference i) = inf_ClusterRef (inf_Spec i)"
| "life_cluster (OResourceSet s) = rs_ClusterRef (rs_Spec s)"
| "life_cluster _ = \<lparr>ref_Name = [], ref_Namespace = []\<rparr>"

text \<open>The endpoints that delete what the object made; \<open>None\<close> for what cannot be deleted.\<close>

fun life_deletions :: "kobject \<Rightarrow> string option list" where
  "life_deletions (OApp a) =
     (if app_DeletePolicy (app_Spec a) = K1sDeletePolicyOrphan then [] else [Some (app_delete_endpoint a)])"
| "life_deletions (OInference i) =
     (if inf_DeletePolicy (inf_Spec i) = K1sDeletePolicyOrphan then []
      else [Some (inference_delete_endpoint i)])"
| "life_deletions (OResourceSet s) =
     (if rs_DeletePolicy (rs_Spec s) = K1sDeletePolicyOrphan then []
      else map managed_endpoint (rss_ManagedResources (rs_Status s)))"
| "life_deletions _ = []"

fun life_orphan :: "kobject \<Rightarrow> bool" where
  "life_orphan (OApp a) \<longleftrightarrow> app_DeletePolicy (app_Spec a) = K1sDeletePolicyOrphan"
| "life_orphan (OInference i) \<longleftrightarrow> inf_DeletePolicy (inf_Spec i) = K1sDeletePolicyOrphan"
| "life_orphan (OResourceSet s) \<longleftrightarrow> rs_DeletePolicy (rs_Spec s) = K1sDeletePolicyOrphan"
| "life_orphan _ \<longleftrightarrow> False"

text \<open>Each of these endpoints was sent a POST that was answered with success or with 404.\<close>

definition deletions_confirmed :: "kobject \<Rightarrow> Client \<Rightarrow> event list \<Rightarrow> bool" where
  "deletions_confirmed obj api new \<longleftrightarrow> (\<forall>d\<in>set (life_deletions obj). \<exists>ep before del after.
     d = Some ep \<and> new = before @ del @ after \<and> confirmed api ep del)"

lemma deletions_confirmedI:
  "confirmed api (app_delete_endpoint a) new \<Longrightarrow> deletions_confirmed (OApp a) api new"
  "confirmed api (inference_delete_endpoint i) new \<Longrightarrow> deletions_confirmed (OInference i) api new"
  "managed_gone api (rss_ManagedResources (rs_Status s)) new \<Longrightarrow> deletions_confirmed (OResourceSet s) api new"
  "life_orphan obj \<Longrightarrow> deletions_confirmed obj api new"
proof -
  have whole: "\<exists>before del after. new = before @ del @ after \<and> confirmed api ep del" if "confirmed api ep new" for ep
    using that by (intro exI [of _ "[]"] exI [of _ new]) simp
  then show "confirmed api (app_delete_endpoint a) new \<Longrightarrow> deletions_confirmed (OApp a) api new"
    and "confirmed api (inference_delete_endpoint i) new \<Longrightarrow> deletions_confirmed (OInference i) api new"
    by (simp_all add: deletions_confirmed_def)
  show "managed_gone api (rss_ManagedResources (rs_Status s)) new \<Longrightarrow> deletions_confirmed (OResourceSet s) api new"
    by (auto simp: deletions_confirmed_def managed_gone_def)
  show "life_orphan obj \<Longrightarrow> deletions_confirmed obj api new"
    by (cases obj) (simp_all add: deletions_confirmed_def)
qed


fun has_life :: "kobject \<Rightarrow> bool" where
  "has_life (OApp _) = True"
| "has_life (OInference _) = True"
| "has_life (OResourceSet _) = True"
| "has_life _ = False"

lemma finalizer_added:
  assumes "lawful E" and "has_life obj"
    and "result_of (writeClient E (Namespace (meta_of obj)) (life_cluster obj)) h = Inr (api, cluster)"
    and "patchable E h obj" and "\<not> being_deleted obj" and "\<not> has_finalizer obj"
  shows "\<exists>new. run_state (life_pass E kinds obj) h = ((no_result\<lparr>res_Requeue := True\<rparr>, None), h @ new) \<and>
    patched_finalizers obj (Finalizers (meta_of obj) @ [capabilityFinalizer]) new"
proof (cases obj)
  case (OApp a)
  then show ?thesis using app.guard_pass [OF assms(1), of a] assms(3-6) by simp
next
  case (OInference i)
  then show ?thesis using inference.guard_pass [OF assms(1), of i] assms(3-6) by simp
next
  case (OResourceSet s)
  then show ?thesis using rset.guard_pass [OF assms(1), of s] assms(3-6) by simp
qed (use assms(2) in auto)

text \<open>The deletions of a release pass, whatever the kind asks of them.\<close>

lemma released_deletions:
  assumes "\<exists>before del fin. runs (before @ del @ fin) \<and> (if orphaned then del = [] else gone del) \<and>
      (\<forall>e\<in>set (before @ fin). \<not> is_http e) \<and> patched fin"
    and "\<And>new. gone new \<Longrightarrow> fine new" and "\<And>new. orphaned \<Longrightarrow> fine new"
  shows "\<exists>before del fin. runs (before @ del @ fin) \<and> fine del \<and> (orphaned \<longrightarrow> del = []) \<and>
      (\<forall>e\<in>set (before @ fin). \<not> is_http e) \<and> patched fin"
proof -
  obtain before del fin where "runs (before @ del @ fin)" "if orphaned then del = [] else gone del"
      "\<forall>e\<in>set (before @ fin). \<not> is_http e" "patched fin"
    using assms(1) by blast
  with assms(2,3) show ?thesis
    by (intro exI [of _ before] exI [of _ del] exI [of _ fin]) (auto split: if_splits)
qed

lemma finalizer_released:
  assumes "lawful E" and "has_life obj"
    and "result_of (writeClient E (Namespace (meta_of obj)) (life_cluster obj)) h = Inr (api, cluster)"
    and "patchable E h obj" and "being_deleted obj" and "has_finalizer obj"
    and del: "\<forall>d\<in>set (life_deletions obj). \<exists>ep. d = Some ep \<and> answers_post E h api good_or_absent ep"
  shows "\<exists>before del fin. run_state (life_pass E kinds obj) h = ((no_result, None), h @ before @ del @ fin) \<and>
    deletions_confirmed obj api del \<and> (life_orphan obj \<longrightarrow> del = []) \<and>
    (\<forall>e\<in>set (before @ fin). \<not> is_http e) \<and>
    patched_finalizers obj (removeString (Finalizers (meta_of obj)) capabilityFinalizer) fin"
proof (cases obj)
  case (OApp a)
  have "result_of (app_delete_remote E a api) (h @ n) = None"
    if "app_DeletePolicy (app_Spec a) \<noteq> K1sDeletePolicyOrphan" for n
    using del that OApp by (auto intro: app_delete_answered answers_append)
  then show ?thesis
    using app.release_pass [OF assms(1), of a h api cluster] assms(3-6) OApp
    by (intro released_deletions [where gone = "confirmed api (app_delete_endpoint a)"])
      (simp_all add: deletions_confirmedI(1,4))
next
  case (OInference i)
  have "result_of (inference_delete_remote E i api) (h @ n) = None"
    if "inf_DeletePolicy (inf_Spec i) \<noteq> K1sDeletePolicyOrphan" for n
    using del that OInference by (auto intro: inference_delete_answered answers_append)
  then show ?thesis
    using inference.release_pass [OF assms(1), of i h api cluster] assms(3-6) OInference
    by (intro released_deletions [where gone = "confirmed api (inference_delete_endpoint i)"])
      (simp_all add: deletions_confirmedI(2,4))
next
  case (OResourceSet s)
  have "result_of (rset_delete_remote E s api) (h @ n) = None"
    if "rs_DeletePolicy (rs_Spec s) \<noteq> K1sDeletePolicyOrphan" for n
    using del that OResourceSet by (auto simp: rset_delete_remote_def intro: all_managed_deleted)
  then show ?thesis
    using rset.release_pass [OF assms(1), of s h api cluster kinds] assms(3-6) OResourceSet
    by (intro released_deletions [where gone = "managed_gone api (rss_ManagedResources (rs_Status s))"])
      (simp_all add: deletions_confirmedI(3,4))
qed (use assms(2) in auto)

text \<open>
  C23: The finalizer goes on and comes off in one pass each, when the outside cooperates. If the
  client can be made and the object can be read and patched, a pass over a live object without the
  finalizer ends with the accepted patch that adds it and asks to be called again. A pass over a
  deleted object with the finalizer, all of whose deletions the k1s controller answers with success or
  with 404, ends without an error: it sends a deletion for the resource of the app or endpoint, or for
  every managed resource of the set, each confirmed by such an answer, and after that ends with the
  accepted patch that removes the finalizer. Under the policy Orphan nothing is sent to the k1s
  cluster, and the finalizer is removed.
\<close>

theorem finalizer_goes_on_and_off:
  assumes "lawful E" and "has_life obj"
    and "result_of (writeClient E (Namespace (meta_of obj)) (life_cluster obj)) h = Inr (api, cluster)"
    and "patchable E h obj"
  shows "(\<not> being_deleted obj \<and> \<not> has_finalizer obj \<longrightarrow>
      (\<exists>new. run_state (life_pass E kinds obj) h = ((no_result\<lparr>res_Requeue := True\<rparr>, None), h @ new) \<and>
         patched_finalizers obj (Finalizers (meta_of obj) @ [capabilityFinalizer]) new)) \<and>
    (being_deleted obj \<and> has_finalizer obj \<and>
       (\<forall>d\<in>set (life_deletions obj). \<exists>ep. d = Some ep \<and> answers_post E h api good_or_absent ep) \<longrightarrow>
      (\<exists>before del fin. run_state (life_pass E kinds obj) h = ((no_result, None), h @ before @ del @ fin) \<and>
         deletions_confirmed obj api del \<and> (life_orphan obj \<longrightarrow> del = []) \<and>
         (\<forall>e\<in>set (before @ fin). \<not> is_http e) \<and>
         patched_finalizers obj (removeString (Finalizers (meta_of obj)) capabilityFinalizer) fin))"
  using finalizer_added [OF assms] finalizer_released [OF assms] by (intro conjI impI; elim conjE) assumption+


section \<open>Examples\<close>

lemma example_patchable:
  "kind_of x \<noteq> KindCluster \<Longrightarrow> kind_of x \<noteq> KindSecret \<Longrightarrow> patchable (example_world x) h x"
  by (simp add: patchable_def example_world_def sample_env_def)

lemma sample_leader_good: "good_answer sample_leader"
  by (simp add: good_answer_def sample_leader_def)

lemma example_answers:
  "\<exists>v. url_Parse (client_url example_client ep) = Inr v \<Longrightarrow> ok sample_leader \<Longrightarrow>
     answers_post (example_world x) h example_client ok ep"
  by (simp add: answers_post_def example_world_def)

lemma example_life_client:
  "life_cluster x = example_ref \<Longrightarrow>
     result_of (writeClient (example_world x) ns (life_cluster x)) h = Inr (example_client, example_cluster)"
  by (simp add: run_writeClient_example)

text \<open>An app without the finalizer, and one that is deleted.\<close>

theorem finalizer_goes_on_and_off_witness:
  "(\<exists>new. run_state (life_pass (example_world (OApp (example_app [] None []))) []
        (OApp (example_app [] None []))) [] = ((no_result\<lparr>res_Requeue := True\<rparr>, None), new) \<and>
      patched_finalizers (OApp (example_app [] None [])) [capabilityFinalizer] new) \<and>
   (\<exists>before del fin. run_state (life_pass (example_world (OApp deleted_app)) [] (OApp deleted_app)) [] =
        ((no_result, None), before @ del @ fin) \<and>
      deletions_confirmed (OApp deleted_app) example_client del \<and> patched_finalizers (OApp deleted_app) [] fin)"
proof
  let ?x = "OApp (example_app [] None [])" and ?d = "OApp deleted_app"
  have "life_cluster ?x = example_ref" "\<not> being_deleted ?x" "\<not> has_finalizer ?x"
      "Finalizers (meta_of ?x) = []"
    by (simp_all add: example_app_def being_deleted_def has_finalizer_def containsString_def)
  then show "\<exists>new. run_state (life_pass (example_world ?x) [] ?x) [] =
      ((no_result\<lparr>res_Requeue := True\<rparr>, None), new) \<and> patched_finalizers ?x [capabilityFinalizer] new"
    using finalizer_goes_on_and_off [OF example_world_lawful _ example_life_client example_patchable,
        of ?x "[]" "[]"] by simp
  have d: "life_cluster ?d = example_ref" "being_deleted ?d" "has_finalizer ?d"
      "removeString (Finalizers (meta_of ?d)) capabilityFinalizer = []"
    by (simp_all add: example_app_def being_deleted_def has_finalizer_def containsString_def)
  have "answers_post (example_world ?d) [] example_client good_or_absent (app_delete_endpoint deleted_app)"
    by (rule example_answers [OF delete_url_example]) (simp add: good_or_absent_def sample_leader_good)
  then have "being_deleted ?d \<and> has_finalizer ?d \<and> (\<forall>d\<in>set (life_deletions ?d). \<exists>ep. d = Some ep \<and>
      answers_post (example_world ?d) [] example_client good_or_absent ep)"
    using d by simp
  with finalizer_goes_on_and_off [OF example_world_lawful _ example_life_client [OF d(1)] example_patchable,
      of "[]" "[]", THEN conjunct2] d(4)
  have "\<exists>before del fin. run_state (life_pass (example_world ?d) [] ?d) [] = ((no_result, None), [] @ before @ del @ fin) \<and>
      deletions_confirmed ?d example_client del \<and> (life_orphan ?d \<longrightarrow> del = []) \<and>
      (\<forall>e\<in>set (before @ fin). \<not> is_http e) \<and> patched_finalizers ?d [] fin"
    by (simp only: has_life.simps kind_of.simps object_kind.distinct simp_thms True_implies_equals) (elim conjE, erule (1) mp)
  then show "\<exists>before del fin. run_state (life_pass (example_world ?d) [] ?d) [] =
      ((no_result, None), before @ del @ fin) \<and> deletions_confirmed ?d example_client del \<and>
      patched_finalizers ?d [] fin"
    unfolding append_Nil by blast
qed


end
