(* ===== verification/GoHeap.thy ===== *)
theory GoHeap
  imports Prelude "HOL-Library.AList"
begin

text \<open>
  Go values with their memory, for the generated deep copies: elsewhere the development keeps the
  objects as records, which never share anything, so what a deep copy is for cannot be said there.
  Here a struct, a number or a string is a value, while a pointer, a slice and a map hold the
  address of a cell. The statements the generator writes are the steps of a copy, a copy of a
  struct runs its steps in their order, and \<open>denote\<close> reads what a value stands for out of the
  memory. The lemmas give one rule per kind of step, and the rule for structs puts them together.
\<close>

section \<open>Values, cells and the heap\<close>

type_synonym addr = nat

datatype basic = VString string | VBool bool | VInt32 "32 word" | VInt64 "64 word"

text \<open>A slice is the address of its backing array, an offset and a length, so that two slices
  may share an array. A nil pointer, slice or map is \<open>None\<close>. A struct gives each field its value.\<close>

datatype gval =
    Basic basic
  | Ptr "addr option"
  | Slice "(addr \<times> nat \<times> nat) option"
  | MapRef "addr option"
  | Struct "string \<Rightarrow> gval"

datatype cell =
    Var gval
  | Arr "gval list"
  | Table "(string \<times> basic) list"

text \<open>The allocator hands out the first address that was never used.\<close>

type_synonym heap = "cell list"

definition alloc :: "cell \<Rightarrow> heap \<Rightarrow> addr \<times> heap" where
  "alloc c h = (length h, h @ [c])"

definition cell_at :: "heap \<Rightarrow> addr \<Rightarrow> cell option" where
  "cell_at h a = (if a < length h then Some (h ! a) else None)"

fun field :: "string \<Rightarrow> gval \<Rightarrow> gval" where
  "field f (Struct s) = s f"
| "field f v = v"

fun set_field :: "string \<Rightarrow> gval \<Rightarrow> gval \<Rightarrow> gval" where
  "set_field f x (Struct s) = Struct (s(f := x))"
| "set_field f x v = v"

fun is_nil :: "gval \<Rightarrow> bool" where
  "is_nil (Ptr p) = (p = None)"
| "is_nil (Slice s) = (s = None)"
| "is_nil (MapRef m) = (m = None)"
| "is_nil v = False"

definition var_at :: "heap \<Rightarrow> addr \<Rightarrow> gval option" where
  "var_at h a = (case cell_at h a of Some (Var x) \<Rightarrow> Some x | _ \<Rightarrow> None)"

definition elems_at :: "heap \<Rightarrow> addr \<times> nat \<times> nat \<Rightarrow> gval list option" where
  "elems_at h = (\<lambda>(a, off, n). case cell_at h a of
      Some (Arr xs) \<Rightarrow> if off + n \<le> length xs then Some (take n (drop off xs)) else None
    | _ \<Rightarrow> None)"

definition table_at :: "heap \<Rightarrow> addr \<Rightarrow> (string \<times> basic) list option" where
  "table_at h a = (case cell_at h a of Some (Table m) \<Rightarrow> Some m | _ \<Rightarrow> None)"

section \<open>Types, and what a value stands for\<close>

datatype basic_type = TString | TBool | TInt32 | TInt64

fun basic_type_of :: "basic \<Rightarrow> basic_type" where
  "basic_type_of (VString _) = TString"
| "basic_type_of (VBool _) = TBool"
| "basic_type_of (VInt32 _) = TInt32"
| "basic_type_of (VInt64 _) = TInt64"

datatype gtype =
    TBasic basic_type
  | TPtr gtype
  | TSlice gtype
  | TMap basic_type
  | TStruct "(string \<times> gtype) list"

text \<open>The value without its memory: nil is kept apart from an empty slice or map, as Go does.\<close>

datatype deep_value =
    DBasic basic
  | DNil
  | DPtr deep_value
  | DSlice "deep_value list"
  | DMap "(string \<rightharpoonup> basic)"
  | DStruct "(string \<times> deep_value) list"

text \<open>\<open>denote lo T h v\<close> reads the value \<open>v\<close> of type \<open>T\<close> in \<open>h\<close>. It is \<open>None\<close> when \<open>v\<close> is not of
  that type there, or when something it reaches lies below \<open>lo\<close>: with \<open>lo = 0\<close> it is the reading
  of a well-typed value, with \<open>lo\<close> the size of an older heap it says that nothing \<open>v\<close> reaches
  was there already.\<close>

fun denote :: "nat \<Rightarrow> gtype \<Rightarrow> heap \<Rightarrow> gval \<Rightarrow> deep_value option"
and denote_fields :: "nat \<Rightarrow> (string \<times> gtype) list \<Rightarrow> heap \<Rightarrow> (string \<Rightarrow> gval)
    \<Rightarrow> (string \<times> deep_value) list option" where
  "denote lo (TBasic b) h v = (case v of
      Basic x \<Rightarrow> if basic_type_of x = b then Some (DBasic x) else None
    | _ \<Rightarrow> None)"
| "denote lo (TPtr T) h v = (case v of
      Ptr None \<Rightarrow> Some DNil
    | Ptr (Some a) \<Rightarrow> if lo \<le> a then
        (case var_at h a of Some x \<Rightarrow> map_option DPtr (denote lo T h x) | None \<Rightarrow> None)
        else None
    | _ \<Rightarrow> None)"
| "denote lo (TSlice T) h v = (case v of
      Slice None \<Rightarrow> Some DNil
    | Slice (Some s) \<Rightarrow> if lo \<le> fst s then
        (case elems_at h s of
          Some xs \<Rightarrow> map_option DSlice (those (map (denote lo T h) xs))
        | None \<Rightarrow> None)
        else None
    | _ \<Rightarrow> None)"
| "denote lo (TMap b) h v = (case v of
      MapRef None \<Rightarrow> Some DNil
    | MapRef (Some a) \<Rightarrow> if lo \<le> a then
        (case table_at h a of
          Some m \<Rightarrow> if distinct (map fst m) \<and> (\<forall>x \<in> snd ` set m. basic_type_of x = b) then Some (DMap (map_of m)) else None
        | None \<Rightarrow> None)
        else None
    | _ \<Rightarrow> None)"
| "denote lo (TStruct fs) h v = (case v of
      Struct s \<Rightarrow> map_option DStruct (denote_fields lo fs h s)
    | _ \<Rightarrow> None)"
| "denote_fields lo [] h s = Some []"
| "denote_fields lo ((f, T) # fs) h s = (case denote lo T h (s f) of
      Some d \<Rightarrow> map_option ((#) (f, d)) (denote_fields lo fs h s)
    | None \<Rightarrow> None)"

text \<open>A type whose values hold no address: an assignment copies them.\<close>

fun flat :: "gtype \<Rightarrow> bool" where
  "flat (TBasic _) = True"
| "flat (TStruct fs) = (\<forall>(f, T) \<in> set fs. flat T)"
| "flat _ = False"

section \<open>The statements of the generated functions\<close>

text \<open>A copier is what a \<open>DeepCopyInto\<close> does: from \<open>*in\<close>, what it leaves in \<open>*out\<close>, and the heap.
  \<open>out\<close> never points into what \<open>in\<close> reaches: it is a new variable, an element of a new array or
  a field of either.\<close>

type_synonym copier = "gval \<Rightarrow> heap \<Rightarrow> gval \<times> heap"

text \<open>\<open>*out = *in\<close>, and \<open>**out = **in\<close>.\<close>

definition shallow :: copier where
  "shallow v h = (v, h)"

text \<open>\<open>*out = new(T)\<close> with \<open>( *in).DeepCopyInto( *out)\<close> or \<open>**out = **in\<close>. The new cell is shown as
  it is after \<open>*out = *in\<close>, the first statement of every copier; the result is written when it
  is complete, as no copier reads \<open>*out\<close>.\<close>

definition new_copy :: "copier \<Rightarrow> copier" where
  "new_copy C v h = (case v of
      Ptr (Some a) \<Rightarrow> (case var_at h a of
          Some x \<Rightarrow>
            let (out, h1) = alloc (Var x) h;
                (y, h2) = C x h1
            in (Ptr (Some out), h2[out := Var y])
        | None \<Rightarrow> (v, h))
    | _ \<Rightarrow> (v, h))"

text \<open>\<open>for i := range *in { ( *in)[i].DeepCopyInto(&( *out)[i]) }\<close>: element after element.\<close>

fun copy_elems :: "copier \<Rightarrow> gval list \<Rightarrow> heap \<Rightarrow> gval list \<times> heap" where
  "copy_elems C [] h = ([], h)"
| "copy_elems C (x # xs) h =
     (let (y, h1) = C x h; (ys, h2) = copy_elems C xs h1 in (y # ys, h2))"

text \<open>\<open>*out = make([]T, len( *in))\<close> and the loop; with \<open>shallow\<close> it is \<open>copy( *out, *in)\<close>.\<close>

definition make_copy :: "copier \<Rightarrow> copier" where
  "make_copy C v h = (case v of
      Slice (Some s) \<Rightarrow> (case elems_at h s of
          Some xs \<Rightarrow>
            let (out, h1) = alloc (Arr xs) h;
                (ys, h2) = copy_elems C xs h1
            in (Slice (Some (out, 0, length xs)), h2[out := Arr ys])
        | None \<Rightarrow> (v, h))
    | _ \<Rightarrow> (v, h))"

text \<open>\<open>*out = make(map[string]string, len( *in))\<close> and
  \<open>for key, val := range *in { ( *out)[key] = val }\<close>.\<close>

definition map_copy :: copier where
  "map_copy v h = (case v of
      MapRef (Some a) \<Rightarrow> (case table_at h a of
          Some m \<Rightarrow>
            let (out, h1) = alloc (Table (fold (\<lambda>(k, x). AList.update k x) m [])) h
            in (MapRef (Some out), h1)
        | None \<Rightarrow> (v, h))
    | _ \<Rightarrow> (v, h))"

text \<open>The statements after \<open>*out = *in\<close>: \<open>out.F = in.F\<close>, \<open>in.F.DeepCopyInto(&out.F)\<close>, and
  \<open>if in.F != nil { in, out := &in.F, &out.F; ... }\<close>.\<close>

datatype step =
    Assign string
  | Into string copier
  | IfSet string copier

fun step_field :: "step \<Rightarrow> string" where
  "step_field (Assign f) = f"
| "step_field (Into f C) = f"
| "step_field (IfSet f C) = f"

fun run_step :: "gval \<Rightarrow> step \<Rightarrow> gval \<times> heap \<Rightarrow> gval \<times> heap" where
  "run_step inn (Assign f) (out, h) = (set_field f (field f inn) out, h)"
| "run_step inn (Into f C) (out, h) =
     (let (y, h1) = C (field f inn) h in (set_field f y out, h1))"
| "run_step inn (IfSet f C) (out, h) =
     (if is_nil (field f inn) then (out, h)
      else let (y, h1) = C (field f inn) h in (set_field f y out, h1))"

definition copy_struct :: "step list \<Rightarrow> copier" where
  "copy_struct steps inn h = fold (run_step inn) steps (inn, h)"

text \<open>\<open>DeepCopy\<close>: nil for nil, else \<open>out := new(T); in.DeepCopyInto(out); return out\<close>.\<close>

definition deep_copy :: "copier \<Rightarrow> copier" where
  "deep_copy C p h = (if is_nil p then (Ptr None, h) else new_copy C p h)"

text \<open>\<open>DeepCopyObject\<close> returns an interface: nil, or a pointer with its type. The test on the
  pointer keeps a nil pointer from becoming an interface that is not nil.\<close>

datatype object = NilObject | Object string addr

definition deep_copy_object :: "string \<Rightarrow> copier \<Rightarrow> gval \<Rightarrow> heap \<Rightarrow> object \<times> heap" where
  "deep_copy_object type DeepCopy p h = (case DeepCopy p h of
      (Ptr (Some c), h1) \<Rightarrow> (Object type c, h1)
    | (_, h1) \<Rightarrow> (NilObject, h1))"

section \<open>What a deep copy is\<close>

text \<open>The old memory is left as it was, and the copy stands for the same value without reaching
  into it.\<close>

definition extends :: "heap \<Rightarrow> heap \<Rightarrow> bool" where
  "extends h g \<longleftrightarrow> length h \<le> length g \<and> take (length h) g = h"

definition deep :: "gtype \<Rightarrow> copier \<Rightarrow> bool" where
  "deep T C \<longleftrightarrow> (\<forall>h v d. denote 0 T h v = Some d \<longrightarrow>
     (case C v h of (w, g) \<Rightarrow> extends h g \<and> denote (length h) T g w = Some d))"

named_theorems deep_rules "one rule per statement of a generated copy"

lemma extends_refl [simp]: "extends h h"
  by (simp add: extends_def)

lemma extends_trans [trans]: "extends h g \<Longrightarrow> extends g k \<Longrightarrow> extends h k"
  unfolding extends_def by (metis le_trans min.absorb_iff1 take_take)

lemma extends_append [simp]: "extends h (h @ ext)"
  by (simp add: extends_def)

lemma extends_length: "extends h g \<Longrightarrow> length h \<le> length g"
  by (simp add: extends_def)

lemma extends_cell: "extends h g \<Longrightarrow> cell_at h a = Some c \<Longrightarrow> cell_at g a = Some c"
  unfolding extends_def cell_at_def by (metis less_le_trans nth_take option.discI)

lemma extends_update: "extends h g \<Longrightarrow> length h \<le> a \<Longrightarrow> extends h (g[a := c])"
  by (simp add: extends_def)

lemma extends_new: "extends (h @ [c]) g \<Longrightarrow> extends h (g[length h := c'])"
  by (meson extends_append extends_trans extends_update le_refl)

lemma extends_new_cell: "extends (h @ [c]) g \<Longrightarrow> cell_at (g[length h := c']) (length h) = Some c'"
  using extends_length[of "h @ [c]" g] by (simp add: cell_at_def)

lemma deepI:
  assumes "\<And>h v d w g. denote 0 T h v = Some d \<Longrightarrow> C v h = (w, g) \<Longrightarrow>
      extends h g \<and> denote (length h) T g w = Some d"
  shows "deep T C"
  using assms by (fastforce simp: deep_def split: prod.splits)

lemma deepD:
  assumes "deep T C" and "denote 0 T h v = Some d" and "C v h = (w, g)"
  shows "extends h g" and "denote (length h) T g w = Some d"
  using assms by (fastforce simp: deep_def)+

section \<open>Reading a value, type by type\<close>

lemma denote_basic:
  "denote lo (TBasic b) h v = Some d \<longleftrightarrow>
     (\<exists>x. v = Basic x \<and> basic_type_of x = b \<and> d = DBasic x)"
  by (auto split: gval.splits)

lemma denote_ptr:
  "denote lo (TPtr T) h v = Some d \<longleftrightarrow>
     v = Ptr None \<and> d = DNil \<or>
     (\<exists>a x e. v = Ptr (Some a) \<and> lo \<le> a \<and> var_at h a = Some x \<and> denote lo T h x = Some e
        \<and> d = DPtr e)"
  by (cases v) (auto split: option.splits)

lemma denote_slice:
  "denote lo (TSlice T) h v = Some d \<longleftrightarrow>
     v = Slice None \<and> d = DNil \<or>
     (\<exists>s xs es. v = Slice (Some s) \<and> lo \<le> fst s \<and> elems_at h s = Some xs
        \<and> those (map (denote lo T h) xs) = Some es \<and> d = DSlice es)"
  by (cases v) (auto split: option.splits)

lemma denote_map:
  "denote lo (TMap b) h v = Some d \<longleftrightarrow>
     v = MapRef None \<and> d = DNil \<or>
     (\<exists>a m. v = MapRef (Some a) \<and> lo \<le> a \<and> table_at h a = Some m
        \<and> distinct (map fst m) \<and> (\<forall>x \<in> snd ` set m. basic_type_of x = b) \<and> d = DMap (map_of m))"
  by (cases v) (auto split: option.splits)

lemma denote_struct:
  "denote lo (TStruct fs) h v = Some d \<longleftrightarrow>
     (\<exists>s ds. v = Struct s \<and> denote_fields lo fs h s = Some ds \<and> d = DStruct ds)"
  by (cases v) auto

lemma denote_field:
  "denote_fields lo ((f, T) # fs) h s = Some ds \<longleftrightarrow>
     (\<exists>e es. denote lo T h (s f) = Some e \<and> denote_fields lo fs h s = Some es \<and> ds = (f, e) # es)"
  by (auto split: option.splits)

declare denote.simps [simp del] denote_fields.simps(2) [simp del]

lemmas denote_iffs = denote_basic denote_ptr denote_slice denote_map denote_struct denote_field

section \<open>Reading depends on the reached cells only\<close>

text \<open>Reading is not changed by what lies below \<open>lo\<close>, nor by what is added to the heap.\<close>

definition agree_from :: "nat \<Rightarrow> heap \<Rightarrow> heap \<Rightarrow> bool" where
  "agree_from lo h g \<longleftrightarrow> (\<forall>a c. lo \<le> a \<longrightarrow> cell_at h a = Some c \<longrightarrow> cell_at g a = Some c)"

lemma agree_from_reads:
  assumes "agree_from lo h g" and "lo \<le> a"
  shows "var_at h a = Some x \<Longrightarrow> var_at g a = Some x"
    and "table_at h a = Some m \<Longrightarrow> table_at g a = Some m"
  using assms by (auto simp: var_at_def table_at_def agree_from_def split: option.splits cell.splits)

lemma agree_from_elems:
  assumes "agree_from lo h g" and "lo \<le> fst s" and "elems_at h s = Some xs"
  shows "elems_at g s = Some xs"
  using assms
  by (auto simp: elems_at_def agree_from_def split: option.splits cell.splits if_splits prod.splits)

lemma those_map_mono:
  assumes "those (map f xs) = Some ys" and "\<And>x y. x \<in> set xs \<Longrightarrow> f x = Some y \<Longrightarrow> f' x = Some y"
  shows "those (map f' xs) = Some ys"
  using assms by (induction xs arbitrary: ys) (auto split: option.splits)

lemma denote_agree:
  assumes "agree_from lo h g" and "lo' \<le> lo"
  shows "denote lo T h v = Some d \<Longrightarrow> denote lo' T g v = Some d"
    and "denote_fields lo fs h s = Some ds \<Longrightarrow> denote_fields lo' fs g s = Some ds"
  using assms
proof (induction lo T h v and lo fs h s arbitrary: d and ds rule: denote_denote_fields.induct)
  case (2 lo T h v)
  then show ?case
    by (fastforce simp: denote_ptr dest: agree_from_reads(1))
next
  case (3 lo T h v)
  show ?case
  proof (cases "v = Slice None")
    case True then show ?thesis using 3(2) by (simp add: denote_slice)
  next
    case False
    then obtain s xs es where v: "v = Slice (Some s)" and s: "lo \<le> fst s"
        "elems_at h s = Some xs" and es: "those (map (denote lo T h) xs) = Some es"
        and d: "d = DSlice es"
      using 3(2) unfolding denote_slice by blast
    have "those (map (denote lo' T g) xs) = Some es"
      using es by (rule those_map_mono) (rule 3(1)[OF v refl s _ _ 3(3,4)])
    with v s d show ?thesis
      using agree_from_elems[OF 3(3) s] 3(4) by (auto simp: denote_slice)
  qed
next
  case (4 lo b h v)
  then show ?case
    by (fastforce simp: denote_map dest: agree_from_reads(2))
next
  case (5 lo fs h v)
  then show ?case
    by (auto simp: denote_struct)
next
  case (7 lo f T fs h s)
  then show ?case
    by (auto simp: denote_field)
qed (auto simp: denote_basic)

lemma agree_from_extends: "extends h g \<Longrightarrow> agree_from lo h g"
  by (simp add: agree_from_def extends_cell)

lemma agree_from_below: "a < lo \<Longrightarrow> agree_from lo h (h[a := c])"
  by (auto simp: agree_from_def cell_at_def)

lemma denote_extends: "denote lo T h v = Some d \<Longrightarrow> extends h g \<Longrightarrow> denote lo T g v = Some d"
  by (rule denote_agree(1)[OF agree_from_extends order.refl])

lemma denote_above: "denote lo T h v = Some d \<Longrightarrow> lo' \<le> lo \<Longrightarrow> denote lo' T h v = Some d"
  by (rule denote_agree(1)[OF agree_from_extends[OF extends_refl]])

lemma denote_update:
  "denote lo T h v = Some d \<Longrightarrow> a < lo \<Longrightarrow> lo' \<le> lo \<Longrightarrow> denote lo' T (h[a := c]) v = Some d"
  by (rule denote_agree(1)[OF agree_from_below])

section \<open>One rule per statement\<close>

lemma denote_flat:
  "flat T \<Longrightarrow> denote lo T h v = Some d \<Longrightarrow> denote lo' T g v = Some d"
  "\<forall>(f, T) \<in> set fs. flat T \<Longrightarrow> denote_fields lo fs h s = Some ds \<Longrightarrow>
     denote_fields lo' fs g s = Some ds"
  by (induction lo T h v and lo fs h s arbitrary: d and ds rule: denote_denote_fields.induct)
     (auto simp: denote_basic denote_struct denote_field)

lemma deep_shallow [deep_rules]: "flat T \<Longrightarrow> deep T shallow"
  by (rule deepI) (auto simp: shallow_def intro: denote_flat)

lemma deep_new_copy [deep_rules]:
  assumes "deep T C"
  shows "deep (TPtr T) (new_copy C)"
proof (rule deepI)
  fix h v d w g
  assume d: "denote 0 (TPtr T) h v = Some d" and w: "new_copy C v h = (w, g)"
  show "extends h g \<and> denote (length h) (TPtr T) g w = Some d"
  proof (cases "v = Ptr None")
    case True
    then show ?thesis using d w by (auto simp: denote_ptr new_copy_def)
  next
    case False
    then obtain a x e where v: "v = Ptr (Some a)" and x: "var_at h a = Some x"
        and e: "denote 0 T h x = Some e" and de: "d = DPtr e"
      using d unfolding denote_ptr by blast
    obtain y h2 where c: "C x (h @ [Var x]) = (y, h2)" by fastforce
    have "denote 0 T (h @ [Var x]) x = Some e"
      using e by (rule denote_extends) simp
    note r = deepD[OF assms this c]
    have w': "w = Ptr (Some (length h))" "g = h2[length h := Var y]"
      using w by (auto simp: new_copy_def v x alloc_def c)
    have "denote (length h) T g y = Some e"
      unfolding w' using r(2) by (rule denote_update) simp_all
    then show ?thesis
      using extends_new[OF r(1)] extends_new_cell[OF r(1)] by (auto simp: w' de denote_ptr var_at_def)
  qed
qed

lemma copy_elems_deep:
  assumes "deep T C" and "those (map (denote 0 T h) xs) = Some es" and "copy_elems C xs h = (ys, g)"
  shows "extends h g \<and> those (map (denote (length h) T g) ys) = Some es \<and> length ys = length xs"
  using assms(2,3)
proof (induction xs arbitrary: h es ys)
  case (Cons x xs)
  then obtain e es' where e: "denote 0 T h x = Some e" "es = e # es'"
      and es': "those (map (denote 0 T h) xs) = Some es'"
    by (auto split: option.splits)
  obtain y h1 zs where y: "C x h = (y, h1)" and zs: "copy_elems C xs h1 = (zs, g)" "ys = y # zs"
    using Cons.prems(2) by (auto split: prod.splits)
  note r = deepD[OF assms(1) e(1) y]
  have "those (map (denote 0 T h1) xs) = Some es'"
    using es' by (rule those_map_mono) (rule denote_extends[OF _ r(1)])
  note ih = Cons.IH[OF this zs(1)]
  then have "those (map (denote (length h) T g) zs) = Some es'"
    using extends_length[OF r(1)] by (blast intro: those_map_mono denote_above)
  moreover have "denote (length h) T g y = Some e"
    using r(2) ih by (blast intro: denote_extends)
  ultimately show ?case
    using ih r(1) by (auto simp: e zs intro: extends_trans)
qed simp

lemma deep_make_copy [deep_rules]:
  assumes "deep T C"
  shows "deep (TSlice T) (make_copy C)"
proof (rule deepI)
  fix h v d w g
  assume d: "denote 0 (TSlice T) h v = Some d" and w: "make_copy C v h = (w, g)"
  show "extends h g \<and> denote (length h) (TSlice T) g w = Some d"
  proof (cases "v = Slice None")
    case True
    then show ?thesis using d w by (auto simp: denote_slice make_copy_def)
  next
    case False
    then obtain s xs es where v: "v = Slice (Some s)" and x: "elems_at h s = Some xs"
        and e: "those (map (denote 0 T h) xs) = Some es" and de: "d = DSlice es"
      using d unfolding denote_slice by blast
    obtain ys h2 where c: "copy_elems C xs (h @ [Arr xs]) = (ys, h2)" by fastforce
    have "those (map (denote 0 T (h @ [Arr xs])) xs) = Some es"
      using e by (rule those_map_mono) (erule denote_extends, simp)
    note r = copy_elems_deep[OF assms this c]
    have w': "w = Slice (Some (length h, 0, length xs))" "g = h2[length h := Arr ys]"
      using w by (auto simp: make_copy_def v x alloc_def c)
    have "those (map (denote (length h) T g) ys) = Some es"
      unfolding w' by (rule those_map_mono[OF r[THEN conjunct2, THEN conjunct1]])
        (erule denote_update, simp_all)
    moreover have "elems_at g (length h, 0, length xs) = Some ys"
      using extends_new_cell[OF r[THEN conjunct1]] r by (simp add: w' elems_at_def)
    ultimately show ?thesis
      using r extends_new by (auto simp: w' de denote_slice)
  qed
qed

lemma map_of_insert_all:
  "distinct (map fst m) \<Longrightarrow>
     map_of (fold (\<lambda>(k, x). AList.update k x) m acc) = map_of acc ++ map_of m"
  by (induction m arbitrary: acc)
     (auto simp: update_conv' map_add_upd_left dom_map_of_conv_image_fst)

lemma distinct_insert_all:
  "distinct (map fst acc) \<Longrightarrow> distinct (map fst (fold (\<lambda>(k, x). AList.update k x) m acc))"
  by (induction m arbitrary: acc) (auto intro: distinct_update)

lemma snd_update: "snd ` set (AList.update k x acc) \<subseteq> insert x (snd ` set acc)"
  by (induction acc) auto

lemma snd_insert_all:
  "snd ` set (fold (\<lambda>(k, x). AList.update k x) m acc) \<subseteq> snd ` set acc \<union> snd ` set m"
proof (induction m arbitrary: acc)
  case (Cons kx m)
  obtain k x where "kx = (k, x)" by fastforce
  then show ?case
    using Cons[of "AList.update k x acc"] snd_update[of k x acc] by auto
qed simp

lemma deep_map_copy [deep_rules]: "deep (TMap b) map_copy"
proof (rule deepI)
  fix h v d w g
  assume d: "denote 0 (TMap b) h v = Some d" and w: "map_copy v h = (w, g)"
  show "extends h g \<and> denote (length h) (TMap b) g w = Some d"
  proof (cases "v = MapRef None")
    case True
    then show ?thesis using d w by (auto simp: denote_map map_copy_def)
  next
    case False
    then obtain a m where v: "v = MapRef (Some a)" and m: "table_at h a = Some m" "distinct (map fst m)"
        "\<forall>x \<in> snd ` set m. basic_type_of x = b" and de: "d = DMap (map_of m)"
      using d unfolding denote_map by blast
    define m' where "m' = fold (\<lambda>(k, x). AList.update k x) m []"
    have w': "w = MapRef (Some (length h))" "g = h @ [Table m']"
      using w by (auto simp: map_copy_def v m alloc_def m'_def)
    have "map_of m' = map_of m" "distinct (map fst m')" "snd ` set m' \<subseteq> snd ` set m"
      using map_of_insert_all[OF m(2), of "[]"] distinct_insert_all[of "[]" m] snd_insert_all[of m "[]"]
      by (auto simp: m'_def)
    moreover from this(3) have "\<forall>x \<in> snd ` set m'. basic_type_of x = b"
      using m(3) by blast
    ultimately show ?thesis
      by (simp add: w' de denote_map table_at_def cell_at_def)
  qed
qed

text \<open>The order in which \<open>range\<close> enumerates the entries does not matter.\<close>

lemma map_copy_any_order:
  assumes "set m' = set m" and "distinct (map fst m')" and "distinct (map fst m)"
  shows "map_of (fold (\<lambda>(k, x). AList.update k x) m' []) = map_of m"
  using assms map_of_insert_all[of m' "[]"] map_of_inject_set[of m' m] by simp

lemma denote_nil: "is_nil v \<Longrightarrow> denote lo T h v = Some d \<Longrightarrow> denote lo' T g v = Some d"
  by (cases T) (auto simp: denote_iffs)

fun step_deep :: "gtype \<Rightarrow> step \<Rightarrow> bool" where
  "step_deep T (Assign f) = flat T"
| "step_deep T (Into f C) = deep T C"
| "step_deep T (IfSet f C) = deep T C"

lemma run_step_deep:
  assumes ok: "step_deep T st" "denote 0 T h (s (step_field st)) = Some d"
    and h1: "extends h h1" and r: "run_step (Struct s) st (Struct out, h1) = (out', g)"
    and init: "out (step_field st) = s (step_field st)"
  shows "\<exists>y. out' = Struct (out(step_field st := y)) \<and> extends h1 g \<and>
     (\<forall>T d. step_deep T st \<longrightarrow> denote 0 T h (s (step_field st)) = Some d \<longrightarrow>
        denote (length h) T g y = Some d)"
proof (cases st)
  case (Assign f)
  then show ?thesis using r by (auto intro: denote_flat)
next
  case (Into f C)
  obtain y where y: "C (s f) h1 = (y, g)" "out' = Struct (out(f := y))"
    using r by (auto simp: Into split: prod.splits)
  have *: "extends h1 g" "denote (length h) T g y = Some d"
    if "deep T C" and "denote 0 T h (s f) = Some d" for T d
    using deepD[OF that(1) denote_extends[OF that(2) h1] y(1)] extends_length[OF h1]
    by (auto intro: denote_above)
  show ?thesis using y * ok by (auto simp: Into)
next
  case (IfSet f C)
  show ?thesis
  proof (cases "is_nil (s f)")
    case True
    then have "out' = Struct (out(f := s f))" "g = h1"
      using r init by (auto simp: IfSet)
    moreover have "\<forall>T d. denote 0 T h (s f) = Some d \<longrightarrow> denote (length h) T h1 (s f) = Some d"
      using denote_nil[OF True] by blast
    ultimately show ?thesis
      by (auto simp: IfSet intro!: exI[of _ "s f"])
  next
    case False
    then obtain y where y: "C (s f) h1 = (y, g)" "out' = Struct (out(f := y))"
      using r by (auto simp: IfSet split: prod.splits)
    have *: "extends h1 g" "denote (length h) T g y = Some d"
      if "deep T C" and "denote 0 T h (s f) = Some d" for T d
      using deepD[OF that(1) denote_extends[OF that(2) h1] y(1)] extends_length[OF h1]
      by (auto intro: denote_above)
    show ?thesis using y * ok by (auto simp: IfSet)
  qed
qed

text \<open>The steps of a struct touch different fields, so each field ends as its own step left it,
  or, with no step, as \<open>*out = *in\<close> did.\<close>

lemma run_steps_deep:
  assumes "\<forall>st \<in> set steps. \<exists>T d. step_deep T st \<and> denote 0 T h (s (step_field st)) = Some d"
    and "\<forall>st \<in> set steps. out (step_field st) = s (step_field st)"
    and "distinct (map step_field steps)" and "extends h h1"
    and "fold (run_step (Struct s)) steps (Struct out, h1) = (w, g)"
  shows "\<exists>out'. w = Struct out' \<and> extends h1 g \<and>
     (\<forall>f. f \<notin> step_field ` set steps \<longrightarrow> out' f = out f) \<and>
     (\<forall>st \<in> set steps. \<forall>T d. step_deep T st \<longrightarrow> denote 0 T h (s (step_field st)) = Some d \<longrightarrow>
        denote (length h) T g (out' (step_field st)) = Some d)"
  using assms
proof (induction steps arbitrary: out h1)
  case (Cons st steps)
  obtain out1 h2 where r: "run_step (Struct s) st (Struct out, h1) = (out1, h2)" by fastforce
  obtain T d where "step_deep T st" "denote 0 T h (s (step_field st)) = Some d"
    using Cons.prems(1) by auto
  from run_step_deep[OF this Cons.prems(4) r] Cons.prems(2)
  obtain y where y: "out1 = Struct (out(step_field st := y))" "extends h1 h2"
      and st: "\<And>T d. step_deep T st \<Longrightarrow> denote 0 T h (s (step_field st)) = Some d \<Longrightarrow>
        denote (length h) T h2 y = Some d"
    by auto
  have "\<exists>out'. w = Struct out' \<and> extends h2 g \<and>
     (\<forall>f. f \<notin> step_field ` set steps \<longrightarrow> out' f = (out(step_field st := y)) f) \<and>
     (\<forall>st \<in> set steps. \<forall>T d. step_deep T st \<longrightarrow> denote 0 T h (s (step_field st)) = Some d \<longrightarrow>
        denote (length h) T g (out' (step_field st)) = Some d)"
  proof (rule Cons.IH)
    show "\<forall>st' \<in> set steps. (out(step_field st := y)) (step_field st') = s (step_field st')"
      using Cons.prems(2,3) by (auto simp: image_iff)
    show "extends h h2" using Cons.prems(4) y(2) by (rule extends_trans)
    show "fold (run_step (Struct s)) steps (Struct (out(step_field st := y)), h2) = (w, g)"
      using Cons.prems(5) by (simp add: r y(1))
  qed (use Cons.prems in auto)
  then obtain out' where o: "w = Struct out'" "extends h2 g"
      "\<And>f. f \<notin> step_field ` set steps \<Longrightarrow> out' f = (out(step_field st := y)) f"
      and later: "\<And>st T d. st \<in> set steps \<Longrightarrow> step_deep T st \<Longrightarrow>
        denote 0 T h (s (step_field st)) = Some d \<Longrightarrow>
        denote (length h) T g (out' (step_field st)) = Some d"
    by blast
  have "out' (step_field st) = y"
    using o(3) Cons.prems(3) by (auto simp: image_iff)
  then have now: "denote (length h) T g (out' (step_field st)) = Some d"
    if "step_deep T st" "denote 0 T h (s (step_field st)) = Some d" for T d
    using denote_extends[OF st[OF that] o(2)] by simp
  show ?case
  proof (intro exI[of _ out'] conjI)
    show "\<forall>st' \<in> set (st # steps). \<forall>T d. step_deep T st' \<longrightarrow>
        denote 0 T h (s (step_field st')) = Some d \<longrightarrow>
        denote (length h) T g (out' (step_field st')) = Some d"
      using now later by (metis set_ConsD)
  qed (use o extends_trans[OF y(2) o(2)] in auto)
next
  case Nil
  then show ?case by (intro exI[of _ out]) auto
qed

text \<open>Every field with an address in it has a step that copies it deeply.\<close>

fun covered :: "step list \<Rightarrow> string \<times> gtype \<Rightarrow> bool" where
  "covered [] (f, T) = flat T"
| "covered (st # steps) (f, T) =
     (if step_field st = f then step_deep T st else covered steps (f, T))"

lemma covered_step:
  "covered steps (f, T) \<Longrightarrow> st \<in> set steps \<Longrightarrow> step_field st = f \<Longrightarrow> distinct (map step_field steps)
     \<Longrightarrow> step_deep T st"
  by (induction steps) (auto split: if_splits)

lemma covered_other:
  "covered steps (f, T) \<Longrightarrow> f \<notin> step_field ` set steps \<Longrightarrow> flat T"
  by (induction steps) (auto split: if_splits)

lemma denote_fields_iff:
  "denote_fields lo fs h s = Some ds \<longleftrightarrow>
     list_all2 (\<lambda>(f, T) (f', d). f' = f \<and> denote lo T h (s f) = Some d) fs ds"
  by (induction fs arbitrary: ds) (auto simp: denote_field list_all2_Cons1)

lemma deep_struct [deep_rules]:
  assumes steps: "distinct (map step_field steps)" "step_field ` set steps \<subseteq> fst ` set fs"
    and cov: "\<forall>x \<in> set fs. covered steps x"
  shows "deep (TStruct fs) (copy_struct steps)"
proof (rule deepI)
  fix h v d w g
  assume d: "denote 0 (TStruct fs) h v = Some d" and w: "copy_struct steps v h = (w, g)"
  then obtain s ds where v: "v = Struct s" and ds: "denote_fields 0 fs h s = Some ds" "d = DStruct ds"
    by (auto simp: denote_struct)
  have typed: "\<exists>e. denote 0 T h (s f) = Some e" if "(f, T) \<in> set fs" for f T
    using ds(1) that by (fastforce simp: denote_fields_iff in_set_conv_nth list_all2_conv_all_nth)
  have ok: "\<forall>st \<in> set steps. \<exists>T d. step_deep T st \<and> denote 0 T h (s (step_field st)) = Some d"
  proof
    fix st assume st: "st \<in> set steps"
    then obtain T where T: "(step_field st, T) \<in> set fs"
      using steps(2) by force
    show "\<exists>T d. step_deep T st \<and> denote 0 T h (s (step_field st)) = Some d"
      using covered_step[OF _ st refl steps(1)] cov typed[OF T] T by blast
  qed
  from run_steps_deep[OF ok _ steps(1) extends_refl, of s w g] w
  obtain out where o: "w = Struct out" "extends h g"
      "\<And>f. f \<notin> step_field ` set steps \<Longrightarrow> out f = s f"
      and step: "\<And>st T e. st \<in> set steps \<Longrightarrow> step_deep T st \<Longrightarrow>
        denote 0 T h (s (step_field st)) = Some e \<Longrightarrow>
        denote (length h) T g (out (step_field st)) = Some e"
    by (auto simp: copy_struct_def v)
  have field: "denote (length h) T g (out f) = Some e"
    if f: "(f, T) \<in> set fs" and e: "denote 0 T h (s f) = Some e" for f T e
  proof (cases "f \<in> step_field ` set steps")
    case True
    then show ?thesis
      using step covered_step cov f e steps(1) by blast
  next
    case False
    then have "flat T" and "out f = s f"
      using covered_other cov f o(3) by auto
    with denote_flat(1)[OF this(1) e] show ?thesis by simp
  qed
  have "denote_fields (length h) fs g out = Some ds"
    using ds(1) unfolding denote_fields_iff
    by (rule list.rel_mono_strong) (use field in auto)
  then show "extends h g \<and> denote (length h) (TStruct fs) g w = Some d"
    using o ds(2) by (simp add: denote_struct)
qed

lemma deep_deep_copy [deep_rules]:
  assumes "deep T C"
  shows "deep (TPtr T) (deep_copy C)"
proof (rule deepI)
  fix h v d w g
  assume "denote 0 (TPtr T) h v = Some d" and "deep_copy C v h = (w, g)"
  then show "extends h g \<and> denote (length h) (TPtr T) g w = Some d"
    using deepD[OF deep_new_copy[OF assms]]
    by (auto simp: deep_copy_def denote_ptr split: if_splits)
qed

section \<open>What a deep copy gives its caller\<close>

text \<open>Whatever is written to the memory that was there before the copy, the copy reads as the
  value it was taken of; and whatever is written through the copy, the original reads as before.\<close>

lemma deep_independent:
  assumes "deep T C" and d: "denote 0 T h v = Some d" and "C v h = (w, g)"
  shows "denote 0 T g w = Some d"
    and "(\<And>a. length h \<le> a \<Longrightarrow> cell_at k a = cell_at g a) \<Longrightarrow> denote 0 T k w = Some d"
    and "(\<And>a. a < length h \<Longrightarrow> cell_at k a = cell_at g a) \<Longrightarrow> denote 0 T k v = Some d"
proof -
  note r = deepD[OF assms]
  show "denote 0 T g w = Some d"
    using r(2) by (rule denote_above) simp
  show "denote 0 T k w = Some d" if "\<And>a. length h \<le> a \<Longrightarrow> cell_at k a = cell_at g a"
    by (rule denote_agree(1)[OF _ _ r(2)]) (simp_all add: agree_from_def that)
  show "denote 0 T k v = Some d" if same: "\<And>a. a < length h \<Longrightarrow> cell_at k a = cell_at g a"
  proof (rule denote_agree(1)[OF _ order.refl d])
    show "agree_from 0 h k"
      unfolding agree_from_def
      using extends_cell[OF r(1)] same by (metis cell_at_def option.discI)
  qed
qed

lemma deep_copy_pointer:
  assumes "denote 0 (TPtr T) h p = Some d" and "deep_copy C p h = (w, g)"
  shows "(p = Ptr None \<and> w = Ptr None \<and> g = h) \<or>
    (\<exists>a c. p = Ptr (Some a) \<and> w = Ptr (Some c) \<and> c = length h)"
  using assms
  by (fastforce simp: deep_copy_def new_copy_def denote_ptr alloc_def split: prod.splits if_splits)

end
