(* ===== verification/DeepCopyTypes.thy ===== *)
theory DeepCopyTypes
  imports GoHeap
begin

text \<open>
  The structs of src/api/v1alpha1 as types with addresses, field by field: a string type is a
  string, a pointer, a slice and a map keep their own. The types of apimachinery, and the deep
  copies it provides for them, are parameters: only their documented behaviour is used.
\<close>

record third_party =
  TypeMeta_type :: gtype
  ObjectMeta_type :: gtype
  ListMeta_type :: gtype
  Condition_type :: gtype
  RawExtension_type :: gtype
  Time_type :: gtype
  ObjectMeta_DeepCopyInto :: copier
  ListMeta_DeepCopyInto :: copier
  Condition_DeepCopyInto :: copier
  RawExtension_DeepCopyInto :: copier
  Time_DeepCopy :: copier

text \<open>\<open>TypeMeta\<close> is two strings; the other copies are deep ones. A \<open>Time\<close> is an instant: its zone,
  which all copies of a time share, is never written.\<close>

definition third_party_copies :: "third_party \<Rightarrow> bool" where
  "third_party_copies P \<longleftrightarrow>
     flat (TypeMeta_type P) \<and>
     deep (ObjectMeta_type P) (ObjectMeta_DeepCopyInto P) \<and>
     deep (ListMeta_type P) (ListMeta_DeepCopyInto P) \<and>
     deep (Condition_type P) (Condition_DeepCopyInto P) \<and>
     deep (RawExtension_type P) (RawExtension_DeepCopyInto P) \<and>
     deep (TPtr (Time_type P)) (Time_DeepCopy P)"

definition NamespacedNameRef_type :: "gtype" where
  "NamespacedNameRef_type = TStruct [
     (''Name'', TBasic TString), (''Namespace'', TBasic TString)]"

definition K1sEndpointSpec_type :: "gtype" where
  "K1sEndpointSpec_type = TStruct [
     (''URL'', TBasic TString)]"

definition K1sAuthSecretRef_type :: "gtype" where
  "K1sAuthSecretRef_type = TStruct [
     (''Name'', TBasic TString), (''Namespace'', TBasic TString),
     (''ControllerReadTokenKey'', TBasic TString), (''ControllerWriteTokenKey'', TBasic TString),
     (''ApishimReadTokenKey'', TBasic TString), (''ApishimWriteTokenKey'', TBasic TString),
     (''CABundleKey'', TBasic TString)]"

definition K1sAppRef_type :: "gtype" where
  "K1sAppRef_type = TStruct [
     (''Name'', TBasic TString), (''Namespace'', TBasic TString)]"

definition ConditionedStatus_type :: "third_party \<Rightarrow> gtype" where
  "ConditionedStatus_type P = TStruct [
     (''Conditions'', TSlice (Condition_type P))]"

definition NativeManifest_type :: "third_party \<Rightarrow> gtype" where
  "NativeManifest_type P = TStruct [
     (''Raw'', RawExtension_type P)]"

definition K1sProxyServiceRef_type :: "gtype" where
  "K1sProxyServiceRef_type = TStruct [
     (''Name'', TBasic TString), (''Namespace'', TBasic TString), (''Port'', TBasic TInt32)]"

definition K1sProxyExternalSpec_type :: "gtype" where
  "K1sProxyExternalSpec_type = TStruct [
     (''Addresses'', TSlice (TBasic TString)), (''DNSName'', TBasic TString),
     (''Port'', TBasic TInt32)]"

definition K1sProxySpec_type :: "gtype" where
  "K1sProxySpec_type = TStruct [
     (''Mode'', TBasic TString), (''ServiceRef'', TPtr K1sProxyServiceRef_type),
     (''External'', TPtr K1sProxyExternalSpec_type)]"

definition K1sClusterSpec_type :: "gtype" where
  "K1sClusterSpec_type = TStruct [
     (''Controller'', K1sEndpointSpec_type), (''Apishim'', TPtr K1sEndpointSpec_type),
     (''BootstrapConfigMapRef'', TPtr NamespacedNameRef_type),
     (''AuthSecretRef'', TPtr K1sAuthSecretRef_type), (''Proxy'', K1sProxySpec_type),
     (''PollIntervalSeconds'', TPtr (TBasic TInt32))]"

definition K1sNodeSummary_type :: "gtype" where
  "K1sNodeSummary_type = TStruct [
     (''Ready'', TBasic TInt32), (''Stale'', TBasic TInt32), (''Total'', TBasic TInt32)]"

definition K1sClusterStatus_type :: "third_party \<Rightarrow> gtype" where
  "K1sClusterStatus_type P = TStruct [
     (''ObservedGeneration'', TBasic TInt64), (''ControllerAvailable'', TBasic TBool),
     (''ApishimAvailable'', TBasic TBool), (''ProxyReady'', TBasic TBool),
     (''StackDomain'', TBasic TString), (''WildcardAppsDomain'', TBasic TString),
     (''NodeSummary'', K1sNodeSummary_type), (''Conditions'', TSlice (Condition_type P))]"

definition K1sCluster_type :: "third_party \<Rightarrow> gtype" where
  "K1sCluster_type P = TStruct [
     (''TypeMeta'', TypeMeta_type P), (''ObjectMeta'', ObjectMeta_type P),
     (''Spec'', K1sClusterSpec_type), (''Status'', K1sClusterStatus_type P)]"

definition K1sClusterList_type :: "third_party \<Rightarrow> gtype" where
  "K1sClusterList_type P = TStruct [
     (''TypeMeta'', TypeMeta_type P), (''ListMeta'', ListMeta_type P),
     (''Items'', TSlice (K1sCluster_type P))]"

definition K1sExposureServiceSpec_type :: "gtype" where
  "K1sExposureServiceSpec_type = TStruct [
     (''Name'', TBasic TString), (''Port'', TBasic TInt32)]"

definition K1sExposureIngressSpec_type :: "gtype" where
  "K1sExposureIngressSpec_type = TStruct [
     (''Enabled'', TPtr (TBasic TBool)), (''Name'', TBasic TString),
     (''ClassName'', TPtr (TBasic TString)), (''TLSSecretName'', TBasic TString),
     (''Annotations'', TMap TString)]"

definition K1sExposureTrafficProbeSpec_type :: "gtype" where
  "K1sExposureTrafficProbeSpec_type = TStruct [
     (''Enabled'', TPtr (TBasic TBool)), (''Type'', TBasic TString), (''Scheme'', TBasic TString),
     (''Path'', TBasic TString), (''Port'', TBasic TInt32), (''TimeoutSeconds'', TBasic TInt32),
     (''ExpectedStatus'', TBasic TString)]"

definition K1sExposureSpec_type :: "gtype" where
  "K1sExposureSpec_type = TStruct [
     (''ClusterRef'', NamespacedNameRef_type), (''AppRef'', K1sAppRef_type),
     (''Host'', TBasic TString), (''Path'', TBasic TString),
     (''Service'', K1sExposureServiceSpec_type), (''Ingress'', K1sExposureIngressSpec_type),
     (''TrafficProbe'', K1sExposureTrafficProbeSpec_type)]"

definition K1sExposureStatus_type :: "third_party \<Rightarrow> gtype" where
  "K1sExposureStatus_type P = TStruct [
     (''ObservedGeneration'', TBasic TInt64), (''AppReady'', TBasic TBool),
     (''ServiceName'', TBasic TString), (''EndpointSliceName'', TBasic TString),
     (''IngressName'', TBasic TString), (''ProxyEndpointCount'', TBasic TInt32),
     (''LastAppSyncTime'', TPtr (Time_type P)), (''Conditions'', TSlice (Condition_type P))]"

definition K1sExposure_type :: "third_party \<Rightarrow> gtype" where
  "K1sExposure_type P = TStruct [
     (''TypeMeta'', TypeMeta_type P), (''ObjectMeta'', ObjectMeta_type P),
     (''Spec'', K1sExposureSpec_type), (''Status'', K1sExposureStatus_type P)]"

definition K1sExposureList_type :: "third_party \<Rightarrow> gtype" where
  "K1sExposureList_type P = TStruct [
     (''TypeMeta'', TypeMeta_type P), (''ListMeta'', ListMeta_type P),
     (''Items'', TSlice (K1sExposure_type P))]"

definition K1sAppSpec_type :: "third_party \<Rightarrow> gtype" where
  "K1sAppSpec_type P = TStruct [
     (''ClusterRef'', NamespacedNameRef_type), (''Manifest'', RawExtension_type P),
     (''DeletePolicy'', TBasic TString)]"

definition K1sReplicaSummary_type :: "gtype" where
  "K1sReplicaSummary_type = TStruct [
     (''Desired'', TBasic TInt32), (''Ready'', TBasic TInt32), (''Live'', TBasic TInt32)]"

definition K1sAppStatus_type :: "third_party \<Rightarrow> gtype" where
  "K1sAppStatus_type P = TStruct [
     (''ObservedGeneration'', TBasic TInt64), (''AppName'', TBasic TString),
     (''Ready'', TBasic TBool), (''Phase'', TBasic TString), (''Endpoint'', TBasic TString),
     (''Replicas'', K1sReplicaSummary_type), (''Image'', TBasic TString),
     (''Revision'', TBasic TString), (''LastSyncTime'', TPtr (Time_type P)),
     (''Conditions'', TSlice (Condition_type P))]"

definition K1sApp_type :: "third_party \<Rightarrow> gtype" where
  "K1sApp_type P = TStruct [
     (''TypeMeta'', TypeMeta_type P), (''ObjectMeta'', ObjectMeta_type P),
     (''Spec'', K1sAppSpec_type P), (''Status'', K1sAppStatus_type P)]"

definition K1sAppList_type :: "third_party \<Rightarrow> gtype" where
  "K1sAppList_type P = TStruct [
     (''TypeMeta'', TypeMeta_type P), (''ListMeta'', ListMeta_type P),
     (''Items'', TSlice (K1sApp_type P))]"

definition K1sInferenceModelSpec_type :: "gtype" where
  "K1sInferenceModelSpec_type = TStruct [
     (''ModelID'', TBasic TString), (''LocalPath'', TBasic TString)]"

definition K1sInferenceParallelismSpec_type :: "gtype" where
  "K1sInferenceParallelismSpec_type = TStruct [
     (''TP'', TBasic TInt32), (''PP'', TBasic TInt32)]"

definition K1sInferenceExecutorSpec_type :: "gtype" where
  "K1sInferenceExecutorSpec_type = TStruct [
     (''Type'', TBasic TString), (''FallbackMode'', TBasic TString),
     (''RayImage'', TBasic TString), (''MPImage'', TBasic TString),
     (''LauncherImage'', TBasic TString), (''DType'', TBasic TString),
     (''RuntimeClassName'', TBasic TString)]"

definition K1sInferenceMemberSpec_type :: "gtype" where
  "K1sInferenceMemberSpec_type = TStruct [
     (''SiteID'', TBasic TString), (''NodeID'', TBasic TString), (''GPUCount'', TBasic TInt32)]"

definition K1sInferenceFabricSpec_type :: "gtype" where
  "K1sInferenceFabricSpec_type = TStruct [
     (''Mode'', TBasic TString), (''PolicyMode'', TBasic TString), (''TTLSeconds'', TBasic TInt32)]"

definition K1sInferenceCellSetSpec_type :: "gtype" where
  "K1sInferenceCellSetSpec_type = TStruct [
     (''Replicas'', TBasic TInt32), (''NameFormat'', TBasic TString)]"

definition K1sInferenceEndpointSpec_type :: "gtype" where
  "K1sInferenceEndpointSpec_type = TStruct [
     (''ClusterRef'', NamespacedNameRef_type), (''Model'', K1sInferenceModelSpec_type),
     (''Parallelism'', K1sInferenceParallelismSpec_type),
     (''Executor'', K1sInferenceExecutorSpec_type), (''Fabric'', K1sInferenceFabricSpec_type),
     (''Members'', TSlice K1sInferenceMemberSpec_type),
     (''CellSet'', TPtr K1sInferenceCellSetSpec_type), (''DeletePolicy'', TBasic TString)]"

definition K1sInferenceEndpointStatus_type :: "third_party \<Rightarrow> gtype" where
  "K1sInferenceEndpointStatus_type P = TStruct [
     (''ObservedGeneration'', TBasic TInt64), (''Ready'', TBasic TBool),
     (''Phase'', TBasic TString), (''CellName'', TBasic TString),
     (''CellSetName'', TBasic TString), (''APIEndpoint'', TBasic TString),
     (''ActiveExecutor'', TBasic TString), (''LastError'', TBasic TString),
     (''LastSyncTime'', TPtr (Time_type P)), (''Conditions'', TSlice (Condition_type P))]"

definition K1sInferenceEndpoint_type :: "third_party \<Rightarrow> gtype" where
  "K1sInferenceEndpoint_type P = TStruct [
     (''TypeMeta'', TypeMeta_type P), (''ObjectMeta'', ObjectMeta_type P),
     (''Spec'', K1sInferenceEndpointSpec_type), (''Status'', K1sInferenceEndpointStatus_type P)]"

definition K1sInferenceEndpointList_type :: "third_party \<Rightarrow> gtype" where
  "K1sInferenceEndpointList_type P = TStruct [
     (''TypeMeta'', TypeMeta_type P), (''ListMeta'', ListMeta_type P),
     (''Items'', TSlice (K1sInferenceEndpoint_type P))]"

definition K1sResourceSetSpec_type :: "third_party \<Rightarrow> gtype" where
  "K1sResourceSetSpec_type P = TStruct [
     (''ClusterRef'', NamespacedNameRef_type), (''Manifests'', TSlice (RawExtension_type P)),
     (''AllowedKinds'', TSlice (TBasic TString)), (''Prune'', TBasic TBool),
     (''DeletePolicy'', TBasic TString)]"

definition K1sManagedResourceStatus_type :: "gtype" where
  "K1sManagedResourceStatus_type = TStruct [
     (''Kind'', TBasic TString), (''Namespace'', TBasic TString), (''Name'', TBasic TString),
     (''Hash'', TBasic TString)]"

definition K1sResourceSetStatus_type :: "third_party \<Rightarrow> gtype" where
  "K1sResourceSetStatus_type P = TStruct [
     (''ObservedGeneration'', TBasic TInt64), (''Applied'', TBasic TInt32),
     (''Ready'', TBasic TBool), (''ManagedResources'', TSlice K1sManagedResourceStatus_type),
     (''LastSyncTime'', TPtr (Time_type P)), (''Conditions'', TSlice (Condition_type P))]"

definition K1sResourceSet_type :: "third_party \<Rightarrow> gtype" where
  "K1sResourceSet_type P = TStruct [
     (''TypeMeta'', TypeMeta_type P), (''ObjectMeta'', ObjectMeta_type P),
     (''Spec'', K1sResourceSetSpec_type P), (''Status'', K1sResourceSetStatus_type P)]"

definition K1sResourceSetList_type :: "third_party \<Rightarrow> gtype" where
  "K1sResourceSetList_type P = TStruct [
     (''TypeMeta'', TypeMeta_type P), (''ListMeta'', ListMeta_type P),
     (''Items'', TSlice (K1sResourceSet_type P))]"

definition K1sAppMirrorSpec_type :: "gtype" where
  "K1sAppMirrorSpec_type = TStruct [
     (''ClusterRef'', NamespacedNameRef_type), (''AppRef'', K1sAppRef_type),
     (''ExposureRef'', TPtr NamespacedNameRef_type)]"

definition K1sPlacementStatus_type :: "gtype" where
  "K1sPlacementStatus_type = TStruct [
     (''Node'', TBasic TString), (''Site'', TBasic TString), (''Ready'', TBasic TBool)]"

definition K1sAppMirrorStatus_type :: "third_party \<Rightarrow> gtype" where
  "K1sAppMirrorStatus_type P = TStruct [
     (''ObservedGeneration'', TBasic TInt64), (''Ready'', TBasic TBool),
     (''Replicas'', K1sReplicaSummary_type), (''Image'', TBasic TString),
     (''Revision'', TBasic TString), (''ObservedHost'', TBasic TString),
     (''Placements'', TSlice K1sPlacementStatus_type), (''LastSyncTime'', TPtr (Time_type P)),
     (''Conditions'', TSlice (Condition_type P))]"

definition K1sAppMirror_type :: "third_party \<Rightarrow> gtype" where
  "K1sAppMirror_type P = TStruct [
     (''TypeMeta'', TypeMeta_type P), (''ObjectMeta'', ObjectMeta_type P),
     (''Spec'', K1sAppMirrorSpec_type), (''Status'', K1sAppMirrorStatus_type P)]"

definition K1sAppMirrorList_type :: "third_party \<Rightarrow> gtype" where
  "K1sAppMirrorList_type P = TStruct [
     (''TypeMeta'', TypeMeta_type P), (''ListMeta'', ListMeta_type P),
     (''Items'', TSlice (K1sAppMirror_type P))]"

lemmas type_defs =
  NamespacedNameRef_type_def K1sEndpointSpec_type_def K1sAuthSecretRef_type_def
  K1sAppRef_type_def ConditionedStatus_type_def NativeManifest_type_def
  K1sProxyServiceRef_type_def K1sProxyExternalSpec_type_def K1sProxySpec_type_def
  K1sClusterSpec_type_def K1sNodeSummary_type_def K1sClusterStatus_type_def
  K1sCluster_type_def K1sClusterList_type_def K1sExposureServiceSpec_type_def
  K1sExposureIngressSpec_type_def K1sExposureTrafficProbeSpec_type_def K1sExposureSpec_type_def
  K1sExposureStatus_type_def K1sExposure_type_def K1sExposureList_type_def K1sAppSpec_type_def
  K1sReplicaSummary_type_def K1sAppStatus_type_def K1sApp_type_def K1sAppList_type_def
  K1sInferenceModelSpec_type_def K1sInferenceParallelismSpec_type_def
  K1sInferenceExecutorSpec_type_def K1sInferenceMemberSpec_type_def
  K1sInferenceFabricSpec_type_def K1sInferenceCellSetSpec_type_def
  K1sInferenceEndpointSpec_type_def K1sInferenceEndpointStatus_type_def
  K1sInferenceEndpoint_type_def K1sInferenceEndpointList_type_def K1sResourceSetSpec_type_def
  K1sManagedResourceStatus_type_def K1sResourceSetStatus_type_def K1sResourceSet_type_def
  K1sResourceSetList_type_def K1sAppMirrorSpec_type_def K1sPlacementStatus_type_def
  K1sAppMirrorStatus_type_def K1sAppMirror_type_def K1sAppMirrorList_type_def

end
