(* ===== verification/DeepCopy.thy ===== *)
theory DeepCopy
  imports DeepCopyTypes
begin

text \<open>
  src/api/v1alpha1/zz_generated.deepcopy.go: for each type, \<open>DeepCopyInto\<close> with its steps after
  \<open>*out = *in\<close>, \<open>DeepCopy\<close>, and \<open>DeepCopyObject\<close> for the objects and their lists.
\<close>

definition NamespacedNameRef_DeepCopyInto :: "copier" where
  "NamespacedNameRef_DeepCopyInto = copy_struct []"

definition NamespacedNameRef_DeepCopy :: "copier" where
  "NamespacedNameRef_DeepCopy = deep_copy NamespacedNameRef_DeepCopyInto"

definition K1sEndpointSpec_DeepCopyInto :: "copier" where
  "K1sEndpointSpec_DeepCopyInto = copy_struct []"

definition K1sEndpointSpec_DeepCopy :: "copier" where
  "K1sEndpointSpec_DeepCopy = deep_copy K1sEndpointSpec_DeepCopyInto"

definition K1sAuthSecretRef_DeepCopyInto :: "copier" where
  "K1sAuthSecretRef_DeepCopyInto = copy_struct []"

definition K1sAuthSecretRef_DeepCopy :: "copier" where
  "K1sAuthSecretRef_DeepCopy = deep_copy K1sAuthSecretRef_DeepCopyInto"

definition K1sAppRef_DeepCopyInto :: "copier" where
  "K1sAppRef_DeepCopyInto = copy_struct []"

definition K1sAppRef_DeepCopy :: "copier" where
  "K1sAppRef_DeepCopy = deep_copy K1sAppRef_DeepCopyInto"

definition ConditionedStatus_DeepCopyInto :: "third_party \<Rightarrow> copier" where
  "ConditionedStatus_DeepCopyInto P = copy_struct [
     IfSet ''Conditions'' (make_copy (Condition_DeepCopyInto P))]"

definition ConditionedStatus_DeepCopy :: "third_party \<Rightarrow> copier" where
  "ConditionedStatus_DeepCopy P = deep_copy (ConditionedStatus_DeepCopyInto P)"

definition NativeManifest_DeepCopyInto :: "third_party \<Rightarrow> copier" where
  "NativeManifest_DeepCopyInto P = copy_struct [
     Into ''Raw'' (RawExtension_DeepCopyInto P)]"

definition NativeManifest_DeepCopy :: "third_party \<Rightarrow> copier" where
  "NativeManifest_DeepCopy P = deep_copy (NativeManifest_DeepCopyInto P)"

definition K1sProxyServiceRef_DeepCopyInto :: "copier" where
  "K1sProxyServiceRef_DeepCopyInto = copy_struct []"

definition K1sProxyServiceRef_DeepCopy :: "copier" where
  "K1sProxyServiceRef_DeepCopy = deep_copy K1sProxyServiceRef_DeepCopyInto"

definition K1sProxyExternalSpec_DeepCopyInto :: "copier" where
  "K1sProxyExternalSpec_DeepCopyInto = copy_struct [
     IfSet ''Addresses'' (make_copy shallow)]"

definition K1sProxyExternalSpec_DeepCopy :: "copier" where
  "K1sProxyExternalSpec_DeepCopy = deep_copy K1sProxyExternalSpec_DeepCopyInto"

definition K1sProxySpec_DeepCopyInto :: "copier" where
  "K1sProxySpec_DeepCopyInto = copy_struct [
     IfSet ''ServiceRef'' (new_copy shallow),
     IfSet ''External'' (new_copy K1sProxyExternalSpec_DeepCopyInto)]"

definition K1sProxySpec_DeepCopy :: "copier" where
  "K1sProxySpec_DeepCopy = deep_copy K1sProxySpec_DeepCopyInto"

definition K1sClusterSpec_DeepCopyInto :: "copier" where
  "K1sClusterSpec_DeepCopyInto = copy_struct [
     Assign ''Controller'', IfSet ''Apishim'' (new_copy shallow),
     IfSet ''BootstrapConfigMapRef'' (new_copy shallow),
     IfSet ''AuthSecretRef'' (new_copy shallow), Into ''Proxy'' K1sProxySpec_DeepCopyInto,
     IfSet ''PollIntervalSeconds'' (new_copy shallow)]"

definition K1sClusterSpec_DeepCopy :: "copier" where
  "K1sClusterSpec_DeepCopy = deep_copy K1sClusterSpec_DeepCopyInto"

definition K1sNodeSummary_DeepCopyInto :: "copier" where
  "K1sNodeSummary_DeepCopyInto = copy_struct []"

definition K1sNodeSummary_DeepCopy :: "copier" where
  "K1sNodeSummary_DeepCopy = deep_copy K1sNodeSummary_DeepCopyInto"

definition K1sClusterStatus_DeepCopyInto :: "third_party \<Rightarrow> copier" where
  "K1sClusterStatus_DeepCopyInto P = copy_struct [
     Assign ''NodeSummary'', IfSet ''Conditions'' (make_copy (Condition_DeepCopyInto P))]"

definition K1sClusterStatus_DeepCopy :: "third_party \<Rightarrow> copier" where
  "K1sClusterStatus_DeepCopy P = deep_copy (K1sClusterStatus_DeepCopyInto P)"

definition K1sCluster_DeepCopyInto :: "third_party \<Rightarrow> copier" where
  "K1sCluster_DeepCopyInto P = copy_struct [
     Assign ''TypeMeta'', Into ''ObjectMeta'' (ObjectMeta_DeepCopyInto P),
     Into ''Spec'' K1sClusterSpec_DeepCopyInto, Into ''Status'' (K1sClusterStatus_DeepCopyInto P)]"

definition K1sCluster_DeepCopy :: "third_party \<Rightarrow> copier" where
  "K1sCluster_DeepCopy P = deep_copy (K1sCluster_DeepCopyInto P)"

definition K1sCluster_DeepCopyObject :: "third_party \<Rightarrow> gval \<Rightarrow> heap \<Rightarrow> object \<times> heap" where
  "K1sCluster_DeepCopyObject P = deep_copy_object ''K1sCluster'' (K1sCluster_DeepCopy P)"

definition K1sClusterList_DeepCopyInto :: "third_party \<Rightarrow> copier" where
  "K1sClusterList_DeepCopyInto P = copy_struct [
     Assign ''TypeMeta'', Into ''ListMeta'' (ListMeta_DeepCopyInto P),
     IfSet ''Items'' (make_copy (K1sCluster_DeepCopyInto P))]"

definition K1sClusterList_DeepCopy :: "third_party \<Rightarrow> copier" where
  "K1sClusterList_DeepCopy P = deep_copy (K1sClusterList_DeepCopyInto P)"

definition K1sClusterList_DeepCopyObject :: "third_party \<Rightarrow> gval \<Rightarrow> heap \<Rightarrow> object \<times> heap" where
  "K1sClusterList_DeepCopyObject P = deep_copy_object ''K1sClusterList'' (K1sClusterList_DeepCopy P)"

definition K1sExposureServiceSpec_DeepCopyInto :: "copier" where
  "K1sExposureServiceSpec_DeepCopyInto = copy_struct []"

definition K1sExposureServiceSpec_DeepCopy :: "copier" where
  "K1sExposureServiceSpec_DeepCopy = deep_copy K1sExposureServiceSpec_DeepCopyInto"

definition K1sExposureIngressSpec_DeepCopyInto :: "copier" where
  "K1sExposureIngressSpec_DeepCopyInto = copy_struct [
     IfSet ''Enabled'' (new_copy shallow), IfSet ''ClassName'' (new_copy shallow),
     IfSet ''Annotations'' map_copy]"

definition K1sExposureIngressSpec_DeepCopy :: "copier" where
  "K1sExposureIngressSpec_DeepCopy = deep_copy K1sExposureIngressSpec_DeepCopyInto"

definition K1sExposureTrafficProbeSpec_DeepCopyInto :: "copier" where
  "K1sExposureTrafficProbeSpec_DeepCopyInto = copy_struct [
     IfSet ''Enabled'' (new_copy shallow)]"

definition K1sExposureTrafficProbeSpec_DeepCopy :: "copier" where
  "K1sExposureTrafficProbeSpec_DeepCopy = deep_copy K1sExposureTrafficProbeSpec_DeepCopyInto"

definition K1sExposureSpec_DeepCopyInto :: "copier" where
  "K1sExposureSpec_DeepCopyInto = copy_struct [
     Assign ''ClusterRef'', Assign ''AppRef'', Assign ''Service'',
     Into ''Ingress'' K1sExposureIngressSpec_DeepCopyInto,
     Into ''TrafficProbe'' K1sExposureTrafficProbeSpec_DeepCopyInto]"

definition K1sExposureSpec_DeepCopy :: "copier" where
  "K1sExposureSpec_DeepCopy = deep_copy K1sExposureSpec_DeepCopyInto"

definition K1sExposureStatus_DeepCopyInto :: "third_party \<Rightarrow> copier" where
  "K1sExposureStatus_DeepCopyInto P = copy_struct [
     IfSet ''LastAppSyncTime'' (Time_DeepCopy P),
     IfSet ''Conditions'' (make_copy (Condition_DeepCopyInto P))]"

definition K1sExposureStatus_DeepCopy :: "third_party \<Rightarrow> copier" where
  "K1sExposureStatus_DeepCopy P = deep_copy (K1sExposureStatus_DeepCopyInto P)"

definition K1sExposure_DeepCopyInto :: "third_party \<Rightarrow> copier" where
  "K1sExposure_DeepCopyInto P = copy_struct [
     Assign ''TypeMeta'', Into ''ObjectMeta'' (ObjectMeta_DeepCopyInto P),
     Into ''Spec'' K1sExposureSpec_DeepCopyInto,
     Into ''Status'' (K1sExposureStatus_DeepCopyInto P)]"

definition K1sExposure_DeepCopy :: "third_party \<Rightarrow> copier" where
  "K1sExposure_DeepCopy P = deep_copy (K1sExposure_DeepCopyInto P)"

definition K1sExposure_DeepCopyObject :: "third_party \<Rightarrow> gval \<Rightarrow> heap \<Rightarrow> object \<times> heap" where
  "K1sExposure_DeepCopyObject P = deep_copy_object ''K1sExposure'' (K1sExposure_DeepCopy P)"

definition K1sExposureList_DeepCopyInto :: "third_party \<Rightarrow> copier" where
  "K1sExposureList_DeepCopyInto P = copy_struct [
     Assign ''TypeMeta'', Into ''ListMeta'' (ListMeta_DeepCopyInto P),
     IfSet ''Items'' (make_copy (K1sExposure_DeepCopyInto P))]"

definition K1sExposureList_DeepCopy :: "third_party \<Rightarrow> copier" where
  "K1sExposureList_DeepCopy P = deep_copy (K1sExposureList_DeepCopyInto P)"

definition K1sExposureList_DeepCopyObject :: "third_party \<Rightarrow> gval \<Rightarrow> heap \<Rightarrow> object \<times> heap" where
  "K1sExposureList_DeepCopyObject P = deep_copy_object ''K1sExposureList'' (K1sExposureList_DeepCopy P)"

definition K1sAppSpec_DeepCopyInto :: "third_party \<Rightarrow> copier" where
  "K1sAppSpec_DeepCopyInto P = copy_struct [
     Assign ''ClusterRef'', Into ''Manifest'' (RawExtension_DeepCopyInto P)]"

definition K1sAppSpec_DeepCopy :: "third_party \<Rightarrow> copier" where
  "K1sAppSpec_DeepCopy P = deep_copy (K1sAppSpec_DeepCopyInto P)"

definition K1sReplicaSummary_DeepCopyInto :: "copier" where
  "K1sReplicaSummary_DeepCopyInto = copy_struct []"

definition K1sReplicaSummary_DeepCopy :: "copier" where
  "K1sReplicaSummary_DeepCopy = deep_copy K1sReplicaSummary_DeepCopyInto"

definition K1sAppStatus_DeepCopyInto :: "third_party \<Rightarrow> copier" where
  "K1sAppStatus_DeepCopyInto P = copy_struct [
     Assign ''Replicas'', IfSet ''LastSyncTime'' (Time_DeepCopy P),
     IfSet ''Conditions'' (make_copy (Condition_DeepCopyInto P))]"

definition K1sAppStatus_DeepCopy :: "third_party \<Rightarrow> copier" where
  "K1sAppStatus_DeepCopy P = deep_copy (K1sAppStatus_DeepCopyInto P)"

definition K1sApp_DeepCopyInto :: "third_party \<Rightarrow> copier" where
  "K1sApp_DeepCopyInto P = copy_struct [
     Assign ''TypeMeta'', Into ''ObjectMeta'' (ObjectMeta_DeepCopyInto P),
     Into ''Spec'' (K1sAppSpec_DeepCopyInto P), Into ''Status'' (K1sAppStatus_DeepCopyInto P)]"

definition K1sApp_DeepCopy :: "third_party \<Rightarrow> copier" where
  "K1sApp_DeepCopy P = deep_copy (K1sApp_DeepCopyInto P)"

definition K1sApp_DeepCopyObject :: "third_party \<Rightarrow> gval \<Rightarrow> heap \<Rightarrow> object \<times> heap" where
  "K1sApp_DeepCopyObject P = deep_copy_object ''K1sApp'' (K1sApp_DeepCopy P)"

definition K1sAppList_DeepCopyInto :: "third_party \<Rightarrow> copier" where
  "K1sAppList_DeepCopyInto P = copy_struct [
     Assign ''TypeMeta'', Into ''ListMeta'' (ListMeta_DeepCopyInto P),
     IfSet ''Items'' (make_copy (K1sApp_DeepCopyInto P))]"

definition K1sAppList_DeepCopy :: "third_party \<Rightarrow> copier" where
  "K1sAppList_DeepCopy P = deep_copy (K1sAppList_DeepCopyInto P)"

definition K1sAppList_DeepCopyObject :: "third_party \<Rightarrow> gval \<Rightarrow> heap \<Rightarrow> object \<times> heap" where
  "K1sAppList_DeepCopyObject P = deep_copy_object ''K1sAppList'' (K1sAppList_DeepCopy P)"

definition K1sInferenceModelSpec_DeepCopyInto :: "copier" where
  "K1sInferenceModelSpec_DeepCopyInto = copy_struct []"

definition K1sInferenceModelSpec_DeepCopy :: "copier" where
  "K1sInferenceModelSpec_DeepCopy = deep_copy K1sInferenceModelSpec_DeepCopyInto"

definition K1sInferenceParallelismSpec_DeepCopyInto :: "copier" where
  "K1sInferenceParallelismSpec_DeepCopyInto = copy_struct []"

definition K1sInferenceParallelismSpec_DeepCopy :: "copier" where
  "K1sInferenceParallelismSpec_DeepCopy = deep_copy K1sInferenceParallelismSpec_DeepCopyInto"

definition K1sInferenceExecutorSpec_DeepCopyInto :: "copier" where
  "K1sInferenceExecutorSpec_DeepCopyInto = copy_struct []"

definition K1sInferenceExecutorSpec_DeepCopy :: "copier" where
  "K1sInferenceExecutorSpec_DeepCopy = deep_copy K1sInferenceExecutorSpec_DeepCopyInto"

definition K1sInferenceMemberSpec_DeepCopyInto :: "copier" where
  "K1sInferenceMemberSpec_DeepCopyInto = copy_struct []"

definition K1sInferenceMemberSpec_DeepCopy :: "copier" where
  "K1sInferenceMemberSpec_DeepCopy = deep_copy K1sInferenceMemberSpec_DeepCopyInto"

definition K1sInferenceFabricSpec_DeepCopyInto :: "copier" where
  "K1sInferenceFabricSpec_DeepCopyInto = copy_struct []"

definition K1sInferenceFabricSpec_DeepCopy :: "copier" where
  "K1sInferenceFabricSpec_DeepCopy = deep_copy K1sInferenceFabricSpec_DeepCopyInto"

definition K1sInferenceCellSetSpec_DeepCopyInto :: "copier" where
  "K1sInferenceCellSetSpec_DeepCopyInto = copy_struct []"

definition K1sInferenceCellSetSpec_DeepCopy :: "copier" where
  "K1sInferenceCellSetSpec_DeepCopy = deep_copy K1sInferenceCellSetSpec_DeepCopyInto"

definition K1sInferenceEndpointSpec_DeepCopyInto :: "copier" where
  "K1sInferenceEndpointSpec_DeepCopyInto = copy_struct [
     Assign ''ClusterRef'', Assign ''Model'', Assign ''Parallelism'', Assign ''Executor'',
     Assign ''Fabric'', IfSet ''Members'' (make_copy shallow),
     IfSet ''CellSet'' (new_copy shallow)]"

definition K1sInferenceEndpointSpec_DeepCopy :: "copier" where
  "K1sInferenceEndpointSpec_DeepCopy = deep_copy K1sInferenceEndpointSpec_DeepCopyInto"

definition K1sInferenceEndpointStatus_DeepCopyInto :: "third_party \<Rightarrow> copier" where
  "K1sInferenceEndpointStatus_DeepCopyInto P = copy_struct [
     IfSet ''LastSyncTime'' (Time_DeepCopy P),
     IfSet ''Conditions'' (make_copy (Condition_DeepCopyInto P))]"

definition K1sInferenceEndpointStatus_DeepCopy :: "third_party \<Rightarrow> copier" where
  "K1sInferenceEndpointStatus_DeepCopy P = deep_copy (K1sInferenceEndpointStatus_DeepCopyInto P)"

definition K1sInferenceEndpoint_DeepCopyInto :: "third_party \<Rightarrow> copier" where
  "K1sInferenceEndpoint_DeepCopyInto P = copy_struct [
     Assign ''TypeMeta'', Into ''ObjectMeta'' (ObjectMeta_DeepCopyInto P),
     Into ''Spec'' K1sInferenceEndpointSpec_DeepCopyInto,
     Into ''Status'' (K1sInferenceEndpointStatus_DeepCopyInto P)]"

definition K1sInferenceEndpoint_DeepCopy :: "third_party \<Rightarrow> copier" where
  "K1sInferenceEndpoint_DeepCopy P = deep_copy (K1sInferenceEndpoint_DeepCopyInto P)"

definition K1sInferenceEndpoint_DeepCopyObject :: "third_party \<Rightarrow> gval \<Rightarrow> heap \<Rightarrow> object \<times> heap" where
  "K1sInferenceEndpoint_DeepCopyObject P = deep_copy_object ''K1sInferenceEndpoint'' (K1sInferenceEndpoint_DeepCopy P)"

definition K1sInferenceEndpointList_DeepCopyInto :: "third_party \<Rightarrow> copier" where
  "K1sInferenceEndpointList_DeepCopyInto P = copy_struct [
     Assign ''TypeMeta'', Into ''ListMeta'' (ListMeta_DeepCopyInto P),
     IfSet ''Items'' (make_copy (K1sInferenceEndpoint_DeepCopyInto P))]"

definition K1sInferenceEndpointList_DeepCopy :: "third_party \<Rightarrow> copier" where
  "K1sInferenceEndpointList_DeepCopy P = deep_copy (K1sInferenceEndpointList_DeepCopyInto P)"

definition K1sInferenceEndpointList_DeepCopyObject :: "third_party \<Rightarrow> gval \<Rightarrow> heap \<Rightarrow> object \<times> heap" where
  "K1sInferenceEndpointList_DeepCopyObject P = deep_copy_object ''K1sInferenceEndpointList'' (K1sInferenceEndpointList_DeepCopy P)"

definition K1sResourceSetSpec_DeepCopyInto :: "third_party \<Rightarrow> copier" where
  "K1sResourceSetSpec_DeepCopyInto P = copy_struct [
     Assign ''ClusterRef'', IfSet ''Manifests'' (make_copy (RawExtension_DeepCopyInto P)),
     IfSet ''AllowedKinds'' (make_copy shallow)]"

definition K1sResourceSetSpec_DeepCopy :: "third_party \<Rightarrow> copier" where
  "K1sResourceSetSpec_DeepCopy P = deep_copy (K1sResourceSetSpec_DeepCopyInto P)"

definition K1sManagedResourceStatus_DeepCopyInto :: "copier" where
  "K1sManagedResourceStatus_DeepCopyInto = copy_struct []"

definition K1sManagedResourceStatus_DeepCopy :: "copier" where
  "K1sManagedResourceStatus_DeepCopy = deep_copy K1sManagedResourceStatus_DeepCopyInto"

definition K1sResourceSetStatus_DeepCopyInto :: "third_party \<Rightarrow> copier" where
  "K1sResourceSetStatus_DeepCopyInto P = copy_struct [
     IfSet ''ManagedResources'' (make_copy shallow), IfSet ''LastSyncTime'' (Time_DeepCopy P),
     IfSet ''Conditions'' (make_copy (Condition_DeepCopyInto P))]"

definition K1sResourceSetStatus_DeepCopy :: "third_party \<Rightarrow> copier" where
  "K1sResourceSetStatus_DeepCopy P = deep_copy (K1sResourceSetStatus_DeepCopyInto P)"

definition K1sResourceSet_DeepCopyInto :: "third_party \<Rightarrow> copier" where
  "K1sResourceSet_DeepCopyInto P = copy_struct [
     Assign ''TypeMeta'', Into ''ObjectMeta'' (ObjectMeta_DeepCopyInto P),
     Into ''Spec'' (K1sResourceSetSpec_DeepCopyInto P),
     Into ''Status'' (K1sResourceSetStatus_DeepCopyInto P)]"

definition K1sResourceSet_DeepCopy :: "third_party \<Rightarrow> copier" where
  "K1sResourceSet_DeepCopy P = deep_copy (K1sResourceSet_DeepCopyInto P)"

definition K1sResourceSet_DeepCopyObject :: "third_party \<Rightarrow> gval \<Rightarrow> heap \<Rightarrow> object \<times> heap" where
  "K1sResourceSet_DeepCopyObject P = deep_copy_object ''K1sResourceSet'' (K1sResourceSet_DeepCopy P)"

definition K1sResourceSetList_DeepCopyInto :: "third_party \<Rightarrow> copier" where
  "K1sResourceSetList_DeepCopyInto P = copy_struct [
     Assign ''TypeMeta'', Into ''ListMeta'' (ListMeta_DeepCopyInto P),
     IfSet ''Items'' (make_copy (K1sResourceSet_DeepCopyInto P))]"

definition K1sResourceSetList_DeepCopy :: "third_party \<Rightarrow> copier" where
  "K1sResourceSetList_DeepCopy P = deep_copy (K1sResourceSetList_DeepCopyInto P)"

definition K1sResourceSetList_DeepCopyObject :: "third_party \<Rightarrow> gval \<Rightarrow> heap \<Rightarrow> object \<times> heap" where
  "K1sResourceSetList_DeepCopyObject P = deep_copy_object ''K1sResourceSetList'' (K1sResourceSetList_DeepCopy P)"

definition K1sAppMirrorSpec_DeepCopyInto :: "copier" where
  "K1sAppMirrorSpec_DeepCopyInto = copy_struct [
     Assign ''ClusterRef'', Assign ''AppRef'', IfSet ''ExposureRef'' (new_copy shallow)]"

definition K1sAppMirrorSpec_DeepCopy :: "copier" where
  "K1sAppMirrorSpec_DeepCopy = deep_copy K1sAppMirrorSpec_DeepCopyInto"

definition K1sPlacementStatus_DeepCopyInto :: "copier" where
  "K1sPlacementStatus_DeepCopyInto = copy_struct []"

definition K1sPlacementStatus_DeepCopy :: "copier" where
  "K1sPlacementStatus_DeepCopy = deep_copy K1sPlacementStatus_DeepCopyInto"

definition K1sAppMirrorStatus_DeepCopyInto :: "third_party \<Rightarrow> copier" where
  "K1sAppMirrorStatus_DeepCopyInto P = copy_struct [
     Assign ''Replicas'', IfSet ''Placements'' (make_copy shallow),
     IfSet ''LastSyncTime'' (Time_DeepCopy P),
     IfSet ''Conditions'' (make_copy (Condition_DeepCopyInto P))]"

definition K1sAppMirrorStatus_DeepCopy :: "third_party \<Rightarrow> copier" where
  "K1sAppMirrorStatus_DeepCopy P = deep_copy (K1sAppMirrorStatus_DeepCopyInto P)"

definition K1sAppMirror_DeepCopyInto :: "third_party \<Rightarrow> copier" where
  "K1sAppMirror_DeepCopyInto P = copy_struct [
     Assign ''TypeMeta'', Into ''ObjectMeta'' (ObjectMeta_DeepCopyInto P),
     Into ''Spec'' K1sAppMirrorSpec_DeepCopyInto,
     Into ''Status'' (K1sAppMirrorStatus_DeepCopyInto P)]"

definition K1sAppMirror_DeepCopy :: "third_party \<Rightarrow> copier" where
  "K1sAppMirror_DeepCopy P = deep_copy (K1sAppMirror_DeepCopyInto P)"

definition K1sAppMirror_DeepCopyObject :: "third_party \<Rightarrow> gval \<Rightarrow> heap \<Rightarrow> object \<times> heap" where
  "K1sAppMirror_DeepCopyObject P = deep_copy_object ''K1sAppMirror'' (K1sAppMirror_DeepCopy P)"

definition K1sAppMirrorList_DeepCopyInto :: "third_party \<Rightarrow> copier" where
  "K1sAppMirrorList_DeepCopyInto P = copy_struct [
     Assign ''TypeMeta'', Into ''ListMeta'' (ListMeta_DeepCopyInto P),
     IfSet ''Items'' (make_copy (K1sAppMirror_DeepCopyInto P))]"

definition K1sAppMirrorList_DeepCopy :: "third_party \<Rightarrow> copier" where
  "K1sAppMirrorList_DeepCopy P = deep_copy (K1sAppMirrorList_DeepCopyInto P)"

definition K1sAppMirrorList_DeepCopyObject :: "third_party \<Rightarrow> gval \<Rightarrow> heap \<Rightarrow> object \<times> heap" where
  "K1sAppMirrorList_DeepCopyObject P = deep_copy_object ''K1sAppMirrorList'' (K1sAppMirrorList_DeepCopy P)"

text \<open>All the pointers that can be copied, with their types.\<close>

definition deep_copies :: "third_party \<Rightarrow> (gtype \<times> copier) list" where
  "deep_copies P = [
     (TPtr NamespacedNameRef_type, NamespacedNameRef_DeepCopy),
     (TPtr K1sEndpointSpec_type, K1sEndpointSpec_DeepCopy),
     (TPtr K1sAuthSecretRef_type, K1sAuthSecretRef_DeepCopy),
     (TPtr K1sAppRef_type, K1sAppRef_DeepCopy),
     (TPtr (ConditionedStatus_type P), ConditionedStatus_DeepCopy P),
     (TPtr (NativeManifest_type P), NativeManifest_DeepCopy P),
     (TPtr K1sProxyServiceRef_type, K1sProxyServiceRef_DeepCopy),
     (TPtr K1sProxyExternalSpec_type, K1sProxyExternalSpec_DeepCopy),
     (TPtr K1sProxySpec_type, K1sProxySpec_DeepCopy),
     (TPtr K1sClusterSpec_type, K1sClusterSpec_DeepCopy),
     (TPtr K1sNodeSummary_type, K1sNodeSummary_DeepCopy),
     (TPtr (K1sClusterStatus_type P), K1sClusterStatus_DeepCopy P),
     (TPtr (K1sCluster_type P), K1sCluster_DeepCopy P),
     (TPtr (K1sClusterList_type P), K1sClusterList_DeepCopy P),
     (TPtr K1sExposureServiceSpec_type, K1sExposureServiceSpec_DeepCopy),
     (TPtr K1sExposureIngressSpec_type, K1sExposureIngressSpec_DeepCopy),
     (TPtr K1sExposureTrafficProbeSpec_type, K1sExposureTrafficProbeSpec_DeepCopy),
     (TPtr K1sExposureSpec_type, K1sExposureSpec_DeepCopy),
     (TPtr (K1sExposureStatus_type P), K1sExposureStatus_DeepCopy P),
     (TPtr (K1sExposure_type P), K1sExposure_DeepCopy P),
     (TPtr (K1sExposureList_type P), K1sExposureList_DeepCopy P),
     (TPtr (K1sAppSpec_type P), K1sAppSpec_DeepCopy P),
     (TPtr K1sReplicaSummary_type, K1sReplicaSummary_DeepCopy),
     (TPtr (K1sAppStatus_type P), K1sAppStatus_DeepCopy P),
     (TPtr (K1sApp_type P), K1sApp_DeepCopy P),
     (TPtr (K1sAppList_type P), K1sAppList_DeepCopy P),
     (TPtr K1sInferenceModelSpec_type, K1sInferenceModelSpec_DeepCopy),
     (TPtr K1sInferenceParallelismSpec_type, K1sInferenceParallelismSpec_DeepCopy),
     (TPtr K1sInferenceExecutorSpec_type, K1sInferenceExecutorSpec_DeepCopy),
     (TPtr K1sInferenceMemberSpec_type, K1sInferenceMemberSpec_DeepCopy),
     (TPtr K1sInferenceFabricSpec_type, K1sInferenceFabricSpec_DeepCopy),
     (TPtr K1sInferenceCellSetSpec_type, K1sInferenceCellSetSpec_DeepCopy),
     (TPtr K1sInferenceEndpointSpec_type, K1sInferenceEndpointSpec_DeepCopy),
     (TPtr (K1sInferenceEndpointStatus_type P), K1sInferenceEndpointStatus_DeepCopy P),
     (TPtr (K1sInferenceEndpoint_type P), K1sInferenceEndpoint_DeepCopy P),
     (TPtr (K1sInferenceEndpointList_type P), K1sInferenceEndpointList_DeepCopy P),
     (TPtr (K1sResourceSetSpec_type P), K1sResourceSetSpec_DeepCopy P),
     (TPtr K1sManagedResourceStatus_type, K1sManagedResourceStatus_DeepCopy),
     (TPtr (K1sResourceSetStatus_type P), K1sResourceSetStatus_DeepCopy P),
     (TPtr (K1sResourceSet_type P), K1sResourceSet_DeepCopy P),
     (TPtr (K1sResourceSetList_type P), K1sResourceSetList_DeepCopy P),
     (TPtr K1sAppMirrorSpec_type, K1sAppMirrorSpec_DeepCopy),
     (TPtr K1sPlacementStatus_type, K1sPlacementStatus_DeepCopy),
     (TPtr (K1sAppMirrorStatus_type P), K1sAppMirrorStatus_DeepCopy P),
     (TPtr (K1sAppMirror_type P), K1sAppMirror_DeepCopy P),
     (TPtr (K1sAppMirrorList_type P), K1sAppMirrorList_DeepCopy P)]"

definition object_copies ::
  "third_party \<Rightarrow> (string \<times> gtype \<times> (gval \<Rightarrow> heap \<Rightarrow> object \<times> heap)) list" where
  "object_copies P = [
     (''K1sCluster'', TPtr (K1sCluster_type P), K1sCluster_DeepCopyObject P),
     (''K1sClusterList'', TPtr (K1sClusterList_type P), K1sClusterList_DeepCopyObject P),
     (''K1sExposure'', TPtr (K1sExposure_type P), K1sExposure_DeepCopyObject P),
     (''K1sExposureList'', TPtr (K1sExposureList_type P), K1sExposureList_DeepCopyObject P),
     (''K1sApp'', TPtr (K1sApp_type P), K1sApp_DeepCopyObject P),
     (''K1sAppList'', TPtr (K1sAppList_type P), K1sAppList_DeepCopyObject P),
     (''K1sInferenceEndpoint'', TPtr (K1sInferenceEndpoint_type P), K1sInferenceEndpoint_DeepCopyObject P),
     (''K1sInferenceEndpointList'', TPtr (K1sInferenceEndpointList_type P), K1sInferenceEndpointList_DeepCopyObject P),
     (''K1sResourceSet'', TPtr (K1sResourceSet_type P), K1sResourceSet_DeepCopyObject P),
     (''K1sResourceSetList'', TPtr (K1sResourceSetList_type P), K1sResourceSetList_DeepCopyObject P),
     (''K1sAppMirror'', TPtr (K1sAppMirror_type P), K1sAppMirror_DeepCopyObject P),
     (''K1sAppMirrorList'', TPtr (K1sAppMirrorList_type P), K1sAppMirrorList_DeepCopyObject P)]"

lemmas DeepCopy_defs =
  NamespacedNameRef_DeepCopy_def K1sEndpointSpec_DeepCopy_def K1sAuthSecretRef_DeepCopy_def
  K1sAppRef_DeepCopy_def ConditionedStatus_DeepCopy_def NativeManifest_DeepCopy_def
  K1sProxyServiceRef_DeepCopy_def K1sProxyExternalSpec_DeepCopy_def K1sProxySpec_DeepCopy_def
  K1sClusterSpec_DeepCopy_def K1sNodeSummary_DeepCopy_def K1sClusterStatus_DeepCopy_def
  K1sCluster_DeepCopy_def K1sClusterList_DeepCopy_def K1sExposureServiceSpec_DeepCopy_def
  K1sExposureIngressSpec_DeepCopy_def K1sExposureTrafficProbeSpec_DeepCopy_def
  K1sExposureSpec_DeepCopy_def K1sExposureStatus_DeepCopy_def K1sExposure_DeepCopy_def
  K1sExposureList_DeepCopy_def K1sAppSpec_DeepCopy_def K1sReplicaSummary_DeepCopy_def
  K1sAppStatus_DeepCopy_def K1sApp_DeepCopy_def K1sAppList_DeepCopy_def
  K1sInferenceModelSpec_DeepCopy_def K1sInferenceParallelismSpec_DeepCopy_def
  K1sInferenceExecutorSpec_DeepCopy_def K1sInferenceMemberSpec_DeepCopy_def
  K1sInferenceFabricSpec_DeepCopy_def K1sInferenceCellSetSpec_DeepCopy_def
  K1sInferenceEndpointSpec_DeepCopy_def K1sInferenceEndpointStatus_DeepCopy_def
  K1sInferenceEndpoint_DeepCopy_def K1sInferenceEndpointList_DeepCopy_def
  K1sResourceSetSpec_DeepCopy_def K1sManagedResourceStatus_DeepCopy_def
  K1sResourceSetStatus_DeepCopy_def K1sResourceSet_DeepCopy_def K1sResourceSetList_DeepCopy_def
  K1sAppMirrorSpec_DeepCopy_def K1sPlacementStatus_DeepCopy_def K1sAppMirrorStatus_DeepCopy_def
  K1sAppMirror_DeepCopy_def K1sAppMirrorList_DeepCopy_def

lemmas DeepCopyObject_defs =
  K1sCluster_DeepCopyObject_def K1sClusterList_DeepCopyObject_def
  K1sExposure_DeepCopyObject_def K1sExposureList_DeepCopyObject_def K1sApp_DeepCopyObject_def
  K1sAppList_DeepCopyObject_def K1sInferenceEndpoint_DeepCopyObject_def
  K1sInferenceEndpointList_DeepCopyObject_def K1sResourceSet_DeepCopyObject_def
  K1sResourceSetList_DeepCopyObject_def K1sAppMirror_DeepCopyObject_def
  K1sAppMirrorList_DeepCopyObject_def

end
