(* ===== verification/DeepCopySafe.thy ===== *)
theory DeepCopySafe
  imports DeepCopy
begin

text \<open>
  Every generated copy is deep: for each struct, the steps of its \<open>DeepCopyInto\<close> reach every field
  that holds an address, and copy it by a rule of \<open>GoHeap\<close>. So a \<open>DeepCopy\<close> and the object it was
  taken of share nothing, which is what the patch helpers of the reconcilers and the cache of the
  manager rely on when they change an object and keep the copy of what it was.
\<close>

section \<open>Types without addresses\<close>

lemma third_party_rules:
  assumes "third_party_copies P"
  shows "flat (TypeMeta_type P)"
    and "deep (ObjectMeta_type P) (ObjectMeta_DeepCopyInto P)"
    and "deep (ListMeta_type P) (ListMeta_DeepCopyInto P)"
    and "deep (Condition_type P) (Condition_DeepCopyInto P)"
    and "deep (RawExtension_type P) (RawExtension_DeepCopyInto P)"
    and "deep (TPtr (Time_type P)) (Time_DeepCopy P)"
  using assms by (simp_all add: third_party_copies_def)

lemma flat_types [simp]:
  "flat NamespacedNameRef_type"
  "flat K1sEndpointSpec_type"
  "flat K1sAuthSecretRef_type"
  "flat K1sAppRef_type"
  "flat K1sProxyServiceRef_type"
  "flat K1sNodeSummary_type"
  "flat K1sExposureServiceSpec_type"
  "flat K1sReplicaSummary_type"
  "flat K1sInferenceModelSpec_type"
  "flat K1sInferenceParallelismSpec_type"
  "flat K1sInferenceExecutorSpec_type"
  "flat K1sInferenceMemberSpec_type"
  "flat K1sInferenceFabricSpec_type"
  "flat K1sInferenceCellSetSpec_type"
  "flat K1sManagedResourceStatus_type"
  "flat K1sPlacementStatus_type"
  by (simp_all add: type_defs)

section \<open>Every DeepCopyInto is deep\<close>

lemma NamespacedNameRef_deep [deep_rules]:
  "deep NamespacedNameRef_type NamespacedNameRef_DeepCopyInto"
  by (simp add: NamespacedNameRef_type_def NamespacedNameRef_DeepCopyInto_def deep_struct deep_rules)

lemma K1sEndpointSpec_deep [deep_rules]:
  "deep K1sEndpointSpec_type K1sEndpointSpec_DeepCopyInto"
  by (simp add: K1sEndpointSpec_type_def K1sEndpointSpec_DeepCopyInto_def deep_struct deep_rules)

lemma K1sAuthSecretRef_deep [deep_rules]:
  "deep K1sAuthSecretRef_type K1sAuthSecretRef_DeepCopyInto"
  by (simp add: K1sAuthSecretRef_type_def K1sAuthSecretRef_DeepCopyInto_def deep_struct deep_rules)

lemma K1sAppRef_deep [deep_rules]:
  "deep K1sAppRef_type K1sAppRef_DeepCopyInto"
  by (simp add: K1sAppRef_type_def K1sAppRef_DeepCopyInto_def deep_struct deep_rules)

lemma ConditionedStatus_deep [deep_rules]:
  "third_party_copies P \<Longrightarrow> deep (ConditionedStatus_type P) (ConditionedStatus_DeepCopyInto P)"
  by (simp add: ConditionedStatus_type_def ConditionedStatus_DeepCopyInto_def deep_struct deep_rules third_party_rules)

lemma NativeManifest_deep [deep_rules]:
  "third_party_copies P \<Longrightarrow> deep (NativeManifest_type P) (NativeManifest_DeepCopyInto P)"
  by (simp add: NativeManifest_type_def NativeManifest_DeepCopyInto_def deep_struct deep_rules third_party_rules)

lemma K1sProxyServiceRef_deep [deep_rules]:
  "deep K1sProxyServiceRef_type K1sProxyServiceRef_DeepCopyInto"
  by (simp add: K1sProxyServiceRef_type_def K1sProxyServiceRef_DeepCopyInto_def deep_struct deep_rules)

lemma K1sProxyExternalSpec_deep [deep_rules]:
  "deep K1sProxyExternalSpec_type K1sProxyExternalSpec_DeepCopyInto"
  by (simp add: K1sProxyExternalSpec_type_def K1sProxyExternalSpec_DeepCopyInto_def deep_struct deep_rules)

lemma K1sProxySpec_deep [deep_rules]:
  "deep K1sProxySpec_type K1sProxySpec_DeepCopyInto"
  by (simp add: K1sProxySpec_type_def K1sProxySpec_DeepCopyInto_def deep_struct deep_rules)

lemma K1sClusterSpec_deep [deep_rules]:
  "deep K1sClusterSpec_type K1sClusterSpec_DeepCopyInto"
  by (simp add: K1sClusterSpec_type_def K1sClusterSpec_DeepCopyInto_def deep_struct deep_rules)

lemma K1sNodeSummary_deep [deep_rules]:
  "deep K1sNodeSummary_type K1sNodeSummary_DeepCopyInto"
  by (simp add: K1sNodeSummary_type_def K1sNodeSummary_DeepCopyInto_def deep_struct deep_rules)

lemma K1sClusterStatus_deep [deep_rules]:
  "third_party_copies P \<Longrightarrow> deep (K1sClusterStatus_type P) (K1sClusterStatus_DeepCopyInto P)"
  by (simp add: K1sClusterStatus_type_def K1sClusterStatus_DeepCopyInto_def deep_struct deep_rules third_party_rules)

lemma K1sCluster_deep [deep_rules]:
  "third_party_copies P \<Longrightarrow> deep (K1sCluster_type P) (K1sCluster_DeepCopyInto P)"
  by (simp add: K1sCluster_type_def K1sCluster_DeepCopyInto_def deep_struct deep_rules third_party_rules)

lemma K1sClusterList_deep [deep_rules]:
  "third_party_copies P \<Longrightarrow> deep (K1sClusterList_type P) (K1sClusterList_DeepCopyInto P)"
  by (simp add: K1sClusterList_type_def K1sClusterList_DeepCopyInto_def deep_struct deep_rules third_party_rules)

lemma K1sExposureServiceSpec_deep [deep_rules]:
  "deep K1sExposureServiceSpec_type K1sExposureServiceSpec_DeepCopyInto"
  by (simp add: K1sExposureServiceSpec_type_def K1sExposureServiceSpec_DeepCopyInto_def deep_struct deep_rules)

lemma K1sExposureIngressSpec_deep [deep_rules]:
  "deep K1sExposureIngressSpec_type K1sExposureIngressSpec_DeepCopyInto"
  by (simp add: K1sExposureIngressSpec_type_def K1sExposureIngressSpec_DeepCopyInto_def deep_struct deep_rules)

lemma K1sExposureTrafficProbeSpec_deep [deep_rules]:
  "deep K1sExposureTrafficProbeSpec_type K1sExposureTrafficProbeSpec_DeepCopyInto"
  by (simp add: K1sExposureTrafficProbeSpec_type_def K1sExposureTrafficProbeSpec_DeepCopyInto_def deep_struct deep_rules)

lemma K1sExposureSpec_deep [deep_rules]:
  "deep K1sExposureSpec_type K1sExposureSpec_DeepCopyInto"
  by (simp add: K1sExposureSpec_type_def K1sExposureSpec_DeepCopyInto_def deep_struct deep_rules)

lemma K1sExposureStatus_deep [deep_rules]:
  "third_party_copies P \<Longrightarrow> deep (K1sExposureStatus_type P) (K1sExposureStatus_DeepCopyInto P)"
  by (simp add: K1sExposureStatus_type_def K1sExposureStatus_DeepCopyInto_def deep_struct deep_rules third_party_rules)

lemma K1sExposure_deep [deep_rules]:
  "third_party_copies P \<Longrightarrow> deep (K1sExposure_type P) (K1sExposure_DeepCopyInto P)"
  by (simp add: K1sExposure_type_def K1sExposure_DeepCopyInto_def deep_struct deep_rules third_party_rules)

lemma K1sExposureList_deep [deep_rules]:
  "third_party_copies P \<Longrightarrow> deep (K1sExposureList_type P) (K1sExposureList_DeepCopyInto P)"
  by (simp add: K1sExposureList_type_def K1sExposureList_DeepCopyInto_def deep_struct deep_rules third_party_rules)

lemma K1sAppSpec_deep [deep_rules]:
  "third_party_copies P \<Longrightarrow> deep (K1sAppSpec_type P) (K1sAppSpec_DeepCopyInto P)"
  by (simp add: K1sAppSpec_type_def K1sAppSpec_DeepCopyInto_def deep_struct deep_rules third_party_rules)

lemma K1sReplicaSummary_deep [deep_rules]:
  "deep K1sReplicaSummary_type K1sReplicaSummary_DeepCopyInto"
  by (simp add: K1sReplicaSummary_type_def K1sReplicaSummary_DeepCopyInto_def deep_struct deep_rules)

lemma K1sAppStatus_deep [deep_rules]:
  "third_party_copies P \<Longrightarrow> deep (K1sAppStatus_type P) (K1sAppStatus_DeepCopyInto P)"
  by (simp add: K1sAppStatus_type_def K1sAppStatus_DeepCopyInto_def deep_struct deep_rules third_party_rules)

lemma K1sApp_deep [deep_rules]:
  "third_party_copies P \<Longrightarrow> deep (K1sApp_type P) (K1sApp_DeepCopyInto P)"
  by (simp add: K1sApp_type_def K1sApp_DeepCopyInto_def deep_struct deep_rules third_party_rules)

lemma K1sAppList_deep [deep_rules]:
  "third_party_copies P \<Longrightarrow> deep (K1sAppList_type P) (K1sAppList_DeepCopyInto P)"
  by (simp add: K1sAppList_type_def K1sAppList_DeepCopyInto_def deep_struct deep_rules third_party_rules)

lemma K1sInferenceModelSpec_deep [deep_rules]:
  "deep K1sInferenceModelSpec_type K1sInferenceModelSpec_DeepCopyInto"
  by (simp add: K1sInferenceModelSpec_type_def K1sInferenceModelSpec_DeepCopyInto_def deep_struct deep_rules)

lemma K1sInferenceParallelismSpec_deep [deep_rules]:
  "deep K1sInferenceParallelismSpec_type K1sInferenceParallelismSpec_DeepCopyInto"
  by (simp add: K1sInferenceParallelismSpec_type_def K1sInferenceParallelismSpec_DeepCopyInto_def deep_struct deep_rules)

lemma K1sInferenceExecutorSpec_deep [deep_rules]:
  "deep K1sInferenceExecutorSpec_type K1sInferenceExecutorSpec_DeepCopyInto"
  by (simp add: K1sInferenceExecutorSpec_type_def K1sInferenceExecutorSpec_DeepCopyInto_def deep_struct deep_rules)

lemma K1sInferenceMemberSpec_deep [deep_rules]:
  "deep K1sInferenceMemberSpec_type K1sInferenceMemberSpec_DeepCopyInto"
  by (simp add: K1sInferenceMemberSpec_type_def K1sInferenceMemberSpec_DeepCopyInto_def deep_struct deep_rules)

lemma K1sInferenceFabricSpec_deep [deep_rules]:
  "deep K1sInferenceFabricSpec_type K1sInferenceFabricSpec_DeepCopyInto"
  by (simp add: K1sInferenceFabricSpec_type_def K1sInferenceFabricSpec_DeepCopyInto_def deep_struct deep_rules)

lemma K1sInferenceCellSetSpec_deep [deep_rules]:
  "deep K1sInferenceCellSetSpec_type K1sInferenceCellSetSpec_DeepCopyInto"
  by (simp add: K1sInferenceCellSetSpec_type_def K1sInferenceCellSetSpec_DeepCopyInto_def deep_struct deep_rules)

lemma K1sInferenceEndpointSpec_deep [deep_rules]:
  "deep K1sInferenceEndpointSpec_type K1sInferenceEndpointSpec_DeepCopyInto"
  by (simp add: K1sInferenceEndpointSpec_type_def K1sInferenceEndpointSpec_DeepCopyInto_def deep_struct deep_rules)

lemma K1sInferenceEndpointStatus_deep [deep_rules]:
  "third_party_copies P \<Longrightarrow> deep (K1sInferenceEndpointStatus_type P) (K1sInferenceEndpointStatus_DeepCopyInto P)"
  by (simp add: K1sInferenceEndpointStatus_type_def K1sInferenceEndpointStatus_DeepCopyInto_def deep_struct deep_rules third_party_rules)

lemma K1sInferenceEndpoint_deep [deep_rules]:
  "third_party_copies P \<Longrightarrow> deep (K1sInferenceEndpoint_type P) (K1sInferenceEndpoint_DeepCopyInto P)"
  by (simp add: K1sInferenceEndpoint_type_def K1sInferenceEndpoint_DeepCopyInto_def deep_struct deep_rules third_party_rules)

lemma K1sInferenceEndpointList_deep [deep_rules]:
  "third_party_copies P \<Longrightarrow> deep (K1sInferenceEndpointList_type P) (K1sInferenceEndpointList_DeepCopyInto P)"
  by (simp add: K1sInferenceEndpointList_type_def K1sInferenceEndpointList_DeepCopyInto_def deep_struct deep_rules third_party_rules)

lemma K1sResourceSetSpec_deep [deep_rules]:
  "third_party_copies P \<Longrightarrow> deep (K1sResourceSetSpec_type P) (K1sResourceSetSpec_DeepCopyInto P)"
  by (simp add: K1sResourceSetSpec_type_def K1sResourceSetSpec_DeepCopyInto_def deep_struct deep_rules third_party_rules)

lemma K1sManagedResourceStatus_deep [deep_rules]:
  "deep K1sManagedResourceStatus_type K1sManagedResourceStatus_DeepCopyInto"
  by (simp add: K1sManagedResourceStatus_type_def K1sManagedResourceStatus_DeepCopyInto_def deep_struct deep_rules)

lemma K1sResourceSetStatus_deep [deep_rules]:
  "third_party_copies P \<Longrightarrow> deep (K1sResourceSetStatus_type P) (K1sResourceSetStatus_DeepCopyInto P)"
  by (simp add: K1sResourceSetStatus_type_def K1sResourceSetStatus_DeepCopyInto_def deep_struct deep_rules third_party_rules)

lemma K1sResourceSet_deep [deep_rules]:
  "third_party_copies P \<Longrightarrow> deep (K1sResourceSet_type P) (K1sResourceSet_DeepCopyInto P)"
  by (simp add: K1sResourceSet_type_def K1sResourceSet_DeepCopyInto_def deep_struct deep_rules third_party_rules)

lemma K1sResourceSetList_deep [deep_rules]:
  "third_party_copies P \<Longrightarrow> deep (K1sResourceSetList_type P) (K1sResourceSetList_DeepCopyInto P)"
  by (simp add: K1sResourceSetList_type_def K1sResourceSetList_DeepCopyInto_def deep_struct deep_rules third_party_rules)

lemma K1sAppMirrorSpec_deep [deep_rules]:
  "deep K1sAppMirrorSpec_type K1sAppMirrorSpec_DeepCopyInto"
  by (simp add: K1sAppMirrorSpec_type_def K1sAppMirrorSpec_DeepCopyInto_def deep_struct deep_rules)

lemma K1sPlacementStatus_deep [deep_rules]:
  "deep K1sPlacementStatus_type K1sPlacementStatus_DeepCopyInto"
  by (simp add: K1sPlacementStatus_type_def K1sPlacementStatus_DeepCopyInto_def deep_struct deep_rules)

lemma K1sAppMirrorStatus_deep [deep_rules]:
  "third_party_copies P \<Longrightarrow> deep (K1sAppMirrorStatus_type P) (K1sAppMirrorStatus_DeepCopyInto P)"
  by (simp add: K1sAppMirrorStatus_type_def K1sAppMirrorStatus_DeepCopyInto_def deep_struct deep_rules third_party_rules)

lemma K1sAppMirror_deep [deep_rules]:
  "third_party_copies P \<Longrightarrow> deep (K1sAppMirror_type P) (K1sAppMirror_DeepCopyInto P)"
  by (simp add: K1sAppMirror_type_def K1sAppMirror_DeepCopyInto_def deep_struct deep_rules third_party_rules)

lemma K1sAppMirrorList_deep [deep_rules]:
  "third_party_copies P \<Longrightarrow> deep (K1sAppMirrorList_type P) (K1sAppMirrorList_DeepCopyInto P)"
  by (simp add: K1sAppMirrorList_type_def K1sAppMirrorList_DeepCopyInto_def deep_struct deep_rules third_party_rules)

lemmas copies_deep =
  NamespacedNameRef_deep K1sEndpointSpec_deep K1sAuthSecretRef_deep K1sAppRef_deep
  ConditionedStatus_deep NativeManifest_deep K1sProxyServiceRef_deep K1sProxyExternalSpec_deep
  K1sProxySpec_deep K1sClusterSpec_deep K1sNodeSummary_deep K1sClusterStatus_deep
  K1sCluster_deep K1sClusterList_deep K1sExposureServiceSpec_deep K1sExposureIngressSpec_deep
  K1sExposureTrafficProbeSpec_deep K1sExposureSpec_deep K1sExposureStatus_deep
  K1sExposure_deep K1sExposureList_deep K1sAppSpec_deep K1sReplicaSummary_deep
  K1sAppStatus_deep K1sApp_deep K1sAppList_deep K1sInferenceModelSpec_deep
  K1sInferenceParallelismSpec_deep K1sInferenceExecutorSpec_deep K1sInferenceMemberSpec_deep
  K1sInferenceFabricSpec_deep K1sInferenceCellSetSpec_deep K1sInferenceEndpointSpec_deep
  K1sInferenceEndpointStatus_deep K1sInferenceEndpoint_deep K1sInferenceEndpointList_deep
  K1sResourceSetSpec_deep K1sManagedResourceStatus_deep K1sResourceSetStatus_deep
  K1sResourceSet_deep K1sResourceSetList_deep K1sAppMirrorSpec_deep K1sPlacementStatus_deep
  K1sAppMirrorStatus_deep K1sAppMirror_deep K1sAppMirrorList_deep

section \<open>Every copy is independent of its original\<close>

lemma deep_copies_deep:
  assumes "third_party_copies P"
  shows "\<forall>(T, DeepCopy) \<in> set (deep_copies P). deep T DeepCopy"
  unfolding deep_copies_def DeepCopy_defs
  by (simp only: list.set ball_simps prod.case simp_thms deep_deep_copy
      copies_deep assms)

lemma object_copies_deep:
  assumes "third_party_copies P"
  shows "\<forall>(n, T, DeepCopyObject) \<in> set (object_copies P).
     \<exists>S C. T = TPtr S \<and> DeepCopyObject = deep_copy_object n (deep_copy C) \<and> deep S C"
  unfolding object_copies_def DeepCopyObject_defs DeepCopy_defs
  by (simp only: list.set ball_simps prod.case simp_thms insert_iff empty_iff)
     (rule conjI exI refl copies_deep assms)+

text \<open>A small instance of the types of apimachinery, for the examples.\<close>

definition sample_third_party :: third_party where
  "sample_third_party = \<lparr>
     TypeMeta_type = TStruct [(''Kind'', TBasic TString), (''APIVersion'', TBasic TString)],
     ObjectMeta_type = TStruct [(''Name'', TBasic TString), (''Labels'', TMap TString),
       (''Finalizers'', TSlice (TBasic TString))],
     ListMeta_type = TStruct [(''ResourceVersion'', TBasic TString)],
     Condition_type = TStruct [(''Type'', TBasic TString), (''Status'', TBasic TString)],
     RawExtension_type = TStruct [(''Raw'', TSlice (TBasic TInt32))],
     Time_type = TBasic TInt64,
     ObjectMeta_DeepCopyInto =
       copy_struct [IfSet ''Labels'' map_copy, IfSet ''Finalizers'' (make_copy shallow)],
     ListMeta_DeepCopyInto = copy_struct [],
     Condition_DeepCopyInto = copy_struct [],
     RawExtension_DeepCopyInto = copy_struct [IfSet ''Raw'' (make_copy shallow)],
     Time_DeepCopy = deep_copy shallow\<rparr>"

lemma sample_third_party_copies: "third_party_copies sample_third_party"
  by (simp add: third_party_copies_def sample_third_party_def deep_struct deep_rules)

abbreviation "some_text \<equiv> Basic (VString ''x'')"

definition sample_app :: gval where
  "sample_app = Struct ((\<lambda>_. some_text)(
     ''TypeMeta'' := Struct (\<lambda>_. some_text),
     ''ObjectMeta'' := Struct ((\<lambda>_. some_text)(''Labels'' := MapRef (Some 0),
       ''Finalizers'' := Slice (Some (1, 1, 1)))),
     ''Spec'' := Struct ((\<lambda>_. some_text)(''ClusterRef'' := Struct (\<lambda>_. some_text),
       ''Manifest'' := Struct (\<lambda>_. Slice None))),
     ''Status'' := Struct ((\<lambda>_. some_text)(''ObservedGeneration'' := Basic (VInt64 1),
       ''Ready'' := Basic (VBool True), ''Replicas'' := Struct (\<lambda>_. Basic (VInt32 1)),
       ''LastSyncTime'' := Ptr None, ''Conditions'' := Slice (Some (2, 0, 1))))))"

definition sample_heap :: heap where
  "sample_heap = [Table [(''app'', VString ''web'')], Arr [some_text, some_text],
     Arr [Struct (\<lambda>_. some_text)], Var sample_app]"

lemma sample_app_typed:
  "denote 0 (TPtr (K1sApp_type sample_third_party)) sample_heap (Ptr (Some 3)) \<noteq> None"
  by (simp add: denote.simps denote_fields.simps type_defs sample_third_party_def sample_heap_def
      sample_app_def var_at_def cell_at_def elems_at_def table_at_def)

lemma sample_overwritten:
  "4 \<le> a \<Longrightarrow> cell_at (g[0 := Table [], 3 := Var some_text]) a = cell_at g a"
  by (simp add: cell_at_def)

text \<open>
  C26: Every one of the 46 generated \<open>DeepCopy\<close> functions leaves the memory it found as it was and
  returns a pointer to the same value, nil for nil, that shares no cell with the original: whatever
  is written afterwards to the old memory, the copy still reads as the value that was copied, and
  whatever is written through the copy, the original does.
\<close>

theorem deep_copies_are_independent:
  assumes "third_party_copies P" and "(T, DeepCopy) \<in> set (deep_copies P)"
    and "denote 0 T h p = Some d" and "DeepCopy p h = (q, g)"
  shows "extends h g \<and> denote 0 T g q = Some d \<and>
    (\<forall>k. (\<forall>a \<ge> length h. cell_at k a = cell_at g a) \<longrightarrow> denote 0 T k q = Some d) \<and>
    (\<forall>k. (\<forall>a < length h. cell_at k a = cell_at g a) \<longrightarrow> denote 0 T k p = Some d)"
proof -
  have C: "deep T DeepCopy"
    using deep_copies_deep[OF assms(1)] assms(2) by auto
  show ?thesis
    using deepD(1)[OF C assms(3,4)] deep_independent[OF C assms(3,4)] by blast
qed

text \<open>The labels and the variable of the app are overwritten after the copy.\<close>

theorem deep_copies_are_independent_witness:
  "denote 0 (TPtr (K1sApp_type sample_third_party)) sample_heap (Ptr (Some 3)) \<noteq> None \<and>
   (let (q, g) = K1sApp_DeepCopy sample_third_party (Ptr (Some 3)) sample_heap in
      denote 0 (TPtr (K1sApp_type sample_third_party)) (g[0 := Table [], 3 := Var some_text]) q
        = denote 0 (TPtr (K1sApp_type sample_third_party)) sample_heap (Ptr (Some 3)))"
proof -
  let ?T = "TPtr (K1sApp_type sample_third_party)"
  obtain d where d: "denote 0 ?T sample_heap (Ptr (Some 3)) = Some d"
    using sample_app_typed by auto
  obtain q g where c: "K1sApp_DeepCopy sample_third_party (Ptr (Some 3)) sample_heap = (q, g)"
    by fastforce
  have m: "(?T, K1sApp_DeepCopy sample_third_party) \<in> set (deep_copies sample_third_party)"
    by (simp add: deep_copies_def)
  have "length sample_heap = 4" by (simp add: sample_heap_def)
  then show ?thesis
    using deep_copies_are_independent[OF sample_third_party_copies m d c] d c sample_overwritten
    by simp
qed

text \<open>
  C27: \<open>DeepCopyObject\<close> of the objects and their lists returns the nil interface exactly for a nil
  pointer, without touching the memory, and otherwise a new pointer of the object's own type to a
  value that stays as the object was, whatever is written to the object afterwards.
\<close>

theorem deep_copy_objects_are_snapshots:
  assumes "third_party_copies P" and "(n, T, DeepCopyObject) \<in> set (object_copies P)"
    and "denote 0 T h p = Some d" and "DeepCopyObject p h = (copy, g)"
  shows "case copy of
      NilObject \<Rightarrow> p = Ptr None \<and> g = h
    | Object type c \<Rightarrow> p \<noteq> Ptr None \<and> type = n \<and> length h \<le> c \<and> extends h g \<and>
        (\<forall>k. (\<forall>a \<ge> length h. cell_at k a = cell_at g a) \<longrightarrow>
           denote 0 T k (Ptr (Some c)) = Some d)"
proof -
  obtain S C where T: "T = TPtr S" and C: "deep S C"
      and D: "DeepCopyObject = deep_copy_object n (deep_copy C)"
    using object_copies_deep[OF assms(1)] assms(2) by blast
  obtain q g' where q: "deep_copy C p h = (q, g')" by fastforce
  have "deep T (deep_copy C)"
    unfolding T using C by (rule deep_deep_copy)
  from deepD(1)[OF this assms(3) q] deep_independent(2)[OF this assms(3) q]
    deep_copy_pointer[of S h p d C q g'] assms(3,4) q
  show ?thesis
    by (auto simp: D T deep_copy_object_def split: object.splits)
qed

theorem deep_copy_objects_are_snapshots_witness:
  "case K1sApp_DeepCopyObject sample_third_party (Ptr (Some 3)) sample_heap of
      (NilObject, g) \<Rightarrow> False
    | (Object type c, g) \<Rightarrow> type = ''K1sApp'' \<and>
        denote 0 (TPtr (K1sApp_type sample_third_party)) (g[0 := Table [], 3 := Var some_text])
            (Ptr (Some c))
          = denote 0 (TPtr (K1sApp_type sample_third_party)) sample_heap (Ptr (Some 3))"
proof -
  let ?T = "TPtr (K1sApp_type sample_third_party)"
  obtain d where d: "denote 0 ?T sample_heap (Ptr (Some 3)) = Some d"
    using sample_app_typed by auto
  obtain obj g where c: "K1sApp_DeepCopyObject sample_third_party (Ptr (Some 3)) sample_heap = (obj, g)"
    by fastforce
  have m: "(''K1sApp'', ?T, K1sApp_DeepCopyObject sample_third_party)
      \<in> set (object_copies sample_third_party)"
    by (simp add: object_copies_def)
  have "length sample_heap = 4" by (simp add: sample_heap_def)
  then show ?thesis
    using deep_copy_objects_are_snapshots[OF sample_third_party_copies m d c] d c sample_overwritten
    by (auto split: object.splits)
qed

text \<open>A nil pointer becomes the nil interface: testing the copy against nil works.\<close>

lemma deep_copy_object_nil:
  "deep_copy_object n (deep_copy C) (Ptr None) h = (NilObject, h)"
  by (simp add: deep_copy_object_def deep_copy_def)

end
