(* ===== verification/Spec2Isabelle.thy ===== *)
theory Spec2Isabelle
  imports Load SHA256_Vector K1sApply Divergences Watches SetLifecycle Progress DeepCopySafe
begin

text \<open>
  A verification library for the k1s operator (src/), a Kubernetes operator in Go that lets users of
  a Kubernetes cluster consume a k1s cluster through custom resources.

  \<^bold>\<open>The program.\<close> src/cmd/manager/main.go starts a manager with five controllers, one for each of
  K1sCluster, K1sExposure, K1sApp, K1sInferenceEndpoint and K1sResourceSet. A controller's reconciler
  (src/internal/controller) is called with the key of an object; it reads the object, talks to the k1s
  controller over HTTP with the client of src/internal/k1s, writes the objects it generates, and
  reports in the object's status. The three capability reconcilers (app, inference endpoint, resource
  set) apply manifests to the k1s cluster under a finalizer and record the hash of what they applied in
  an annotation; the exposure reconciler makes a Service, an EndpointSlice, an Ingress and a
  K1sAppMirror that lead traffic to the k1s proxy; the cluster reconciler only observes.

  \<^bold>\<open>Programs and the world.\<close> A method that does input or output is a program of the state monad over
  the history, the list of exchanges so far (\<open>Prelude\<close>, \<open>World\<close>). What answers an exchange is the
  record \<open>env\<close>: the HTTP transport, the Kubernetes API, the clock, DNS, and the functions of packages
  outside the repository (apimachinery's \<open>SetStatusCondition\<close>, client-go's \<open>RetryOnConflict\<close>,
  controller-runtime's \<open>CreateOrUpdate\<close> and \<open>SetControllerReference\<close>, PEM parsing, the conversions of
  floats that Go leaves to the machine, the texts of JSON errors). An answer may depend on the whole
  history, so a theorem for every \<open>env\<close> covers every behaviour of the outside, concurrent changes by
  others included. Where a theorem relies on a documented behaviour of these functions the hypothesis
  is named: \<open>lawful\<close> (\<open>Contracts\<close>), \<open>sets_controller\<close> (\<open>Watches\<close>), \<open>enqueues_watched\<close> (\<open>Startup\<close>),
  \<open>third_party_copies\<close> (\<open>DeepCopyTypes\<close>), and for the liveness of a pass that the outside cooperates
  (\<open>patchable\<close>, \<open>answers_post\<close>, in \<open>Progress\<close>); \<open>Reference\<close> has functions that satisfy them, and the
  witnesses run on these. \<open>behaves m R\<close> says
  that every run of \<open>m\<close> only adds exchanges to the history, and that the added ones and the result
  satisfy \<open>R\<close>.

  \<^bold>\<open>Data.\<close> Go's structs are records with the field names of the source under a prefix, its kinds of
  objects the datatype \<open>kobject\<close> (\<open>ApiTypes\<close>), strings and byte slices the lists of their bytes,
  \<open>int32\<close> and \<open>int64\<close> machine words, pointers options, errors values of \<open>go_error\<close>, and decoded JSON
  the datatype \<open>goany\<close>. The mutable variable \<open>app.Status\<close> of a reconciler is a status that its steps
  hand on. Values never alias there; where sharing is the point, in the generated deep copies, the
  same structs are values with addresses in an explicit heap (\<open>GoHeap\<close>).

  \<^bold>\<open>Theories.\<close>
  \<^item> Go's standard library, as far as the source uses it: \<open>GoUnicode\<close> (UTF-8 and lower case, with the
    mappings of Unicode), \<open>GoStrings\<close> (strings, strconv), \<open>GoURL\<close>
    (net/url, path), \<open>GoJSON\<close> (encoding/json; \<open>GoJSON_Fuel\<close>, \<open>GoJSON_Strings\<close> and \<open>GoJSON_Roundtrip\<close>
    prove that the decoder never runs out of fuel and that an encoded value is decoded to itself), and
    \<open>GoSHA256\<close> (checked on the standard's example in \<open>SHA256_Vector\<close>).
  \<^item> The client: \<open>K1sClient\<close> (src/internal/k1s/client.go), \<open>K1sStatus\<close> (status.go); \<open>K1sRetry\<close> has the
    contract \<open>api_call\<close> that every method satisfies, \<open>K1sCalls\<close> and \<open>K1sApply\<close> the properties of a call.
  \<^item> The helpers of src/internal/controller: \<open>Auth\<close>, \<open>Conditions\<close>, \<open>Patch\<close>, \<open>Names\<close>, \<open>Builders\<close>,
    \<open>Proxy\<close>, \<open>TrafficProbe\<close> after the files of the same names, \<open>Common\<close> for the functions that
    several reconcilers share.
  \<^item> The reconcilers: \<open>Cluster\<close> (cluster_controller.go); \<open>Exposure\<close>, \<open>ExposureSpec\<close>, \<open>ExposureReport\<close>
    (exposure_controller.go); and for capability_controller.go \<open>Capability\<close> (client, names and finalizer),
    \<open>Resync\<close> (look, apply, record), \<open>Reporting\<close>, \<open>App\<close>, \<open>InferenceManifest\<close>, \<open>Inference\<close>,
    \<open>ManagedResources\<close> and \<open>ResourceSet\<close>. A function \<open>Reconcile\<close> is the composition of one definition
    per step of its body, with its early returns as branches.
  \<^item> The whole: \<open>Manager\<close> and \<open>Startup\<close> (main.go, groupversion_info.go and the functions
    \<open>SetupWithManager\<close>), \<open>Rbac\<close> (config/rbac/role.yaml with its namespace, and the markers of doc.go), \<open>Operator\<close> (any
    interleaving of any reconciliations), \<open>Lifecycle\<close> (many passes over one app or inference endpoint),
    \<open>SetLifecycle\<close> (many passes over one resource set), \<open>Progress\<close> (what a pass gets done), \<open>Load\<close>,
    \<open>StatusSchema\<close> (config/crd/bases) and \<open>Watches\<close>.
    \<open>Divergences\<close> has the concrete runs behind some findings.

  \<^item> The generated code: \<open>GoHeap\<close> (addresses, cells, and one combinator per statement that the generator
    writes), \<open>DeepCopyTypes\<close> (the structs of src/api/v1alpha1 with their pointers, slices and maps, and
    what the library's own deep copies promise), \<open>DeepCopy\<close> (the functions of
    zz_generated.deepcopy.go, one definition each), \<open>DeepCopySafe\<close>.

  \<^bold>\<open>Interfaces.\<close> The locales state what one part may assume of another, and each is interpreted on the
  model's own definitions: \<open>api_call\<close> (all client methods), \<open>merge_patch\<close> (the two patch helpers),
  \<open>reporter\<close> (deciding conditions and patching the status, four reconcilers), \<open>resync\<close> (app and inference
  endpoint), \<open>capability\<close> (the life under the finalizer, all three), \<open>condition_invariant\<close> and
  \<open>condition_schema\<close> (an invariant of all conditions written).

  \<^bold>\<open>What the theorems show.\<close>
  \<^item> Safety of the capability reconcilers: the finalizer comes off only after a confirmed deletion, the
    k1s cluster is asked for nothing before the finalizer is on, a hash is recorded only for what was
    accepted, what is unchanged is not posted again, deletions of a set come before its applications.
    Over many passes: nothing that may exist in the k1s cluster is left without the finalizer, as long
    as the name of what is applied does not change (\<open>renamed_app_leaks\<close> is a run where it does); and
    everything that may exist because of a resource set is on its managed list, as long as its passes
    get to record what they applied (\<open>half_applied_set_leaks\<close> is a run where one does not).
  \<^item> Progress: when the outside cooperates, a pass puts the finalizer on, a pass over a deleted object
    cleans up and takes it off, and a pass over an app or inference endpoint with a new manifest
    applies it and records its hash.
  \<^item> Honest reports: a status that says ready rests on what was applied and on an answer seen in the
    same run, its conditions agree with its flags, and a run without an error had its report accepted.
  \<^item> Confinement: which objects each reconciler writes, that the specifications of the users' objects are
    never written, and that any interleaving of all of them, on objects of the namespace of the
    installation, stays within the permissions requested, and within those of the installed role but for
    cached reads of Secrets and for what a cluster refers to in other namespaces.
  \<^item> The client: at most 14 requests and 26 exchanges per call, only to the configured or the
    advertised address, success only on an answer that says so, repetition only after a follower's
    answer, and success once the leader answers within the 12 attempts.
  \<^item> A deep copy returns the same value, keeps the old memory and shares no cell with the original, so
    that no later write to one shows in the other.
  \<^item> The time in a report of a synchronisation is one the clock showed in that pass, after everything was
    posted.
  \<^item> Every reconciliation ends after a bounded number of calls; what it writes conforms to the schema of
    conditions; every generated object brings its exposure back when it changes; the process serves all
    five kinds or does not start.
  \<^item> Round trips, bounds and equivalences of the helpers: names, hashes, selections of kinds, node
    counts, poll intervals.

  \<^bold>\<open>Bounds and fuel.\<close> The client's loop over the configured Service runs
  \<open>leaderServiceFallbackAttempts\<close> times, the constant 12 of client.go, so it is structural recursion.
  The JSON decoder takes the length of the text plus one as fuel; \<open>GoJSON_Fuel.parse_json_complete\<close>
  shows that more fuel never reads more. A client call reads at most \<open>body_limit\<close> bytes of an answer,
  as the code does. The conflict retries and the creation of objects are inside the parameters, with
  laws that do not bound their number. No other loop of the source is unbounded.

  \<^bold>\<open>Not modelled.\<close> The parsing of flags, the logger and the managers' own
  threads, caches and queues are libraries: the cache enters as the reader
  \<open>CachedClient\<close>, whose answers are as arbitrary as all others, and the queues as the
  interleavings of \<open>Operator\<close>. Time is what the clock answers; deadlines and
  cancellation of contexts enter as errors of the calls they interrupt. A request is one call of
  \<open>http.Client.Do\<close>; redirects that net/http follows inside such a call are not seen.
\<close>

end
